theory Spec2Isabelle
  imports Main "HOL-Library.Word"
begin

section \<open>The EVL object model\<close>

text \<open>
  A JavaScript string is a sequence of UTF-16 code units; a code unit is a natural number
  (below 65536 in every string the host can build).  \<open>js\<close> turns an ASCII literal into
  such a string.
\<close>

type_synonym jsstring = "nat list"

definition js :: "string \<Rightarrow> jsstring" where
  "js s = map of_char s"

text \<open>Scope-extent combinations and namespaces (the constants of the same names).\<close>

datatype scope = LEX_SCOPE | DYN_SCOPE

datatype namespace = VAL_NS | FUN_NS

text \<open>
  Keywords and variables are compared by reference (\<open>===\<close>).  \<open>internVariable\<close> and
  \<open>internKeyword\<close> return one object per name; the primitives \<open>make-variable\<close> and
  \<open>make-keyword\<close> build a new object that is in no package.  A symbol reference is
  therefore the name for an interned symbol, and an allocation number with the name otherwise.
\<close>

datatype symref = Interned jsstring | Uninterned nat jsstring

fun symbolName :: "symref \<Rightarrow> jsstring" where
  "symbolName (Interned n) = n"
| "symbolName (Uninterned i n) = n"

definition internVariable :: "jsstring \<Rightarrow> symref" where
  "internVariable name = Interned name"

definition internKeyword :: "jsstring \<Rightarrow> symref" where
  "internKeyword name = Interned name"

text \<open>
  A definite environment is the null environment, a frame, or \<open>undefined\<close> (the
  \<open>next\<close> of the dynamic frames that the stack-based evaluators push on the control
  stack).  A frame is an object with four properties.  Three of them (\<open>namespace\<close>,
  \<open>variables\<close>, \<open>next\<close>) never change after the construction and are kept in the
  reference to the frame; the fourth, the array \<open>values\<close>, is assigned to by \<open>set\<close>:
  it is kept in the store of the state, at the allocation number of the frame.
\<close>

datatype env = NullDefiniteEnv | Frame namespace "symref list" nat env | UndefinedEnv

text \<open>
  The EVL objects, and the preprocessed forms of the trampoline++ evaluator (a closure made
  by that evaluator holds preprocessed forms; a preprocessed quote holds an object).
  Numbers hold the bit pattern of an IEEE-754 double.  Cons cells are immutable trees here:
  the primitives \<open>set-car!\<close> and \<open>set-cdr!\<close> are outside this model.
  A primitive function holds its two arities and the name under which its JavaScript
  function was registered.
\<close>

datatype evl =
    EVLVoid
  | EVLBoolean bool
  | EVLNumber "64 word"
  | EVLCharacter jsstring
  | EVLString jsstring
  | EVLKeyword symref
  | EVLVariable symref
  | EVLEmptyList
  | EVLCons (car: evl) (cdr: evl)
  | EVLVector "evl option list"
  | EVLPrimitiveFunction nat "nat option" jsstring
  | EVLClosure scope namespace bool "symref list" bool closureForms env
and closureForms =
    Forms evl
  | PreprocessedForms "ppform list"
and ppform =
    TrampolineppQuote evl
  | TrampolineppProgn "ppform list"
  | TrampolineppIf ppform ppform ppform
  | TrampolineppLambda scope namespace bool "symref list" bool "ppform list"
  | TrampolineppRef scope namespace symref
  | TrampolineppLRef nat nat
  | TrampolineppGRef namespace symref
  | TrampolineppDRef namespace symref
  | TrampolineppSet scope namespace symref ppform
  | TrampolineppLSet nat nat ppform
  | TrampolineppGSet namespace symref ppform
  | TrampolineppDSet namespace symref ppform
  | TrampolineppForEach ppform ppform
  | TrampolineppCatchErrors ppform
  | TrampolineppCall bool bool ppform "ppform list"

text \<open>\<open>instanceof\<close> tests on objects.\<close>

fun isEVLCons :: "evl \<Rightarrow> bool" where
  "isEVLCons (EVLCons a d) = True"
| "isEVLCons x = False"

fun isEVLList :: "evl \<Rightarrow> bool" where
  "isEVLList EVLEmptyList = True"
| "isEVLList (EVLCons a d) = True"
| "isEVLList x = False"

fun isEVLVariable :: "evl \<Rightarrow> bool" where
  "isEVLVariable (EVLVariable v) = True"
| "isEVLVariable x = False"

fun isEVLSymbol :: "evl \<Rightarrow> bool" where
  "isEVLSymbol (EVLVariable v) = True"
| "isEVLSymbol (EVLKeyword v) = True"
| "isEVLSymbol x = False"

fun isEVLFunction :: "evl \<Rightarrow> bool" where
  "isEVLFunction (EVLPrimitiveFunction amin amax f) = True"
| "isEVLFunction (EVLClosure sc ns m ps r fs le) = True"
| "isEVLFunction x = False"

text \<open>A proper list of objects, built from and flattened to a HOL list.\<close>

fun evlList :: "evl list \<Rightarrow> evl" where
  "evlList [] = EVLEmptyList"
| "evlList (x # xs) = EVLCons x (evlList xs)"

fun listToArray :: "evl \<Rightarrow> evl list" where
  "listToArray (EVLCons a d) = a # listToArray d"
| "listToArray x = []"

fun isProperList :: "evl \<Rightarrow> bool" where
  "isProperList EVLEmptyList = True"
| "isProperList (EVLCons a d) = isProperList d"
| "isProperList x = False"

section \<open>Errors\<close>

text \<open>
  One constructor per error class that the core throws; \<open>JSError\<close> is the plain
  \<open>Error\<close> thrown by the primitive \<open>error\<close>, \<open>JSTypeError\<close> the host's
  \<open>TypeError\<close>, \<open>JSRangeError\<close> its \<open>RangeError\<close>.  Messages are kept where the
  class has a message parameter.
\<close>

datatype exn =
    CannotHappen string
  | Aborted
  | TokenizerError string
  | TruncatedToken string
  | ReaderError string
  | UnexpectedDot
  | UnexpectedClosingParenthesis
  | UnexpectedXMLEndTag
  | UnexpectedEndOfInput
  | EVLToXMLConverterError string
  | FormAnalyzerError string
  | EvaluatorError string
  | UnboundVariable symref namespace
  | TooFewArguments
  | TooManyArguments
  | MalformedSpreadableSequenceOfObjects
  | JSError jsstring
  | JSTypeError string
  | JSRangeError jsstring

text \<open>The \<open>name\<close> property of an exception.\<close>

fun exnName :: "exn \<Rightarrow> string" where
  "exnName (CannotHappen m) = ''CannotHappen''"
| "exnName Aborted = ''Aborted''"
| "exnName (TokenizerError m) = ''TokenizerError''"
| "exnName (TruncatedToken m) = ''TruncatedToken''"
| "exnName (ReaderError m) = ''ReaderError''"
| "exnName UnexpectedDot = ''UnexpectedDot''"
| "exnName UnexpectedClosingParenthesis = ''UnexpectedClosingParenthesis''"
| "exnName UnexpectedXMLEndTag = ''UnexpectedXMLEndTag''"
| "exnName UnexpectedEndOfInput = ''UnexpectedEndOfInput''"
| "exnName (EVLToXMLConverterError m) = ''EVLToXMLConverterError''"
| "exnName (FormAnalyzerError m) = ''FormAnalyzerError''"
| "exnName (EvaluatorError m) = ''EvaluatorError''"
| "exnName (UnboundVariable v ns) = ''UnboundVariable''"
| "exnName TooFewArguments = ''TooFewArguments''"
| "exnName TooManyArguments = ''TooManyArguments''"
| "exnName MalformedSpreadableSequenceOfObjects = ''MalformedSpreadableSequenceOfObjects''"
| "exnName (JSError m) = ''Error''"
| "exnName (JSTypeError m) = ''TypeError''"
| "exnName (JSRangeError m) = ''RangeError''"

section \<open>Pairing parameters with arguments\<close>

text \<open>
  The argument array is a list.  An array \<open>values\<close> that the source fills with
  \<open>values[i] = x; i++\<close> from index 0 is the list of the slots filled so far, and \<open>i\<close>
  is its length.  A list under construction (\<open>list\<close>, \<open>lastCons\<close>) is the list of
  its elements so far.
\<close>

definition pairPrimFunParametersNoApply :: "evl list \<Rightarrow> nat \<Rightarrow> nat option \<Rightarrow> exn + evl list" where
  "pairPrimFunParametersNoApply args arityMin arityMax =
     (let nargs = length args in
      if nargs < arityMin then Inl TooFewArguments
      else if arityMax \<noteq> None \<and> nargs > the arityMax then Inl TooManyArguments
      else Inr args)"

text \<open>First loop of \<open>pairPrimFunParametersApply\<close>: the arguments before the last one.\<close>

fun primFunApplyLeading :: "nat option \<Rightarrow> evl list \<Rightarrow> evl list \<Rightarrow> exn + evl list" where
  "primFunApplyLeading arityMax spreadArgs [] = Inr spreadArgs"
| "primFunApplyLeading arityMax spreadArgs (a # rest) =
     (if arityMax = None \<or> length spreadArgs < the arityMax
      then primFunApplyLeading arityMax (spreadArgs @ [a]) rest
      else Inl TooManyArguments)"

text \<open>Second loop: the elements of the last argument.\<close>

fun primFunApplySpread :: "nat option \<Rightarrow> evl list \<Rightarrow> evl \<Rightarrow> exn + evl list" where
  "primFunApplySpread arityMax spreadArgs EVLEmptyList = Inr spreadArgs"
| "primFunApplySpread arityMax spreadArgs (EVLCons a d) =
     (if arityMax = None \<or> length spreadArgs < the arityMax
      then primFunApplySpread arityMax (spreadArgs @ [a]) d
      else Inl TooManyArguments)"
| "primFunApplySpread arityMax spreadArgs x = Inl MalformedSpreadableSequenceOfObjects"

definition pairPrimFunParametersApply :: "evl list \<Rightarrow> nat \<Rightarrow> nat option \<Rightarrow> exn + evl list" where
  "pairPrimFunParametersApply args arityMin arityMax =
     (case primFunApplyLeading arityMax [] (butlast args) of
        Inl e \<Rightarrow> Inl e
      | Inr spreadArgs \<Rightarrow>
          if args = [] \<or> \<not> isEVLList (last args) then Inl MalformedSpreadableSequenceOfObjects
          else (case primFunApplySpread arityMax spreadArgs (last args) of
                  Inl e \<Rightarrow> Inl e
                | Inr spreadArgs' \<Rightarrow>
                    if length spreadArgs' < arityMin then Inl TooFewArguments
                    else Inr spreadArgs'))"

definition pairPrimFunParameters :: "bool \<Rightarrow> evl list \<Rightarrow> nat \<Rightarrow> nat option \<Rightarrow> exn + evl list" where
  "pairPrimFunParameters apply args arityMin arityMax =
     (if \<not> apply then pairPrimFunParametersNoApply args arityMin arityMax
      else pairPrimFunParametersApply args arityMin arityMax)"

definition pairClosureParametersNoApplyNoRest :: "evl list \<Rightarrow> symref list \<Rightarrow> exn + evl list" where
  "pairClosureParametersNoApplyNoRest args parameters =
     (let nargs = length args; nparameters = length parameters in
      if nargs < nparameters then Inl TooFewArguments
      else if nargs > nparameters then Inl TooManyArguments
      else Inr args)"

text \<open>
  The loop of \<open>pairClosureParametersNoApplyRest\<close> and the first loop of
  \<open>pairClosureParametersApplyRest\<close>: the first \<open>nparameters - 1\<close> arguments fill the
  slots, the others are appended to the list of the rest parameter.
\<close>

fun closureRestLeading :: "nat \<Rightarrow> evl list \<Rightarrow> evl list \<Rightarrow> evl list \<Rightarrow> evl list \<times> evl list" where
  "closureRestLeading nparameters vals lst [] = (vals, lst)"
| "closureRestLeading nparameters vals lst (a # rest) =
     (if length vals + length lst < nparameters - 1
      then closureRestLeading nparameters (vals @ [a]) lst rest
      else closureRestLeading nparameters vals (lst @ [a]) rest)"

text \<open>
  \<open>values[nparameters - 1] = list\<close>: with no parameter at all the assignment sets the
  property \<open>-1\<close> and the array stays empty.
\<close>

definition setRestSlot :: "nat \<Rightarrow> evl list \<Rightarrow> evl \<Rightarrow> evl list" where
  "setRestSlot nparameters vals lst = (if nparameters = 0 then [] else vals @ [lst])"

definition pairClosureParametersNoApplyRest :: "evl list \<Rightarrow> symref list \<Rightarrow> exn + evl list" where
  "pairClosureParametersNoApplyRest args parameters =
     (let nparameters = length parameters;
          (vals, lst) = closureRestLeading nparameters [] [] args in
      if length vals + length lst < nparameters - 1 then Inl TooFewArguments
      else Inr (setRestSlot nparameters vals (evlList lst)))"

fun closureNoRestLeading :: "nat \<Rightarrow> evl list \<Rightarrow> evl list \<Rightarrow> exn + evl list" where
  "closureNoRestLeading nparameters vals [] = Inr vals"
| "closureNoRestLeading nparameters vals (a # rest) =
     (if length vals < nparameters
      then closureNoRestLeading nparameters (vals @ [a]) rest
      else Inl TooManyArguments)"

fun closureNoRestSpread :: "nat \<Rightarrow> evl list \<Rightarrow> evl \<Rightarrow> exn + evl list" where
  "closureNoRestSpread nparameters vals EVLEmptyList = Inr vals"
| "closureNoRestSpread nparameters vals (EVLCons a d) =
     (if length vals < nparameters
      then closureNoRestSpread nparameters (vals @ [a]) d
      else Inl TooManyArguments)"
| "closureNoRestSpread nparameters vals x = Inl MalformedSpreadableSequenceOfObjects"

definition pairClosureParametersApplyNoRest :: "evl list \<Rightarrow> symref list \<Rightarrow> exn + evl list" where
  "pairClosureParametersApplyNoRest args parameters =
     (let nparameters = length parameters in
      case closureNoRestLeading nparameters [] (butlast args) of
        Inl e \<Rightarrow> Inl e
      | Inr vals \<Rightarrow>
          if args = [] \<or> \<not> isEVLList (last args) then Inl MalformedSpreadableSequenceOfObjects
          else (case closureNoRestSpread nparameters vals (last args) of
                  Inl e \<Rightarrow> Inl e
                | Inr vals' \<Rightarrow>
                    if length vals' < nparameters then Inl TooFewArguments
                    else Inr vals'))"

text \<open>
  Second loop of \<open>pairClosureParametersApplyRest\<close>.  \<open>i\<close> counts the arguments taken so
  far.  Once the slots before the rest parameter are filled, the remaining tail
  \<open>argList\<close> is linked behind the list as it is (\<open>lastCons.cdr = argList\<close>) and the
  loop is left: the result is the list of the elements so far ending in that tail.
\<close>

fun evlAppend :: "evl list \<Rightarrow> evl \<Rightarrow> evl" where
  "evlAppend [] tail = tail"
| "evlAppend (x # xs) tail = EVLCons x (evlAppend xs tail)"

fun closureRestSpread :: "nat \<Rightarrow> evl list \<Rightarrow> evl list \<Rightarrow> evl \<Rightarrow> exn + (evl list \<times> evl)" where
  "closureRestSpread nparameters vals lst EVLEmptyList = Inr (vals, evlList lst)"
| "closureRestSpread nparameters vals lst (EVLCons a d) =
     (if length vals + length lst < nparameters - 1
      then closureRestSpread nparameters (vals @ [a]) lst d
      else Inr (vals, evlAppend lst (EVLCons a d)))"
| "closureRestSpread nparameters vals lst x = Inl MalformedSpreadableSequenceOfObjects"

definition pairClosureParametersApplyRest :: "evl list \<Rightarrow> symref list \<Rightarrow> exn + evl list" where
  "pairClosureParametersApplyRest args parameters =
     (let nparameters = length parameters;
          (vals, lst) = closureRestLeading nparameters [] [] (butlast args) in
      if args = [] \<or> \<not> isEVLList (last args) then Inl MalformedSpreadableSequenceOfObjects
      else (case closureRestSpread nparameters vals lst (last args) of
              Inl e \<Rightarrow> Inl e
            | Inr (vals', lst') \<Rightarrow>
                if length vals' + length lst < nparameters - 1 then Inl TooFewArguments
                else Inr (setRestSlot nparameters vals' lst')))"

definition pairClosureParameters :: "bool \<Rightarrow> evl list \<Rightarrow> symref list \<Rightarrow> bool \<Rightarrow> exn + evl list" where
  "pairClosureParameters apply args parameters rest =
     (if \<not> apply then
        (if \<not> rest then pairClosureParametersNoApplyNoRest args parameters
         else pairClosureParametersNoApplyRest args parameters)
      else
        (if \<not> rest then pairClosureParametersApplyNoRest args parameters
         else pairClosureParametersApplyRest args parameters))"


section \<open>Tokenizer\<close>

datatype category =
    QUOTE | QUASIQUOTE | UNQUOTE | UNQUOTE_SPLICING | STRING
  | OPENING_PARENTHESIS | CLOSING_PARENTHESIS | HASH_OPENING_PARENTHESIS
  | HASH_PLUS | HASH_MINUS | VOID | BOOLEAN | CHARACTER
  | XML_START_TAG | XML_END_TAG | XML_EMPTY_ELEMENT_TAG | XML_COMMENT
  | DOT | NUMBER | KEYWORD | VARIABLE | BOI | EOI

text \<open>The value of a token: \<open>null\<close>, an EVL object, or an XML element name.\<close>

datatype tokenValue = NullValue | ObjectValue evl | NameValue jsstring

text \<open>
  The regular expressions: \<open>/^[a-fA-F0-9]+$/\<close>, \<open>/^[+-]?[0-9]+(?:\.[0-9]+)?$/\<close>,
  \<open>/^:[^:]+$/\<close> and \<open>/^[^:]+$/\<close>, each as its \<open>test\<close> on a string.
\<close>

definition isHexDigit :: "nat \<Rightarrow> bool" where
  "isHexDigit c = ((97 \<le> c \<and> c \<le> 102) \<or> (65 \<le> c \<and> c \<le> 70) \<or> (48 \<le> c \<and> c \<le> 57))"

definition isDigit :: "nat \<Rightarrow> bool" where
  "isDigit c = (48 \<le> c \<and> c \<le> 57)"

definition codePointRegExp :: "jsstring \<Rightarrow> bool" where
  "codePointRegExp s = (s \<noteq> [] \<and> list_all isHexDigit s)"

definition numberRegExp :: "jsstring \<Rightarrow> bool" where
  "numberRegExp s =
     (let unsigned = (case s of [] \<Rightarrow> [] | c # cs \<Rightarrow> if c = 43 \<or> c = 45 then cs else s);
          whole = takeWhile isDigit unsigned;
          rest = dropWhile isDigit unsigned
      in whole \<noteq> [] \<and>
         (rest = [] \<or> (hd rest = 46 \<and> tl rest \<noteq> [] \<and> list_all isDigit (tl rest))))"

definition variableRegExp :: "jsstring \<Rightarrow> bool" where
  "variableRegExp s = (s \<noteq> [] \<and> list_all (\<lambda>c. c \<noteq> 58) s)"

definition keywordRegExp :: "jsstring \<Rightarrow> bool" where
  "keywordRegExp s = (case s of [] \<Rightarrow> False | c # cs \<Rightarrow> c = 58 \<and> variableRegExp cs)"

definition isLeadingSurrogate :: "nat \<Rightarrow> bool" where
  "isLeadingSurrogate codeUnit = (0xD800 \<le> codeUnit \<and> codeUnit \<le> 0xDBFF)"

definition isTrailingSurrogate :: "nat \<Rightarrow> bool" where
  "isTrailingSurrogate codeUnit = (0xDC00 \<le> codeUnit \<and> codeUnit \<le> 0xDFFF)"

definition isSurrogate :: "nat \<Rightarrow> bool" where
  "isSurrogate codeUnit = (isLeadingSurrogate codeUnit \<or> isTrailingSurrogate codeUnit)"

text \<open>
  \<open>codePointAt(0)\<close> of a string of one or two code units, which is what
  \<open>ensureCodePoint\<close> computes for such a string.
\<close>

fun ensureCodePoint :: "jsstring \<Rightarrow> nat" where
  "ensureCodePoint (hi # lo # rest) =
     (if isLeadingSurrogate hi \<and> isTrailingSurrogate lo
      then 0x10000 + (hi - 0xD800) * 0x400 + (lo - 0xDC00) else hi)"
| "ensureCodePoint [c] = c"
| "ensureCodePoint [] = 0"

definition isControlCharacter :: "nat \<Rightarrow> bool" where
  "isControlCharacter codePoint = (codePoint \<le> 0x1F \<or> (0x7F \<le> codePoint \<and> codePoint \<le> 0x9F))"

definition isNoncharacter :: "nat \<Rightarrow> bool" where
  "isNoncharacter codePoint =
     (let x = codePoint mod 0x10000
      in x = 0xFFFE \<or> x = 0xFFFF \<or> (0xFDD0 \<le> codePoint \<and> codePoint \<le> 0xFDEF))"

definition isWhitespaceCharacter :: "nat \<Rightarrow> bool" where
  "isWhitespaceCharacter codePoint =
     (codePoint = 0x0009 \<or> codePoint = 0x000A \<or> codePoint = 0x000B \<or> codePoint = 0x000C \<or>
      codePoint = 0x000D \<or> codePoint = 0x0020 \<or> codePoint = 0x0085 \<or> codePoint = 0x200E \<or>
      codePoint = 0x200F \<or> codePoint = 0x2028 \<or> codePoint = 0x2029)"

definition isSyntaxCharacter :: "nat \<Rightarrow> bool" where
  "isSyntaxCharacter codePoint =
     (codePoint = 0x0027 \<or> codePoint = 0x0060 \<or> codePoint = 0x002C \<or> codePoint = 0x0022 \<or>
      codePoint = 0x0028 \<or> codePoint = 0x0029 \<or> codePoint = 0x0023)"

definition isXMLNameCharacter :: "nat \<Rightarrow> bool" where
  "isXMLNameCharacter codePoint = (0x61 \<le> codePoint \<and> codePoint \<le> 0x7A)"

definition isDecimalDigit :: "nat \<Rightarrow> bool" where
  "isDecimalDigit codePoint = (0x30 \<le> codePoint \<and> codePoint \<le> 0x39)"

text \<open>
  \<open>Number.parseInt\<close> on a string of hexadecimal or of decimal digits, and
  \<open>String.fromCodePoint\<close>, which throws a \<open>RangeError\<close> above 0x10FFFF (with
  the message \<open>Invalid code point\<close> followed by the code point in base 10).
\<close>

definition hexDigitValue :: "nat \<Rightarrow> nat" where
  "hexDigitValue c = (if 97 \<le> c then c - 87 else if 65 \<le> c then c - 55 else c - 48)"

definition parseIntHex :: "jsstring \<Rightarrow> nat" where
  "parseIntHex s = foldl (\<lambda>n c. 16 * n + hexDigitValue c) 0 s"

definition parseIntDecimal :: "jsstring \<Rightarrow> nat" where
  "parseIntDecimal s = foldl (\<lambda>n c. 10 * n + (c - 48)) 0 s"

text \<open>
  \<open>toString(16).toUpperCase()\<close> and \<open>toString()\<close> of a natural number: the digits
  in base 16 and in base 10.
\<close>

definition digitCharacter :: "nat \<Rightarrow> nat" where
  "digitCharacter d = (if d < 10 then 48 + d else 55 + d)"

function digits :: "nat \<Rightarrow> nat \<Rightarrow> jsstring" where
  "digits base n =
     (if base < 2 \<or> n < base then [digitCharacter n]
      else digits base (n div base) @ [digitCharacter (n mod base)])"
  by pat_completeness auto
termination
  by (relation "measure (\<lambda>(base, n). n)") auto

declare digits.simps [simp del]

definition fromCodePoint :: "nat \<Rightarrow> jsstring option" where
  "fromCodePoint n =
     (if 0x10FFFF < n then None
      else if n < 0x10000 then Some [n]
      else Some [0xD800 + (n - 0x10000) div 0x400, 0xDC00 + (n - 0x10000) mod 0x400])"

text \<open>
  The tokenizer object.  \<open>xmlStack\<close> grows at its end, as the array does.  The
  \<open>callback\<close> property is a parameter of the reader.
\<close>

record tokenizer =
  text' :: jsstring
  convertEVLToXML :: bool
  position :: nat
  xmlStack :: "jsstring list"
  savedCodeUnits :: jsstring
  whitespace :: jsstring
  lexeme :: jsstring
  category :: "category option"
  tokValue :: tokenValue

definition Tokenizer :: "jsstring \<Rightarrow> bool \<Rightarrow> tokenizer" where
  "Tokenizer source conv =
     \<lparr>text' = source, convertEVLToXML = conv, position = 0, xmlStack = [], savedCodeUnits = [],
      whitespace = [], lexeme = [], category = None, tokValue = NullValue\<rparr>"

text \<open>
  \<open>peekCharacter\<close>.  Past the end of the text \<open>charCodeAt\<close> is \<open>NaN\<close>, which
  \<open>String.fromCharCode\<close> turns into the code unit 0, an invalid control character.
\<close>

definition validCharacter :: "jsstring \<Rightarrow> exn + jsstring" where
  "validCharacter char =
     (let codePoint = ensureCodePoint char in
      if isControlCharacter codePoint \<and> \<not> isWhitespaceCharacter codePoint
      then Inl (TokenizerError ''Invalid control character.'')
      else if isNoncharacter codePoint then Inl (TokenizerError ''Noncharacter.'')
      else Inr char)"

definition peekCharacter :: "tokenizer \<Rightarrow> nat \<Rightarrow> exn + jsstring" where
  "peekCharacter tk pos =
     (if length (text' tk) \<le> pos then Inl (TokenizerError ''Invalid control character.'')
      else let codeUnit = text' tk ! pos in
        if isTrailingSurrogate codeUnit then Inl (TokenizerError ''Lone surrogate.'')
        else if isLeadingSurrogate codeUnit then
          (if pos + 1 = length (text' tk) then Inl (TokenizerError ''Lone surrogate.'')
           else let codeUnit2 = text' tk ! (pos + 1) in
             if isTrailingSurrogate codeUnit2 then validCharacter [codeUnit, codeUnit2]
             else Inl (TokenizerError ''Lone surrogate.''))
        else validCharacter [codeUnit])"

definition consumeCharacter :: "tokenizer \<Rightarrow> jsstring \<Rightarrow> tokenizer" where
  "consumeCharacter tk char =
     tk\<lparr>lexeme := lexeme tk @ char, position := position tk + length char\<rparr>"

lemma peekCharacter_Inr:
  "peekCharacter tk pos = Inr char \<Longrightarrow>
     pos < length (text' tk) \<and> 0 < length char \<and> pos + length char \<le> length (text' tk)"
  by (auto simp: peekCharacter_def validCharacter_def Let_def split: if_splits)

lemma peekCharacter_advance:
  "peekCharacter tk pos = Inr char \<Longrightarrow>
     length (text' tk) - (pos + length char) < length (text' tk) - pos"
  using peekCharacter_Inr[of tk pos char] by arith

function skipWhitespace :: "bool \<Rightarrow> tokenizer \<Rightarrow> exn + tokenizer" where
  "skipWhitespace pureXML tk =
     (if position tk = length (text' tk) then Inr tk
      else case peekCharacter tk (position tk) of
        Inl e \<Rightarrow> Inl e
      | Inr char \<Rightarrow>
          if (if pureXML then char = [60] else \<not> isWhitespaceCharacter (ensureCodePoint char))
          then Inr tk
          else skipWhitespace pureXML
                 (tk\<lparr>whitespace := whitespace tk @ char, position := position tk + length char\<rparr>))"
  by pat_completeness auto
termination
  by (relation "measure (\<lambda>(p, tk). length (text' tk) - position tk)")
     (auto simp: peekCharacter_advance)

declare skipWhitespace.simps [simp del]

text \<open>\<open>readEscapeSequence\<close> reads \<open>{xyz}\<close> and returns \<open>xyz\<close>.\<close>

function readEscapeSequence_loop :: "tokenizer \<Rightarrow> jsstring \<Rightarrow> exn + (jsstring \<times> tokenizer)" where
  "readEscapeSequence_loop tk chars =
     (if position tk = length (text' tk) then Inl (TruncatedToken ''Truncated escape sequence.'')
      else case peekCharacter tk (position tk) of
        Inl e \<Rightarrow> Inl e
      | Inr char2 \<Rightarrow>
          if char2 = [125] then Inr (chars, consumeCharacter tk char2)
          else readEscapeSequence_loop (consumeCharacter tk char2) (chars @ char2))"
  by pat_completeness auto
termination
  by (relation "measure (\<lambda>(tk, chars). length (text' tk) - position tk)")
     (auto simp: consumeCharacter_def peekCharacter_advance)

declare readEscapeSequence_loop.simps [simp del]

definition readEscapeSequence :: "tokenizer \<Rightarrow> exn + (jsstring \<times> tokenizer)" where
  "readEscapeSequence tk =
     (if position tk = length (text' tk) then Inl (TruncatedToken ''Truncated escape sequence.'')
      else case peekCharacter tk (position tk) of
        Inl e \<Rightarrow> Inl e
      | Inr char \<Rightarrow>
          if char \<noteq> [123] then Inl (TokenizerError ''Malformed escape sequence.'')
          else readEscapeSequence_loop (consumeCharacter tk char) [])"

text \<open>The \<open>\U{...}\<close> escape, shared by \<open>readString\<close> and \<open>readProtoToken\<close>.\<close>

definition readUnicodeEscape :: "tokenizer \<Rightarrow> exn + (jsstring \<times> tokenizer)" where
  "readUnicodeEscape tk =
     (case readEscapeSequence tk of
        Inl e \<Rightarrow> Inl e
      | Inr (codePoint, tk') \<Rightarrow>
          if \<not> codePointRegExp codePoint then Inl (TokenizerError ''Malformed escape sequence.'')
          else (case fromCodePoint (parseIntHex codePoint) of
                  None \<Rightarrow>
                    Inl (JSRangeError (js ''Invalid code point '' @ digits 10 (parseIntHex codePoint)))
                | Some s \<Rightarrow> Inr (s, tk')))"



text \<open>A later state of the same tokenizer, further in the same text.\<close>

definition advanced :: "tokenizer \<Rightarrow> tokenizer \<Rightarrow> bool" where
  "advanced tk tk' =
     (text' tk' = text' tk \<and> position tk < position tk' \<and> position tk' \<le> length (text' tk))"

lemma advanced_consumeCharacter:
  "peekCharacter tk (position tk) = Inr char \<Longrightarrow> advanced tk (consumeCharacter tk char)"
  using peekCharacter_Inr[of tk "position tk" char]
  by (simp add: advanced_def consumeCharacter_def)

lemma advanced_trans: "advanced a b \<Longrightarrow> advanced b c \<Longrightarrow> advanced a c"
  by (auto simp: advanced_def)

lemma advanced_measure:
  "advanced tk tk' \<Longrightarrow> length (text' tk') - position tk' < length (text' tk) - position tk"
  by (auto simp: advanced_def)

lemma readEscapeSequence_loop_advanced:
  "readEscapeSequence_loop tk chars = Inr (r, tk') \<Longrightarrow> advanced tk tk'"
proof (induction tk chars rule: readEscapeSequence_loop.induct)
  case (1 tk chars)
  show ?case
  proof (cases "peekCharacter tk (position tk)")
    case (Inl e)
    with "1.prems" show ?thesis
      by (simp add: readEscapeSequence_loop.simps[of tk] split: if_splits)
  next
    case (Inr char2)
    note adv = advanced_consumeCharacter[OF Inr]
    show ?thesis
    proof (cases "char2 = [125]")
      case True
      with "1.prems" Inr adv show ?thesis
        by (auto simp add: readEscapeSequence_loop.simps[of tk] split: if_splits)
    next
      case False
      with "1.prems" Inr have ne: "position tk \<noteq> length (text' tk)"
        and rec: "readEscapeSequence_loop (consumeCharacter tk char2) (chars @ char2) = Inr (r, tk')"
        by (auto simp add: readEscapeSequence_loop.simps[of tk] split: if_splits)
      from "1.IH"[OF ne Inr False rec] adv show ?thesis by (rule advanced_trans[rotated])
    qed
  qed
qed

lemma readEscapeSequence_advanced:
  assumes "readEscapeSequence tk = Inr (r, tk')"
  shows "advanced tk tk'"
proof (cases "peekCharacter tk (position tk)")
  case (Inl e)
  with assms show ?thesis by (simp add: readEscapeSequence_def split: if_splits)
next
  case (Inr char)
  with assms have "readEscapeSequence_loop (consumeCharacter tk char) [] = Inr (r, tk')"
    by (simp add: readEscapeSequence_def split: if_splits)
  from advanced_consumeCharacter[OF Inr] readEscapeSequence_loop_advanced[OF this]
  show ?thesis by (rule advanced_trans)
qed

lemma readUnicodeEscape_advanced:
  "readUnicodeEscape tk = Inr (r, tk') \<Longrightarrow> advanced tk tk'"
  by (auto simp: readUnicodeEscape_def split: if_splits sum.splits option.splits
      dest: readEscapeSequence_advanced)

text \<open>The escape sequences of \<open>readString\<close>, read after the backslash.\<close>

definition readStringEscape :: "tokenizer \<Rightarrow> exn + (jsstring \<times> tokenizer)" where
  "readStringEscape tk1 =
     (if position tk1 = length (text' tk1)
      then Inl (TruncatedToken ''Truncated escape sequence.'')
      else case peekCharacter tk1 (position tk1) of
        Inl e \<Rightarrow> Inl e
      | Inr char2 \<Rightarrow>
          let tk2 = consumeCharacter tk1 char2 in
          if char2 = [92] then Inr ([92], tk2)
          else if char2 = [34] then Inr ([34], tk2)
          else if char2 = [116] then Inr ([9], tk2)
          else if char2 = [110] then Inr ([10], tk2)
          else if char2 = [118] then Inr ([11], tk2)
          else if char2 = [102] then Inr ([12], tk2)
          else if char2 = [114] then Inr ([13], tk2)
          else if char2 = [85] then readUnicodeEscape tk2
          else Inl (TokenizerError ''Undefined escape sequence.''))"

lemma readStringEscape_advanced:
  assumes "readStringEscape tk = Inr (r, tk')"
  shows "advanced tk tk'"
proof (cases "peekCharacter tk (position tk)")
  case (Inl e)
  with assms show ?thesis by (simp add: readStringEscape_def split: if_splits)
next
  case (Inr char2)
  note adv = advanced_consumeCharacter[OF Inr]
  show ?thesis
  proof (cases "char2 = [85]")
    case True
    with assms Inr have "readUnicodeEscape (consumeCharacter tk char2) = Inr (r, tk')"
      by (simp add: readStringEscape_def split: if_splits)
    from adv readUnicodeEscape_advanced[OF this] show ?thesis by (rule advanced_trans)
  next
    case False
    with assms Inr have "tk' = consumeCharacter tk char2"
      by (auto simp add: readStringEscape_def Let_def split: if_splits)
    with adv show ?thesis by simp
  qed
qed

function readString_loop :: "tokenizer \<Rightarrow> jsstring \<Rightarrow> exn + (jsstring \<times> tokenizer)" where
  "readString_loop tk chars =
     (if position tk = length (text' tk) then Inl (TruncatedToken ''Truncated string.'')
      else case peekCharacter tk (position tk) of
        Inl e \<Rightarrow> Inl e
      | Inr char \<Rightarrow>
          if char = [34] then Inr (chars, consumeCharacter tk char)
          else if char = [92] then
            (case readStringEscape (consumeCharacter tk char) of
               Inl e \<Rightarrow> Inl e
             | Inr (s, tk') \<Rightarrow> readString_loop tk' (chars @ s))
          else readString_loop (consumeCharacter tk char) (chars @ char))"
  by pat_completeness auto
termination
proof (relation "measure (\<lambda>(tk, chars). length (text' tk) - position tk)", goal_cases)
  case 1
  show ?case by simp
next
  case (2 tk chars char x2 s tk')
  then have "advanced tk tk'"
    using advanced_trans[OF advanced_consumeCharacter readStringEscape_advanced] by auto
  then show ?case using advanced_measure by auto
next
  case (3 tk chars char)
  then show ?case using advanced_measure[OF advanced_consumeCharacter] by auto
qed

declare readString_loop.simps [simp del]

definition readString :: "tokenizer \<Rightarrow> exn + (jsstring \<times> tokenizer)" where
  "readString tk = readString_loop tk []"


text \<open>\<open>readHashConstruct\<close>: the decimal argument, then the character that follows it.\<close>

function readHashConstruct_loop :: "tokenizer \<Rightarrow> jsstring \<Rightarrow> exn + (jsstring \<times> jsstring \<times> tokenizer)" where
  "readHashConstruct_loop tk arg =
     (if position tk = length (text' tk) then Inl (TruncatedToken ''Truncated hash construct.'')
      else case peekCharacter tk (position tk) of
        Inl e \<Rightarrow> Inl e
      | Inr char \<Rightarrow>
          if isDecimalDigit (ensureCodePoint char)
          then readHashConstruct_loop (consumeCharacter tk char) (arg @ char)
          else Inr (char, arg, consumeCharacter tk char))"
  by pat_completeness auto
termination
  by (relation "measure (\<lambda>(tk, arg). length (text' tk) - position tk)")
     (auto simp: consumeCharacter_def peekCharacter_advance)

declare readHashConstruct_loop.simps [simp del]

definition readHashString :: "jsstring \<Rightarrow> tokenizer \<Rightarrow> exn + tokenizer" where
  "readHashString arg tk1 =
     (case readString tk1 of
        Inl e \<Rightarrow> Inl e
      | Inr (string, tk2) \<Rightarrow>
          if convertEVLToXML tk2
          then Inr (tk2\<lparr>category := Some CHARACTER, tokValue := NullValue\<rparr>)
          else if arg \<noteq> [] then
            (let index = parseIntDecimal arg in
             if index < length string
             then Inr (tk2\<lparr>category := Some CHARACTER,
                           tokValue := ObjectValue (EVLCharacter [string ! index])\<rparr>)
             else Inl (TokenizerError ''Index out of bounds.''))
          else if string \<noteq> []
          then Inr (tk2\<lparr>category := Some CHARACTER,
                        tokValue := ObjectValue (EVLCharacter [hd string]),
                        savedCodeUnits := tl string\<rparr>)
          else Inr tk2)"

definition readHashConstruct :: "tokenizer \<Rightarrow> exn + tokenizer" where
  "readHashConstruct tk =
     (case readHashConstruct_loop tk [] of
        Inl e \<Rightarrow> Inl e
      | Inr (char, arg, tk1) \<Rightarrow>
          if char = [40] then Inr (tk1\<lparr>category := Some HASH_OPENING_PARENTHESIS\<rparr>)
          else if char = [43] then Inr (tk1\<lparr>category := Some HASH_PLUS\<rparr>)
          else if char = [45] then Inr (tk1\<lparr>category := Some HASH_MINUS\<rparr>)
          else if char = [118] then
            Inr (tk1\<lparr>category := Some VOID, tokValue := ObjectValue EVLVoid\<rparr>)
          else if char = [116] then
            Inr (tk1\<lparr>category := Some BOOLEAN, tokValue := ObjectValue (EVLBoolean True)\<rparr>)
          else if char = [102] then
            Inr (tk1\<lparr>category := Some BOOLEAN, tokValue := ObjectValue (EVLBoolean False)\<rparr>)
          else if char = [34] then readHashString arg tk1
          else Inl (TokenizerError ''Undefined hash construct.''))"

text \<open>
  \<open>readXMLMarkup\<close>.  One step of its automaton, on the state, the three flags
  (end tag, empty-element tag, comment) and the name: it goes on, leaves the loop at the
  closing angle bracket, or returns false.
\<close>

datatype xmlStep = GoOn nat bool bool bool jsstring | BreakLoop | ReturnFalse

definition readXMLMarkup_step :: "nat \<Rightarrow> bool \<Rightarrow> bool \<Rightarrow> bool \<Rightarrow> jsstring \<Rightarrow> jsstring \<Rightarrow> xmlStep" where
  "readXMLMarkup_step state isXMLEndTag isXMLEmptyElementTag isXMLComment name char =
     (if state = 0 then
        (if char = [47] then GoOn 100 True isXMLEmptyElementTag isXMLComment name
         else if isXMLNameCharacter (ensureCodePoint char)
           then GoOn 101 isXMLEndTag isXMLEmptyElementTag isXMLComment (name @ char)
         else if char = [33] then GoOn 200 isXMLEndTag isXMLEmptyElementTag True name
         else ReturnFalse)
      else if state = 100 then
        (if isXMLNameCharacter (ensureCodePoint char)
           then GoOn 101 isXMLEndTag isXMLEmptyElementTag isXMLComment (name @ char)
         else ReturnFalse)
      else if state = 101 then
        (if isXMLNameCharacter (ensureCodePoint char)
           then GoOn 101 isXMLEndTag isXMLEmptyElementTag isXMLComment (name @ char)
         else if char = [47] then GoOn 102 isXMLEndTag True isXMLComment name
         else if char = [62] then BreakLoop
         else ReturnFalse)
      else if state = 102 then
        (if char = [62] then BreakLoop else ReturnFalse)
      else if state = 200 then
        (if char = [45] then GoOn 201 isXMLEndTag isXMLEmptyElementTag isXMLComment name
         else ReturnFalse)
      else if state = 201 then
        (if char = [45] then GoOn 202 isXMLEndTag isXMLEmptyElementTag isXMLComment name
         else ReturnFalse)
      else if state = 202 then
        (if char = [45] then GoOn 203 isXMLEndTag isXMLEmptyElementTag isXMLComment name
         else GoOn 202 isXMLEndTag isXMLEmptyElementTag isXMLComment name)
      else if state = 203 then
        (if char = [45] then GoOn 204 isXMLEndTag isXMLEmptyElementTag isXMLComment name
         else GoOn 202 isXMLEndTag isXMLEmptyElementTag isXMLComment name)
      else if state = 204 then
        (if char = [62] then BreakLoop else ReturnFalse)
      else GoOn state isXMLEndTag isXMLEmptyElementTag isXMLComment name)"

text \<open>
  The loop returns \<open>None\<close> where the source returns false, and the flags, the name and
  the position behind the markup where it leaves the loop.
\<close>

function readXMLMarkup_loop ::
  "tokenizer \<Rightarrow> nat \<Rightarrow> bool \<Rightarrow> bool \<Rightarrow> bool \<Rightarrow> jsstring \<Rightarrow> nat \<Rightarrow>
   exn + (bool \<times> bool \<times> bool \<times> jsstring \<times> nat) option" where
  "readXMLMarkup_loop tk state isXMLEndTag isXMLEmptyElementTag isXMLComment name pos =
     (if pos = length (text' tk) then Inr None
      else case peekCharacter tk pos of
        Inl e \<Rightarrow> Inl e
      | Inr char \<Rightarrow>
          (case readXMLMarkup_step state isXMLEndTag isXMLEmptyElementTag isXMLComment name char of
             ReturnFalse \<Rightarrow> Inr None
           | BreakLoop \<Rightarrow>
               Inr (Some (isXMLEndTag, isXMLEmptyElementTag, isXMLComment, name, pos + length char))
           | GoOn state' isXMLEndTag' isXMLEmptyElementTag' isXMLComment' name' \<Rightarrow>
               readXMLMarkup_loop tk state' isXMLEndTag' isXMLEmptyElementTag' isXMLComment' name'
                 (pos + length char)))"
  by pat_completeness auto
termination
  by (relation "measure (\<lambda>(tk, st, a, b, c, name, pos). length (text' tk) - pos)")
     (auto simp: peekCharacter_advance)

declare readXMLMarkup_loop.simps [simp del]

text \<open>\<open>text.slice(start, end)\<close>.\<close>

definition slice :: "jsstring \<Rightarrow> nat \<Rightarrow> nat \<Rightarrow> jsstring" where
  "slice s start end' = take (end' - start) (drop start s)"

definition readXMLMarkup :: "tokenizer \<Rightarrow> bool \<Rightarrow> exn + (bool \<times> tokenizer)" where
  "readXMLMarkup tk consume =
     (case readXMLMarkup_loop tk 0 False False False [] (position tk + 1) of
        Inl e \<Rightarrow> Inl e
      | Inr None \<Rightarrow> Inr (False, tk)
      | Inr (Some (isXMLEndTag, isXMLEmptyElementTag, isXMLComment, name, pos)) \<Rightarrow>
          if isXMLEndTag \<and> isXMLEmptyElementTag then Inr (False, tk)
          else if consume then
            (let tk1 = tk\<lparr>lexeme := slice (text' tk) (position tk) pos, position := pos\<rparr> in
             if isXMLComment then Inr (True, tk1\<lparr>category := Some XML_COMMENT\<rparr>)
             else if isXMLEndTag then
               (if xmlStack tk1 = [] then Inl (TokenizerError ''Unexpected XML end tag.'')
                else if last (xmlStack tk1) \<noteq> name then Inl (TokenizerError ''Unmatched XML tags.'')
                else Inr (True, tk1\<lparr>xmlStack := butlast (xmlStack tk1),
                                     category := Some XML_END_TAG, tokValue := NameValue name\<rparr>))
             else if isXMLEmptyElementTag then
               Inr (True, tk1\<lparr>category := Some XML_EMPTY_ELEMENT_TAG, tokValue := NameValue name\<rparr>)
             else
               Inr (True, tk1\<lparr>xmlStack := xmlStack tk1 @ [name],
                                category := Some XML_START_TAG, tokValue := NameValue name\<rparr>))
          else Inr (True, tk))"

text \<open>The escape sequences of \<open>readProtoToken\<close>, read after the backslash.\<close>

definition readProtoTokenEscape :: "tokenizer \<Rightarrow> exn + (jsstring \<times> tokenizer)" where
  "readProtoTokenEscape tk1 =
     (if position tk1 = length (text' tk1)
      then Inl (TruncatedToken ''Truncated escape sequence.'')
      else case peekCharacter tk1 (position tk1) of
        Inl e \<Rightarrow> Inl e
      | Inr char2 \<Rightarrow>
          let tk2 = consumeCharacter tk1 char2 in
          if char2 = [92] then Inr ([92], tk2)
          else if char2 = [60] then Inr ([60], tk2)
          else if char2 = [85] then readUnicodeEscape tk2
          else Inl (TokenizerError ''Undefined escape sequence.''))"

lemma readProtoTokenEscape_advanced:
  assumes "readProtoTokenEscape tk = Inr (r, tk')"
  shows "advanced tk tk'"
proof (cases "peekCharacter tk (position tk)")
  case (Inl e)
  with assms show ?thesis by (simp add: readProtoTokenEscape_def split: if_splits)
next
  case (Inr char2)
  note adv = advanced_consumeCharacter[OF Inr]
  show ?thesis
  proof (cases "char2 = [85]")
    case True
    with assms Inr have "readUnicodeEscape (consumeCharacter tk char2) = Inr (r, tk')"
      by (simp add: readProtoTokenEscape_def split: if_splits)
    from adv readUnicodeEscape_advanced[OF this] show ?thesis by (rule advanced_trans)
  next
    case False
    with assms Inr have "tk' = consumeCharacter tk char2"
      by (auto simp add: readProtoTokenEscape_def Let_def split: if_splits)
    with adv show ?thesis by simp
  qed
qed

text \<open>
  \<open>char === '<' && readXMLMarkup(tokenizer, false)\<close>: without \<open>consume\<close> the
  tokenizer is left as it is.
\<close>

definition startsXMLMarkup :: "tokenizer \<Rightarrow> jsstring \<Rightarrow> exn + bool" where
  "startsXMLMarkup tk char =
     (if char = [60] then map_sum id fst (readXMLMarkup tk False) else Inr False)"

function readProtoToken_loop :: "tokenizer \<Rightarrow> jsstring \<Rightarrow> exn + (jsstring \<times> tokenizer)" where
  "readProtoToken_loop tk chars =
     (if position tk = length (text' tk) then Inr (chars, tk)
      else case peekCharacter tk (position tk) of
        Inl e \<Rightarrow> Inl e
      | Inr char \<Rightarrow>
          if isWhitespaceCharacter (ensureCodePoint char) \<or> isSyntaxCharacter (ensureCodePoint char)
          then Inr (chars, tk)
          else (case startsXMLMarkup tk char of
                  Inl e \<Rightarrow> Inl e
                | Inr markup \<Rightarrow>
                    if markup then Inr (chars, tk)
                    else if char = [92] then
                      (case readProtoTokenEscape (consumeCharacter tk char) of
                         Inl e \<Rightarrow> Inl e
                       | Inr (s, tk') \<Rightarrow> readProtoToken_loop tk' (chars @ s))
                    else readProtoToken_loop (consumeCharacter tk char) (chars @ char)))"
  by pat_completeness auto
termination
proof (relation "measure (\<lambda>(tk, chars). length (text' tk) - position tk)", goal_cases)
  case 1
  show ?case by simp
next
  case (2 tk chars char markup x2 s tk')
  then have "advanced tk tk'"
    using advanced_trans[OF advanced_consumeCharacter readProtoTokenEscape_advanced] by auto
  then show ?case using advanced_measure by auto
next
  case (3 tk chars char markup)
  then show ?case using advanced_measure[OF advanced_consumeCharacter] by auto
qed

declare readProtoToken_loop.simps [simp del]

definition readProtoToken :: "tokenizer \<Rightarrow> exn + (jsstring \<times> tokenizer)" where
  "readProtoToken tk = readProtoToken_loop tk []"


text \<open>
  \<open>readToken\<close>.  \<open>Number.parseFloat\<close> is the host's; the model takes it as the
  parameter \<open>parseFloat\<close>, from a string that \<open>numberRegExp\<close> accepts to the double.
\<close>

definition readTokenUnquote :: "tokenizer \<Rightarrow> exn + tokenizer" where
  "readTokenUnquote tk1 =
     (if position tk1 = length (text' tk1) then Inr (tk1\<lparr>category := Some UNQUOTE\<rparr>)
      else case peekCharacter tk1 (position tk1) of
        Inl e \<Rightarrow> Inl e
      | Inr char2 \<Rightarrow>
          if char2 = [64]
          then Inr ((consumeCharacter tk1 char2)\<lparr>category := Some UNQUOTE_SPLICING\<rparr>)
          else Inr (tk1\<lparr>category := Some UNQUOTE\<rparr>))"

definition readTokenDefault :: "(jsstring \<Rightarrow> 64 word) \<Rightarrow> tokenizer \<Rightarrow> exn + tokenizer" where
  "readTokenDefault parseFloat tk =
     (case readProtoToken tk of
        Inl e \<Rightarrow> Inl e
      | Inr (protoToken, tk1) \<Rightarrow>
          if protoToken = [46] then Inr (tk1\<lparr>category := Some DOT\<rparr>)
          else if numberRegExp protoToken then
            Inr (tk1\<lparr>category := Some NUMBER,
                     tokValue := ObjectValue (EVLNumber (parseFloat protoToken))\<rparr>)
          else if keywordRegExp protoToken then
            Inr (tk1\<lparr>category := Some KEYWORD,
                     tokValue := ObjectValue (EVLKeyword (internKeyword (tl protoToken)))\<rparr>)
          else if variableRegExp protoToken then
            Inr (tk1\<lparr>category := Some VARIABLE,
                     tokValue := ObjectValue (EVLVariable (internVariable protoToken))\<rparr>)
          else Inl (TokenizerError ''Malformed proto-token.''))"

definition readToken :: "(jsstring \<Rightarrow> 64 word) \<Rightarrow> bool \<Rightarrow> tokenizer \<Rightarrow> exn + tokenizer" where
  "readToken parseFloat pureXML tk =
     (case peekCharacter tk (position tk) of
        Inl e \<Rightarrow> Inl e
      | Inr char \<Rightarrow>
          if char = [39] then Inr ((consumeCharacter tk char)\<lparr>category := Some QUOTE\<rparr>)
          else if char = [96] then Inr ((consumeCharacter tk char)\<lparr>category := Some QUASIQUOTE\<rparr>)
          else if char = [44] then readTokenUnquote (consumeCharacter tk char)
          else if char = [34] then
            (case readString (consumeCharacter tk char) of
               Inl e \<Rightarrow> Inl e
             | Inr (string, tk2) \<Rightarrow>
                 Inr (tk2\<lparr>category := Some STRING, tokValue := ObjectValue (EVLString string)\<rparr>))
          else if char = [40] then
            Inr ((consumeCharacter tk char)\<lparr>category := Some OPENING_PARENTHESIS\<rparr>)
          else if char = [41] then
            Inr ((consumeCharacter tk char)\<lparr>category := Some CLOSING_PARENTHESIS\<rparr>)
          else if char = [35] then readHashConstruct (consumeCharacter tk char)
          else if char = [60] then
            (case readXMLMarkup tk True of
               Inl e \<Rightarrow> Inl e
             | Inr (markup, tk1) \<Rightarrow>
                 if markup then Inr tk1
                 else if pureXML then Inl (TokenizerError ''Malformed XML markup.'')
                 else readTokenDefault parseFloat tk)
          else readTokenDefault parseFloat tk)"

lemma advanced_update [simp]:
  "advanced tk (tk'\<lparr>category := c\<rparr>) = advanced tk tk'"
  "advanced tk (tk'\<lparr>tokValue := v\<rparr>) = advanced tk tk'"
  "advanced tk (tk'\<lparr>savedCodeUnits := u\<rparr>) = advanced tk tk'"
  "advanced tk (tk'\<lparr>xmlStack := x\<rparr>) = advanced tk tk'"
  "advanced tk (tk'\<lparr>lexeme := l\<rparr>) = advanced tk tk'"
  "advanced tk (tk'\<lparr>whitespace := w\<rparr>) = advanced tk tk'"
  by (simp_all add: advanced_def)

lemma readString_loop_advanced:
  "readString_loop tk chars = Inr (r, tk') \<Longrightarrow> advanced tk tk'"
proof (induction tk chars rule: readString_loop.induct)
  case (1 tk chars)
  show ?case
  proof (cases "peekCharacter tk (position tk)")
    case (Inl e)
    with "1.prems" show ?thesis
      by (simp add: readString_loop.simps[of tk] split: if_splits)
  next
    case (Inr char)
    note adv = advanced_consumeCharacter[OF Inr]
    from "1.prems" Inr have ne: "position tk \<noteq> length (text' tk)"
      by (auto simp add: readString_loop.simps[of tk] split: if_splits)
    consider (quote) "char = [34]" | (esc) "char \<noteq> [34]" "char = [92]"
      | (other) "char \<noteq> [34]" "char \<noteq> [92]" by blast
    then show ?thesis
    proof cases
      case quote
      with "1.prems" Inr ne adv show ?thesis
        by (auto simp add: readString_loop.simps[of tk])
    next
      case esc
      with "1.prems" Inr ne obtain s tk1 where
        e: "readStringEscape (consumeCharacter tk char) = Inr (s, tk1)"
        and rec: "readString_loop tk1 (chars @ s) = Inr (r, tk')"
        by (auto simp add: readString_loop.simps[of tk] split: sum.splits)
      from "1.IH"(1)[OF ne Inr esc(1) esc(2) e refl rec]
      have "advanced tk1 tk'" .
      with advanced_trans[OF adv readStringEscape_advanced[OF e]]
      show ?thesis by (rule advanced_trans)
    next
      case other
      with "1.prems" Inr ne have
        rec: "readString_loop (consumeCharacter tk char) (chars @ char) = Inr (r, tk')"
        by (auto simp add: readString_loop.simps[of tk])
      from "1.IH"(2)[OF ne Inr other rec] adv show ?thesis
        by (rule advanced_trans[rotated])
    qed
  qed
qed

lemma readString_advanced: "readString tk = Inr (r, tk') \<Longrightarrow> advanced tk tk'"
  unfolding readString_def by (rule readString_loop_advanced)

lemma readHashConstruct_loop_advanced:
  "readHashConstruct_loop tk arg = Inr (c, r, tk') \<Longrightarrow> advanced tk tk'"
proof (induction tk arg rule: readHashConstruct_loop.induct)
  case (1 tk arg)
  show ?case
  proof (cases "peekCharacter tk (position tk)")
    case (Inl e)
    with "1.prems" show ?thesis
      by (simp add: readHashConstruct_loop.simps[of tk] split: if_splits)
  next
    case (Inr char)
    note adv = advanced_consumeCharacter[OF Inr]
    from "1.prems" Inr have ne: "position tk \<noteq> length (text' tk)"
      by (auto simp add: readHashConstruct_loop.simps[of tk] split: if_splits)
    show ?thesis
    proof (cases "isDecimalDigit (ensureCodePoint char)")
      case True
      with "1.prems" Inr ne have
        rec: "readHashConstruct_loop (consumeCharacter tk char) (arg @ char) = Inr (c, r, tk')"
        by (auto simp add: readHashConstruct_loop.simps[of tk])
      from "1.IH"[OF ne Inr True rec] adv show ?thesis by (rule advanced_trans[rotated])
    next
      case False
      with "1.prems" Inr ne adv show ?thesis
        by (auto simp add: readHashConstruct_loop.simps[of tk])
    qed
  qed
qed

lemma readHashString_advanced:
  "readHashString arg tk = Inr tk' \<Longrightarrow> advanced tk tk'"
  by (auto simp: readHashString_def Let_def readString_advanced split: sum.splits if_splits)

lemma readHashConstruct_advanced:
  assumes "readHashConstruct tk = Inr tk'"
  shows "advanced tk tk'"
proof (cases "readHashConstruct_loop tk []")
  case (Inl e)
  with assms show ?thesis by (simp add: readHashConstruct_def)
next
  case (Inr x)
  then obtain char arg tk1 where l: "readHashConstruct_loop tk [] = Inr (char, arg, tk1)"
    by (cases x) auto
  note adv = readHashConstruct_loop_advanced[OF l]
  show ?thesis
  proof (cases "char = [34]")
    case True
    with assms l have "readHashString arg tk1 = Inr tk'"
      by (simp add: readHashConstruct_def)
    from adv readHashString_advanced[OF this] show ?thesis by (rule advanced_trans)
  next
    case False
    with assms l adv show ?thesis
      by (auto simp add: readHashConstruct_def split: if_splits)
  qed
qed

lemma readXMLMarkup_loop_bounds:
  "readXMLMarkup_loop tk st a b c name pos = Inr (Some (a', b', c', name', pos')) \<Longrightarrow>
     pos < pos' \<and> pos' \<le> length (text' tk)"
proof (induction tk st a b c name pos rule: readXMLMarkup_loop.induct)
  case (1 tk st a b c name pos)
  show ?case
  proof (cases "peekCharacter tk pos")
    case (Inl e)
    with "1.prems" show ?thesis
      by (simp add: readXMLMarkup_loop.simps[of tk st a b c name pos] split: if_splits)
  next
    case (Inr char)
    note pc = peekCharacter_Inr[OF Inr]
    from "1.prems" Inr have ne: "pos \<noteq> length (text' tk)"
      by (auto simp add: readXMLMarkup_loop.simps[of tk st a b c name pos] split: if_splits)
    show ?thesis
    proof (cases "readXMLMarkup_step st a b c name char")
      case (GoOn st2 a2 b2 c2 name2)
      with "1.prems" Inr ne have
        rec: "readXMLMarkup_loop tk st2 a2 b2 c2 name2 (pos + length char) =
                Inr (Some (a', b', c', name', pos'))"
        by (simp add: readXMLMarkup_loop.simps[of tk st a b c name pos])
      from "1.IH"[OF ne Inr GoOn rec] pc show ?thesis by simp
    next
      case BreakLoop
      with "1.prems" Inr ne pc show ?thesis
        by (auto simp add: readXMLMarkup_loop.simps[of tk st a b c name pos])
    next
      case ReturnFalse
      with "1.prems" Inr ne show ?thesis
        by (simp add: readXMLMarkup_loop.simps[of tk st a b c name pos])
    qed
  qed
qed

lemma readXMLMarkup_consume_advanced:
  assumes "readXMLMarkup tk True = Inr (True, tk')"
  shows "advanced tk tk'"
proof (cases "readXMLMarkup_loop tk 0 False False False [] (position tk + 1)")
  case (Inl e)
  with assms show ?thesis by (simp add: readXMLMarkup_def)
next
  case (Inr r)
  show ?thesis
  proof (cases r)
    case None
    with assms Inr show ?thesis by (simp add: readXMLMarkup_def)
  next
    case (Some x)
    then obtain a b c name pos where x: "r = Some (a, b, c, name, pos)"
      by (cases x) auto
    from readXMLMarkup_loop_bounds[OF Inr[unfolded x]]
    have bnd: "position tk < pos" "pos \<le> length (text' tk)" by auto
    with assms Inr x show ?thesis
      by (auto simp add: readXMLMarkup_def Let_def advanced_def split: if_splits)
  qed
qed

lemma readXMLMarkup_noconsume:
  "readXMLMarkup tk False = Inr (m, tk') \<Longrightarrow> tk' = tk"
  by (auto simp: readXMLMarkup_def split: sum.splits option.splits if_splits)

lemma readProtoToken_loop_advanced:
  "readProtoToken_loop tk chars = Inr (r, tk') \<Longrightarrow>
     (tk' = tk \<and> r = chars) \<or> advanced tk tk'"
proof (induction tk chars rule: readProtoToken_loop.induct)
  case (1 tk chars)
  show ?case
  proof (cases "peekCharacter tk (position tk)")
    case (Inl e)
    with "1.prems" show ?thesis
      by (simp add: readProtoToken_loop.simps[of tk] split: if_splits)
  next
    case (Inr char)
    note adv = advanced_consumeCharacter[OF Inr]
    show ?thesis
    proof (cases "position tk = length (text' tk) \<or> isWhitespaceCharacter (ensureCodePoint char)
                   \<or> isSyntaxCharacter (ensureCodePoint char)")
      case True
      with "1.prems" Inr show ?thesis
        by (auto simp add: readProtoToken_loop.simps[of tk] split: if_splits)
    next
      case False
      then have ne: "position tk \<noteq> length (text' tk)"
        and nw: "\<not> (isWhitespaceCharacter (ensureCodePoint char) \<or> isSyntaxCharacter (ensureCodePoint char))"
        by auto
      show ?thesis
      proof (cases "startsXMLMarkup tk char")
        case (Inl e)
        with "1.prems" Inr ne nw show ?thesis
          by (simp add: readProtoToken_loop.simps[of tk])
      next
        case m: (Inr markup)
        show ?thesis
        proof (cases markup)
          case True
          with "1.prems" Inr ne nw m show ?thesis
            by (simp add: readProtoToken_loop.simps[of tk])
        next
          case nm: False
          show ?thesis
          proof (cases "char = [92]")
            case True
            with "1.prems" Inr ne nw m nm obtain s tk1 where
              e: "readProtoTokenEscape (consumeCharacter tk char) = Inr (s, tk1)"
              and rec: "readProtoToken_loop tk1 (chars @ s) = Inr (r, tk')"
              by (auto simp add: readProtoToken_loop.simps[of tk] split: sum.splits)
            from "1.IH"(1)[OF ne Inr nw m nm True e refl rec]
            have "(tk' = tk1 \<and> r = chars @ s) \<or> advanced tk1 tk'" .
            with advanced_trans[OF adv readProtoTokenEscape_advanced[OF e]]
            show ?thesis by (auto intro: advanced_trans)
          next
            case False
            with "1.prems" Inr ne nw m nm have
              rec: "readProtoToken_loop (consumeCharacter tk char) (chars @ char) = Inr (r, tk')"
              by (simp add: readProtoToken_loop.simps[of tk])
            from "1.IH"(2)[OF ne Inr nw m nm False rec] adv show ?thesis
              by (auto intro: advanced_trans)
          qed
        qed
      qed
    qed
  qed
qed

lemma readTokenDefault_advanced:
  assumes "readTokenDefault parseFloat tk = Inr tk'"
  shows "advanced tk tk'"
proof (cases "readProtoToken tk")
  case (Inl e)
  with assms show ?thesis by (simp add: readTokenDefault_def)
next
  case (Inr x)
  then obtain protoToken tk1 where p: "readProtoToken tk = Inr (protoToken, tk1)"
    by (cases x) auto
  from readProtoToken_loop_advanced[OF p[unfolded readProtoToken_def]]
  have d: "(tk1 = tk \<and> protoToken = []) \<or> advanced tk tk1" .
  from assms p have ne: "protoToken \<noteq> []"
    by (auto simp: readTokenDefault_def numberRegExp_def keywordRegExp_def variableRegExp_def
        split: if_splits)
  with d have "advanced tk tk1" by auto
  with assms p show ?thesis
    by (auto simp: readTokenDefault_def split: if_splits)
qed

lemma readTokenUnquote_advanced:
  "readTokenUnquote tk1 = Inr tk' \<Longrightarrow> advanced tk tk1 \<Longrightarrow> advanced tk tk'"
  by (auto simp: readTokenUnquote_def split: if_splits sum.splits
      dest!: advanced_consumeCharacter elim: advanced_trans)

lemma readToken_advanced:
  assumes "readToken parseFloat pureXML tk = Inr tk'"
  shows "advanced tk tk'"
proof (cases "peekCharacter tk (position tk)")
  case (Inl e)
  with assms show ?thesis by (simp add: readToken_def)
next
  case (Inr char)
  note adv = advanced_consumeCharacter[OF Inr]
  consider (simple) "char = [39] \<or> char = [96] \<or> char = [40] \<or> char = [41]"
    | (unquote) "char = [44]" | (string) "char = [34]" | (hash) "char = [35]"
    | (xml) "char = [60]"
    | (default) "char \<noteq> [39]" "char \<noteq> [96]" "char \<noteq> [40]" "char \<noteq> [41]" "char \<noteq> [44]"
        "char \<noteq> [34]" "char \<noteq> [35]" "char \<noteq> [60]"
    by blast
  then show ?thesis
  proof cases
    case simple
    with assms Inr adv show ?thesis by (auto simp: readToken_def)
  next
    case unquote
    with assms Inr have "readTokenUnquote (consumeCharacter tk char) = Inr tk'"
      by (simp add: readToken_def)
    from readTokenUnquote_advanced[OF this adv] show ?thesis .
  next
    case string
    with assms Inr obtain s tk2 where r: "readString (consumeCharacter tk char) = Inr (s, tk2)"
      and t: "tk' = tk2\<lparr>category := Some STRING, tokValue := ObjectValue (EVLString s)\<rparr>"
      by (auto simp: readToken_def split: sum.splits)
    from advanced_trans[OF adv readString_advanced[OF r]] t show ?thesis by simp
  next
    case hash
    with assms Inr have "readHashConstruct (consumeCharacter tk char) = Inr tk'"
      by (simp add: readToken_def)
    from adv readHashConstruct_advanced[OF this] show ?thesis by (rule advanced_trans)
  next
    case xml
    show ?thesis
    proof (cases "readXMLMarkup tk True")
      case (Inl e)
      with assms Inr xml show ?thesis by (simp add: readToken_def)
    next
      case r: (Inr x)
      obtain markup tk1 where x: "x = (markup, tk1)" by (cases x)
      show ?thesis
      proof (cases markup)
        case True
        with assms Inr xml r x have "tk' = tk1" by (simp add: readToken_def)
        with readXMLMarkup_consume_advanced[of tk tk1] r x True show ?thesis by simp
      next
        case False
        with assms Inr xml r x have "readTokenDefault parseFloat tk = Inr tk'"
          by (simp add: readToken_def split: if_splits)
        then show ?thesis by (rule readTokenDefault_advanced)
      qed
    qed
  next
    case default
    with assms Inr have "readTokenDefault parseFloat tk = Inr tk'"
      by (simp add: readToken_def)
    then show ?thesis by (rule readTokenDefault_advanced)
  qed
qed

lemma skipWhitespace_progress:
  "skipWhitespace pureXML tk = Inr tk' \<Longrightarrow>
     text' tk' = text' tk \<and> position tk \<le> position tk'"
proof (induction pureXML tk rule: skipWhitespace.induct)
  case (1 pureXML tk)
  show ?case
  proof (cases "position tk = length (text' tk)")
    case True
    with "1.prems" show ?thesis by (simp add: skipWhitespace.simps[of pureXML tk])
  next
    case ne: False
    show ?thesis
    proof (cases "peekCharacter tk (position tk)")
      case (Inl e)
      with "1.prems" ne show ?thesis by (simp add: skipWhitespace.simps[of pureXML tk])
    next
      case (Inr char)
      show ?thesis
      proof (cases "if pureXML then char = [60] else \<not> isWhitespaceCharacter (ensureCodePoint char)")
        case True
        with "1.prems" ne Inr show ?thesis
          by (auto simp add: skipWhitespace.simps[of pureXML tk] split: if_splits)
      next
        case False
        with "1.prems" ne Inr have rec: "skipWhitespace pureXML
           (tk\<lparr>whitespace := whitespace tk @ char, position := position tk + length char\<rparr>) = Inr tk'"
          by (auto simp add: skipWhitespace.simps[of pureXML tk] split: if_splits)
        from "1.IH"[OF ne Inr False rec] show ?thesis by simp
      qed
    qed
  qed
qed

function nextToken_loop :: "(jsstring \<Rightarrow> 64 word) \<Rightarrow> bool \<Rightarrow> tokenizer \<Rightarrow> exn + tokenizer" where
  "nextToken_loop parseFloat pureXML tk =
     (case skipWhitespace pureXML tk of
        Inl e \<Rightarrow> Inl e
      | Inr tk1 \<Rightarrow>
          if position tk1 = length (text' tk1) then Inr (tk1\<lparr>category := Some EOI\<rparr>)
          else (case readToken parseFloat pureXML tk1 of
                  Inl e \<Rightarrow> Inl e
                | Inr tk2 \<Rightarrow>
                    if category tk2 = None then nextToken_loop parseFloat pureXML tk2
                    else Inr tk2))"
  by pat_completeness auto
termination
proof (relation "measure (\<lambda>(pf, p, tk). length (text' tk) - position tk)", goal_cases)
  case 1
  show ?case by simp
next
  case (2 parseFloat pureXML tk tk1 tk2)
  from skipWhitespace_progress[OF 2(1)] readToken_advanced[OF 2(3)]
  show ?case by (auto simp: advanced_def)
qed

declare nextToken_loop.simps [simp del]

definition nextToken :: "(jsstring \<Rightarrow> 64 word) \<Rightarrow> tokenizer \<Rightarrow> exn + tokenizer" where
  "nextToken parseFloat tk0 =
     (let tk = tk0\<lparr>whitespace := [], lexeme := []\<rparr> in
      if savedCodeUnits tk \<noteq> [] then
        Inr (tk\<lparr>category := Some CHARACTER,
                tokValue := ObjectValue (EVLCharacter [hd (savedCodeUnits tk)]),
                savedCodeUnits := tl (savedCodeUnits tk)\<rparr>)
      else
        (let tk' = tk\<lparr>category := None, tokValue := NullValue\<rparr>;
             pureXML = (xmlStack tk' \<noteq> [] \<and>
                        last (xmlStack tk') \<noteq> js ''chapter'' \<and> last (xmlStack tk') \<noteq> js ''section'')
         in nextToken_loop parseFloat pureXML tk'))"


section \<open>Results of evaluations\<close>

text \<open>
  The result of the evaluation of a form is an object or, after the primitive function
  \<open>values\<close>, an array of objects (the classes \<open>EVLObject\<close> and \<open>EVLObjects\<close>).
\<close>

datatype result = EVLObject evl | EVLObjects "evl list"

fun primaryValue :: "result \<Rightarrow> evl" where
  "primaryValue (EVLObject object) = object"
| "primaryValue (EVLObjects objects) = (if length objects = 0 then EVLVoid else objects ! 0)"

fun allValues :: "result \<Rightarrow> evl list" where
  "allValues (EVLObject object) = [object]"
| "allValues (EVLObjects objects) = objects"

section \<open>Global state, outcomes\<close>

text \<open>
  The mutable state of the core: the two binding cells of every variable object (the
  properties \<open>value\<close> and \<open>function\<close>, \<open>null\<close> when unbound), the arrays of
  values of the frames allocated so far (a slot holds an object, or \<open>null\<close> in the frames
  that the preprocessor builds for the parameters of a lambda form), the number of
  symbols built outside the packages so far, and the variable \<open>lastResult\<close> of the
  functions of the interface (the callback that they give to the tokenizer assigns to
  it).  The global variables \<open>abortSignalArray\<close>
  and \<open>selectedEvaluator\<close> belong to the interface and are kept there.
\<close>

record state =
  valueCell :: "symref \<Rightarrow> evl option"
  functionCell :: "symref \<Rightarrow> evl option"
  frameValues :: "evl option list list"
  uninterned :: nat
  lastResult :: result

text \<open>
  What a call does: it returns, it throws, or the model has run out of the fuel that bounds
  the depth of recursion and the number of iterations (\<open>Timeout\<close> is no behaviour of the
  program; no handler of the program catches it).  The state after the call comes with it.
\<close>

datatype 'a outcome = Return 'a | Throw exn | Timeout

definition thenDo ::
  "'a outcome \<times> 's \<Rightarrow> ('a \<Rightarrow> 's \<Rightarrow> 'b outcome \<times> 's) \<Rightarrow> 'b outcome \<times> 's" where
  "thenDo m f =
     (case m of
        (Return x, s) \<Rightarrow> f x s
      | (Throw e, s) \<Rightarrow> (Throw e, s)
      | (Timeout, s) \<Rightarrow> (Timeout, s))"

lemma thenDo_simps [simp]:
  "thenDo (Return x, s) f = f x s"
  "thenDo (Throw e, s) f = (Throw e, s)"
  "thenDo (Timeout, s) f = (Timeout, s)"
  by (simp_all add: thenDo_def)

text \<open>A value of the sum type of the pure parts, as an outcome that leaves the state.\<close>

definition lift :: "exn + 'a \<Rightarrow> 's \<Rightarrow> 'a outcome \<times> 's" where
  "lift r s = (case r of Inl e \<Rightarrow> (Throw e, s) | Inr x \<Rightarrow> (Return x, s))"

lemma lift_simps [simp]:
  "lift (Inl e) s = (Throw e, s)"
  "lift (Inr x) s = (Return x, s)"
  by (simp_all add: lift_def)

section \<open>Global environment\<close>

definition GlobalEnv_ref :: "state \<Rightarrow> namespace \<Rightarrow> symref \<Rightarrow> exn + evl" where
  "GlobalEnv_ref s ns variable =
     (case ns of
        VAL_NS \<Rightarrow> (case valueCell s variable of
                     Some v \<Rightarrow> Inr v
                   | None \<Rightarrow> Inl (UnboundVariable variable VAL_NS))
      | FUN_NS \<Rightarrow> (case functionCell s variable of
                     Some v \<Rightarrow> Inr v
                   | None \<Rightarrow> Inl (UnboundVariable variable FUN_NS)))"

definition GlobalEnv_set :: "state \<Rightarrow> namespace \<Rightarrow> symref \<Rightarrow> evl \<Rightarrow> state" where
  "GlobalEnv_set s ns variable v =
     (case ns of
        VAL_NS \<Rightarrow> s\<lparr>valueCell := (valueCell s)(variable := Some v)\<rparr>
      | FUN_NS \<Rightarrow> s\<lparr>functionCell := (functionCell s)(variable := Some v)\<rparr>)"

section \<open>Reader\<close>

text \<open>The variables that the reader and the evaluators compare forms with.\<close>

definition notVariable :: evl where "notVariable = EVLVariable (internVariable (js ''not''))"
definition andVariable :: evl where "andVariable = EVLVariable (internVariable (js ''and''))"
definition orVariable :: evl where "orVariable = EVLVariable (internVariable (js ''or''))"
definition quoteVariable :: evl where "quoteVariable = EVLVariable (internVariable (js ''quote''))"
definition quasiquoteVariable :: evl where
  "quasiquoteVariable = EVLVariable (internVariable (js ''quasiquote''))"
definition unquoteVariable :: evl where
  "unquoteVariable = EVLVariable (internVariable (js ''unquote''))"
definition unquoteSplicingVariable :: evl where
  "unquoteSplicingVariable = EVLVariable (internVariable (js ''unquote-splicing''))"

text \<open>Feature expressions.\<close>

fun featureListScan :: "evl \<Rightarrow> evl \<Rightarrow> exn + bool" where
  "featureListScan featureExpression EVLEmptyList = Inr False"
| "featureListScan featureExpression (EVLCons a d) =
     (if a = featureExpression then Inr True else featureListScan featureExpression d)"
| "featureListScan featureExpression x = Inl (ReaderError ''Malformed feature list.'')"

definition evaluateSymbolFeatureExpression :: "state \<Rightarrow> evl \<Rightarrow> exn + bool" where
  "evaluateSymbolFeatureExpression s featureExpression =
     (case GlobalEnv_ref s VAL_NS (internVariable (js ''*features*'')) of
        Inl e \<Rightarrow> Inl e
      | Inr lst \<Rightarrow> featureListScan featureExpression lst)"

fun evaluateFeatureExpression :: "state \<Rightarrow> evl \<Rightarrow> exn + bool"
  and evaluateAndOperands :: "state \<Rightarrow> evl \<Rightarrow> exn + bool"
  and evaluateOrOperands :: "state \<Rightarrow> evl \<Rightarrow> exn + bool" where
  "evaluateFeatureExpression s (EVLVariable v) =
     evaluateSymbolFeatureExpression s (EVLVariable v)"
| "evaluateFeatureExpression s (EVLKeyword v) =
     evaluateSymbolFeatureExpression s (EVLKeyword v)"
| "evaluateFeatureExpression s (EVLCons a operands) =
     (if a = notVariable then
        (case operands of
           EVLCons x EVLEmptyList \<Rightarrow>
             (case evaluateFeatureExpression s x of Inl e \<Rightarrow> Inl e | Inr b \<Rightarrow> Inr (\<not> b))
         | _ \<Rightarrow> Inl (ReaderError ''Malformed feature expression.''))
      else if a = andVariable then evaluateAndOperands s operands
      else if a = orVariable then evaluateOrOperands s operands
      else Inl (ReaderError ''Malformed feature expression.''))"
| "evaluateFeatureExpression s x = Inl (ReaderError ''Malformed feature expression.'')"
| "evaluateAndOperands s EVLEmptyList = Inr True"
| "evaluateAndOperands s (EVLCons x d) =
     (case evaluateFeatureExpression s x of
        Inl e \<Rightarrow> Inl e
      | Inr b \<Rightarrow> if b then evaluateAndOperands s d else Inr False)"
| "evaluateAndOperands s x = Inl (ReaderError ''Malformed feature expression.'')"
| "evaluateOrOperands s EVLEmptyList = Inr False"
| "evaluateOrOperands s (EVLCons x d) =
     (case evaluateFeatureExpression s x of
        Inl e \<Rightarrow> Inl e
      | Inr b \<Rightarrow> if b then Inr True else evaluateOrOperands s d)"
| "evaluateOrOperands s x = Inl (ReaderError ''Malformed feature expression.'')"

text \<open>
  What \<open>readObject\<close> returns: one of the four categories \<open>DOT\<close>,
  \<open>CLOSING_PARENTHESIS\<close>, \<open>XML_END_TAG\<close>, \<open>EOI\<close>, or an object.
\<close>

datatype readResult = RDot | RClosingParenthesis | RXMLEndTag | REOI | RObject evl

text \<open>
  The reader passes the tokenizer along, and the state, which only the callback of
  \<open>readXMLElement\<close> changes.  The functions that \<open>readObject\<close> calls take the
  \<open>readObject\<close> they call back as their first argument \<open>ro\<close>; the fuel decreases at
  each call of \<open>readObject\<close> and at each turn of a loop.
\<close>

type_synonym 'a reading = "('a \<times> tokenizer) outcome \<times> state"

type_synonym readObjectFun = "tokenizer \<Rightarrow> state \<Rightarrow> readResult reading"

text \<open>The switch that follows \<open>readObject\<close> where an object is required.\<close>

definition requireObject :: "readResult reading \<Rightarrow> evl reading" where
  "requireObject m =
     thenDo m (\<lambda>(r, tk) s.
       case r of
         RDot \<Rightarrow> (Throw UnexpectedDot, s)
       | RClosingParenthesis \<Rightarrow> (Throw UnexpectedClosingParenthesis, s)
       | RXMLEndTag \<Rightarrow> (Throw UnexpectedXMLEndTag, s)
       | REOI \<Rightarrow> (Throw UnexpectedEndOfInput, s)
       | RObject object \<Rightarrow> (Return (object, tk), s))"

definition readAbbreviation :: "readObjectFun \<Rightarrow> evl \<Rightarrow> tokenizer \<Rightarrow> state \<Rightarrow> readResult reading" where
  "readAbbreviation ro variable tk s =
     thenDo (requireObject (ro tk s)) (\<lambda>(object, tk1) s1.
       (Return (RObject (EVLCons variable (EVLCons object EVLEmptyList)), tk1), s1))"

definition readFeatureExpression :: "readObjectFun \<Rightarrow> tokenizer \<Rightarrow> state \<Rightarrow> evl reading" where
  "readFeatureExpression ro tk s = requireObject (ro tk s)"

definition readConditionalizedObject :: "readObjectFun \<Rightarrow> tokenizer \<Rightarrow> state \<Rightarrow> evl reading" where
  "readConditionalizedObject ro tk s = requireObject (ro tk s)"

text \<open>\<open>readReadTimeConditional\<close> returns the object or \<open>null\<close>.\<close>

definition readReadTimeConditional ::
  "readObjectFun \<Rightarrow> bool \<Rightarrow> tokenizer \<Rightarrow> state \<Rightarrow> (evl option) reading" where
  "readReadTimeConditional ro polarity tk s =
     thenDo (readFeatureExpression ro tk s) (\<lambda>(featureExpression, tk1) s1.
       thenDo (readConditionalizedObject ro tk1 s1) (\<lambda>(conditionalizedObject, tk2) s2.
         case evaluateFeatureExpression s2 featureExpression of
           Inl e \<Rightarrow> (Throw e, s2)
         | Inr b \<Rightarrow>
             if b = polarity then (Return (Some conditionalizedObject, tk2), s2)
             else (Return (None, tk2), s2)))"

definition readDottedList ::
  "readObjectFun \<Rightarrow> evl list \<Rightarrow> tokenizer \<Rightarrow> state \<Rightarrow> readResult reading" where
  "readDottedList ro elements tk s =
     (if elements = [] then (Throw (ReaderError ''Malformed dotted list.''), s)
      else thenDo (ro tk s) (\<lambda>(r, tk1) s1.
        case r of
          RDot \<Rightarrow> (Throw (ReaderError ''Malformed dotted list.''), s1)
        | RClosingParenthesis \<Rightarrow> (Throw (ReaderError ''Malformed dotted list.''), s1)
        | RXMLEndTag \<Rightarrow> (Throw UnexpectedXMLEndTag, s1)
        | REOI \<Rightarrow> (Throw UnexpectedEndOfInput, s1)
        | RObject object \<Rightarrow>
            thenDo (ro tk1 s1) (\<lambda>(r2, tk2) s2.
              case r2 of
                RDot \<Rightarrow> (Throw (ReaderError ''Malformed dotted list.''), s2)
              | RClosingParenthesis \<Rightarrow> (Return (RObject (evlAppend elements object), tk2), s2)
              | RXMLEndTag \<Rightarrow> (Throw UnexpectedXMLEndTag, s2)
              | REOI \<Rightarrow> (Throw UnexpectedEndOfInput, s2)
              | RObject object2 \<Rightarrow> (Throw (ReaderError ''Malformed dotted list.''), s2))))"

text \<open>The loop of \<open>readList\<close>, on the elements read so far.\<close>

fun readList_loop ::
  "nat \<Rightarrow> readObjectFun \<Rightarrow> evl list \<Rightarrow> tokenizer \<Rightarrow> state \<Rightarrow> readResult reading" where
  "readList_loop 0 ro elements tk s = (Timeout, s)"
| "readList_loop (Suc n) ro elements tk s =
     thenDo (ro tk s) (\<lambda>(r, tk1) s1.
       case r of
         RDot \<Rightarrow> readDottedList ro elements tk1 s1
       | RClosingParenthesis \<Rightarrow> (Return (RObject (evlList elements), tk1), s1)
       | RXMLEndTag \<Rightarrow> (Throw UnexpectedXMLEndTag, s1)
       | REOI \<Rightarrow> (Throw UnexpectedEndOfInput, s1)
       | RObject object \<Rightarrow> readList_loop n ro (elements @ [object]) tk1 s1)"

definition readList :: "nat \<Rightarrow> readObjectFun \<Rightarrow> tokenizer \<Rightarrow> state \<Rightarrow> readResult reading" where
  "readList n ro tk s = readList_loop n ro [] tk s"

fun readVector_loop ::
  "nat \<Rightarrow> readObjectFun \<Rightarrow> evl list \<Rightarrow> tokenizer \<Rightarrow> state \<Rightarrow> readResult reading" where
  "readVector_loop 0 ro elements tk s = (Timeout, s)"
| "readVector_loop (Suc n) ro elements tk s =
     thenDo (ro tk s) (\<lambda>(r, tk1) s1.
       case r of
         RDot \<Rightarrow> (Throw UnexpectedDot, s1)
       | RClosingParenthesis \<Rightarrow> (Return (RObject (EVLVector (map Some elements)), tk1), s1)
       | RXMLEndTag \<Rightarrow> (Throw UnexpectedXMLEndTag, s1)
       | REOI \<Rightarrow> (Throw UnexpectedEndOfInput, s1)
       | RObject object \<Rightarrow> readVector_loop n ro (elements @ [object]) tk1 s1)"

definition readVector :: "nat \<Rightarrow> readObjectFun \<Rightarrow> tokenizer \<Rightarrow> state \<Rightarrow> readResult reading" where
  "readVector n ro tk s = readVector_loop n ro [] tk s"

text \<open>
  \<open>readXMLElement\<close>.  The callback, when the tokenizer has one, evaluates the object
  and stores the result; here it is a function on the state (the variable \<open>lastResult\<close>
  of the caller is part of what it changes, see the interface).
\<close>

type_synonym 's callbackFun = "evl \<Rightarrow> 's \<Rightarrow> unit outcome \<times> 's"

fun readXMLElement_loop ::
  "nat \<Rightarrow> readObjectFun \<Rightarrow> (evl \<Rightarrow> state \<Rightarrow> unit outcome \<times> state) option \<Rightarrow> jsstring \<Rightarrow>
   tokenizer \<Rightarrow> state \<Rightarrow> unit reading" where
  "readXMLElement_loop 0 ro callback xmlStartTagName tk s = (Timeout, s)"
| "readXMLElement_loop (Suc n) ro callback xmlStartTagName tk s =
     thenDo (ro tk s) (\<lambda>(r, tk1) s1.
       case r of
         RDot \<Rightarrow> (Throw UnexpectedDot, s1)
       | RClosingParenthesis \<Rightarrow> (Throw UnexpectedClosingParenthesis, s1)
       | RXMLEndTag \<Rightarrow>
           if NameValue xmlStartTagName = tokValue tk1 then (Return ((), tk1), s1)
           else (Throw (ReaderError ''Unmatched XML tags.''), s1)
       | REOI \<Rightarrow> (Throw UnexpectedEndOfInput, s1)
       | RObject object \<Rightarrow>
           (case callback of
              None \<Rightarrow> readXMLElement_loop n ro callback xmlStartTagName tk1 s1
            | Some cb \<Rightarrow>
                thenDo (cb object s1) (\<lambda>u s2.
                  readXMLElement_loop n ro callback xmlStartTagName tk1 s2)))"

definition readXMLElement ::
  "nat \<Rightarrow> readObjectFun \<Rightarrow> (evl \<Rightarrow> state \<Rightarrow> unit outcome \<times> state) option \<Rightarrow>
   tokenizer \<Rightarrow> state \<Rightarrow> unit reading" where
  "readXMLElement n ro callback tk s =
     (case tokValue tk of
        NameValue xmlStartTagName \<Rightarrow> readXMLElement_loop n ro callback xmlStartTagName tk s
      | _ \<Rightarrow> (Throw (CannotHappen ''readXMLElement''), s))"

text \<open>
  \<open>readObject\<close>.  \<open>tokenValueObject\<close> is \<open>tokenizer.value\<close> where it is an object
  (for the categories with an object value it always is).
\<close>

definition tokenValueObject :: "tokenizer \<Rightarrow> state \<Rightarrow> readResult reading" where
  "tokenValueObject tk s =
     (case tokValue tk of
        ObjectValue object \<Rightarrow> (Return (RObject object, tk), s)
      | _ \<Rightarrow> (Throw (CannotHappen ''readObject''), s))"

fun readObject ::
  "nat \<Rightarrow> (jsstring \<Rightarrow> 64 word) \<Rightarrow> (evl \<Rightarrow> state \<Rightarrow> unit outcome \<times> state) option \<Rightarrow>
   tokenizer \<Rightarrow> state \<Rightarrow> readResult reading" where
  "readObject 0 parseFloat callback tk s = (Timeout, s)"
| "readObject (Suc n) parseFloat callback tk s =
     (case nextToken parseFloat tk of
        Inl e \<Rightarrow> (Throw e, s)
      | Inr tk1 \<Rightarrow>
          (case category tk1 of
             Some VOID \<Rightarrow> tokenValueObject tk1 s
           | Some BOOLEAN \<Rightarrow> tokenValueObject tk1 s
           | Some NUMBER \<Rightarrow> tokenValueObject tk1 s
           | Some CHARACTER \<Rightarrow> tokenValueObject tk1 s
           | Some STRING \<Rightarrow> tokenValueObject tk1 s
           | Some KEYWORD \<Rightarrow> tokenValueObject tk1 s
           | Some VARIABLE \<Rightarrow> tokenValueObject tk1 s
           | Some QUOTE \<Rightarrow>
               readAbbreviation (readObject n parseFloat callback) quoteVariable tk1 s
           | Some QUASIQUOTE \<Rightarrow>
               readAbbreviation (readObject n parseFloat callback) quasiquoteVariable tk1 s
           | Some UNQUOTE \<Rightarrow>
               readAbbreviation (readObject n parseFloat callback) unquoteVariable tk1 s
           | Some UNQUOTE_SPLICING \<Rightarrow>
               readAbbreviation (readObject n parseFloat callback) unquoteSplicingVariable tk1 s
           | Some HASH_PLUS \<Rightarrow>
               thenDo (readReadTimeConditional (readObject n parseFloat callback) True tk1 s)
                 (\<lambda>(object, tk2) s2.
                    case object of
                      Some obj \<Rightarrow> (Return (RObject obj, tk2), s2)
                    | None \<Rightarrow> readObject n parseFloat callback tk2 s2)
           | Some HASH_MINUS \<Rightarrow>
               thenDo (readReadTimeConditional (readObject n parseFloat callback) False tk1 s)
                 (\<lambda>(object, tk2) s2.
                    case object of
                      Some obj \<Rightarrow> (Return (RObject obj, tk2), s2)
                    | None \<Rightarrow> readObject n parseFloat callback tk2 s2)
           | Some OPENING_PARENTHESIS \<Rightarrow> readList n (readObject n parseFloat callback) tk1 s
           | Some HASH_OPENING_PARENTHESIS \<Rightarrow> readVector n (readObject n parseFloat callback) tk1 s
           | Some DOT \<Rightarrow> (Return (RDot, tk1), s)
           | Some CLOSING_PARENTHESIS \<Rightarrow> (Return (RClosingParenthesis, tk1), s)
           | Some XML_START_TAG \<Rightarrow>
               thenDo (readXMLElement n (readObject n parseFloat callback) callback tk1 s)
                 (\<lambda>(u, tk2) s2. readObject n parseFloat callback tk2 s2)
           | Some XML_END_TAG \<Rightarrow> (Return (RXMLEndTag, tk1), s)
           | Some XML_EMPTY_ELEMENT_TAG \<Rightarrow> readObject n parseFloat callback tk1 s
           | Some XML_COMMENT \<Rightarrow> readObject n parseFloat callback tk1 s
           | Some EOI \<Rightarrow> (Return (REOI, tk1), s)
           | _ \<Rightarrow> (Throw (CannotHappen ''readObject''), s)))"

text \<open>\<open>read\<close> returns the object, or \<open>null\<close> at the end of the input.\<close>

definition read ::
  "nat \<Rightarrow> (jsstring \<Rightarrow> 64 word) \<Rightarrow> (evl \<Rightarrow> state \<Rightarrow> unit outcome \<times> state) option \<Rightarrow>
   tokenizer \<Rightarrow> state \<Rightarrow> (evl option) reading" where
  "read n parseFloat callback tk s =
     thenDo (readObject n parseFloat callback tk s) (\<lambda>(r, tk1) s1.
       case r of
         RDot \<Rightarrow> (Throw UnexpectedDot, s1)
       | RClosingParenthesis \<Rightarrow> (Throw UnexpectedClosingParenthesis, s1)
       | RXMLEndTag \<Rightarrow> (Throw UnexpectedXMLEndTag, s1)
       | REOI \<Rightarrow> (Return (None, tk1), s1)
       | RObject object \<Rightarrow> (Return (Some object, tk1), s1))"


section \<open>Primitive functions\<close>

text \<open>
  The JavaScript function of a primitive function object, found by the name under which
  it was registered.  The evaluators take these functions as a parameter: what a primitive
  function computes from its arguments and the state is left open.
\<close>

type_synonym jsFunctions = "jsstring \<Rightarrow> evl list \<Rightarrow> state \<Rightarrow> result outcome \<times> state"

section \<open>Form analyzer\<close>

definition formAnalyzerError :: "string \<Rightarrow> exn" where
  "formAnalyzerError formName = FormAnalyzerError (''Malformed '' @ formName @ '' form.'')"

definition checkVariable :: "evl \<Rightarrow> string \<Rightarrow> exn + symref" where
  "checkVariable object formName =
     (case object of EVLVariable v \<Rightarrow> Inr v | _ \<Rightarrow> Inl (formAnalyzerError formName))"

definition checkEmptyList :: "evl \<Rightarrow> string \<Rightarrow> exn + evl" where
  "checkEmptyList object formName =
     (case object of EVLEmptyList \<Rightarrow> Inr object | _ \<Rightarrow> Inl (formAnalyzerError formName))"

definition checkCons :: "evl \<Rightarrow> string \<Rightarrow> exn + evl" where
  "checkCons object formName =
     (case object of EVLCons a d \<Rightarrow> Inr object | _ \<Rightarrow> Inl (formAnalyzerError formName))"

text \<open>The loop of \<open>checkProperList\<close> is \<open>isProperList\<close>.\<close>

definition checkProperList :: "evl \<Rightarrow> string \<Rightarrow> exn + evl" where
  "checkProperList object formName =
     (if isProperList object then Inr object else Inl (formAnalyzerError formName))"

text \<open>
  The loop of \<open>checkParameterList\<close>, with the parameters pushed so far; it returns the
  parameters and \<open>rest\<close>.
\<close>

fun checkParameterList_loop :: "evl \<Rightarrow> symref list \<Rightarrow> string \<Rightarrow> exn + (symref list \<times> bool)" where
  "checkParameterList_loop EVLEmptyList parameters formName = Inr (parameters, False)"
| "checkParameterList_loop (EVLCons a d) parameters formName =
     (case a of
        EVLVariable v \<Rightarrow>
          (case d of
             EVLVariable r \<Rightarrow> Inr (parameters @ [v, r], True)
           | _ \<Rightarrow> checkParameterList_loop d (parameters @ [v]) formName)
      | _ \<Rightarrow> Inl (formAnalyzerError formName))"
| "checkParameterList_loop x parameters formName = Inl (formAnalyzerError formName)"

definition checkParameterList :: "evl \<Rightarrow> string \<Rightarrow> exn + (symref list \<times> bool)" where
  "checkParameterList object formName =
     (case object of
        EVLVariable v \<Rightarrow> Inr ([v], True)
      | _ \<Rightarrow>
          (case checkParameterList_loop object [] formName of
             Inl e \<Rightarrow> Inl e
           | Inr (parameters, rest) \<Rightarrow>
               if length (remdups parameters) \<noteq> length parameters then Inl (formAnalyzerError formName)
               else Inr (parameters, rest)))"

text \<open>The analyzers are applied to a form that is a cons.\<close>

definition analyzeQuote :: "evl \<Rightarrow> exn + evl" where
  "analyzeQuote form =
     (case checkCons (cdr form) ''quote'' of
        Inl e \<Rightarrow> Inl e
      | Inr cons \<Rightarrow>
          (case checkEmptyList (cdr cons) ''quote'' of
             Inl e \<Rightarrow> Inl e
           | Inr u \<Rightarrow> Inr (car cons)))"

definition analyzeProgn :: "evl \<Rightarrow> exn + evl" where
  "analyzeProgn form = checkProperList (cdr form) ''progn''"

definition analyzeIf :: "evl \<Rightarrow> exn + (evl \<times> evl \<times> evl)" where
  "analyzeIf form =
     (case checkCons (cdr form) ''if'' of
        Inl e \<Rightarrow> Inl e
      | Inr cons1 \<Rightarrow>
          (case checkCons (cdr cons1) ''if'' of
             Inl e \<Rightarrow> Inl e
           | Inr cons2 \<Rightarrow>
               (case checkCons (cdr cons2) ''if'' of
                  Inl e \<Rightarrow> Inl e
                | Inr cons3 \<Rightarrow>
                    (case checkEmptyList (cdr cons3) ''if'' of
                       Inl e \<Rightarrow> Inl e
                     | Inr u \<Rightarrow> Inr (car cons1, car cons2, car cons3)))))"

definition analyzeLambda :: "evl \<Rightarrow> exn + (symref list \<times> bool \<times> evl)" where
  "analyzeLambda form =
     (case checkCons (cdr form) ''_lambda'' of
        Inl e \<Rightarrow> Inl e
      | Inr cons \<Rightarrow>
          (case checkParameterList (car cons) ''_lambda'' of
             Inl e \<Rightarrow> Inl e
           | Inr (parameters, rest) \<Rightarrow>
               (case checkProperList (cdr cons) ''_lambda'' of
                  Inl e \<Rightarrow> Inl e
                | Inr forms \<Rightarrow> Inr (parameters, rest, forms))))"

definition analyzeRef :: "evl \<Rightarrow> exn + symref" where
  "analyzeRef form =
     (case checkCons (cdr form) ''ref'' of
        Inl e \<Rightarrow> Inl e
      | Inr cons \<Rightarrow>
          (case checkVariable (car cons) ''ref'' of
             Inl e \<Rightarrow> Inl e
           | Inr variable \<Rightarrow>
               (case checkEmptyList (cdr cons) ''ref'' of
                  Inl e \<Rightarrow> Inl e
                | Inr u \<Rightarrow> Inr variable)))"

definition analyzeSet :: "evl \<Rightarrow> exn + (symref \<times> evl)" where
  "analyzeSet form =
     (case checkCons (cdr form) ''set'' of
        Inl e \<Rightarrow> Inl e
      | Inr cons1 \<Rightarrow>
          (case checkVariable (car cons1) ''set'' of
             Inl e \<Rightarrow> Inl e
           | Inr variable \<Rightarrow>
               (case checkCons (cdr cons1) ''set'' of
                  Inl e \<Rightarrow> Inl e
                | Inr cons2 \<Rightarrow>
                    (case checkEmptyList (cdr cons2) ''set'' of
                       Inl e \<Rightarrow> Inl e
                     | Inr u \<Rightarrow> Inr (variable, car cons2)))))"

definition analyzeForEach :: "evl \<Rightarrow> exn + (evl \<times> evl)" where
  "analyzeForEach form =
     (case checkCons (cdr form) ''_for-each'' of
        Inl e \<Rightarrow> Inl e
      | Inr cons1 \<Rightarrow>
          (case checkCons (cdr cons1) ''_for-each'' of
             Inl e \<Rightarrow> Inl e
           | Inr cons2 \<Rightarrow>
               (case checkEmptyList (cdr cons2) ''_for-each'' of
                  Inl e \<Rightarrow> Inl e
                | Inr u \<Rightarrow> Inr (car cons1, car cons2))))"

definition analyzeCatchErrors :: "evl \<Rightarrow> exn + evl" where
  "analyzeCatchErrors form =
     (case checkCons (cdr form) ''_catch-errors'' of
        Inl e \<Rightarrow> Inl e
      | Inr cons \<Rightarrow>
          (case checkEmptyList (cdr cons) ''_catch-errors'' of
             Inl e \<Rightarrow> Inl e
           | Inr u \<Rightarrow> Inr (car cons)))"

definition analyzeCall :: "bool \<Rightarrow> bool \<Rightarrow> evl \<Rightarrow> exn + (evl \<times> evl)" where
  "analyzeCall mv apply form =
     (case (if mv \<or> apply then checkCons (cdr form) ''call'' else Inr form) of
        Inl e \<Rightarrow> Inl e
      | Inr cons \<Rightarrow>
          (case checkProperList (cdr cons) ''call'' of
             Inl e \<Rightarrow> Inl e
           | Inr operands \<Rightarrow> Inr (car cons, operands)))"

section \<open>Lexical and dynamic environments\<close>

text \<open>The index of the first variable of a frame that is the given variable.\<close>

fun variableIndex :: "symref list \<Rightarrow> symref \<Rightarrow> nat option" where
  "variableIndex [] variable = None"
| "variableIndex (v # vs) variable =
     (if v = variable then Some 0 else map_option Suc (variableIndex vs variable))"

text \<open>
  \<open>new Frame(namespace, variables, values, next)\<close>, and the slot \<open>values[j]\<close> of the
  frame allocated as number \<open>i\<close> (\<open>None\<close> also where JavaScript gives \<open>undefined\<close>).
\<close>

definition newFrame :: "namespace \<Rightarrow> symref list \<Rightarrow> evl option list \<Rightarrow> env \<Rightarrow> state \<Rightarrow> env \<times> state" where
  "newFrame ns variables vals next s =
     (Frame ns variables (length (frameValues s)) next,
      s\<lparr>frameValues := frameValues s @ [vals]\<rparr>)"

definition frameSlot :: "state \<Rightarrow> nat \<Rightarrow> nat \<Rightarrow> evl option" where
  "frameSlot s i j =
     (if i < length (frameValues s) \<and> j < length (frameValues s ! i)
      then frameValues s ! i ! j else None)"

definition setFrameSlot :: "state \<Rightarrow> nat \<Rightarrow> nat \<Rightarrow> evl \<Rightarrow> state" where
  "setFrameSlot s i j v =
     s\<lparr>frameValues := (frameValues s)[i := (frameValues s ! i)[j := Some v]]\<rparr>"

text \<open>
  The methods \<open>ref\<close> and \<open>set\<close> of the null environment and of the frames.  They return
  an object, or no object: \<open>undefined\<close> at the end of a chain of frames that does not end
  with the null environment, \<open>null\<close> from a slot that holds it.
\<close>

fun DefiniteEnv_ref :: "state \<Rightarrow> env \<Rightarrow> namespace \<Rightarrow> symref \<Rightarrow> exn + evl option" where
  "DefiniteEnv_ref s NullDefiniteEnv ns variable =
     (case GlobalEnv_ref s ns variable of Inl e \<Rightarrow> Inl e | Inr v \<Rightarrow> Inr (Some v))"
| "DefiniteEnv_ref s (Frame fns variables i next) ns variable =
     (case (if fns = ns then variableIndex variables variable else None) of
        Some j \<Rightarrow> Inr (frameSlot s i j)
      | None \<Rightarrow> DefiniteEnv_ref s next ns variable)"
| "DefiniteEnv_ref s UndefinedEnv ns variable = Inr None"

fun DefiniteEnv_set :: "state \<Rightarrow> env \<Rightarrow> namespace \<Rightarrow> symref \<Rightarrow> evl \<Rightarrow> evl option \<times> state" where
  "DefiniteEnv_set s NullDefiniteEnv ns variable v = (Some v, GlobalEnv_set s ns variable v)"
| "DefiniteEnv_set s (Frame fns variables i next) ns variable v =
     (case (if fns = ns then variableIndex variables variable else None) of
        Some j \<Rightarrow> (Some v, setFrameSlot s i j v)
      | None \<Rightarrow> DefiniteEnv_set s next ns variable v)"
| "DefiniteEnv_set s UndefinedEnv ns variable v = (None, s)"

text \<open>
  The variant of \<open>ref\<close> that the preprocessor uses returns \<open>[i, j, value]\<close>: the
  position of the variable (\<open>null\<close>, \<open>null\<close> for a global variable) and the content of
  its slot or cell.
\<close>

definition GlobalEnv_preprocessorRef :: "state \<Rightarrow> namespace \<Rightarrow> symref \<Rightarrow> (nat \<times> nat) option \<times> evl option" where
  "GlobalEnv_preprocessorRef s ns variable =
     (case ns of
        VAL_NS \<Rightarrow> (None, valueCell s variable)
      | FUN_NS \<Rightarrow> (None, functionCell s variable))"

fun DefiniteEnv_preprocessorRef ::
  "state \<Rightarrow> env \<Rightarrow> namespace \<Rightarrow> symref \<Rightarrow> nat \<Rightarrow> exn + ((nat \<times> nat) option \<times> evl option)" where
  "DefiniteEnv_preprocessorRef s NullDefiniteEnv ns variable i =
     Inr (GlobalEnv_preprocessorRef s ns variable)"
| "DefiniteEnv_preprocessorRef s (Frame fns variables a next) ns variable i =
     (case (if fns = ns then variableIndex variables variable else None) of
        Some j \<Rightarrow> Inr (Some (i, j), frameSlot s a j)
      | None \<Rightarrow> DefiniteEnv_preprocessorRef s next ns variable (i + 1))"
| "DefiniteEnv_preprocessorRef s UndefinedEnv ns variable i =
     Inl (JSTypeError ''Cannot read properties of undefined'')"

text \<open>
  A result of \<open>ref\<close> or \<open>set\<close> used as the result of an evaluation.  Where the program
  would go on with \<open>null\<close> or \<open>undefined\<close> in the place of a result, the model throws
  the \<open>TypeError\<close> that the first use of it as an object throws; no environment that the
  evaluators build for the forms they evaluate leads there.
\<close>

definition objectResult :: "exn + evl option \<Rightarrow> 's \<Rightarrow> result outcome \<times> 's" where
  "objectResult r s =
     (case r of
        Inl e \<Rightarrow> (Throw e, s)
      | Inr (Some object) \<Rightarrow> (Return (EVLObject object), s)
      | Inr None \<Rightarrow> (Throw (JSTypeError ''not an object''), s))"

definition setResult :: "evl option \<times> state \<Rightarrow> result outcome \<times> state" where
  "setResult r = objectResult (Inr (fst r)) (snd r)"

section \<open>Generic evaluator: the special operators and the errors\<close>

text \<open>
  The variables whose names begin with an underscore (\<open>_vlambdaVariable\<close>, ...) have
  the prefix \<open>u\<close> here.
\<close>

definition prognVariable :: evl where "prognVariable = EVLVariable (internVariable (js ''progn''))"
definition ifVariable :: evl where "ifVariable = EVLVariable (internVariable (js ''if''))"
definition u_vlambdaVariable :: evl where
  "u_vlambdaVariable = EVLVariable (internVariable (js ''_vlambda''))"
definition u_mlambdaVariable :: evl where
  "u_mlambdaVariable = EVLVariable (internVariable (js ''_mlambda''))"
definition mlambdaVariable :: evl where
  "mlambdaVariable = EVLVariable (internVariable (js ''mlambda''))"
definition u_flambdaVariable :: evl where
  "u_flambdaVariable = EVLVariable (internVariable (js ''_flambda''))"
definition u_dlambdaVariable :: evl where
  "u_dlambdaVariable = EVLVariable (internVariable (js ''_dlambda''))"
definition vrefVariable :: evl where "vrefVariable = EVLVariable (internVariable (js ''vref''))"
definition vsetVariable :: evl where "vsetVariable = EVLVariable (internVariable (js ''vset!''))"
definition frefVariable :: evl where "frefVariable = EVLVariable (internVariable (js ''fref''))"
definition fsetVariable :: evl where "fsetVariable = EVLVariable (internVariable (js ''fset!''))"
definition drefVariable :: evl where "drefVariable = EVLVariable (internVariable (js ''dref''))"
definition dsetVariable :: evl where "dsetVariable = EVLVariable (internVariable (js ''dset!''))"
definition u_forEachVariable :: evl where
  "u_forEachVariable = EVLVariable (internVariable (js ''_for-each''))"
definition u_catchErrorsVariable :: evl where
  "u_catchErrorsVariable = EVLVariable (internVariable (js ''_catch-errors''))"
definition applyVariable :: evl where "applyVariable = EVLVariable (internVariable (js ''apply''))"
definition multipleValueCallVariable :: evl where
  "multipleValueCallVariable = EVLVariable (internVariable (js ''multiple-value-call''))"
definition multipleValueApplyVariable :: evl where
  "multipleValueApplyVariable = EVLVariable (internVariable (js ''multiple-value-apply''))"

definition emptyListError :: exn where
  "emptyListError = EvaluatorError ''The empty list does not evaluate.''"
definition ifTestFormError :: exn where
  "ifTestFormError = EvaluatorError ''The test-form does not evaluate to a boolean.''"
definition forEachNotImplemented :: exn where
  "forEachNotImplemented = EvaluatorError ''The _for-each-form is not implemented.''"
definition forEachFunctionFormError :: exn where
  "forEachFunctionFormError = EvaluatorError ''The function-form does not evaluate to a function.''"
definition forEachListFormError :: exn where
  "forEachListFormError = EvaluatorError ''The list-form does not evaluate to a proper list.''"
definition callOperatorFormError :: exn where
  "callOperatorFormError = EvaluatorError ''The operator-form does not evaluate to a function.''"

text \<open>
  The test \<open>operator instanceof EVLVariable && fn instanceof EVLClosure && fn.macro\<close> of
  the evaluators of calls.
\<close>

definition isMacroCall :: "evl \<Rightarrow> evl \<Rightarrow> bool" where
  "isMacroCall operator fn =
     (isEVLVariable operator \<and>
      (case fn of EVLClosure sc ns macro ps rest forms lenv \<Rightarrow> macro | _ \<Rightarrow> False))"

text \<open>
  The forms of a closure that one of the five evaluators of forms invokes are a list of
  forms; those of a closure that the trampoline++ evaluator invokes are preprocessed.  An
  evaluator invokes the closures that it has made itself: \<open>selectedEvaluator\<close> is
  assigned by \<open>initialize\<close> only.
\<close>

definition closureEVLForms :: "closureForms \<Rightarrow> exn + evl" where
  "closureEVLForms forms =
     (case forms of
        Forms fs \<Rightarrow> Inr fs
      | PreprocessedForms fs \<Rightarrow> Inl (JSTypeError ''preprocessed forms''))"

definition closurePreprocessedForms :: "closureForms \<Rightarrow> exn + ppform list" where
  "closurePreprocessedForms forms =
     (case forms of
        Forms fs \<Rightarrow> Inl (JSTypeError ''forms that are not preprocessed'')
      | PreprocessedForms fs \<Rightarrow> Inr fs)"

section \<open>Plain recursive evaluator\<close>

text \<open>
  The functions that \<open>plainrecEvalForm\<close> calls take the \<open>plainrecEvalForm\<close> that they
  call back as the argument \<open>ev\<close>; the fuel bounds the depth of the calls of
  \<open>plainrecEvalForm\<close>.
\<close>

type_synonym plainrecEvalFormFun = "evl \<Rightarrow> env \<Rightarrow> env \<Rightarrow> state \<Rightarrow> result outcome \<times> state"

definition plainrecEvalQuote :: "evl \<Rightarrow> env \<Rightarrow> env \<Rightarrow> state \<Rightarrow> result outcome \<times> state" where
  "plainrecEvalQuote form lenv denv s =
     thenDo (lift (analyzeQuote form) s) (\<lambda>literal s. (Return (EVLObject literal), s))"

fun plainrecEvalForms :: "plainrecEvalFormFun \<Rightarrow> evl \<Rightarrow> env \<Rightarrow> env \<Rightarrow> state \<Rightarrow> result outcome \<times> state" where
  "plainrecEvalForms ev EVLEmptyList lenv denv s = (Return (EVLObject EVLVoid), s)"
| "plainrecEvalForms ev (EVLCons a d) lenv denv s =
     (if d = EVLEmptyList then ev a lenv denv s
      else thenDo (ev a lenv denv s) (\<lambda>r s1. plainrecEvalForms ev d lenv denv s1))"
| "plainrecEvalForms ev x lenv denv s = (Throw (JSTypeError ''forms''), s)"

definition plainrecEvalProgn :: "plainrecEvalFormFun \<Rightarrow> evl \<Rightarrow> env \<Rightarrow> env \<Rightarrow> state \<Rightarrow> result outcome \<times> state" where
  "plainrecEvalProgn ev form lenv denv s =
     thenDo (lift (analyzeProgn form) s) (\<lambda>forms s. plainrecEvalForms ev forms lenv denv s)"

definition plainrecEvalIf :: "plainrecEvalFormFun \<Rightarrow> evl \<Rightarrow> env \<Rightarrow> env \<Rightarrow> state \<Rightarrow> result outcome \<times> state" where
  "plainrecEvalIf ev form lenv denv s =
     thenDo (lift (analyzeIf form) s) (\<lambda>(testForm, thenForm, elseForm) s.
       thenDo (ev testForm lenv denv s) (\<lambda>r s.
         let test = primaryValue r in
         if test = EVLBoolean True then ev thenForm lenv denv s
         else if test = EVLBoolean False then ev elseForm lenv denv s
         else (Throw ifTestFormError, s)))"

definition plainrecEvalLambda ::
  "scope \<Rightarrow> namespace \<Rightarrow> bool \<Rightarrow> evl \<Rightarrow> env \<Rightarrow> env \<Rightarrow> state \<Rightarrow> result outcome \<times> state" where
  "plainrecEvalLambda scope ns macro form lenv denv s =
     thenDo (lift (analyzeLambda form) s) (\<lambda>(parameters, rest, forms) s.
       (Return (EVLObject (EVLClosure scope ns macro parameters rest (Forms forms) lenv)), s))"

definition plainrecEvalRef ::
  "scope \<Rightarrow> namespace \<Rightarrow> evl \<Rightarrow> env \<Rightarrow> env \<Rightarrow> state \<Rightarrow> result outcome \<times> state" where
  "plainrecEvalRef scope ns form lenv denv s =
     thenDo (lift (analyzeRef form) s) (\<lambda>variable s.
       case scope of
         LEX_SCOPE \<Rightarrow> objectResult (DefiniteEnv_ref s lenv ns variable) s
       | DYN_SCOPE \<Rightarrow> objectResult (DefiniteEnv_ref s denv ns variable) s)"

definition plainrecEvalSet ::
  "plainrecEvalFormFun \<Rightarrow> scope \<Rightarrow> namespace \<Rightarrow> evl \<Rightarrow> env \<Rightarrow> env \<Rightarrow> state \<Rightarrow> result outcome \<times> state" where
  "plainrecEvalSet ev scope ns form lenv denv s =
     thenDo (lift (analyzeSet form) s) (\<lambda>(variable, valueForm) s.
       thenDo (ev valueForm lenv denv s) (\<lambda>r s.
         let v = primaryValue r in
         case scope of
           LEX_SCOPE \<Rightarrow> setResult (DefiniteEnv_set s lenv ns variable v)
         | DYN_SCOPE \<Rightarrow> setResult (DefiniteEnv_set s denv ns variable v)))"

text \<open>
  The \<open>catch\<close> clause catches whatever the evaluation of the try-form throws.  Running
  out of fuel is not an exception of the program and is passed on.
\<close>

definition plainrecEvalCatchErrors ::
  "plainrecEvalFormFun \<Rightarrow> evl \<Rightarrow> env \<Rightarrow> env \<Rightarrow> state \<Rightarrow> result outcome \<times> state" where
  "plainrecEvalCatchErrors ev form lenv denv s =
     thenDo (lift (analyzeCatchErrors form) s) (\<lambda>tryForm s.
       case ev tryForm lenv denv s of
         (Return r, s1) \<Rightarrow> (Return (EVLObject EVLVoid), s1)
       | (Throw exception, s1) \<Rightarrow> (Return (EVLObject (EVLString (js (exnName exception)))), s1)
       | (Timeout, s1) \<Rightarrow> (Timeout, s1))"

definition plainrecEvalOperator ::
  "plainrecEvalFormFun \<Rightarrow> evl \<Rightarrow> env \<Rightarrow> env \<Rightarrow> state \<Rightarrow> result outcome \<times> state" where
  "plainrecEvalOperator ev operator lenv denv s =
     (case operator of
        EVLVariable v \<Rightarrow> objectResult (DefiniteEnv_ref s lenv FUN_NS v) s
      | _ \<Rightarrow> ev operator lenv denv s)"

fun plainrecEvalOperands ::
  "plainrecEvalFormFun \<Rightarrow> bool \<Rightarrow> bool \<Rightarrow> evl \<Rightarrow> evl list \<Rightarrow> env \<Rightarrow> env \<Rightarrow> state \<Rightarrow>
   evl list outcome \<times> state" where
  "plainrecEvalOperands ev mv macro EVLEmptyList args lenv denv s = (Return args, s)"
| "plainrecEvalOperands ev mv macro (EVLCons a d) args lenv denv s =
     (if macro then plainrecEvalOperands ev mv macro d (args @ [a]) lenv denv s
      else thenDo (ev a lenv denv s) (\<lambda>r s1.
             plainrecEvalOperands ev mv macro d
               (if mv then args @ allValues r else args @ [primaryValue r]) lenv denv s1))"
| "plainrecEvalOperands ev mv macro x args lenv denv s = (Throw (JSTypeError ''operands''), s)"

definition plainrecInvokeFun ::
  "jsFunctions \<Rightarrow> plainrecEvalFormFun \<Rightarrow> bool \<Rightarrow> bool \<Rightarrow> evl \<Rightarrow> evl list \<Rightarrow> env \<Rightarrow> env \<Rightarrow> state \<Rightarrow>
   result outcome \<times> state" where
  "plainrecInvokeFun jsFunction ev apply macro fn args lenv denv s =
     (case fn of
        EVLPrimitiveFunction arityMin arityMax name \<Rightarrow>
          thenDo (lift (pairPrimFunParameters apply args arityMin arityMax) s) (\<lambda>vals s.
            jsFunction name vals s)
      | EVLClosure scope ns m parameters rest forms flenv \<Rightarrow>
          thenDo (lift (pairClosureParameters apply args parameters rest) s) (\<lambda>vals s.
            thenDo (lift (closureEVLForms forms) s) (\<lambda>forms s.
              case scope of
                LEX_SCOPE \<Rightarrow>
                  (case newFrame ns parameters (map Some vals) flenv s of
                     (elenv, s) \<Rightarrow>
                       if macro then
                         thenDo (plainrecEvalForms ev forms elenv denv s) (\<lambda>r s.
                           ev (primaryValue r) lenv denv s)
                       else plainrecEvalForms ev forms elenv denv s)
              | DYN_SCOPE \<Rightarrow>
                  (case newFrame ns parameters (map Some vals) denv s of
                     (edenv, s) \<Rightarrow> plainrecEvalForms ev forms flenv edenv s)))
      | _ \<Rightarrow> (Throw callOperatorFormError, s))"

definition plainrecEvalCall ::
  "jsFunctions \<Rightarrow> plainrecEvalFormFun \<Rightarrow> bool \<Rightarrow> bool \<Rightarrow> evl \<Rightarrow> env \<Rightarrow> env \<Rightarrow> state \<Rightarrow>
   result outcome \<times> state" where
  "plainrecEvalCall jsFunction ev mv apply form lenv denv s =
     thenDo (lift (analyzeCall mv apply form) s) (\<lambda>(operator, operands) s.
       thenDo (plainrecEvalOperator ev operator lenv denv s) (\<lambda>r s.
         let fn = primaryValue r; macro = isMacroCall operator fn in
         thenDo (plainrecEvalOperands ev mv macro operands [] lenv denv s) (\<lambda>args s.
           plainrecInvokeFun jsFunction ev apply macro fn args lenv denv s)))"

fun plainrecEvalForm ::
  "jsFunctions \<Rightarrow> nat \<Rightarrow> evl \<Rightarrow> env \<Rightarrow> env \<Rightarrow> state \<Rightarrow> result outcome \<times> state" where
  "plainrecEvalForm jsFunction 0 form lenv denv s = (Timeout, s)"
| "plainrecEvalForm jsFunction (Suc n) form lenv denv s =
     (case form of
        EVLEmptyList \<Rightarrow> (Throw emptyListError, s)
      | EVLCons a d \<Rightarrow>
          if a = quoteVariable then plainrecEvalQuote form lenv denv s
          else if a = prognVariable then
            plainrecEvalProgn (plainrecEvalForm jsFunction n) form lenv denv s
          else if a = ifVariable then
            plainrecEvalIf (plainrecEvalForm jsFunction n) form lenv denv s
          else if a = u_vlambdaVariable then
            plainrecEvalLambda LEX_SCOPE VAL_NS False form lenv denv s
          else if a = u_mlambdaVariable then
            plainrecEvalLambda LEX_SCOPE VAL_NS True form lenv denv s
          else if a = u_flambdaVariable then
            plainrecEvalLambda LEX_SCOPE FUN_NS False form lenv denv s
          else if a = u_dlambdaVariable then
            plainrecEvalLambda DYN_SCOPE VAL_NS False form lenv denv s
          else if a = vrefVariable then plainrecEvalRef LEX_SCOPE VAL_NS form lenv denv s
          else if a = vsetVariable then
            plainrecEvalSet (plainrecEvalForm jsFunction n) LEX_SCOPE VAL_NS form lenv denv s
          else if a = frefVariable then plainrecEvalRef LEX_SCOPE FUN_NS form lenv denv s
          else if a = fsetVariable then
            plainrecEvalSet (plainrecEvalForm jsFunction n) LEX_SCOPE FUN_NS form lenv denv s
          else if a = drefVariable then plainrecEvalRef DYN_SCOPE VAL_NS form lenv denv s
          else if a = dsetVariable then
            plainrecEvalSet (plainrecEvalForm jsFunction n) DYN_SCOPE VAL_NS form lenv denv s
          else if a = u_forEachVariable then (Throw forEachNotImplemented, s)
          else if a = u_catchErrorsVariable then
            plainrecEvalCatchErrors (plainrecEvalForm jsFunction n) form lenv denv s
          else if a = applyVariable then
            plainrecEvalCall jsFunction (plainrecEvalForm jsFunction n) False True form lenv denv s
          else if a = multipleValueCallVariable then
            plainrecEvalCall jsFunction (plainrecEvalForm jsFunction n) True False form lenv denv s
          else if a = multipleValueApplyVariable then
            plainrecEvalCall jsFunction (plainrecEvalForm jsFunction n) True True form lenv denv s
          else
            plainrecEvalCall jsFunction (plainrecEvalForm jsFunction n) False False form lenv denv s
      | EVLVariable v \<Rightarrow> objectResult (DefiniteEnv_ref s lenv VAL_NS v) s
      | _ \<Rightarrow> (Return (EVLObject form), s))"

definition plainrecEval :: "jsFunctions \<Rightarrow> nat \<Rightarrow> evl \<Rightarrow> state \<Rightarrow> result outcome \<times> state" where
  "plainrecEval jsFunction n form s =
     plainrecEvalForm jsFunction n form NullDefiniteEnv NullDefiniteEnv s"

section \<open>Continuation passing style evaluator\<close>

text \<open>
  A continuation is a function from the result (from the arguments, after the operands)
  and the state.  As in the plain recursive evaluator, \<open>ev\<close> is \<open>cpsEvalForm\<close>.
\<close>

type_synonym cpsCont = "result \<Rightarrow> state \<Rightarrow> result outcome \<times> state"

type_synonym cpsEvalFormFun = "evl \<Rightarrow> env \<Rightarrow> env \<Rightarrow> cpsCont \<Rightarrow> state \<Rightarrow> result outcome \<times> state"

definition cpsEndCont :: cpsCont where
  "cpsEndCont r s = (Return r, s)"

definition cpsEvalQuote :: "evl \<Rightarrow> env \<Rightarrow> env \<Rightarrow> cpsCont \<Rightarrow> state \<Rightarrow> result outcome \<times> state" where
  "cpsEvalQuote form lenv denv k s =
     thenDo (lift (analyzeQuote form) s) (\<lambda>literal s. k (EVLObject literal) s)"

fun cpsEvalForms :: "cpsEvalFormFun \<Rightarrow> evl \<Rightarrow> env \<Rightarrow> env \<Rightarrow> cpsCont \<Rightarrow> state \<Rightarrow> result outcome \<times> state" where
  "cpsEvalForms ev EVLEmptyList lenv denv k s = k (EVLObject EVLVoid) s"
| "cpsEvalForms ev (EVLCons a d) lenv denv k s =
     (if d = EVLEmptyList then ev a lenv denv k s
      else ev a lenv denv (\<lambda>r s1. cpsEvalForms ev d lenv denv k s1) s)"
| "cpsEvalForms ev x lenv denv k s = (Throw (JSTypeError ''forms''), s)"

definition cpsEvalProgn :: "cpsEvalFormFun \<Rightarrow> evl \<Rightarrow> env \<Rightarrow> env \<Rightarrow> cpsCont \<Rightarrow> state \<Rightarrow> result outcome \<times> state" where
  "cpsEvalProgn ev form lenv denv k s =
     thenDo (lift (analyzeProgn form) s) (\<lambda>forms s. cpsEvalForms ev forms lenv denv k s)"

definition cpsEvalIf :: "cpsEvalFormFun \<Rightarrow> evl \<Rightarrow> env \<Rightarrow> env \<Rightarrow> cpsCont \<Rightarrow> state \<Rightarrow> result outcome \<times> state" where
  "cpsEvalIf ev form lenv denv k s =
     thenDo (lift (analyzeIf form) s) (\<lambda>(testForm, thenForm, elseForm) s.
       ev testForm lenv denv (\<lambda>r s.
         let test = primaryValue r in
         if test = EVLBoolean True then ev thenForm lenv denv k s
         else if test = EVLBoolean False then ev elseForm lenv denv k s
         else (Throw ifTestFormError, s)) s)"

definition cpsEvalLambda ::
  "scope \<Rightarrow> namespace \<Rightarrow> bool \<Rightarrow> evl \<Rightarrow> env \<Rightarrow> env \<Rightarrow> cpsCont \<Rightarrow> state \<Rightarrow> result outcome \<times> state" where
  "cpsEvalLambda scope ns macro form lenv denv k s =
     thenDo (lift (analyzeLambda form) s) (\<lambda>(parameters, rest, forms) s.
       k (EVLObject (EVLClosure scope ns macro parameters rest (Forms forms) lenv)) s)"

definition cpsEvalRef ::
  "scope \<Rightarrow> namespace \<Rightarrow> evl \<Rightarrow> env \<Rightarrow> env \<Rightarrow> cpsCont \<Rightarrow> state \<Rightarrow> result outcome \<times> state" where
  "cpsEvalRef scope ns form lenv denv k s =
     thenDo (lift (analyzeRef form) s) (\<lambda>variable s.
       case scope of
         LEX_SCOPE \<Rightarrow> thenDo (objectResult (DefiniteEnv_ref s lenv ns variable) s) k
       | DYN_SCOPE \<Rightarrow> thenDo (objectResult (DefiniteEnv_ref s denv ns variable) s) k)"

definition cpsEvalSet ::
  "cpsEvalFormFun \<Rightarrow> scope \<Rightarrow> namespace \<Rightarrow> evl \<Rightarrow> env \<Rightarrow> env \<Rightarrow> cpsCont \<Rightarrow> state \<Rightarrow> result outcome \<times> state" where
  "cpsEvalSet ev scope ns form lenv denv k s =
     thenDo (lift (analyzeSet form) s) (\<lambda>(variable, valueForm) s.
       ev valueForm lenv denv (\<lambda>r s.
         let v = primaryValue r in
         case scope of
           LEX_SCOPE \<Rightarrow> thenDo (setResult (DefiniteEnv_set s lenv ns variable v)) k
         | DYN_SCOPE \<Rightarrow> thenDo (setResult (DefiniteEnv_set s denv ns variable v)) k) s)"

text \<open>
  The loop of the continuation of the list-form of a \<open>_for-each\<close> form; \<open>invoke\<close> is
  \<open>cpsInvokeFun(false, false, fn, [list.car], lenv, denv, cpsEndCont)\<close>.
\<close>

fun cpsForEach_loop :: "(evl \<Rightarrow> state \<Rightarrow> result outcome \<times> state) \<Rightarrow> evl \<Rightarrow> state \<Rightarrow> unit outcome \<times> state" where
  "cpsForEach_loop invoke EVLEmptyList s = (Return (), s)"
| "cpsForEach_loop invoke (EVLCons a d) s =
     thenDo (invoke a s) (\<lambda>r s1. cpsForEach_loop invoke d s1)"
| "cpsForEach_loop invoke x s = (Throw forEachListFormError, s)"

definition cpsEvalCatchErrors ::
  "cpsEvalFormFun \<Rightarrow> evl \<Rightarrow> env \<Rightarrow> env \<Rightarrow> cpsCont \<Rightarrow> state \<Rightarrow> result outcome \<times> state" where
  "cpsEvalCatchErrors ev form lenv denv k s =
     thenDo (lift (analyzeCatchErrors form) s) (\<lambda>tryForm s.
       case ev tryForm lenv denv cpsEndCont s of
         (Return r, s1) \<Rightarrow> k (EVLObject EVLVoid) s1
       | (Throw exception, s1) \<Rightarrow> k (EVLObject (EVLString (js (exnName exception)))) s1
       | (Timeout, s1) \<Rightarrow> (Timeout, s1))"

definition cpsEvalOperator ::
  "cpsEvalFormFun \<Rightarrow> evl \<Rightarrow> env \<Rightarrow> env \<Rightarrow> cpsCont \<Rightarrow> state \<Rightarrow> result outcome \<times> state" where
  "cpsEvalOperator ev operator lenv denv k s =
     (case operator of
        EVLVariable v \<Rightarrow> thenDo (objectResult (DefiniteEnv_ref s lenv FUN_NS v) s) k
      | _ \<Rightarrow> ev operator lenv denv k s)"

fun cpsEvalOperands ::
  "cpsEvalFormFun \<Rightarrow> bool \<Rightarrow> bool \<Rightarrow> evl \<Rightarrow> evl list \<Rightarrow> env \<Rightarrow> env \<Rightarrow>
   (evl list \<Rightarrow> state \<Rightarrow> result outcome \<times> state) \<Rightarrow> state \<Rightarrow> result outcome \<times> state" where
  "cpsEvalOperands ev mv macro EVLEmptyList args lenv denv k s = k args s"
| "cpsEvalOperands ev mv macro (EVLCons a d) args lenv denv k s =
     (if macro then cpsEvalOperands ev mv macro d (args @ [a]) lenv denv k s
      else ev a lenv denv (\<lambda>r s1.
             cpsEvalOperands ev mv macro d
               (if mv then args @ allValues r else args @ [primaryValue r]) lenv denv k s1) s)"
| "cpsEvalOperands ev mv macro x args lenv denv k s = (Throw (JSTypeError ''operands''), s)"

definition cpsInvokeFun ::
  "jsFunctions \<Rightarrow> cpsEvalFormFun \<Rightarrow> bool \<Rightarrow> bool \<Rightarrow> evl \<Rightarrow> evl list \<Rightarrow> env \<Rightarrow> env \<Rightarrow> cpsCont \<Rightarrow> state \<Rightarrow>
   result outcome \<times> state" where
  "cpsInvokeFun jsFunction ev apply macro fn args lenv denv k s =
     (case fn of
        EVLPrimitiveFunction arityMin arityMax name \<Rightarrow>
          thenDo (lift (pairPrimFunParameters apply args arityMin arityMax) s) (\<lambda>vals s.
            thenDo (jsFunction name vals s) k)
      | EVLClosure scope ns m parameters rest forms flenv \<Rightarrow>
          thenDo (lift (pairClosureParameters apply args parameters rest) s) (\<lambda>vals s.
            thenDo (lift (closureEVLForms forms) s) (\<lambda>forms s.
              case scope of
                LEX_SCOPE \<Rightarrow>
                  (case newFrame ns parameters (map Some vals) flenv s of
                     (elenv, s) \<Rightarrow>
                       if macro then
                         thenDo (cpsEvalForms ev forms elenv denv cpsEndCont s) (\<lambda>r s.
                           ev (primaryValue r) lenv denv k s)
                       else cpsEvalForms ev forms elenv denv k s)
              | DYN_SCOPE \<Rightarrow>
                  (case newFrame ns parameters (map Some vals) denv s of
                     (edenv, s) \<Rightarrow> cpsEvalForms ev forms flenv edenv k s)))
      | _ \<Rightarrow> (Throw callOperatorFormError, s))"

definition cpsEvalForEach ::
  "jsFunctions \<Rightarrow> cpsEvalFormFun \<Rightarrow> evl \<Rightarrow> env \<Rightarrow> env \<Rightarrow> cpsCont \<Rightarrow> state \<Rightarrow> result outcome \<times> state" where
  "cpsEvalForEach jsFunction ev form lenv denv k s =
     thenDo (lift (analyzeForEach form) s) (\<lambda>(functionForm, listForm) s.
       ev functionForm lenv denv (\<lambda>r s.
         let fn = primaryValue r in
         if \<not> isEVLFunction fn then (Throw forEachFunctionFormError, s)
         else
           ev listForm lenv denv (\<lambda>r s.
             thenDo
               (cpsForEach_loop
                  (\<lambda>a s. cpsInvokeFun jsFunction ev False False fn [a] lenv denv cpsEndCont s)
                  (primaryValue r) s)
               (\<lambda>u s. k (EVLObject EVLVoid) s)) s) s)"

definition cpsEvalCall ::
  "jsFunctions \<Rightarrow> cpsEvalFormFun \<Rightarrow> bool \<Rightarrow> bool \<Rightarrow> evl \<Rightarrow> env \<Rightarrow> env \<Rightarrow> cpsCont \<Rightarrow> state \<Rightarrow>
   result outcome \<times> state" where
  "cpsEvalCall jsFunction ev mv apply form lenv denv k s =
     thenDo (lift (analyzeCall mv apply form) s) (\<lambda>(operator, operands) s.
       cpsEvalOperator ev operator lenv denv (\<lambda>r s.
         let fn = primaryValue r; macro = isMacroCall operator fn in
         cpsEvalOperands ev mv macro operands [] lenv denv (\<lambda>args s.
           cpsInvokeFun jsFunction ev apply macro fn args lenv denv k s) s) s)"

fun cpsEvalForm ::
  "jsFunctions \<Rightarrow> nat \<Rightarrow> evl \<Rightarrow> env \<Rightarrow> env \<Rightarrow> cpsCont \<Rightarrow> state \<Rightarrow> result outcome \<times> state" where
  "cpsEvalForm jsFunction 0 form lenv denv k s = (Timeout, s)"
| "cpsEvalForm jsFunction (Suc n) form lenv denv k s =
     (case form of
        EVLEmptyList \<Rightarrow> (Throw emptyListError, s)
      | EVLCons a d \<Rightarrow>
          if a = quoteVariable then cpsEvalQuote form lenv denv k s
          else if a = prognVariable then cpsEvalProgn (cpsEvalForm jsFunction n) form lenv denv k s
          else if a = ifVariable then cpsEvalIf (cpsEvalForm jsFunction n) form lenv denv k s
          else if a = u_vlambdaVariable then cpsEvalLambda LEX_SCOPE VAL_NS False form lenv denv k s
          else if a = u_mlambdaVariable then cpsEvalLambda LEX_SCOPE VAL_NS True form lenv denv k s
          else if a = u_flambdaVariable then cpsEvalLambda LEX_SCOPE FUN_NS False form lenv denv k s
          else if a = u_dlambdaVariable then cpsEvalLambda DYN_SCOPE VAL_NS False form lenv denv k s
          else if a = vrefVariable then cpsEvalRef LEX_SCOPE VAL_NS form lenv denv k s
          else if a = vsetVariable then
            cpsEvalSet (cpsEvalForm jsFunction n) LEX_SCOPE VAL_NS form lenv denv k s
          else if a = frefVariable then cpsEvalRef LEX_SCOPE FUN_NS form lenv denv k s
          else if a = fsetVariable then
            cpsEvalSet (cpsEvalForm jsFunction n) LEX_SCOPE FUN_NS form lenv denv k s
          else if a = drefVariable then cpsEvalRef DYN_SCOPE VAL_NS form lenv denv k s
          else if a = dsetVariable then
            cpsEvalSet (cpsEvalForm jsFunction n) DYN_SCOPE VAL_NS form lenv denv k s
          else if a = u_forEachVariable then
            cpsEvalForEach jsFunction (cpsEvalForm jsFunction n) form lenv denv k s
          else if a = u_catchErrorsVariable then
            cpsEvalCatchErrors (cpsEvalForm jsFunction n) form lenv denv k s
          else if a = applyVariable then
            cpsEvalCall jsFunction (cpsEvalForm jsFunction n) False True form lenv denv k s
          else if a = multipleValueCallVariable then
            cpsEvalCall jsFunction (cpsEvalForm jsFunction n) True False form lenv denv k s
          else if a = multipleValueApplyVariable then
            cpsEvalCall jsFunction (cpsEvalForm jsFunction n) True True form lenv denv k s
          else cpsEvalCall jsFunction (cpsEvalForm jsFunction n) False False form lenv denv k s
      | EVLVariable v \<Rightarrow> thenDo (objectResult (DefiniteEnv_ref s lenv VAL_NS v) s) k
      | _ \<Rightarrow> k (EVLObject form) s)"

definition cpsEval :: "jsFunctions \<Rightarrow> nat \<Rightarrow> evl \<Rightarrow> state \<Rightarrow> result outcome \<times> state" where
  "cpsEval jsFunction n form s =
     cpsEvalForm jsFunction n form NullDefiniteEnv NullDefiniteEnv cpsEndCont s"

section \<open>Object-oriented CPS evaluator\<close>

text \<open>
  A continuation is an object of one of nine classes, with the method \<open>invoke\<close>.  What
  \<open>invoke\<close> is applied to is a result or, for the continuation of the operands, the array
  of the arguments.
\<close>

datatype oocpsCont =
    OOCPSEndCont
  | OOCPSButLastFormCont evl env env oocpsCont
  | OOCPSIfTestFormCont evl evl env env oocpsCont
  | OOCPSSetValueFormCont scope namespace symref env env oocpsCont
  | OOCPSForEachFunctionFormCont evl env env oocpsCont
  | OOCPSForEachListFormCont evl env env oocpsCont
  | OOCPSOperatorCont bool bool evl evl env env oocpsCont
  | OOCPSOperandCont bool bool evl "evl list" env env oocpsCont
  | OOCPSOperandsCont bool bool evl env env oocpsCont

datatype invoked = Result result | Args "evl list"

text \<open>
  \<open>ev\<close> is \<open>oocpsEvalForm\<close> and \<open>invk\<close> the method \<open>invoke\<close>; the fuel bounds the depth
  of the calls of both.  A method applied to the other kind of argument (which no
  continuation that the evaluator builds receives) throws the \<open>TypeError\<close> of the call of
  a method that the argument does not have.
\<close>

type_synonym oocpsEvalFormFun = "evl \<Rightarrow> env \<Rightarrow> env \<Rightarrow> oocpsCont \<Rightarrow> state \<Rightarrow> result outcome \<times> state"

type_synonym oocpsInvokeMethod = "oocpsCont \<Rightarrow> invoked \<Rightarrow> state \<Rightarrow> result outcome \<times> state"

definition invokedResult :: "invoked \<Rightarrow> 's \<Rightarrow> result outcome \<times> 's" where
  "invokedResult x s =
     (case x of
        Result r \<Rightarrow> (Return r, s)
      | Args args \<Rightarrow> (Throw (JSTypeError ''result.primaryValue is not a function''), s))"

definition invokedArgs :: "invoked \<Rightarrow> 's \<Rightarrow> evl list outcome \<times> 's" where
  "invokedArgs x s =
     (case x of
        Args args \<Rightarrow> (Return args, s)
      | Result r \<Rightarrow> (Throw (JSTypeError ''args is not an array''), s))"

definition oocpsEvalQuote :: "oocpsInvokeMethod \<Rightarrow> evl \<Rightarrow> env \<Rightarrow> env \<Rightarrow> oocpsCont \<Rightarrow> state \<Rightarrow> result outcome \<times> state" where
  "oocpsEvalQuote invk form lenv denv k s =
     thenDo (lift (analyzeQuote form) s) (\<lambda>literal s. invk k (Result (EVLObject literal)) s)"

definition oocpsEvalForms ::
  "oocpsEvalFormFun \<Rightarrow> oocpsInvokeMethod \<Rightarrow> evl \<Rightarrow> env \<Rightarrow> env \<Rightarrow> oocpsCont \<Rightarrow> state \<Rightarrow>
   result outcome \<times> state" where
  "oocpsEvalForms ev invk forms lenv denv k s =
     (case forms of
        EVLEmptyList \<Rightarrow> invk k (Result (EVLObject EVLVoid)) s
      | EVLCons a d \<Rightarrow>
          if d = EVLEmptyList then ev a lenv denv k s
          else ev a lenv denv (OOCPSButLastFormCont forms lenv denv k) s
      | _ \<Rightarrow> (Throw (JSTypeError ''forms''), s))"

definition oocpsEvalProgn ::
  "oocpsEvalFormFun \<Rightarrow> oocpsInvokeMethod \<Rightarrow> evl \<Rightarrow> env \<Rightarrow> env \<Rightarrow> oocpsCont \<Rightarrow> state \<Rightarrow>
   result outcome \<times> state" where
  "oocpsEvalProgn ev invk form lenv denv k s =
     thenDo (lift (analyzeProgn form) s) (\<lambda>forms s. oocpsEvalForms ev invk forms lenv denv k s)"

definition oocpsEvalIf ::
  "oocpsEvalFormFun \<Rightarrow> evl \<Rightarrow> env \<Rightarrow> env \<Rightarrow> oocpsCont \<Rightarrow> state \<Rightarrow> result outcome \<times> state" where
  "oocpsEvalIf ev form lenv denv k s =
     thenDo (lift (analyzeIf form) s) (\<lambda>(testForm, thenForm, elseForm) s.
       ev testForm lenv denv (OOCPSIfTestFormCont thenForm elseForm lenv denv k) s)"

definition oocpsEvalLambda ::
  "oocpsInvokeMethod \<Rightarrow> scope \<Rightarrow> namespace \<Rightarrow> bool \<Rightarrow> evl \<Rightarrow> env \<Rightarrow> env \<Rightarrow> oocpsCont \<Rightarrow> state \<Rightarrow>
   result outcome \<times> state" where
  "oocpsEvalLambda invk scope ns macro form lenv denv k s =
     thenDo (lift (analyzeLambda form) s) (\<lambda>(parameters, rest, forms) s.
       invk k (Result (EVLObject (EVLClosure scope ns macro parameters rest (Forms forms) lenv))) s)"

definition oocpsEvalRef ::
  "oocpsInvokeMethod \<Rightarrow> scope \<Rightarrow> namespace \<Rightarrow> evl \<Rightarrow> env \<Rightarrow> env \<Rightarrow> oocpsCont \<Rightarrow> state \<Rightarrow>
   result outcome \<times> state" where
  "oocpsEvalRef invk scope ns form lenv denv k s =
     thenDo (lift (analyzeRef form) s) (\<lambda>variable s.
       case scope of
         LEX_SCOPE \<Rightarrow>
           thenDo (objectResult (DefiniteEnv_ref s lenv ns variable) s) (\<lambda>r s. invk k (Result r) s)
       | DYN_SCOPE \<Rightarrow>
           thenDo (objectResult (DefiniteEnv_ref s denv ns variable) s) (\<lambda>r s. invk k (Result r) s))"

definition oocpsEvalSet ::
  "oocpsEvalFormFun \<Rightarrow> scope \<Rightarrow> namespace \<Rightarrow> evl \<Rightarrow> env \<Rightarrow> env \<Rightarrow> oocpsCont \<Rightarrow> state \<Rightarrow>
   result outcome \<times> state" where
  "oocpsEvalSet ev scope ns form lenv denv k s =
     thenDo (lift (analyzeSet form) s) (\<lambda>(variable, valueForm) s.
       ev valueForm lenv denv (OOCPSSetValueFormCont scope ns variable lenv denv k) s)"

definition oocpsEvalForEach ::
  "oocpsEvalFormFun \<Rightarrow> evl \<Rightarrow> env \<Rightarrow> env \<Rightarrow> oocpsCont \<Rightarrow> state \<Rightarrow> result outcome \<times> state" where
  "oocpsEvalForEach ev form lenv denv k s =
     thenDo (lift (analyzeForEach form) s) (\<lambda>(functionForm, listForm) s.
       ev functionForm lenv denv (OOCPSForEachFunctionFormCont listForm lenv denv k) s)"

definition oocpsEvalCatchErrors ::
  "oocpsEvalFormFun \<Rightarrow> oocpsInvokeMethod \<Rightarrow> evl \<Rightarrow> env \<Rightarrow> env \<Rightarrow> oocpsCont \<Rightarrow> state \<Rightarrow>
   result outcome \<times> state" where
  "oocpsEvalCatchErrors ev invk form lenv denv k s =
     thenDo (lift (analyzeCatchErrors form) s) (\<lambda>tryForm s.
       case ev tryForm lenv denv OOCPSEndCont s of
         (Return r, s1) \<Rightarrow> invk k (Result (EVLObject EVLVoid)) s1
       | (Throw exception, s1) \<Rightarrow>
           invk k (Result (EVLObject (EVLString (js (exnName exception))))) s1
       | (Timeout, s1) \<Rightarrow> (Timeout, s1))"

definition oocpsEvalOperator ::
  "oocpsEvalFormFun \<Rightarrow> oocpsInvokeMethod \<Rightarrow> evl \<Rightarrow> env \<Rightarrow> env \<Rightarrow> oocpsCont \<Rightarrow> state \<Rightarrow>
   result outcome \<times> state" where
  "oocpsEvalOperator ev invk operator lenv denv k s =
     (case operator of
        EVLVariable v \<Rightarrow>
          thenDo (objectResult (DefiniteEnv_ref s lenv FUN_NS v) s) (\<lambda>r s. invk k (Result r) s)
      | _ \<Rightarrow> ev operator lenv denv k s)"

definition oocpsEvalCall ::
  "oocpsEvalFormFun \<Rightarrow> oocpsInvokeMethod \<Rightarrow> bool \<Rightarrow> bool \<Rightarrow> evl \<Rightarrow> env \<Rightarrow> env \<Rightarrow> oocpsCont \<Rightarrow> state \<Rightarrow>
   result outcome \<times> state" where
  "oocpsEvalCall ev invk mv apply form lenv denv k s =
     thenDo (lift (analyzeCall mv apply form) s) (\<lambda>(operator, operands) s.
       oocpsEvalOperator ev invk operator lenv denv
         (OOCPSOperatorCont mv apply operator operands lenv denv k) s)"

fun oocpsEvalOperands ::
  "oocpsEvalFormFun \<Rightarrow> oocpsInvokeMethod \<Rightarrow> bool \<Rightarrow> bool \<Rightarrow> evl \<Rightarrow> evl list \<Rightarrow> env \<Rightarrow> env \<Rightarrow>
   oocpsCont \<Rightarrow> state \<Rightarrow> result outcome \<times> state" where
  "oocpsEvalOperands ev invk mv macro EVLEmptyList args lenv denv k s = invk k (Args args) s"
| "oocpsEvalOperands ev invk mv macro (EVLCons a d) args lenv denv k s =
     (if macro then oocpsEvalOperands ev invk mv macro d (args @ [a]) lenv denv k s
      else ev a lenv denv (OOCPSOperandCont mv macro (EVLCons a d) args lenv denv k) s)"
| "oocpsEvalOperands ev invk mv macro x args lenv denv k s = (Throw (JSTypeError ''operands''), s)"

definition oocpsInvokeFun ::
  "jsFunctions \<Rightarrow> oocpsEvalFormFun \<Rightarrow> oocpsInvokeMethod \<Rightarrow> bool \<Rightarrow> bool \<Rightarrow> evl \<Rightarrow> evl list \<Rightarrow>
   env \<Rightarrow> env \<Rightarrow> oocpsCont \<Rightarrow> state \<Rightarrow> result outcome \<times> state" where
  "oocpsInvokeFun jsFunction ev invk apply macro fn args lenv denv k s =
     (case fn of
        EVLPrimitiveFunction arityMin arityMax name \<Rightarrow>
          thenDo (lift (pairPrimFunParameters apply args arityMin arityMax) s) (\<lambda>vals s.
            thenDo (jsFunction name vals s) (\<lambda>r s. invk k (Result r) s))
      | EVLClosure scope ns m parameters rest forms flenv \<Rightarrow>
          thenDo (lift (pairClosureParameters apply args parameters rest) s) (\<lambda>vals s.
            thenDo (lift (closureEVLForms forms) s) (\<lambda>forms s.
              case scope of
                LEX_SCOPE \<Rightarrow>
                  (case newFrame ns parameters (map Some vals) flenv s of
                     (elenv, s) \<Rightarrow>
                       if macro then
                         thenDo (oocpsEvalForms ev invk forms elenv denv OOCPSEndCont s) (\<lambda>r s.
                           ev (primaryValue r) lenv denv k s)
                       else oocpsEvalForms ev invk forms elenv denv k s)
              | DYN_SCOPE \<Rightarrow>
                  (case newFrame ns parameters (map Some vals) denv s of
                     (edenv, s) \<Rightarrow> oocpsEvalForms ev invk forms flenv edenv k s)))
      | _ \<Rightarrow> (Throw callOperatorFormError, s))"

text \<open>The loop of \<open>OOCPSForEachListFormCont.invoke\<close>.\<close>

fun oocpsForEach_loop :: "(evl \<Rightarrow> state \<Rightarrow> result outcome \<times> state) \<Rightarrow> evl \<Rightarrow> state \<Rightarrow> unit outcome \<times> state" where
  "oocpsForEach_loop invoke EVLEmptyList s = (Return (), s)"
| "oocpsForEach_loop invoke (EVLCons a d) s =
     thenDo (invoke a s) (\<lambda>r s1. oocpsForEach_loop invoke d s1)"
| "oocpsForEach_loop invoke x s = (Throw forEachListFormError, s)"

fun oocpsEvalForm ::
    "jsFunctions \<Rightarrow> nat \<Rightarrow> evl \<Rightarrow> env \<Rightarrow> env \<Rightarrow> oocpsCont \<Rightarrow> state \<Rightarrow> result outcome \<times> state"
  and oocpsCont_invoke ::
    "jsFunctions \<Rightarrow> nat \<Rightarrow> oocpsCont \<Rightarrow> invoked \<Rightarrow> state \<Rightarrow> result outcome \<times> state" where
  "oocpsEvalForm jsFunction 0 form lenv denv k s = (Timeout, s)"
| "oocpsEvalForm jsFunction (Suc n) form lenv denv k s =
     (case form of
        EVLEmptyList \<Rightarrow> (Throw emptyListError, s)
      | EVLCons a d \<Rightarrow>
          if a = quoteVariable then
            oocpsEvalQuote (oocpsCont_invoke jsFunction n) form lenv denv k s
          else if a = prognVariable then
            oocpsEvalProgn (oocpsEvalForm jsFunction n) (oocpsCont_invoke jsFunction n) form lenv denv k s
          else if a = ifVariable then
            oocpsEvalIf (oocpsEvalForm jsFunction n) form lenv denv k s
          else if a = u_vlambdaVariable then
            oocpsEvalLambda (oocpsCont_invoke jsFunction n) LEX_SCOPE VAL_NS False form lenv denv k s
          else if a = u_mlambdaVariable then
            oocpsEvalLambda (oocpsCont_invoke jsFunction n) LEX_SCOPE VAL_NS True form lenv denv k s
          else if a = u_flambdaVariable then
            oocpsEvalLambda (oocpsCont_invoke jsFunction n) LEX_SCOPE FUN_NS False form lenv denv k s
          else if a = u_dlambdaVariable then
            oocpsEvalLambda (oocpsCont_invoke jsFunction n) DYN_SCOPE VAL_NS False form lenv denv k s
          else if a = vrefVariable then
            oocpsEvalRef (oocpsCont_invoke jsFunction n) LEX_SCOPE VAL_NS form lenv denv k s
          else if a = vsetVariable then
            oocpsEvalSet (oocpsEvalForm jsFunction n) LEX_SCOPE VAL_NS form lenv denv k s
          else if a = frefVariable then
            oocpsEvalRef (oocpsCont_invoke jsFunction n) LEX_SCOPE FUN_NS form lenv denv k s
          else if a = fsetVariable then
            oocpsEvalSet (oocpsEvalForm jsFunction n) LEX_SCOPE FUN_NS form lenv denv k s
          else if a = drefVariable then
            oocpsEvalRef (oocpsCont_invoke jsFunction n) DYN_SCOPE VAL_NS form lenv denv k s
          else if a = dsetVariable then
            oocpsEvalSet (oocpsEvalForm jsFunction n) DYN_SCOPE VAL_NS form lenv denv k s
          else if a = u_forEachVariable then
            oocpsEvalForEach (oocpsEvalForm jsFunction n) form lenv denv k s
          else if a = u_catchErrorsVariable then
            oocpsEvalCatchErrors (oocpsEvalForm jsFunction n) (oocpsCont_invoke jsFunction n)
              form lenv denv k s
          else if a = applyVariable then
            oocpsEvalCall (oocpsEvalForm jsFunction n) (oocpsCont_invoke jsFunction n)
              False True form lenv denv k s
          else if a = multipleValueCallVariable then
            oocpsEvalCall (oocpsEvalForm jsFunction n) (oocpsCont_invoke jsFunction n)
              True False form lenv denv k s
          else if a = multipleValueApplyVariable then
            oocpsEvalCall (oocpsEvalForm jsFunction n) (oocpsCont_invoke jsFunction n)
              True True form lenv denv k s
          else
            oocpsEvalCall (oocpsEvalForm jsFunction n) (oocpsCont_invoke jsFunction n)
              False False form lenv denv k s
      | EVLVariable v \<Rightarrow>
          thenDo (objectResult (DefiniteEnv_ref s lenv VAL_NS v) s) (\<lambda>r s.
            oocpsCont_invoke jsFunction n k (Result r) s)
      | _ \<Rightarrow> oocpsCont_invoke jsFunction n k (Result (EVLObject form)) s)"
| "oocpsCont_invoke jsFunction 0 k x s = (Timeout, s)"
| "oocpsCont_invoke jsFunction (Suc n) k x s =
     (case k of
        OOCPSEndCont \<Rightarrow> invokedResult x s
      | OOCPSButLastFormCont forms lenv denv k \<Rightarrow>
          oocpsEvalForms (oocpsEvalForm jsFunction n) (oocpsCont_invoke jsFunction n)
            (cdr forms) lenv denv k s
      | OOCPSIfTestFormCont thenForm elseForm lenv denv k \<Rightarrow>
          thenDo (invokedResult x s) (\<lambda>r s.
            let test = primaryValue r in
            if test = EVLBoolean True then oocpsEvalForm jsFunction n thenForm lenv denv k s
            else if test = EVLBoolean False then oocpsEvalForm jsFunction n elseForm lenv denv k s
            else (Throw ifTestFormError, s))
      | OOCPSSetValueFormCont scope ns variable lenv denv k \<Rightarrow>
          thenDo (invokedResult x s) (\<lambda>r s.
            let v = primaryValue r in
            case scope of
              LEX_SCOPE \<Rightarrow>
                thenDo (setResult (DefiniteEnv_set s lenv ns variable v)) (\<lambda>r s.
                  oocpsCont_invoke jsFunction n k (Result r) s)
            | DYN_SCOPE \<Rightarrow>
                thenDo (setResult (DefiniteEnv_set s denv ns variable v)) (\<lambda>r s.
                  oocpsCont_invoke jsFunction n k (Result r) s))
      | OOCPSForEachFunctionFormCont listForm lenv denv k \<Rightarrow>
          thenDo (invokedResult x s) (\<lambda>r s.
            let fn = primaryValue r in
            if \<not> isEVLFunction fn then (Throw forEachFunctionFormError, s)
            else oocpsEvalForm jsFunction n listForm lenv denv
                   (OOCPSForEachListFormCont fn lenv denv k) s)
      | OOCPSForEachListFormCont fn lenv denv k \<Rightarrow>
          thenDo (invokedResult x s) (\<lambda>r s.
            thenDo
              (oocpsForEach_loop
                 (\<lambda>a s. oocpsInvokeFun jsFunction (oocpsEvalForm jsFunction n)
                           (oocpsCont_invoke jsFunction n) False False fn [a] lenv denv
                           OOCPSEndCont s)
                 (primaryValue r) s)
              (\<lambda>u s. oocpsCont_invoke jsFunction n k (Result (EVLObject EVLVoid)) s))
      | OOCPSOperatorCont mv apply operator operands lenv denv k \<Rightarrow>
          thenDo (invokedResult x s) (\<lambda>r s.
            let fn = primaryValue r; macro = isMacroCall operator fn in
            oocpsEvalOperands (oocpsEvalForm jsFunction n) (oocpsCont_invoke jsFunction n)
              mv macro operands [] lenv denv (OOCPSOperandsCont apply macro fn lenv denv k) s)
      | OOCPSOperandCont mv macro operands args lenv denv k \<Rightarrow>
          thenDo (invokedResult x s) (\<lambda>r s.
            oocpsEvalOperands (oocpsEvalForm jsFunction n) (oocpsCont_invoke jsFunction n)
              mv macro (cdr operands)
              (if mv then args @ allValues r else args @ [primaryValue r]) lenv denv k s)
      | OOCPSOperandsCont apply macro fn lenv denv k \<Rightarrow>
          thenDo (invokedArgs x s) (\<lambda>args s.
            oocpsInvokeFun jsFunction (oocpsEvalForm jsFunction n) (oocpsCont_invoke jsFunction n)
              apply macro fn args lenv denv k s))"

definition oocpsEval :: "jsFunctions \<Rightarrow> nat \<Rightarrow> evl \<Rightarrow> state \<Rightarrow> result outcome \<times> state" where
  "oocpsEval jsFunction n form s =
     oocpsEvalForm jsFunction n form NullDefiniteEnv NullDefiniteEnv OOCPSEndCont s"

section \<open>Stack-based object-oriented CPS evaluator\<close>

text \<open>
  The control stack holds continuations and the frames of the dynamic environment; it is
  a list with the top of the stack first.  It is an object that the functions of the
  evaluator change: it goes with the state, and what a function throws comes with the
  stack as it is then.
\<close>

datatype sboocpsElement =
    SBOOCPSEndCont
  | SBOOCPSButLastFormCont evl env
  | SBOOCPSIfTestFormCont evl evl env
  | SBOOCPSSetValueFormCont scope namespace symref env
  | SBOOCPSForEachFunctionFormCont evl env
  | SBOOCPSForEachListFormCont evl env
  | SBOOCPSOperatorCont bool bool evl evl env
  | SBOOCPSOperandCont bool bool evl "evl list" env
  | SBOOCPSOperandsCont bool bool evl env
  | SBOOCPSFrame env

type_synonym sboocpsState = "sboocpsElement list \<times> state"

type_synonym sboocpsEvalFormFun =
  "evl \<Rightarrow> env \<Rightarrow> sboocpsElement list \<Rightarrow> state \<Rightarrow> result outcome \<times> sboocpsState"

type_synonym sboocpsInvokeMethod =
  "sboocpsElement \<Rightarrow> invoked \<Rightarrow> sboocpsElement list \<Rightarrow> state \<Rightarrow> result outcome \<times> sboocpsState"

text \<open>
  The methods \<open>ref\<close> and \<open>set\<close> of a control stack, on the frames of the stack (from
  the top), shared by the three evaluators that have a control stack.
\<close>

fun ControlStack_ref :: "state \<Rightarrow> env list \<Rightarrow> namespace \<Rightarrow> symref \<Rightarrow> exn + evl" where
  "ControlStack_ref s [] ns variable = GlobalEnv_ref s ns variable"
| "ControlStack_ref s (element # stack) ns variable =
     (case DefiniteEnv_ref s element ns variable of
        Inl e \<Rightarrow> Inl e
      | Inr (Some r) \<Rightarrow> Inr r
      | Inr None \<Rightarrow> ControlStack_ref s stack ns variable)"

fun ControlStack_set :: "state \<Rightarrow> env list \<Rightarrow> namespace \<Rightarrow> symref \<Rightarrow> evl \<Rightarrow> evl \<times> state" where
  "ControlStack_set s [] ns variable v = (v, GlobalEnv_set s ns variable v)"
| "ControlStack_set s (element # stack) ns variable v =
     (case DefiniteEnv_set s element ns variable v of
        (Some r, s1) \<Rightarrow> (r, s1)
      | (None, s1) \<Rightarrow> ControlStack_set s1 stack ns variable v)"

fun sboocpsFrames :: "sboocpsElement list \<Rightarrow> env list" where
  "sboocpsFrames [] = []"
| "sboocpsFrames (SBOOCPSFrame f # stack) = f # sboocpsFrames stack"
| "sboocpsFrames (k # stack) = sboocpsFrames stack"

text \<open>
  \<open>invokeCont\<close> pops the elements down to the first continuation and invokes it; on a
  stack without a continuation its loop does not end.
\<close>

fun SBOOCPSControlStack_invokeCont ::
  "sboocpsInvokeMethod \<Rightarrow> invoked \<Rightarrow> sboocpsElement list \<Rightarrow> state \<Rightarrow> result outcome \<times> sboocpsState" where
  "SBOOCPSControlStack_invokeCont invk x [] s = (Timeout, ([], s))"
| "SBOOCPSControlStack_invokeCont invk x (SBOOCPSFrame f # stack) s =
     SBOOCPSControlStack_invokeCont invk x stack s"
| "SBOOCPSControlStack_invokeCont invk x (k # stack) s = invk k x stack s"

text \<open>\<open>trim\<close> pops until the stack has the given size; its loop does not end on a smaller stack.\<close>

definition SBOOCPSControlStack_trim :: "nat \<Rightarrow> sboocpsElement list \<Rightarrow> sboocpsElement list option" where
  "SBOOCPSControlStack_trim n stack =
     (if length stack < n then None else Some (drop (length stack - n) stack))"

definition sboocpsEvalQuote ::
  "sboocpsInvokeMethod \<Rightarrow> evl \<Rightarrow> env \<Rightarrow> sboocpsElement list \<Rightarrow> state \<Rightarrow> result outcome \<times> sboocpsState" where
  "sboocpsEvalQuote invk form lenv kStack s =
     thenDo (lift (analyzeQuote form) (kStack, s)) (\<lambda>literal (kStack, s).
       SBOOCPSControlStack_invokeCont invk (Result (EVLObject literal)) kStack s)"

definition sboocpsEvalForms ::
  "sboocpsEvalFormFun \<Rightarrow> sboocpsInvokeMethod \<Rightarrow> evl \<Rightarrow> env \<Rightarrow> sboocpsElement list \<Rightarrow> state \<Rightarrow>
   result outcome \<times> sboocpsState" where
  "sboocpsEvalForms ev invk forms lenv kStack s =
     (case forms of
        EVLEmptyList \<Rightarrow> SBOOCPSControlStack_invokeCont invk (Result (EVLObject EVLVoid)) kStack s
      | EVLCons a d \<Rightarrow>
          if d = EVLEmptyList then ev a lenv kStack s
          else ev a lenv (SBOOCPSButLastFormCont forms lenv # kStack) s
      | _ \<Rightarrow> (Throw (JSTypeError ''forms''), (kStack, s)))"

definition sboocpsEvalProgn ::
  "sboocpsEvalFormFun \<Rightarrow> sboocpsInvokeMethod \<Rightarrow> evl \<Rightarrow> env \<Rightarrow> sboocpsElement list \<Rightarrow> state \<Rightarrow>
   result outcome \<times> sboocpsState" where
  "sboocpsEvalProgn ev invk form lenv kStack s =
     thenDo (lift (analyzeProgn form) (kStack, s)) (\<lambda>forms (kStack, s).
       sboocpsEvalForms ev invk forms lenv kStack s)"

definition sboocpsEvalIf ::
  "sboocpsEvalFormFun \<Rightarrow> evl \<Rightarrow> env \<Rightarrow> sboocpsElement list \<Rightarrow> state \<Rightarrow> result outcome \<times> sboocpsState" where
  "sboocpsEvalIf ev form lenv kStack s =
     thenDo (lift (analyzeIf form) (kStack, s)) (\<lambda>(testForm, thenForm, elseForm) (kStack, s).
       ev testForm lenv (SBOOCPSIfTestFormCont thenForm elseForm lenv # kStack) s)"

definition sboocpsEvalLambda ::
  "sboocpsInvokeMethod \<Rightarrow> scope \<Rightarrow> namespace \<Rightarrow> bool \<Rightarrow> evl \<Rightarrow> env \<Rightarrow> sboocpsElement list \<Rightarrow> state \<Rightarrow>
   result outcome \<times> sboocpsState" where
  "sboocpsEvalLambda invk scope ns macro form lenv kStack s =
     thenDo (lift (analyzeLambda form) (kStack, s)) (\<lambda>(parameters, rest, forms) (kStack, s).
       SBOOCPSControlStack_invokeCont invk
         (Result (EVLObject (EVLClosure scope ns macro parameters rest (Forms forms) lenv))) kStack s)"

definition sboocpsEvalRef ::
  "sboocpsInvokeMethod \<Rightarrow> scope \<Rightarrow> namespace \<Rightarrow> evl \<Rightarrow> env \<Rightarrow> sboocpsElement list \<Rightarrow> state \<Rightarrow>
   result outcome \<times> sboocpsState" where
  "sboocpsEvalRef invk scope ns form lenv kStack s =
     thenDo (lift (analyzeRef form) (kStack, s)) (\<lambda>variable (kStack, s).
       case scope of
         LEX_SCOPE \<Rightarrow>
           thenDo (objectResult (DefiniteEnv_ref s lenv ns variable) (kStack, s)) (\<lambda>r (kStack, s).
             SBOOCPSControlStack_invokeCont invk (Result r) kStack s)
       | DYN_SCOPE \<Rightarrow>
           thenDo (lift (ControlStack_ref s (sboocpsFrames kStack) ns variable) (kStack, s))
             (\<lambda>r (kStack, s).
                SBOOCPSControlStack_invokeCont invk (Result (EVLObject r)) kStack s))"

definition sboocpsEvalSet ::
  "sboocpsEvalFormFun \<Rightarrow> scope \<Rightarrow> namespace \<Rightarrow> evl \<Rightarrow> env \<Rightarrow> sboocpsElement list \<Rightarrow> state \<Rightarrow>
   result outcome \<times> sboocpsState" where
  "sboocpsEvalSet ev scope ns form lenv kStack s =
     thenDo (lift (analyzeSet form) (kStack, s)) (\<lambda>(variable, valueForm) (kStack, s).
       ev valueForm lenv (SBOOCPSSetValueFormCont scope ns variable lenv # kStack) s)"

definition sboocpsEvalForEach ::
  "sboocpsEvalFormFun \<Rightarrow> evl \<Rightarrow> env \<Rightarrow> sboocpsElement list \<Rightarrow> state \<Rightarrow> result outcome \<times> sboocpsState" where
  "sboocpsEvalForEach ev form lenv kStack s =
     thenDo (lift (analyzeForEach form) (kStack, s)) (\<lambda>(functionForm, listForm) (kStack, s).
       ev functionForm lenv (SBOOCPSForEachFunctionFormCont listForm lenv # kStack) s)"

definition sboocpsEvalCatchErrors ::
  "sboocpsEvalFormFun \<Rightarrow> sboocpsInvokeMethod \<Rightarrow> evl \<Rightarrow> env \<Rightarrow> sboocpsElement list \<Rightarrow> state \<Rightarrow>
   result outcome \<times> sboocpsState" where
  "sboocpsEvalCatchErrors ev invk form lenv kStack s =
     thenDo (lift (analyzeCatchErrors form) (kStack, s)) (\<lambda>tryForm (kStack, s).
       let kStackSize = length kStack in
       case ev tryForm lenv (SBOOCPSEndCont # kStack) s of
         (Return r, (kStack1, s1)) \<Rightarrow>
           SBOOCPSControlStack_invokeCont invk (Result (EVLObject EVLVoid)) kStack1 s1
       | (Throw exception, (kStack1, s1)) \<Rightarrow>
           (case SBOOCPSControlStack_trim kStackSize kStack1 of
              None \<Rightarrow> (Timeout, ([], s1))
            | Some kStack2 \<Rightarrow>
                SBOOCPSControlStack_invokeCont invk
                  (Result (EVLObject (EVLString (js (exnName exception))))) kStack2 s1)
       | (Timeout, ks1) \<Rightarrow> (Timeout, ks1))"

definition sboocpsEvalOperator ::
  "sboocpsEvalFormFun \<Rightarrow> sboocpsInvokeMethod \<Rightarrow> evl \<Rightarrow> env \<Rightarrow> sboocpsElement list \<Rightarrow> state \<Rightarrow>
   result outcome \<times> sboocpsState" where
  "sboocpsEvalOperator ev invk operator lenv kStack s =
     (case operator of
        EVLVariable v \<Rightarrow>
          thenDo (objectResult (DefiniteEnv_ref s lenv FUN_NS v) (kStack, s)) (\<lambda>r (kStack, s).
            SBOOCPSControlStack_invokeCont invk (Result r) kStack s)
      | _ \<Rightarrow> ev operator lenv kStack s)"

definition sboocpsEvalCall ::
  "sboocpsEvalFormFun \<Rightarrow> sboocpsInvokeMethod \<Rightarrow> bool \<Rightarrow> bool \<Rightarrow> evl \<Rightarrow> env \<Rightarrow> sboocpsElement list \<Rightarrow>
   state \<Rightarrow> result outcome \<times> sboocpsState" where
  "sboocpsEvalCall ev invk mv apply form lenv kStack s =
     thenDo (lift (analyzeCall mv apply form) (kStack, s)) (\<lambda>(operator, operands) (kStack, s).
       sboocpsEvalOperator ev invk operator lenv
         (SBOOCPSOperatorCont mv apply operator operands lenv # kStack) s)"

fun sboocpsEvalOperands ::
  "sboocpsEvalFormFun \<Rightarrow> sboocpsInvokeMethod \<Rightarrow> bool \<Rightarrow> bool \<Rightarrow> evl \<Rightarrow> evl list \<Rightarrow> env \<Rightarrow>
   sboocpsElement list \<Rightarrow> state \<Rightarrow> result outcome \<times> sboocpsState" where
  "sboocpsEvalOperands ev invk mv macro EVLEmptyList args lenv kStack s =
     SBOOCPSControlStack_invokeCont invk (Args args) kStack s"
| "sboocpsEvalOperands ev invk mv macro (EVLCons a d) args lenv kStack s =
     (if macro then sboocpsEvalOperands ev invk mv macro d (args @ [a]) lenv kStack s
      else ev a lenv (SBOOCPSOperandCont mv macro (EVLCons a d) args lenv # kStack) s)"
| "sboocpsEvalOperands ev invk mv macro x args lenv kStack s =
     (Throw (JSTypeError ''operands''), (kStack, s))"

definition sboocpsInvokeFun ::
  "jsFunctions \<Rightarrow> sboocpsEvalFormFun \<Rightarrow> sboocpsInvokeMethod \<Rightarrow> bool \<Rightarrow> bool \<Rightarrow> evl \<Rightarrow> evl list \<Rightarrow>
   env \<Rightarrow> sboocpsElement list \<Rightarrow> state \<Rightarrow> result outcome \<times> sboocpsState" where
  "sboocpsInvokeFun jsFunction ev invk apply macro fn args lenv kStack s =
     (case fn of
        EVLPrimitiveFunction arityMin arityMax name \<Rightarrow>
          thenDo (lift (pairPrimFunParameters apply args arityMin arityMax) (kStack, s))
            (\<lambda>vals (kStack, s).
               case jsFunction name vals s of
                 (Return r, s1) \<Rightarrow> SBOOCPSControlStack_invokeCont invk (Result r) kStack s1
               | (Throw e, s1) \<Rightarrow> (Throw e, (kStack, s1))
               | (Timeout, s1) \<Rightarrow> (Timeout, (kStack, s1)))
      | EVLClosure scope ns m parameters rest forms flenv \<Rightarrow>
          thenDo (lift (pairClosureParameters apply args parameters rest) (kStack, s))
            (\<lambda>vals (kStack, s).
               thenDo (lift (closureEVLForms forms) (kStack, s)) (\<lambda>forms (kStack, s).
                 case scope of
                   LEX_SCOPE \<Rightarrow>
                     (case newFrame ns parameters (map Some vals) flenv s of
                        (elenv, s) \<Rightarrow>
                          if macro then
                            thenDo (sboocpsEvalForms ev invk forms elenv (SBOOCPSEndCont # kStack) s)
                              (\<lambda>r (kStack, s). ev (primaryValue r) lenv kStack s)
                          else sboocpsEvalForms ev invk forms elenv kStack s)
                 | DYN_SCOPE \<Rightarrow>
                     (case newFrame ns parameters (map Some vals) UndefinedEnv s of
                        (frame, s) \<Rightarrow>
                          sboocpsEvalForms ev invk forms flenv (SBOOCPSFrame frame # kStack) s)))
      | _ \<Rightarrow> (Throw callOperatorFormError, (kStack, s)))"

text \<open>The loop of \<open>SBOOCPSForEachListFormCont.invoke\<close>.\<close>

fun sboocpsForEach_loop ::
  "(evl \<Rightarrow> sboocpsElement list \<Rightarrow> state \<Rightarrow> result outcome \<times> sboocpsState) \<Rightarrow> evl \<Rightarrow>
   sboocpsElement list \<Rightarrow> state \<Rightarrow> unit outcome \<times> sboocpsState" where
  "sboocpsForEach_loop invoke EVLEmptyList kStack s = (Return (), (kStack, s))"
| "sboocpsForEach_loop invoke (EVLCons a d) kStack s =
     thenDo (invoke a (SBOOCPSEndCont # kStack) s) (\<lambda>r (kStack1, s1).
       sboocpsForEach_loop invoke d kStack1 s1)"
| "sboocpsForEach_loop invoke x kStack s = (Throw forEachListFormError, (kStack, s))"

fun sboocpsEvalForm ::
    "jsFunctions \<Rightarrow> nat \<Rightarrow> evl \<Rightarrow> env \<Rightarrow> sboocpsElement list \<Rightarrow> state \<Rightarrow> result outcome \<times> sboocpsState"
  and sboocpsCont_invoke ::
    "jsFunctions \<Rightarrow> nat \<Rightarrow> sboocpsElement \<Rightarrow> invoked \<Rightarrow> sboocpsElement list \<Rightarrow> state \<Rightarrow>
     result outcome \<times> sboocpsState" where
  "sboocpsEvalForm jsFunction 0 form lenv kStack s = (Timeout, (kStack, s))"
| "sboocpsEvalForm jsFunction (Suc n) form lenv kStack s =
     (case form of
        EVLEmptyList \<Rightarrow> (Throw emptyListError, (kStack, s))
      | EVLCons a d \<Rightarrow>
          if a = quoteVariable then
            sboocpsEvalQuote (sboocpsCont_invoke jsFunction n) form lenv kStack s
          else if a = prognVariable then
            sboocpsEvalProgn (sboocpsEvalForm jsFunction n) (sboocpsCont_invoke jsFunction n)
              form lenv kStack s
          else if a = ifVariable then
            sboocpsEvalIf (sboocpsEvalForm jsFunction n) form lenv kStack s
          else if a = u_vlambdaVariable then
            sboocpsEvalLambda (sboocpsCont_invoke jsFunction n) LEX_SCOPE VAL_NS False form lenv kStack s
          else if a = u_mlambdaVariable then
            sboocpsEvalLambda (sboocpsCont_invoke jsFunction n) LEX_SCOPE VAL_NS True form lenv kStack s
          else if a = u_flambdaVariable then
            sboocpsEvalLambda (sboocpsCont_invoke jsFunction n) LEX_SCOPE FUN_NS False form lenv kStack s
          else if a = u_dlambdaVariable then
            sboocpsEvalLambda (sboocpsCont_invoke jsFunction n) DYN_SCOPE VAL_NS False form lenv kStack s
          else if a = vrefVariable then
            sboocpsEvalRef (sboocpsCont_invoke jsFunction n) LEX_SCOPE VAL_NS form lenv kStack s
          else if a = vsetVariable then
            sboocpsEvalSet (sboocpsEvalForm jsFunction n) LEX_SCOPE VAL_NS form lenv kStack s
          else if a = frefVariable then
            sboocpsEvalRef (sboocpsCont_invoke jsFunction n) LEX_SCOPE FUN_NS form lenv kStack s
          else if a = fsetVariable then
            sboocpsEvalSet (sboocpsEvalForm jsFunction n) LEX_SCOPE FUN_NS form lenv kStack s
          else if a = drefVariable then
            sboocpsEvalRef (sboocpsCont_invoke jsFunction n) DYN_SCOPE VAL_NS form lenv kStack s
          else if a = dsetVariable then
            sboocpsEvalSet (sboocpsEvalForm jsFunction n) DYN_SCOPE VAL_NS form lenv kStack s
          else if a = u_forEachVariable then
            sboocpsEvalForEach (sboocpsEvalForm jsFunction n) form lenv kStack s
          else if a = u_catchErrorsVariable then
            sboocpsEvalCatchErrors (sboocpsEvalForm jsFunction n) (sboocpsCont_invoke jsFunction n)
              form lenv kStack s
          else if a = applyVariable then
            sboocpsEvalCall (sboocpsEvalForm jsFunction n) (sboocpsCont_invoke jsFunction n)
              False True form lenv kStack s
          else if a = multipleValueCallVariable then
            sboocpsEvalCall (sboocpsEvalForm jsFunction n) (sboocpsCont_invoke jsFunction n)
              True False form lenv kStack s
          else if a = multipleValueApplyVariable then
            sboocpsEvalCall (sboocpsEvalForm jsFunction n) (sboocpsCont_invoke jsFunction n)
              True True form lenv kStack s
          else
            sboocpsEvalCall (sboocpsEvalForm jsFunction n) (sboocpsCont_invoke jsFunction n)
              False False form lenv kStack s
      | EVLVariable v \<Rightarrow>
          thenDo (objectResult (DefiniteEnv_ref s lenv VAL_NS v) (kStack, s)) (\<lambda>r (kStack, s).
            SBOOCPSControlStack_invokeCont (sboocpsCont_invoke jsFunction n) (Result r) kStack s)
      | _ \<Rightarrow>
          SBOOCPSControlStack_invokeCont (sboocpsCont_invoke jsFunction n)
            (Result (EVLObject form)) kStack s)"
| "sboocpsCont_invoke jsFunction 0 k x kStack s = (Timeout, (kStack, s))"
| "sboocpsCont_invoke jsFunction (Suc n) k x kStack s =
     (case k of
        SBOOCPSEndCont \<Rightarrow> invokedResult x (kStack, s)
      | SBOOCPSButLastFormCont forms lenv \<Rightarrow>
          sboocpsEvalForms (sboocpsEvalForm jsFunction n) (sboocpsCont_invoke jsFunction n)
            (cdr forms) lenv kStack s
      | SBOOCPSIfTestFormCont thenForm elseForm lenv \<Rightarrow>
          thenDo (invokedResult x (kStack, s)) (\<lambda>r (kStack, s).
            let test = primaryValue r in
            if test = EVLBoolean True then sboocpsEvalForm jsFunction n thenForm lenv kStack s
            else if test = EVLBoolean False then sboocpsEvalForm jsFunction n elseForm lenv kStack s
            else (Throw ifTestFormError, (kStack, s)))
      | SBOOCPSSetValueFormCont scope ns variable lenv \<Rightarrow>
          thenDo (invokedResult x (kStack, s)) (\<lambda>r (kStack, s).
            let v = primaryValue r in
            case scope of
              LEX_SCOPE \<Rightarrow>
                (case DefiniteEnv_set s lenv ns variable v of
                   (r, s1) \<Rightarrow>
                     thenDo (objectResult (Inr r) (kStack, s1)) (\<lambda>r (kStack, s).
                       SBOOCPSControlStack_invokeCont (sboocpsCont_invoke jsFunction n)
                         (Result r) kStack s))
            | DYN_SCOPE \<Rightarrow>
                (case ControlStack_set s (sboocpsFrames kStack) ns variable v of
                   (r, s1) \<Rightarrow>
                     SBOOCPSControlStack_invokeCont (sboocpsCont_invoke jsFunction n)
                       (Result (EVLObject r)) kStack s1))
      | SBOOCPSForEachFunctionFormCont listForm lenv \<Rightarrow>
          thenDo (invokedResult x (kStack, s)) (\<lambda>r (kStack, s).
            let fn = primaryValue r in
            if \<not> isEVLFunction fn then (Throw forEachFunctionFormError, (kStack, s))
            else sboocpsEvalForm jsFunction n listForm lenv
                   (SBOOCPSForEachListFormCont fn lenv # kStack) s)
      | SBOOCPSForEachListFormCont fn lenv \<Rightarrow>
          thenDo (invokedResult x (kStack, s)) (\<lambda>r (kStack, s).
            thenDo
              (sboocpsForEach_loop
                 (\<lambda>a kStack s. sboocpsInvokeFun jsFunction (sboocpsEvalForm jsFunction n)
                                  (sboocpsCont_invoke jsFunction n) False False fn [a] lenv kStack s)
                 (primaryValue r) kStack s)
              (\<lambda>u (kStack, s).
                 SBOOCPSControlStack_invokeCont (sboocpsCont_invoke jsFunction n)
                   (Result (EVLObject EVLVoid)) kStack s))
      | SBOOCPSOperatorCont mv apply operator operands lenv \<Rightarrow>
          thenDo (invokedResult x (kStack, s)) (\<lambda>r (kStack, s).
            let fn = primaryValue r; macro = isMacroCall operator fn in
            sboocpsEvalOperands (sboocpsEvalForm jsFunction n) (sboocpsCont_invoke jsFunction n)
              mv macro operands [] lenv (SBOOCPSOperandsCont apply macro fn lenv # kStack) s)
      | SBOOCPSOperandCont mv macro operands args lenv \<Rightarrow>
          thenDo (invokedResult x (kStack, s)) (\<lambda>r (kStack, s).
            sboocpsEvalOperands (sboocpsEvalForm jsFunction n) (sboocpsCont_invoke jsFunction n)
              mv macro (cdr operands)
              (if mv then args @ allValues r else args @ [primaryValue r]) lenv kStack s)
      | SBOOCPSOperandsCont apply macro fn lenv \<Rightarrow>
          thenDo (invokedArgs x (kStack, s)) (\<lambda>args (kStack, s).
            sboocpsInvokeFun jsFunction (sboocpsEvalForm jsFunction n)
              (sboocpsCont_invoke jsFunction n) apply macro fn args lenv kStack s)
      | SBOOCPSFrame f \<Rightarrow> (Throw (JSTypeError ''element.invoke is not a function''), (kStack, s)))"

definition sboocpsEval :: "jsFunctions \<Rightarrow> nat \<Rightarrow> evl \<Rightarrow> state \<Rightarrow> result outcome \<times> state" where
  "sboocpsEval jsFunction n form s =
     (case sboocpsEvalForm jsFunction n form NullDefiniteEnv [SBOOCPSEndCont] s of
        (r, (kStack, s1)) \<Rightarrow> (r, s1))"

section \<open>Trampoline evaluator\<close>

text \<open>
  A bounce is an evaluation request or what the next continuation is invoked on (a result,
  or the array of the arguments).  The form of an evaluation request is a form for the
  trampoline evaluator and a preprocessed form for the trampoline++ evaluator.
\<close>

datatype 'form bounce = EvalReq 'form env | Bounced invoked

text \<open>
  The control stack holds continuations, error handlers and the frames of the dynamic
  environment, the top of the stack first.
\<close>

datatype trampolineElement =
    TrampolineEndCont
  | TrampolineButLastFormCont evl env
  | TrampolineIfTestFormCont evl evl env
  | TrampolineSetValueFormCont scope namespace symref env
  | TrampolineCatchErrorsTryFormCont env
  | TrampolineOperatorCont bool bool evl evl env
  | TrampolineOperandCont bool bool evl "evl list" env
  | TrampolineOperandsCont bool bool evl env
  | TrampolineMacroCont env
  | TrampolineErrorHandler
  | TrampolineFrame env

type_synonym trampolineState = "trampolineElement list \<times> state"

fun trampolineFrames :: "trampolineElement list \<Rightarrow> env list" where
  "trampolineFrames [] = []"
| "trampolineFrames (TrampolineFrame f # stack) = f # trampolineFrames stack"
| "trampolineFrames (k # stack) = trampolineFrames stack"

text \<open>
  \<open>popCont\<close> pops the elements down to the first continuation, \<open>handleError\<close> down
  to the first error handler or to the end continuation; on a stack that has none their
  loops do not end.
\<close>

fun TrampolineControlStack_popCont ::
  "trampolineElement list \<Rightarrow> (trampolineElement \<times> trampolineElement list) option" where
  "TrampolineControlStack_popCont [] = None"
| "TrampolineControlStack_popCont (TrampolineErrorHandler # stack) = TrampolineControlStack_popCont stack"
| "TrampolineControlStack_popCont (TrampolineFrame f # stack) = TrampolineControlStack_popCont stack"
| "TrampolineControlStack_popCont (k # stack) = Some (k, stack)"

fun TrampolineControlStack_handleError ::
  "exn \<Rightarrow> trampolineElement list \<Rightarrow> evl bounce outcome \<times> trampolineElement list" where
  "TrampolineControlStack_handleError exception [] = (Timeout, [])"
| "TrampolineControlStack_handleError exception (TrampolineErrorHandler # stack) =
     (Return (Bounced (Result (EVLObject (EVLString (js (exnName exception)))))), stack)"
| "TrampolineControlStack_handleError exception (TrampolineEndCont # stack) = (Throw exception, stack)"
| "TrampolineControlStack_handleError exception (element # stack) =
     TrampolineControlStack_handleError exception stack"

definition resultBounce :: "result outcome \<times> 's \<Rightarrow> 'form bounce outcome \<times> 's" where
  "resultBounce m = thenDo m (\<lambda>r s. (Return (Bounced (Result r)), s))"

definition trampolineEvalQuote ::
  "evl \<Rightarrow> env \<Rightarrow> trampolineElement list \<Rightarrow> state \<Rightarrow> evl bounce outcome \<times> trampolineState" where
  "trampolineEvalQuote form lenv kStack s =
     thenDo (lift (analyzeQuote form) (kStack, s)) (\<lambda>literal ks.
       (Return (Bounced (Result (EVLObject literal))), ks))"

definition trampolineEvalForms ::
  "evl \<Rightarrow> env \<Rightarrow> trampolineElement list \<Rightarrow> state \<Rightarrow> evl bounce outcome \<times> trampolineState" where
  "trampolineEvalForms forms lenv kStack s =
     (case forms of
        EVLEmptyList \<Rightarrow> (Return (Bounced (Result (EVLObject EVLVoid))), (kStack, s))
      | EVLCons a d \<Rightarrow>
          if d = EVLEmptyList then (Return (EvalReq a lenv), (kStack, s))
          else (Return (EvalReq a lenv), (TrampolineButLastFormCont forms lenv # kStack, s))
      | _ \<Rightarrow> (Throw (JSTypeError ''forms''), (kStack, s)))"

definition trampolineEvalProgn ::
  "evl \<Rightarrow> env \<Rightarrow> trampolineElement list \<Rightarrow> state \<Rightarrow> evl bounce outcome \<times> trampolineState" where
  "trampolineEvalProgn form lenv kStack s =
     thenDo (lift (analyzeProgn form) (kStack, s)) (\<lambda>forms (kStack, s).
       trampolineEvalForms forms lenv kStack s)"

definition trampolineEvalIf ::
  "evl \<Rightarrow> env \<Rightarrow> trampolineElement list \<Rightarrow> state \<Rightarrow> evl bounce outcome \<times> trampolineState" where
  "trampolineEvalIf form lenv kStack s =
     thenDo (lift (analyzeIf form) (kStack, s)) (\<lambda>(testForm, thenForm, elseForm) (kStack, s).
       (Return (EvalReq testForm lenv),
        (TrampolineIfTestFormCont thenForm elseForm lenv # kStack, s)))"

definition trampolineEvalLambda ::
  "scope \<Rightarrow> namespace \<Rightarrow> bool \<Rightarrow> evl \<Rightarrow> env \<Rightarrow> trampolineElement list \<Rightarrow> state \<Rightarrow>
   evl bounce outcome \<times> trampolineState" where
  "trampolineEvalLambda scope ns macro form lenv kStack s =
     thenDo (lift (analyzeLambda form) (kStack, s)) (\<lambda>(parameters, rest, forms) ks.
       (Return (Bounced (Result (EVLObject
          (EVLClosure scope ns macro parameters rest (Forms forms) lenv)))), ks))"

definition trampolineEvalRef ::
  "scope \<Rightarrow> namespace \<Rightarrow> evl \<Rightarrow> env \<Rightarrow> trampolineElement list \<Rightarrow> state \<Rightarrow>
   evl bounce outcome \<times> trampolineState" where
  "trampolineEvalRef scope ns form lenv kStack s =
     thenDo (lift (analyzeRef form) (kStack, s)) (\<lambda>variable (kStack, s).
       case scope of
         LEX_SCOPE \<Rightarrow> resultBounce (objectResult (DefiniteEnv_ref s lenv ns variable) (kStack, s))
       | DYN_SCOPE \<Rightarrow>
           thenDo (lift (ControlStack_ref s (trampolineFrames kStack) ns variable) (kStack, s))
             (\<lambda>r ks. (Return (Bounced (Result (EVLObject r))), ks)))"

definition trampolineEvalSet ::
  "scope \<Rightarrow> namespace \<Rightarrow> evl \<Rightarrow> env \<Rightarrow> trampolineElement list \<Rightarrow> state \<Rightarrow>
   evl bounce outcome \<times> trampolineState" where
  "trampolineEvalSet scope ns form lenv kStack s =
     thenDo (lift (analyzeSet form) (kStack, s)) (\<lambda>(variable, valueForm) (kStack, s).
       (Return (EvalReq valueForm lenv),
        (TrampolineSetValueFormCont scope ns variable lenv # kStack, s)))"

definition trampolineEvalCatchErrors ::
  "evl \<Rightarrow> env \<Rightarrow> trampolineElement list \<Rightarrow> state \<Rightarrow> evl bounce outcome \<times> trampolineState" where
  "trampolineEvalCatchErrors form lenv kStack s =
     thenDo (lift (analyzeCatchErrors form) (kStack, s)) (\<lambda>tryForm (kStack, s).
       (Return (EvalReq tryForm lenv),
        (TrampolineCatchErrorsTryFormCont lenv # TrampolineErrorHandler # kStack, s)))"

definition trampolineEvalOperator ::
  "evl \<Rightarrow> env \<Rightarrow> trampolineElement list \<Rightarrow> state \<Rightarrow> evl bounce outcome \<times> trampolineState" where
  "trampolineEvalOperator operator lenv kStack s =
     (case operator of
        EVLVariable v \<Rightarrow> resultBounce (objectResult (DefiniteEnv_ref s lenv FUN_NS v) (kStack, s))
      | _ \<Rightarrow> (Return (EvalReq operator lenv), (kStack, s)))"

definition trampolineEvalCall ::
  "bool \<Rightarrow> bool \<Rightarrow> evl \<Rightarrow> env \<Rightarrow> trampolineElement list \<Rightarrow> state \<Rightarrow>
   evl bounce outcome \<times> trampolineState" where
  "trampolineEvalCall mv apply form lenv kStack s =
     thenDo (lift (analyzeCall mv apply form) (kStack, s)) (\<lambda>(operator, operands) (kStack, s).
       trampolineEvalOperator operator lenv
         (TrampolineOperatorCont mv apply operator operands lenv # kStack) s)"

fun trampolineEvalOperands ::
  "bool \<Rightarrow> bool \<Rightarrow> evl \<Rightarrow> evl list \<Rightarrow> env \<Rightarrow> trampolineElement list \<Rightarrow> state \<Rightarrow>
   evl bounce outcome \<times> trampolineState" where
  "trampolineEvalOperands mv macro EVLEmptyList args lenv kStack s =
     (Return (Bounced (Args args)), (kStack, s))"
| "trampolineEvalOperands mv macro (EVLCons a d) args lenv kStack s =
     (if macro then trampolineEvalOperands mv macro d (args @ [a]) lenv kStack s
      else (Return (EvalReq a lenv),
            (TrampolineOperandCont mv macro (EVLCons a d) args lenv # kStack, s)))"
| "trampolineEvalOperands mv macro x args lenv kStack s =
     (Throw (JSTypeError ''operands''), (kStack, s))"

definition trampolineInvokeFun ::
  "jsFunctions \<Rightarrow> bool \<Rightarrow> bool \<Rightarrow> evl \<Rightarrow> evl list \<Rightarrow> env \<Rightarrow> trampolineElement list \<Rightarrow> state \<Rightarrow>
   evl bounce outcome \<times> trampolineState" where
  "trampolineInvokeFun jsFunction apply macro fn args lenv kStack s =
     (case fn of
        EVLPrimitiveFunction arityMin arityMax name \<Rightarrow>
          thenDo (lift (pairPrimFunParameters apply args arityMin arityMax) (kStack, s))
            (\<lambda>vals (kStack, s).
               case jsFunction name vals s of
                 (Return r, s1) \<Rightarrow> (Return (Bounced (Result r)), (kStack, s1))
               | (Throw e, s1) \<Rightarrow> (Throw e, (kStack, s1))
               | (Timeout, s1) \<Rightarrow> (Timeout, (kStack, s1)))
      | EVLClosure scope ns m parameters rest forms flenv \<Rightarrow>
          thenDo (lift (pairClosureParameters apply args parameters rest) (kStack, s))
            (\<lambda>vals (kStack, s).
               thenDo (lift (closureEVLForms forms) (kStack, s)) (\<lambda>forms (kStack, s).
                 case scope of
                   LEX_SCOPE \<Rightarrow>
                     (case newFrame ns parameters (map Some vals) flenv s of
                        (elenv, s) \<Rightarrow>
                          trampolineEvalForms forms elenv
                            (if macro then TrampolineMacroCont lenv # kStack else kStack) s)
                 | DYN_SCOPE \<Rightarrow>
                     (case newFrame ns parameters (map Some vals) UndefinedEnv s of
                        (frame, s) \<Rightarrow>
                          trampolineEvalForms forms flenv (TrampolineFrame frame # kStack) s)))
      | _ \<Rightarrow> (Throw callOperatorFormError, (kStack, s)))"

definition trampolineEvalForm ::
  "evl \<Rightarrow> env \<Rightarrow> trampolineElement list \<Rightarrow> state \<Rightarrow> evl bounce outcome \<times> trampolineState" where
  "trampolineEvalForm form lenv kStack s =
     (case form of
        EVLEmptyList \<Rightarrow> (Throw emptyListError, (kStack, s))
      | EVLCons a d \<Rightarrow>
          if a = quoteVariable then trampolineEvalQuote form lenv kStack s
          else if a = prognVariable then trampolineEvalProgn form lenv kStack s
          else if a = ifVariable then trampolineEvalIf form lenv kStack s
          else if a = u_vlambdaVariable then trampolineEvalLambda LEX_SCOPE VAL_NS False form lenv kStack s
          else if a = u_mlambdaVariable then trampolineEvalLambda LEX_SCOPE VAL_NS True form lenv kStack s
          else if a = u_flambdaVariable then trampolineEvalLambda LEX_SCOPE FUN_NS False form lenv kStack s
          else if a = u_dlambdaVariable then trampolineEvalLambda DYN_SCOPE VAL_NS False form lenv kStack s
          else if a = vrefVariable then trampolineEvalRef LEX_SCOPE VAL_NS form lenv kStack s
          else if a = vsetVariable then trampolineEvalSet LEX_SCOPE VAL_NS form lenv kStack s
          else if a = frefVariable then trampolineEvalRef LEX_SCOPE FUN_NS form lenv kStack s
          else if a = fsetVariable then trampolineEvalSet LEX_SCOPE FUN_NS form lenv kStack s
          else if a = drefVariable then trampolineEvalRef DYN_SCOPE VAL_NS form lenv kStack s
          else if a = dsetVariable then trampolineEvalSet DYN_SCOPE VAL_NS form lenv kStack s
          else if a = u_forEachVariable then (Throw forEachNotImplemented, (kStack, s))
          else if a = u_catchErrorsVariable then trampolineEvalCatchErrors form lenv kStack s
          else if a = applyVariable then trampolineEvalCall False True form lenv kStack s
          else if a = multipleValueCallVariable then trampolineEvalCall True False form lenv kStack s
          else if a = multipleValueApplyVariable then trampolineEvalCall True True form lenv kStack s
          else trampolineEvalCall False False form lenv kStack s
      | EVLVariable v \<Rightarrow> resultBounce (objectResult (DefiniteEnv_ref s lenv VAL_NS v) (kStack, s))
      | _ \<Rightarrow> (Return (Bounced (Result (EVLObject form))), (kStack, s)))"

text \<open>
  The method \<open>invoke\<close> of the continuations.  The end continuation has none (the loop of
  \<open>trampolineEval\<close> returns when it pops it); error handlers and frames are no
  continuations.
\<close>

definition trampolineCont_invoke ::
  "jsFunctions \<Rightarrow> trampolineElement \<Rightarrow> invoked \<Rightarrow> trampolineElement list \<Rightarrow> state \<Rightarrow>
   evl bounce outcome \<times> trampolineState" where
  "trampolineCont_invoke jsFunction k x kStack s =
     (case k of
        TrampolineButLastFormCont forms lenv \<Rightarrow> trampolineEvalForms (cdr forms) lenv kStack s
      | TrampolineIfTestFormCont thenForm elseForm lenv \<Rightarrow>
          thenDo (invokedResult x (kStack, s)) (\<lambda>r ks.
            let test = primaryValue r in
            if test = EVLBoolean True then (Return (EvalReq thenForm lenv), ks)
            else if test = EVLBoolean False then (Return (EvalReq elseForm lenv), ks)
            else (Throw ifTestFormError, ks))
      | TrampolineSetValueFormCont scope ns variable lenv \<Rightarrow>
          thenDo (invokedResult x (kStack, s)) (\<lambda>r (kStack, s).
            let v = primaryValue r in
            case scope of
              LEX_SCOPE \<Rightarrow>
                (case DefiniteEnv_set s lenv ns variable v of
                   (r, s1) \<Rightarrow> resultBounce (objectResult (Inr r) (kStack, s1)))
            | DYN_SCOPE \<Rightarrow>
                (case ControlStack_set s (trampolineFrames kStack) ns variable v of
                   (r, s1) \<Rightarrow> (Return (Bounced (Result (EVLObject r))), (kStack, s1))))
      | TrampolineCatchErrorsTryFormCont lenv \<Rightarrow>
          (Return (Bounced (Result (EVLObject EVLVoid))), (kStack, s))
      | TrampolineOperatorCont mv apply operator operands lenv \<Rightarrow>
          thenDo (invokedResult x (kStack, s)) (\<lambda>r (kStack, s).
            let fn = primaryValue r; macro = isMacroCall operator fn in
            trampolineEvalOperands mv macro operands [] lenv
              (TrampolineOperandsCont apply macro fn lenv # kStack) s)
      | TrampolineOperandCont mv macro operands args lenv \<Rightarrow>
          thenDo (invokedResult x (kStack, s)) (\<lambda>r (kStack, s).
            trampolineEvalOperands mv macro (cdr operands)
              (if mv then args @ allValues r else args @ [primaryValue r]) lenv kStack s)
      | TrampolineOperandsCont apply macro fn lenv \<Rightarrow>
          thenDo (invokedArgs x (kStack, s)) (\<lambda>args (kStack, s).
            trampolineInvokeFun jsFunction apply macro fn args lenv kStack s)
      | TrampolineMacroCont lenv \<Rightarrow>
          thenDo (invokedResult x (kStack, s)) (\<lambda>r ks.
            (Return (EvalReq (primaryValue r) lenv), ks))
      | _ \<Rightarrow> (Throw (JSTypeError ''k.invoke is not a function''), (kStack, s)))"

text \<open>
  The test of the abort flag: \<open>abortSignalArray !== null && abortSignalArray[0] === 1\<close>.
  \<open>abortSignalArray\<close> is \<open>null\<close> or a view of the bytes of the buffer that the host
  has installed.
\<close>

definition abortRequested :: "8 word list option \<Rightarrow> bool" where
  "abortRequested abortSignalArray =
     (case abortSignalArray of
        None \<Rightarrow> False
      | Some bytes \<Rightarrow> 0 < length bytes \<and> bytes ! 0 = 1)"

text \<open>
  The loop of \<open>trampolineEval\<close>: the fuel bounds the number of its turns.  The test of
  the abort flag is outside the two \<open>try\<close> statements.
\<close>

fun trampolineEval_loop ::
  "jsFunctions \<Rightarrow> 8 word list option \<Rightarrow> nat \<Rightarrow> evl bounce \<Rightarrow> trampolineElement list \<Rightarrow> state \<Rightarrow>
   result outcome \<times> state" where
  "trampolineEval_loop jsFunction abortSignalArray 0 bounce kStack s = (Timeout, s)"
| "trampolineEval_loop jsFunction abortSignalArray (Suc n) bounce kStack s =
     (if abortRequested abortSignalArray then (Throw Aborted, s)
      else
        (case bounce of
           EvalReq form lenv \<Rightarrow>
             (case trampolineEvalForm form lenv kStack s of
                (Return bounce1, (kStack1, s1)) \<Rightarrow>
                  trampolineEval_loop jsFunction abortSignalArray n bounce1 kStack1 s1
              | (Throw exception, (kStack1, s1)) \<Rightarrow>
                  (case TrampolineControlStack_handleError exception kStack1 of
                     (Return bounce1, kStack2) \<Rightarrow>
                       trampolineEval_loop jsFunction abortSignalArray n bounce1 kStack2 s1
                   | (Throw e, kStack2) \<Rightarrow> (Throw e, s1)
                   | (Timeout, kStack2) \<Rightarrow> (Timeout, s1))
              | (Timeout, (kStack1, s1)) \<Rightarrow> (Timeout, s1))
         | Bounced x \<Rightarrow>
             (case TrampolineControlStack_popCont kStack of
                None \<Rightarrow> (Timeout, s)
              | Some (k, kStack0) \<Rightarrow>
                  if k = TrampolineEndCont then invokedResult x s
                  else
                    (case trampolineCont_invoke jsFunction k x kStack0 s of
                       (Return bounce1, (kStack1, s1)) \<Rightarrow>
                         trampolineEval_loop jsFunction abortSignalArray n bounce1 kStack1 s1
                     | (Throw exception, (kStack1, s1)) \<Rightarrow>
                         (case TrampolineControlStack_handleError exception kStack1 of
                            (Return bounce1, kStack2) \<Rightarrow>
                              trampolineEval_loop jsFunction abortSignalArray n bounce1 kStack2 s1
                          | (Throw e, kStack2) \<Rightarrow> (Throw e, s1)
                          | (Timeout, kStack2) \<Rightarrow> (Timeout, s1))
                     | (Timeout, (kStack1, s1)) \<Rightarrow> (Timeout, s1)))))"

definition trampolineEval ::
  "jsFunctions \<Rightarrow> 8 word list option \<Rightarrow> nat \<Rightarrow> evl \<Rightarrow> state \<Rightarrow> result outcome \<times> state" where
  "trampolineEval jsFunction abortSignalArray n form s =
     trampolineEval_loop jsFunction abortSignalArray n (EvalReq form NullDefiniteEnv)
       [TrampolineEndCont] s"

section \<open>Trampoline++ evaluator\<close>

datatype trampolineppElement =
    TrampolineppEndCont
  | TrampolineppButLastFormCont "ppform list" env
  | TrampolineppIfTestFormCont ppform ppform env
  | TrampolineppSetValueFormCont scope namespace symref env
  | TrampolineppLSetValueFormCont nat nat env
  | TrampolineppGSetValueFormCont namespace symref env
  | TrampolineppDSetValueFormCont namespace symref env
  | TrampolineppCatchErrorsTryFormCont env
  | TrampolineppOperatorCont bool bool "ppform list" env
  | TrampolineppOperandCont bool "ppform list" "evl list" env
  | TrampolineppOperandsCont bool evl env
  | TrampolineppErrorHandler
  | TrampolineppFrame env

type_synonym trampolineppState = "trampolineppElement list \<times> state"

fun trampolineppFrames :: "trampolineppElement list \<Rightarrow> env list" where
  "trampolineppFrames [] = []"
| "trampolineppFrames (TrampolineppFrame f # stack) = f # trampolineppFrames stack"
| "trampolineppFrames (k # stack) = trampolineppFrames stack"

fun TrampolineppControlStack_popCont ::
  "trampolineppElement list \<Rightarrow> (trampolineppElement \<times> trampolineppElement list) option" where
  "TrampolineppControlStack_popCont [] = None"
| "TrampolineppControlStack_popCont (TrampolineppErrorHandler # stack) =
     TrampolineppControlStack_popCont stack"
| "TrampolineppControlStack_popCont (TrampolineppFrame f # stack) =
     TrampolineppControlStack_popCont stack"
| "TrampolineppControlStack_popCont (k # stack) = Some (k, stack)"

fun TrampolineppControlStack_handleError ::
  "exn \<Rightarrow> trampolineppElement list \<Rightarrow> ppform bounce outcome \<times> trampolineppElement list" where
  "TrampolineppControlStack_handleError exception [] = (Timeout, [])"
| "TrampolineppControlStack_handleError exception (TrampolineppErrorHandler # stack) =
     (Return (Bounced (Result (EVLObject (EVLString (js (exnName exception)))))), stack)"
| "TrampolineppControlStack_handleError exception (TrampolineppEndCont # stack) =
     (Throw exception, stack)"
| "TrampolineppControlStack_handleError exception (element # stack) =
     TrampolineppControlStack_handleError exception stack"

text \<open>
  The preprocessed forms of a progn form or of a closure are a list of the core whose
  elements are preprocessed forms; here a list.
\<close>

definition trampolineppEvalForms ::
  "ppform list \<Rightarrow> env \<Rightarrow> trampolineppElement list \<Rightarrow> state \<Rightarrow>
   ppform bounce outcome \<times> trampolineppState" where
  "trampolineppEvalForms forms lenv kStack s =
     (case forms of
        [] \<Rightarrow> (Return (Bounced (Result (EVLObject EVLVoid))), (kStack, s))
      | a # d \<Rightarrow>
          if d = [] then (Return (EvalReq a lenv), (kStack, s))
          else (Return (EvalReq a lenv), (TrampolineppButLastFormCont forms lenv # kStack, s)))"

text \<open>
  The frame that is \<open>i\<close> steps of \<open>next\<close> from an environment, and its slot \<open>j\<close>
  (\<open>TrampolineppLRef\<close>, \<open>TrampolineppLSetValueFormCont\<close>).  The null environment has no
  property \<open>next\<close> and no property \<open>values\<close>.
\<close>

fun frameAt :: "nat \<Rightarrow> env \<Rightarrow> exn + env" where
  "frameAt 0 frame = Inr frame"
| "frameAt (Suc n) (Frame ns variables a next) = frameAt n next"
| "frameAt (Suc n) NullDefiniteEnv = frameAt n UndefinedEnv"
| "frameAt (Suc n) UndefinedEnv = Inl (JSTypeError ''Cannot read properties of undefined'')"

definition frameValue :: "state \<Rightarrow> env \<Rightarrow> nat \<Rightarrow> exn + evl option" where
  "frameValue s frame j =
     (case frame of
        Frame ns variables a next \<Rightarrow> Inr (frameSlot s a j)
      | _ \<Rightarrow> Inl (JSTypeError ''Cannot read properties of undefined''))"

definition setFrameValue :: "state \<Rightarrow> env \<Rightarrow> nat \<Rightarrow> evl \<Rightarrow> exn + state" where
  "setFrameValue s frame j v =
     (case frame of
        Frame ns variables a next \<Rightarrow> Inr (setFrameSlot s a j v)
      | _ \<Rightarrow> Inl (JSTypeError ''Cannot set properties of undefined''))"

text \<open>The method \<open>eval\<close> of the preprocessed forms.\<close>

definition TrampolineppForm_eval ::
  "ppform \<Rightarrow> env \<Rightarrow> trampolineppElement list \<Rightarrow> state \<Rightarrow> ppform bounce outcome \<times> trampolineppState" where
  "TrampolineppForm_eval form lenv kStack s =
     (case form of
        TrampolineppQuote literal \<Rightarrow> (Return (Bounced (Result (EVLObject literal))), (kStack, s))
      | TrampolineppProgn forms \<Rightarrow> trampolineppEvalForms forms lenv kStack s
      | TrampolineppIf testForm thenForm elseForm \<Rightarrow>
          (Return (EvalReq testForm lenv),
           (TrampolineppIfTestFormCont thenForm elseForm lenv # kStack, s))
      | TrampolineppLambda scope ns macro parameters rest forms \<Rightarrow>
          (Return (Bounced (Result (EVLObject
             (EVLClosure scope ns macro parameters rest (PreprocessedForms forms) lenv)))),
           (kStack, s))
      | TrampolineppRef scope ns variable \<Rightarrow>
          (case scope of
             LEX_SCOPE \<Rightarrow>
               resultBounce (objectResult (DefiniteEnv_ref s lenv ns variable) (kStack, s))
           | DYN_SCOPE \<Rightarrow>
               thenDo (lift (ControlStack_ref s (trampolineppFrames kStack) ns variable) (kStack, s))
                 (\<lambda>r ks. (Return (Bounced (Result (EVLObject r))), ks)))
      | TrampolineppLRef i j \<Rightarrow>
          thenDo (lift (frameAt i lenv) (kStack, s)) (\<lambda>frame (kStack, s).
            resultBounce (objectResult (frameValue s frame j) (kStack, s)))
      | TrampolineppGRef ns variable \<Rightarrow>
          thenDo (lift (GlobalEnv_ref s ns variable) (kStack, s)) (\<lambda>r ks.
            (Return (Bounced (Result (EVLObject r))), ks))
      | TrampolineppDRef ns variable \<Rightarrow>
          thenDo (lift (ControlStack_ref s (trampolineppFrames kStack) ns variable) (kStack, s))
            (\<lambda>r ks. (Return (Bounced (Result (EVLObject r))), ks))
      | TrampolineppSet scope ns variable valueForm \<Rightarrow>
          (Return (EvalReq valueForm lenv),
           (TrampolineppSetValueFormCont scope ns variable lenv # kStack, s))
      | TrampolineppLSet i j valueForm \<Rightarrow>
          (Return (EvalReq valueForm lenv), (TrampolineppLSetValueFormCont i j lenv # kStack, s))
      | TrampolineppGSet ns variable valueForm \<Rightarrow>
          (Return (EvalReq valueForm lenv),
           (TrampolineppGSetValueFormCont ns variable lenv # kStack, s))
      | TrampolineppDSet ns variable valueForm \<Rightarrow>
          (Return (EvalReq valueForm lenv),
           (TrampolineppDSetValueFormCont ns variable lenv # kStack, s))
      | TrampolineppForEach functionForm listForm \<Rightarrow> (Throw forEachNotImplemented, (kStack, s))
      | TrampolineppCatchErrors tryForm \<Rightarrow>
          (Return (EvalReq tryForm lenv),
           (TrampolineppCatchErrorsTryFormCont lenv # TrampolineppErrorHandler # kStack, s))
      | TrampolineppCall mv apply operator operands \<Rightarrow>
          (Return (EvalReq operator lenv),
           (TrampolineppOperatorCont mv apply operands lenv # kStack, s)))"

definition trampolineppEvalOperands ::
  "bool \<Rightarrow> ppform list \<Rightarrow> evl list \<Rightarrow> env \<Rightarrow> trampolineppElement list \<Rightarrow> state \<Rightarrow>
   ppform bounce outcome \<times> trampolineppState" where
  "trampolineppEvalOperands mv operands args lenv kStack s =
     (case operands of
        [] \<Rightarrow> (Return (Bounced (Args args)), (kStack, s))
      | a # d \<Rightarrow>
          (Return (EvalReq a lenv), (TrampolineppOperandCont mv operands args lenv # kStack, s)))"

definition trampolineppInvokeFun ::
  "jsFunctions \<Rightarrow> bool \<Rightarrow> evl \<Rightarrow> evl list \<Rightarrow> env \<Rightarrow> trampolineppElement list \<Rightarrow> state \<Rightarrow>
   ppform bounce outcome \<times> trampolineppState" where
  "trampolineppInvokeFun jsFunction apply fn args lenv kStack s =
     (case fn of
        EVLPrimitiveFunction arityMin arityMax name \<Rightarrow>
          thenDo (lift (pairPrimFunParameters apply args arityMin arityMax) (kStack, s))
            (\<lambda>vals (kStack, s).
               case jsFunction name vals s of
                 (Return r, s1) \<Rightarrow> (Return (Bounced (Result r)), (kStack, s1))
               | (Throw e, s1) \<Rightarrow> (Throw e, (kStack, s1))
               | (Timeout, s1) \<Rightarrow> (Timeout, (kStack, s1)))
      | EVLClosure scope ns m parameters rest forms flenv \<Rightarrow>
          thenDo (lift (pairClosureParameters apply args parameters rest) (kStack, s))
            (\<lambda>vals (kStack, s).
               thenDo (lift (closurePreprocessedForms forms) (kStack, s)) (\<lambda>forms (kStack, s).
                 case scope of
                   LEX_SCOPE \<Rightarrow>
                     (case newFrame ns parameters (map Some vals) flenv s of
                        (elenv, s) \<Rightarrow> trampolineppEvalForms forms elenv kStack s)
                 | DYN_SCOPE \<Rightarrow>
                     (case newFrame ns parameters (map Some vals) UndefinedEnv s of
                        (frame, s) \<Rightarrow>
                          trampolineppEvalForms forms flenv (TrampolineppFrame frame # kStack) s)))
      | _ \<Rightarrow> (Throw callOperatorFormError, (kStack, s)))"

definition trampolineppCont_invoke ::
  "jsFunctions \<Rightarrow> trampolineppElement \<Rightarrow> invoked \<Rightarrow> trampolineppElement list \<Rightarrow> state \<Rightarrow>
   ppform bounce outcome \<times> trampolineppState" where
  "trampolineppCont_invoke jsFunction k x kStack s =
     (case k of
        TrampolineppButLastFormCont forms lenv \<Rightarrow> trampolineppEvalForms (tl forms) lenv kStack s
      | TrampolineppIfTestFormCont thenForm elseForm lenv \<Rightarrow>
          thenDo (invokedResult x (kStack, s)) (\<lambda>r ks.
            let test = primaryValue r in
            if test = EVLBoolean True then (Return (EvalReq thenForm lenv), ks)
            else if test = EVLBoolean False then (Return (EvalReq elseForm lenv), ks)
            else (Throw ifTestFormError, ks))
      | TrampolineppSetValueFormCont scope ns variable lenv \<Rightarrow>
          thenDo (invokedResult x (kStack, s)) (\<lambda>r (kStack, s).
            let v = primaryValue r in
            case scope of
              LEX_SCOPE \<Rightarrow>
                (case DefiniteEnv_set s lenv ns variable v of
                   (r, s1) \<Rightarrow> resultBounce (objectResult (Inr r) (kStack, s1)))
            | DYN_SCOPE \<Rightarrow>
                (case ControlStack_set s (trampolineppFrames kStack) ns variable v of
                   (r, s1) \<Rightarrow> (Return (Bounced (Result (EVLObject r))), (kStack, s1))))
      | TrampolineppLSetValueFormCont i j lenv \<Rightarrow>
          thenDo (invokedResult x (kStack, s)) (\<lambda>r (kStack, s).
            let v = primaryValue r in
            thenDo (lift (frameAt i lenv) (kStack, s)) (\<lambda>frame (kStack, s).
              case setFrameValue s frame j v of
                Inl e \<Rightarrow> (Throw e, (kStack, s))
              | Inr s1 \<Rightarrow> (Return (Bounced (Result (EVLObject v))), (kStack, s1))))
      | TrampolineppGSetValueFormCont ns variable lenv \<Rightarrow>
          thenDo (invokedResult x (kStack, s)) (\<lambda>r (kStack, s).
            let v = primaryValue r in
            (Return (Bounced (Result (EVLObject v))), (kStack, GlobalEnv_set s ns variable v)))
      | TrampolineppDSetValueFormCont ns variable lenv \<Rightarrow>
          thenDo (invokedResult x (kStack, s)) (\<lambda>r (kStack, s).
            let v = primaryValue r in
            case ControlStack_set s (trampolineppFrames kStack) ns variable v of
              (r, s1) \<Rightarrow> (Return (Bounced (Result (EVLObject r))), (kStack, s1)))
      | TrampolineppCatchErrorsTryFormCont lenv \<Rightarrow>
          (Return (Bounced (Result (EVLObject EVLVoid))), (kStack, s))
      | TrampolineppOperatorCont mv apply operands lenv \<Rightarrow>
          thenDo (invokedResult x (kStack, s)) (\<lambda>r (kStack, s).
            let fn = primaryValue r in
            trampolineppEvalOperands mv operands [] lenv
              (TrampolineppOperandsCont apply fn lenv # kStack) s)
      | TrampolineppOperandCont mv operands args lenv \<Rightarrow>
          thenDo (invokedResult x (kStack, s)) (\<lambda>r (kStack, s).
            trampolineppEvalOperands mv (tl operands)
              (if mv then args @ allValues r else args @ [primaryValue r]) lenv kStack s)
      | TrampolineppOperandsCont apply fn lenv \<Rightarrow>
          thenDo (invokedArgs x (kStack, s)) (\<lambda>args (kStack, s).
            trampolineppInvokeFun jsFunction apply fn args lenv kStack s)
      | _ \<Rightarrow> (Throw (JSTypeError ''k.invoke is not a function''), (kStack, s)))"

text \<open>
  The loop of \<open>trampolineppEval\<close>, from the evaluation request of a preprocessed form in
  an environment (what \<open>trampolineppEval\<close> does after the preprocessing, or at once when
  it is given an environment).
\<close>

fun trampolineppEval_loop ::
  "jsFunctions \<Rightarrow> 8 word list option \<Rightarrow> nat \<Rightarrow> ppform bounce \<Rightarrow> trampolineppElement list \<Rightarrow> state \<Rightarrow>
   result outcome \<times> state" where
  "trampolineppEval_loop jsFunction abortSignalArray 0 bounce kStack s = (Timeout, s)"
| "trampolineppEval_loop jsFunction abortSignalArray (Suc n) bounce kStack s =
     (if abortRequested abortSignalArray then (Throw Aborted, s)
      else
        (case bounce of
           EvalReq form lenv \<Rightarrow>
             (case TrampolineppForm_eval form lenv kStack s of
                (Return bounce1, (kStack1, s1)) \<Rightarrow>
                  trampolineppEval_loop jsFunction abortSignalArray n bounce1 kStack1 s1
              | (Throw exception, (kStack1, s1)) \<Rightarrow>
                  (case TrampolineppControlStack_handleError exception kStack1 of
                     (Return bounce1, kStack2) \<Rightarrow>
                       trampolineppEval_loop jsFunction abortSignalArray n bounce1 kStack2 s1
                   | (Throw e, kStack2) \<Rightarrow> (Throw e, s1)
                   | (Timeout, kStack2) \<Rightarrow> (Timeout, s1))
              | (Timeout, (kStack1, s1)) \<Rightarrow> (Timeout, s1))
         | Bounced x \<Rightarrow>
             (case TrampolineppControlStack_popCont kStack of
                None \<Rightarrow> (Timeout, s)
              | Some (k, kStack0) \<Rightarrow>
                  if k = TrampolineppEndCont then invokedResult x s
                  else
                    (case trampolineppCont_invoke jsFunction k x kStack0 s of
                       (Return bounce1, (kStack1, s1)) \<Rightarrow>
                         trampolineppEval_loop jsFunction abortSignalArray n bounce1 kStack1 s1
                     | (Throw exception, (kStack1, s1)) \<Rightarrow>
                         (case TrampolineppControlStack_handleError exception kStack1 of
                            (Return bounce1, kStack2) \<Rightarrow>
                              trampolineppEval_loop jsFunction abortSignalArray n bounce1 kStack2 s1
                          | (Throw e, kStack2) \<Rightarrow> (Throw e, s1)
                          | (Timeout, kStack2) \<Rightarrow> (Timeout, s1))
                     | (Timeout, (kStack1, s1)) \<Rightarrow> (Timeout, s1)))))"

definition trampolineppEval_lenv ::
  "jsFunctions \<Rightarrow> 8 word list option \<Rightarrow> nat \<Rightarrow> ppform \<Rightarrow> env \<Rightarrow> state \<Rightarrow> result outcome \<times> state" where
  "trampolineppEval_lenv jsFunction abortSignalArray n form lenv s =
     trampolineppEval_loop jsFunction abortSignalArray n (EvalReq form lenv) [TrampolineppEndCont] s"

subsection \<open>Preprocessing\<close>

text \<open>
  The functions that \<open>trampolineppPreprocessForm\<close> calls take the
  \<open>trampolineppPreprocessForm\<close> that they call back as the argument \<open>pp\<close>, and the
  \<open>trampolineppEval\<close> that expands the macro calls as the argument \<open>evalIn\<close>.
\<close>

type_synonym preprocessFormFun = "evl \<Rightarrow> env \<Rightarrow> state \<Rightarrow> ppform outcome \<times> state"

fun trampolineppPreprocessForms ::
  "preprocessFormFun \<Rightarrow> evl \<Rightarrow> env \<Rightarrow> state \<Rightarrow> ppform list outcome \<times> state" where
  "trampolineppPreprocessForms pp EVLEmptyList lenv s = (Return [], s)"
| "trampolineppPreprocessForms pp (EVLCons a d) lenv s =
     thenDo (pp a lenv s) (\<lambda>form s1.
       thenDo (trampolineppPreprocessForms pp d lenv s1) (\<lambda>forms s2.
         (Return (form # forms), s2)))"
| "trampolineppPreprocessForms pp x lenv s = (Throw (JSTypeError ''forms''), s)"

definition trampolineppPreprocessQuote :: "evl \<Rightarrow> env \<Rightarrow> state \<Rightarrow> ppform outcome \<times> state" where
  "trampolineppPreprocessQuote form lenv s =
     thenDo (lift (analyzeQuote form) s) (\<lambda>literal s. (Return (TrampolineppQuote literal), s))"

definition trampolineppPreprocessProgn ::
  "preprocessFormFun \<Rightarrow> evl \<Rightarrow> env \<Rightarrow> state \<Rightarrow> ppform outcome \<times> state" where
  "trampolineppPreprocessProgn pp form lenv s =
     thenDo (lift (analyzeProgn form) s) (\<lambda>forms s.
       thenDo (trampolineppPreprocessForms pp forms lenv s) (\<lambda>preprocessedForms s.
         (Return (TrampolineppProgn preprocessedForms), s)))"

definition trampolineppPreprocessIf ::
  "preprocessFormFun \<Rightarrow> evl \<Rightarrow> env \<Rightarrow> state \<Rightarrow> ppform outcome \<times> state" where
  "trampolineppPreprocessIf pp form lenv s =
     thenDo (lift (analyzeIf form) s) (\<lambda>(testForm, thenForm, elseForm) s.
       thenDo (pp testForm lenv s) (\<lambda>preprocessedTestForm s.
         thenDo (pp thenForm lenv s) (\<lambda>preprocessedThenForm s.
           thenDo (pp elseForm lenv s) (\<lambda>preprocessedElseForm s.
             (Return (TrampolineppIf preprocessedTestForm preprocessedThenForm
                        preprocessedElseForm), s)))))"

definition trampolineppPreprocessLambda ::
  "preprocessFormFun \<Rightarrow> scope \<Rightarrow> namespace \<Rightarrow> bool \<Rightarrow> evl \<Rightarrow> env \<Rightarrow> state \<Rightarrow> ppform outcome \<times> state" where
  "trampolineppPreprocessLambda pp scope ns macro form lenv s =
     thenDo (lift (analyzeLambda form) s) (\<lambda>(parameters, rest, forms) s.
       case scope of
         LEX_SCOPE \<Rightarrow>
           (case newFrame ns parameters (replicate (length parameters) None) lenv s of
              (elenv, s) \<Rightarrow>
                thenDo (trampolineppPreprocessForms pp forms elenv s) (\<lambda>preprocessedForms s.
                  (Return (TrampolineppLambda scope ns macro parameters rest preprocessedForms), s)))
       | DYN_SCOPE \<Rightarrow>
           thenDo (trampolineppPreprocessForms pp forms lenv s) (\<lambda>preprocessedForms s.
             (Return (TrampolineppLambda scope ns macro parameters rest preprocessedForms), s)))"

text \<open>\<open>optimizeLexicalVariables\<close> is the constant \<open>true\<close>.\<close>

definition optimizeLexicalVariables :: bool where
  "optimizeLexicalVariables = True"

definition trampolineppPreprocessRef2 ::
  "scope \<Rightarrow> namespace \<Rightarrow> symref \<Rightarrow> env \<Rightarrow> state \<Rightarrow> ppform outcome \<times> state" where
  "trampolineppPreprocessRef2 scope ns variable lenv s =
     (if \<not> optimizeLexicalVariables then (Return (TrampolineppRef scope ns variable), s)
      else
        (case scope of
           LEX_SCOPE \<Rightarrow>
             thenDo (lift (DefiniteEnv_preprocessorRef s lenv ns variable 0) s) (\<lambda>(ij, v) s.
               case ij of
                 Some (i, j) \<Rightarrow> (Return (TrampolineppLRef i j), s)
               | None \<Rightarrow> (Return (TrampolineppGRef ns variable), s))
         | DYN_SCOPE \<Rightarrow> (Return (TrampolineppDRef ns variable), s)))"

definition trampolineppPreprocessRef ::
  "scope \<Rightarrow> namespace \<Rightarrow> evl \<Rightarrow> env \<Rightarrow> state \<Rightarrow> ppform outcome \<times> state" where
  "trampolineppPreprocessRef scope ns form lenv s =
     thenDo (lift (analyzeRef form) s) (\<lambda>variable s.
       trampolineppPreprocessRef2 scope ns variable lenv s)"

definition trampolineppPreprocessSet ::
  "preprocessFormFun \<Rightarrow> scope \<Rightarrow> namespace \<Rightarrow> evl \<Rightarrow> env \<Rightarrow> state \<Rightarrow> ppform outcome \<times> state" where
  "trampolineppPreprocessSet pp scope ns form lenv s =
     thenDo (lift (analyzeSet form) s) (\<lambda>(variable, valueForm) s.
       thenDo (pp valueForm lenv s) (\<lambda>preprocessedValueForm s.
         if \<not> optimizeLexicalVariables then
           (Return (TrampolineppSet scope ns variable preprocessedValueForm), s)
         else
           (case scope of
              LEX_SCOPE \<Rightarrow>
                thenDo (lift (DefiniteEnv_preprocessorRef s lenv ns variable 0) s) (\<lambda>(ij, v) s.
                  case ij of
                    Some (i, j) \<Rightarrow> (Return (TrampolineppLSet i j preprocessedValueForm), s)
                  | None \<Rightarrow> (Return (TrampolineppGSet ns variable preprocessedValueForm), s))
            | DYN_SCOPE \<Rightarrow> (Return (TrampolineppDSet ns variable preprocessedValueForm), s))))"

definition trampolineppPreprocessForEach ::
  "preprocessFormFun \<Rightarrow> evl \<Rightarrow> env \<Rightarrow> state \<Rightarrow> ppform outcome \<times> state" where
  "trampolineppPreprocessForEach pp form lenv s =
     thenDo (lift (analyzeForEach form) s) (\<lambda>(functionForm, listForm) s.
       thenDo (pp functionForm lenv s) (\<lambda>preprocessedFunctionForm s.
         thenDo (pp listForm lenv s) (\<lambda>preprocessedListForm s.
           (Return (TrampolineppForEach preprocessedFunctionForm preprocessedListForm), s))))"

definition trampolineppPreprocessCatchErrors ::
  "preprocessFormFun \<Rightarrow> evl \<Rightarrow> env \<Rightarrow> state \<Rightarrow> ppform outcome \<times> state" where
  "trampolineppPreprocessCatchErrors pp form lenv s =
     thenDo (lift (analyzeCatchErrors form) s) (\<lambda>tryForm s.
       thenDo (pp tryForm lenv s) (\<lambda>preprocessedTryForm s.
         (Return (TrampolineppCatchErrors preprocessedTryForm), s)))"

fun isMacroLet_loop :: "evl \<Rightarrow> bool" where
  "isMacroLet_loop EVLEmptyList = True"
| "isMacroLet_loop (EVLCons operand d) =
     (if \<not> isEVLCons operand then False
      else if car operand \<noteq> mlambdaVariable then False
      else isMacroLet_loop d)"
| "isMacroLet_loop x = False"

definition isMacroLet :: "evl \<Rightarrow> evl \<Rightarrow> bool" where
  "isMacroLet operator operands =
     (if \<not> isEVLCons operator then False
      else if car operator \<noteq> u_flambdaVariable then False
      else isMacroLet_loop operands)"

text \<open>
  The method \<open>eval\<close> applied to the null environment and to \<open>null\<close> in the place of the
  control stack (the operands of a macro-let): the call of a method of the control stack
  throws a \<open>TypeError\<close>, and a bounce that is no object is kept as no object.
\<close>

definition TrampolineppForm_eval_null :: "state \<Rightarrow> ppform \<Rightarrow> exn + evl option" where
  "TrampolineppForm_eval_null s form =
     (case form of
        TrampolineppQuote literal \<Rightarrow> Inr (Some literal)
      | TrampolineppProgn forms \<Rightarrow>
          (case forms of
             [] \<Rightarrow> Inr (Some EVLVoid)
           | a # d \<Rightarrow>
               if d = [] then Inr None
               else Inl (JSTypeError ''Cannot read properties of null''))
      | TrampolineppLambda scope ns macro parameters rest forms \<Rightarrow>
          Inr (Some (EVLClosure scope ns macro parameters rest (PreprocessedForms forms)
                       NullDefiniteEnv))
      | TrampolineppRef scope ns variable \<Rightarrow>
          (case scope of
             LEX_SCOPE \<Rightarrow> DefiniteEnv_ref s NullDefiniteEnv ns variable
           | DYN_SCOPE \<Rightarrow> Inl (JSTypeError ''Cannot read properties of null''))
      | TrampolineppLRef i j \<Rightarrow>
          (case frameAt i NullDefiniteEnv of
             Inl e \<Rightarrow> Inl e
           | Inr frame \<Rightarrow> frameValue s frame j)
      | TrampolineppGRef ns variable \<Rightarrow>
          (case GlobalEnv_ref s ns variable of Inl e \<Rightarrow> Inl e | Inr v \<Rightarrow> Inr (Some v))
      | TrampolineppForEach functionForm listForm \<Rightarrow> Inl forEachNotImplemented
      | _ \<Rightarrow> Inl (JSTypeError ''Cannot read properties of null''))"

fun evalOperands_null :: "state \<Rightarrow> ppform list \<Rightarrow> exn + evl option list" where
  "evalOperands_null s [] = Inr []"
| "evalOperands_null s (operand # operands) =
     (case TrampolineppForm_eval_null s operand of
        Inl e \<Rightarrow> Inl e
      | Inr v \<Rightarrow>
          (case evalOperands_null s operands of
             Inl e \<Rightarrow> Inl e
           | Inr vs \<Rightarrow> Inr (v # vs)))"

definition trampolineppPreprocessCall ::
  "(ppform \<Rightarrow> env \<Rightarrow> state \<Rightarrow> result outcome \<times> state) \<Rightarrow> preprocessFormFun \<Rightarrow>
   bool \<Rightarrow> bool \<Rightarrow> evl \<Rightarrow> env \<Rightarrow> state \<Rightarrow> ppform outcome \<times> state" where
  "trampolineppPreprocessCall evalIn pp mv apply form lenv s =
     thenDo (lift (analyzeCall mv apply form) s) (\<lambda>(operator, operands) s.
       case operator of
         EVLVariable v \<Rightarrow>
           thenDo (lift (DefiniteEnv_preprocessorRef s lenv FUN_NS v 0) s) (\<lambda>(ij, fn) s.
             case fn of
               Some (EVLClosure fscope fns True parameters rest forms flenv) \<Rightarrow>
                 thenDo (lift (pairClosureParameters False (listToArray operands) parameters rest) s)
                   (\<lambda>vals s.
                      case newFrame fns parameters (map Some vals) flenv s of
                        (elenv, s) \<Rightarrow>
                          thenDo (lift (closurePreprocessedForms forms) s) (\<lambda>forms s.
                            thenDo (evalIn (TrampolineppProgn forms) elenv s) (\<lambda>r s.
                              pp (primaryValue r) lenv s)))
             | _ \<Rightarrow>
                 thenDo (trampolineppPreprocessRef2 LEX_SCOPE FUN_NS v lenv s) (\<lambda>preprocessedOperator s.
                   thenDo (trampolineppPreprocessForms pp operands lenv s) (\<lambda>preprocessedOperands s.
                     (Return (TrampolineppCall mv apply preprocessedOperator preprocessedOperands), s))))
       | _ \<Rightarrow>
           if isMacroLet operator operands then
             thenDo (trampolineppPreprocessForms pp operands lenv s) (\<lambda>preprocessedOperands s.
               thenDo (lift (analyzeLambda operator) s) (\<lambda>(parameters, rest, forms) s.
                 thenDo (lift (evalOperands_null s preprocessedOperands) s) (\<lambda>vals s.
                   case newFrame FUN_NS parameters vals lenv s of
                     (elenv, s) \<Rightarrow>
                       thenDo (trampolineppPreprocessForms pp forms elenv s) (\<lambda>preprocessedForms s.
                         (Return (TrampolineppCall mv apply
                                    (TrampolineppLambda LEX_SCOPE FUN_NS False parameters rest
                                       preprocessedForms)
                                    preprocessedOperands), s)))))
           else
             thenDo (pp operator lenv s) (\<lambda>preprocessedOperator s.
               thenDo (trampolineppPreprocessForms pp operands lenv s) (\<lambda>preprocessedOperands s.
                 (Return (TrampolineppCall mv apply preprocessedOperator preprocessedOperands), s))))"

text \<open>
  The fuel of \<open>trampolineppPreprocessForm\<close> bounds the depth of its calls, and the number
  of turns of the loop of each \<open>trampolineppEval\<close> that expands a macro call.
\<close>

fun trampolineppPreprocessForm ::
  "jsFunctions \<Rightarrow> 8 word list option \<Rightarrow> nat \<Rightarrow> evl \<Rightarrow> env \<Rightarrow> state \<Rightarrow> ppform outcome \<times> state" where
  "trampolineppPreprocessForm jsFunction abortSignalArray 0 form lenv s = (Timeout, s)"
| "trampolineppPreprocessForm jsFunction abortSignalArray (Suc n) form lenv s =
     (case form of
        EVLEmptyList \<Rightarrow> (Throw emptyListError, s)
      | EVLCons a d \<Rightarrow>
          if a = quoteVariable then trampolineppPreprocessQuote form lenv s
          else if a = prognVariable then
            trampolineppPreprocessProgn (trampolineppPreprocessForm jsFunction abortSignalArray n)
              form lenv s
          else if a = ifVariable then
            trampolineppPreprocessIf (trampolineppPreprocessForm jsFunction abortSignalArray n)
              form lenv s
          else if a = u_vlambdaVariable then
            trampolineppPreprocessLambda (trampolineppPreprocessForm jsFunction abortSignalArray n)
              LEX_SCOPE VAL_NS False form lenv s
          else if a = u_mlambdaVariable then
            trampolineppPreprocessLambda (trampolineppPreprocessForm jsFunction abortSignalArray n)
              LEX_SCOPE VAL_NS True form lenv s
          else if a = u_flambdaVariable then
            trampolineppPreprocessLambda (trampolineppPreprocessForm jsFunction abortSignalArray n)
              LEX_SCOPE FUN_NS False form lenv s
          else if a = u_dlambdaVariable then
            trampolineppPreprocessLambda (trampolineppPreprocessForm jsFunction abortSignalArray n)
              DYN_SCOPE VAL_NS False form lenv s
          else if a = vrefVariable then trampolineppPreprocessRef LEX_SCOPE VAL_NS form lenv s
          else if a = vsetVariable then
            trampolineppPreprocessSet (trampolineppPreprocessForm jsFunction abortSignalArray n)
              LEX_SCOPE VAL_NS form lenv s
          else if a = frefVariable then trampolineppPreprocessRef LEX_SCOPE FUN_NS form lenv s
          else if a = fsetVariable then
            trampolineppPreprocessSet (trampolineppPreprocessForm jsFunction abortSignalArray n)
              LEX_SCOPE FUN_NS form lenv s
          else if a = drefVariable then trampolineppPreprocessRef DYN_SCOPE VAL_NS form lenv s
          else if a = dsetVariable then
            trampolineppPreprocessSet (trampolineppPreprocessForm jsFunction abortSignalArray n)
              DYN_SCOPE VAL_NS form lenv s
          else if a = u_forEachVariable then
            trampolineppPreprocessForEach (trampolineppPreprocessForm jsFunction abortSignalArray n)
              form lenv s
          else if a = u_catchErrorsVariable then
            trampolineppPreprocessCatchErrors (trampolineppPreprocessForm jsFunction abortSignalArray n)
              form lenv s
          else if a = applyVariable then
            trampolineppPreprocessCall (trampolineppEval_lenv jsFunction abortSignalArray n)
              (trampolineppPreprocessForm jsFunction abortSignalArray n) False True form lenv s
          else if a = multipleValueCallVariable then
            trampolineppPreprocessCall (trampolineppEval_lenv jsFunction abortSignalArray n)
              (trampolineppPreprocessForm jsFunction abortSignalArray n) True False form lenv s
          else if a = multipleValueApplyVariable then
            trampolineppPreprocessCall (trampolineppEval_lenv jsFunction abortSignalArray n)
              (trampolineppPreprocessForm jsFunction abortSignalArray n) True True form lenv s
          else
            trampolineppPreprocessCall (trampolineppEval_lenv jsFunction abortSignalArray n)
              (trampolineppPreprocessForm jsFunction abortSignalArray n) False False form lenv s
      | EVLVariable v \<Rightarrow> trampolineppPreprocessRef2 LEX_SCOPE VAL_NS v lenv s
      | _ \<Rightarrow> (Return (TrampolineppQuote form), s))"

text \<open>\<open>trampolineppEval\<close> applied to a form only: it preprocesses the form first.\<close>

definition trampolineppEval ::
  "jsFunctions \<Rightarrow> 8 word list option \<Rightarrow> nat \<Rightarrow> evl \<Rightarrow> state \<Rightarrow> result outcome \<times> state" where
  "trampolineppEval jsFunction abortSignalArray n form s =
     thenDo (trampolineppPreprocessForm jsFunction abortSignalArray n form NullDefiniteEnv s)
       (\<lambda>preprocessedForm s.
          trampolineppEval_lenv jsFunction abortSignalArray n preprocessedForm NullDefiniteEnv s)"

section \<open>Generic evaluator\<close>

text \<open>\<open>selectedEvaluator\<close> is \<open>null\<close> or the string that \<open>initialize\<close> has assigned.\<close>

definition genericEval ::
  "jsFunctions \<Rightarrow> 8 word list option \<Rightarrow> jsstring option \<Rightarrow> nat \<Rightarrow> evl \<Rightarrow> state \<Rightarrow> result outcome \<times> state" where
  "genericEval jsFunction abortSignalArray selectedEvaluator n form s =
     (if selectedEvaluator = Some (js ''plainrec'') then plainrecEval jsFunction n form s
      else if selectedEvaluator = Some (js ''cps'') then cpsEval jsFunction n form s
      else if selectedEvaluator = Some (js ''oocps'') then oocpsEval jsFunction n form s
      else if selectedEvaluator = Some (js ''sboocps'') then sboocpsEval jsFunction n form s
      else if selectedEvaluator = Some (js ''trampoline'') then
        trampolineEval jsFunction abortSignalArray n form s
      else if selectedEvaluator = Some (js ''trampolinepp'') then
        trampolineppEval jsFunction abortSignalArray n form s
      else (Throw (CannotHappen ''genericEval''), s))"

section \<open>Printer\<close>

text \<open>
  The escape of a code point, with its digits in base 16 (\<open>toString(16).toUpperCase()\<close>).
\<close>

definition unicodeEscape :: "nat \<Rightarrow> jsstring" where
  "unicodeEscape codePoint = [92] @ js ''U{'' @ digits 16 codePoint @ js ''}''"

definition escapeStringCharacter :: "jsstring \<Rightarrow> jsstring" where
  "escapeStringCharacter char =
     (if char = [92] then [92, 92]
      else if char = [34] then [92, 34]
      else if char = [9] then [92, 116]
      else if char = [10] then [92, 110]
      else if char = [11] then [92, 118]
      else if char = [12] then [92, 102]
      else if char = [13] then [92, 114]
      else char)"

definition escapeProtoTokenCharacter :: "jsstring \<Rightarrow> jsstring" where
  "escapeProtoTokenCharacter char =
     (if isWhitespaceCharacter (ensureCodePoint char) \<or> isSyntaxCharacter (ensureCodePoint char)
      then unicodeEscape (ensureCodePoint char)
      else if char = [92] then [92, 92]
      else if char = [60] then [92, 60]
      else char)"

text \<open>
  The part of the loop of \<open>escapeCharacters\<close> that follows the decoding of a character,
  and the loop, on what is left of the string.
\<close>

definition escapeCharacter_checked :: "(jsstring \<Rightarrow> jsstring) \<Rightarrow> jsstring \<Rightarrow> jsstring" where
  "escapeCharacter_checked escapeCharacter char =
     (let codePoint = ensureCodePoint char in
      if isControlCharacter codePoint \<and> \<not> isWhitespaceCharacter codePoint
      then unicodeEscape codePoint
      else if isNoncharacter codePoint then unicodeEscape codePoint
      else escapeCharacter char)"

fun escapeCharacters :: "jsstring \<Rightarrow> (jsstring \<Rightarrow> jsstring) \<Rightarrow> jsstring" where
  "escapeCharacters [] escapeCharacter = []"
| "escapeCharacters [codeUnit] escapeCharacter =
     (if isTrailingSurrogate codeUnit then unicodeEscape codeUnit
      else if isLeadingSurrogate codeUnit then unicodeEscape codeUnit
      else escapeCharacter_checked escapeCharacter [codeUnit])"
| "escapeCharacters (codeUnit # codeUnit2 # chars) escapeCharacter =
     (if isTrailingSurrogate codeUnit then
        unicodeEscape codeUnit @ escapeCharacters (codeUnit2 # chars) escapeCharacter
      else if isLeadingSurrogate codeUnit then
        (if isTrailingSurrogate codeUnit2 then
           escapeCharacter_checked escapeCharacter [codeUnit, codeUnit2] @
           escapeCharacters chars escapeCharacter
         else unicodeEscape codeUnit @ escapeCharacters (codeUnit2 # chars) escapeCharacter)
      else
        escapeCharacter_checked escapeCharacter [codeUnit] @
        escapeCharacters (codeUnit2 # chars) escapeCharacter)"

text \<open>
  The methods \<open>toString\<close>.  \<open>Number.prototype.toString\<close> is the host's and is the
  parameter \<open>numberToString\<close>.  \<open>toString_tail\<close> is the loop of \<open>EVLList.toString\<close>
  after the first element of the list, \<open>toString_elements\<close> the loop of
  \<open>EVLVector.toString\<close>.
\<close>

fun toString :: "(64 word \<Rightarrow> jsstring) \<Rightarrow> evl \<Rightarrow> jsstring"
  and toString_tail :: "(64 word \<Rightarrow> jsstring) \<Rightarrow> evl \<Rightarrow> jsstring"
  and toString_elements :: "(64 word \<Rightarrow> jsstring) \<Rightarrow> bool \<Rightarrow> evl option list \<Rightarrow> jsstring" where
  "toString numberToString EVLVoid = js ''#v''"
| "toString numberToString (EVLBoolean jsValue) = (if jsValue then js ''#t'' else js ''#f'')"
| "toString numberToString (EVLNumber jsValue) = numberToString jsValue"
| "toString numberToString (EVLCharacter jsValue) =
     js ''#'' @ [34] @ escapeCharacters jsValue escapeStringCharacter @ [34]"
| "toString numberToString (EVLString jsValue) =
     [34] @ escapeCharacters jsValue escapeStringCharacter @ [34]"
| "toString numberToString (EVLKeyword v) =
     js '':'' @ escapeCharacters (symbolName v) escapeProtoTokenCharacter"
| "toString numberToString (EVLVariable v) =
     escapeCharacters (symbolName v) escapeProtoTokenCharacter"
| "toString numberToString EVLEmptyList = js ''()''"
| "toString numberToString (EVLCons a d) =
     js ''('' @ toString numberToString a @ toString_tail numberToString d @ js '')''"
| "toString numberToString (EVLVector elements) =
     js ''#('' @ toString_elements numberToString True elements @ js '')''"
| "toString numberToString (EVLPrimitiveFunction arityMin arityMax name) =
     js ''#<primitive-function>''"
| "toString numberToString (EVLClosure scope ns macro parameters rest forms lenv) =
     js ''#<closure>''"
| "toString_tail numberToString EVLEmptyList = []"
| "toString_tail numberToString (EVLCons a d) =
     js '' '' @ toString numberToString a @ toString_tail numberToString d"
| "toString_tail numberToString (EVLVoid) = js '' . '' @ toString numberToString EVLVoid"
| "toString_tail numberToString (EVLBoolean b) = js '' . '' @ toString numberToString (EVLBoolean b)"
| "toString_tail numberToString (EVLNumber x) = js '' . '' @ toString numberToString (EVLNumber x)"
| "toString_tail numberToString (EVLCharacter x) =
     js '' . '' @ toString numberToString (EVLCharacter x)"
| "toString_tail numberToString (EVLString x) = js '' . '' @ toString numberToString (EVLString x)"
| "toString_tail numberToString (EVLKeyword x) = js '' . '' @ toString numberToString (EVLKeyword x)"
| "toString_tail numberToString (EVLVariable x) =
     js '' . '' @ toString numberToString (EVLVariable x)"
| "toString_tail numberToString (EVLVector x) = js '' . '' @ toString numberToString (EVLVector x)"
| "toString_tail numberToString (EVLPrimitiveFunction arityMin arityMax name) =
     js '' . '' @ toString numberToString (EVLPrimitiveFunction arityMin arityMax name)"
| "toString_tail numberToString (EVLClosure scope ns macro parameters rest forms lenv) =
     js '' . '' @ toString numberToString (EVLClosure scope ns macro parameters rest forms lenv)"
| "toString_elements numberToString first [] = []"
| "toString_elements numberToString first (element # elements) =
     (if first then [] else js '' '') @
     (case element of
        None \<Rightarrow> toString numberToString EVLVoid
      | Some object \<Rightarrow> toString numberToString object) @
     toString_elements numberToString False elements"

section \<open>EVL to XML converter\<close>

text \<open>
  What \<open>sketchyRead\<close> returns and \<open>previousToken\<close> holds: one of the three constants
  of the converter or a token category (\<open>BOI\<close>, \<open>EOI\<close>).  The two contexts are the
  numbers 0 and 1, and the context of the top level is \<open>undefined\<close>.
\<close>

datatype converterToken = XML_TOKEN | EVL_TOKEN | EOL_COMMENT | Category category

definition XML_CONTEXT :: nat where "XML_CONTEXT = 0"

definition EVL_CONTEXT :: nat where "EVL_CONTEXT = 1"

text \<open>The last element of the context stack: \<open>contextStack[contextStack.length - 1]\<close>.\<close>

definition topContext :: "nat list \<Rightarrow> nat option" where
  "topContext contextStack = (if contextStack = [] then None else Some (last contextStack))"

definition xmlEscape :: "jsstring \<Rightarrow> jsstring" where
  "xmlEscape string =
     concat (map (\<lambda>char. if char = 60 then js ''&lt;''
                          else if char = 62 then js ''&gt;''
                          else if char = 38 then js ''&amp;''
                          else [char]) string)"

text \<open>
  The loop of \<open>readEndOfLineComment\<close>, with the lexeme built so far and the local
  context stack; the fuel bounds the number of its turns.
\<close>

fun readEndOfLineComment_loop ::
  "(jsstring \<Rightarrow> 64 word) \<Rightarrow> nat \<Rightarrow> jsstring \<Rightarrow> jsstring \<Rightarrow> nat list \<Rightarrow> tokenizer \<Rightarrow>
   tokenizer outcome" where
  "readEndOfLineComment_loop parseFloat 0 ws lx contextStack tk = Timeout"
| "readEndOfLineComment_loop parseFloat (Suc n) ws lx contextStack tk =
     (case nextToken parseFloat tk of
        Inl e \<Rightarrow> Throw e
      | Inr tk1 \<Rightarrow>
          (case category tk1 of
             Some XML_START_TAG \<Rightarrow>
               readEndOfLineComment_loop parseFloat n ws (lx @ whitespace tk1 @ lexeme tk1)
                 (contextStack @ [XML_CONTEXT]) tk1
           | Some XML_END_TAG \<Rightarrow>
               if length contextStack = 0
               then Return (tk1\<lparr>whitespace := ws, lexeme := lx @ whitespace tk1 @ lexeme tk1\<rparr>)
               else readEndOfLineComment_loop parseFloat n ws (lx @ whitespace tk1 @ lexeme tk1)
                      (butlast contextStack) tk1
           | Some XML_EMPTY_ELEMENT_TAG \<Rightarrow>
               readEndOfLineComment_loop parseFloat n ws (lx @ whitespace tk1 @ lexeme tk1)
                 contextStack tk1
           | Some XML_COMMENT \<Rightarrow>
               readEndOfLineComment_loop parseFloat n ws (lx @ whitespace tk1 @ lexeme tk1)
                 contextStack tk1
           | Some EOI \<Rightarrow> Throw (EVLToXMLConverterError ''Unexpected end-of-input.'')
           | _ \<Rightarrow> Throw (CannotHappen ''readEndOfLineComment'')))"

definition readEndOfLineComment :: "(jsstring \<Rightarrow> 64 word) \<Rightarrow> nat \<Rightarrow> tokenizer \<Rightarrow> tokenizer outcome" where
  "readEndOfLineComment parseFloat n tk =
     readEndOfLineComment_loop parseFloat n (whitespace tk) (lexeme tk) [] tk"

text \<open>\<open>sketchyRead\<close> returns the token with the tokenizer and the context stack.\<close>

definition sketchyRead ::
  "(jsstring \<Rightarrow> 64 word) \<Rightarrow> nat \<Rightarrow> tokenizer \<Rightarrow> nat list \<Rightarrow>
   (converterToken \<times> tokenizer \<times> nat list) outcome" where
  "sketchyRead parseFloat n tk contextStack =
     (case nextToken parseFloat tk of
        Inl e \<Rightarrow> Throw e
      | Inr tk1 \<Rightarrow>
          (case category tk1 of
             Some VOID \<Rightarrow> Return (EVL_TOKEN, tk1, contextStack)
           | Some BOOLEAN \<Rightarrow> Return (EVL_TOKEN, tk1, contextStack)
           | Some NUMBER \<Rightarrow> Return (EVL_TOKEN, tk1, contextStack)
           | Some CHARACTER \<Rightarrow> Return (EVL_TOKEN, tk1, contextStack)
           | Some STRING \<Rightarrow> Return (EVL_TOKEN, tk1, contextStack)
           | Some KEYWORD \<Rightarrow> Return (EVL_TOKEN, tk1, contextStack)
           | Some VARIABLE \<Rightarrow> Return (EVL_TOKEN, tk1, contextStack)
           | Some QUOTE \<Rightarrow> Return (EVL_TOKEN, tk1, contextStack)
           | Some QUASIQUOTE \<Rightarrow> Return (EVL_TOKEN, tk1, contextStack)
           | Some UNQUOTE \<Rightarrow> Return (EVL_TOKEN, tk1, contextStack)
           | Some UNQUOTE_SPLICING \<Rightarrow> Return (EVL_TOKEN, tk1, contextStack)
           | Some HASH_PLUS \<Rightarrow> Return (EVL_TOKEN, tk1, contextStack)
           | Some HASH_MINUS \<Rightarrow> Return (EVL_TOKEN, tk1, contextStack)
           | Some DOT \<Rightarrow> Return (EVL_TOKEN, tk1, contextStack)
           | Some OPENING_PARENTHESIS \<Rightarrow> Return (EVL_TOKEN, tk1, contextStack @ [EVL_CONTEXT])
           | Some HASH_OPENING_PARENTHESIS \<Rightarrow> Return (EVL_TOKEN, tk1, contextStack @ [EVL_CONTEXT])
           | Some CLOSING_PARENTHESIS \<Rightarrow>
               if topContext contextStack \<noteq> Some EVL_CONTEXT
               then Throw (EVLToXMLConverterError ''Unexpected closing parenthesis.'')
               else Return (EVL_TOKEN, tk1, butlast contextStack)
           | Some XML_START_TAG \<Rightarrow>
               if tokValue tk1 = NameValue (js ''comment'') then
                 (case readEndOfLineComment parseFloat n tk1 of
                    Return tk2 \<Rightarrow> Return (EOL_COMMENT, tk2, contextStack)
                  | Throw e \<Rightarrow> Throw e
                  | Timeout \<Rightarrow> Timeout)
               else Return (XML_TOKEN, tk1, contextStack @ [XML_CONTEXT])
           | Some XML_END_TAG \<Rightarrow>
               if topContext contextStack \<noteq> Some XML_CONTEXT
               then Throw (EVLToXMLConverterError ''Unexpected XML end tag.'')
               else Return (XML_TOKEN, tk1, butlast contextStack)
           | Some XML_EMPTY_ELEMENT_TAG \<Rightarrow> Return (XML_TOKEN, tk1, contextStack)
           | Some XML_COMMENT \<Rightarrow> Return (XML_TOKEN, tk1, contextStack)
           | Some EOI \<Rightarrow>
               if length contextStack \<noteq> 0
               then Throw (EVLToXMLConverterError ''Unexpected end-of-input.'')
               else Return (Category EOI, tk1, contextStack)
           | _ \<Rightarrow> Throw (CannotHappen ''sketchyRead'')))"

definition isXMLToken :: "converterToken \<Rightarrow> bool" where
  "isXMLToken token = (token = XML_TOKEN)"

definition isEVLToken :: "converterToken \<Rightarrow> bool" where
  "isEVLToken token = (token = EVL_TOKEN \<or> token = EOL_COMMENT)"

definition countNewlines :: "jsstring \<Rightarrow> nat" where
  "countNewlines string = length (filter (\<lambda>char. char = 10) string)"

definition convertXMLWhitespace :: "converterToken \<Rightarrow> jsstring \<Rightarrow> converterToken \<Rightarrow> jsstring" where
  "convertXMLWhitespace previousToken ws token =
     (if isXMLToken previousToken \<and> isEVLToken token then ws @ js ''<toplevelcode><blockcode>''
      else if isEVLToken previousToken \<and> isEVLToken token then
        (if countNewlines ws \<ge> 2
         then js ''</blockcode></toplevelcode>'' @ ws @ js ''<toplevelcode><blockcode>''
         else ws)
      else if isEVLToken previousToken \<and> isXMLToken token then js ''</blockcode></toplevelcode>'' @ ws
      else ws)"

text \<open>
  The loop of \<open>countSpacesAfterFirstNewline\<close>: the spaces that follow the first newline.
\<close>

definition countSpacesAfterFirstNewline :: "jsstring \<Rightarrow> nat" where
  "countSpacesAfterFirstNewline string =
     length (takeWhile (\<lambda>char. char = 32) (drop 1 (dropWhile (\<lambda>char. char \<noteq> 10) string)))"

definition convertEVLWhitespace :: "converterToken \<Rightarrow> jsstring \<Rightarrow> converterToken \<Rightarrow> jsstring" where
  "convertEVLWhitespace previousToken ws token =
     (if isEVLToken previousToken \<and> isXMLToken token then
        js ''</blockcode><indentation style='' @ [34] @ js ''margin-left: '' @
        digits 10 (countSpacesAfterFirstNewline ws) @ js ''ch;'' @ [34] @ js ''><blockcomment>'' @ ws
      else if isXMLToken previousToken \<and> isEVLToken token then
        js ''</blockcomment></indentation><blockcode>'' @ ws
      else ws)"

text \<open>
  The loop of \<open>doConvertEVLToXML\<close>.  Its second test is the assignment
  \<open>context = EVL_CONTEXT\<close>, whose value is the number assigned, and a number is true when
  it is not 0; the variable \<open>context\<close> is assigned again at the end of the turn.
\<close>

definition truthy :: "nat \<Rightarrow> bool" where
  "truthy number = (number \<noteq> 0)"

fun doConvertEVLToXML_loop ::
  "(jsstring \<Rightarrow> 64 word) \<Rightarrow> nat \<Rightarrow> jsstring \<Rightarrow> nat list \<Rightarrow> converterToken \<Rightarrow> nat option \<Rightarrow>
   tokenizer \<Rightarrow> jsstring outcome" where
  "doConvertEVLToXML_loop parseFloat 0 xml contextStack previousToken context tk = Timeout"
| "doConvertEVLToXML_loop parseFloat (Suc n) xml contextStack previousToken context tk =
     (case sketchyRead parseFloat n tk contextStack of
        Throw e \<Rightarrow> Throw e
      | Timeout \<Rightarrow> Timeout
      | Return (token, tk1, contextStack1) \<Rightarrow>
          if token = Category EOI then Return (xml @ whitespace tk1)
          else
            let xml1 =
                  (if context = Some XML_CONTEXT
                   then xml @ convertXMLWhitespace previousToken (whitespace tk1) token
                   else if truthy EVL_CONTEXT
                   then xml @ convertEVLWhitespace previousToken (whitespace tk1) token
                   else xml @ whitespace tk1);
                xml2 = (if token = EVL_TOKEN then xml1 @ xmlEscape (lexeme tk1)
                        else xml1 @ lexeme tk1)
            in doConvertEVLToXML_loop parseFloat n xml2 contextStack1 token
                 (topContext contextStack1) tk1)"

definition doConvertEVLToXML :: "(jsstring \<Rightarrow> 64 word) \<Rightarrow> nat \<Rightarrow> tokenizer \<Rightarrow> jsstring outcome" where
  "doConvertEVLToXML parseFloat n tk =
     doConvertEVLToXML_loop parseFloat n [] [] (Category BOI) (topContext []) tk"

section \<open>Interface\<close>

text \<open>
  The host: the JavaScript functions of the primitive functions, \<open>Number.parseFloat\<close>
  and \<open>Number.prototype.toString\<close>.
\<close>

record host =
  host_jsFunction :: jsFunctions
  host_parseFloat :: "jsstring \<Rightarrow> 64 word"
  host_numberToString :: "64 word \<Rightarrow> jsstring"

text \<open>
  The global variables of the core.  \<open>abortSignalArray\<close> is \<open>null\<close> or a view of the
  bytes of the buffer that it shares with the host.
\<close>

record core =
  abortSignalArray :: "8 word list option"
  selectedEvaluator :: "jsstring option"
  coreState :: state

datatype status = FOUND_NO_FORM | SUCCESS | ERROR | ABORTED | TERMINATED

text \<open>
  The output of a response: the printed values, the converted text, or the message of an
  exception (the property \<open>output\<close>, here \<open>output'\<close>).
\<close>

datatype outputValue = Values "jsstring list" | Text jsstring

record response =
  status :: status
  output' :: "outputValue option"

text \<open>The property \<open>message\<close> of an exception (that of a host exception is the host's).\<close>

fun exnMessage :: "exn \<Rightarrow> jsstring" where
  "exnMessage (CannotHappen m) = js m"
| "exnMessage Aborted = []"
| "exnMessage (TokenizerError m) = js m"
| "exnMessage (TruncatedToken m) = js m"
| "exnMessage (ReaderError m) = js m"
| "exnMessage UnexpectedDot = js ''Unexpected dot.''"
| "exnMessage UnexpectedClosingParenthesis = js ''Unexpected closing parenthesis.''"
| "exnMessage UnexpectedXMLEndTag = js ''Unexpected XML end tag.''"
| "exnMessage UnexpectedEndOfInput = js ''Unexpected end-of-input.''"
| "exnMessage (EVLToXMLConverterError m) = js m"
| "exnMessage (FormAnalyzerError m) = js m"
| "exnMessage (EvaluatorError m) = js m"
| "exnMessage (UnboundVariable variable ns) =
     js ''The variable '' @ [39] @ symbolName variable @ [39] @ js '' is unbound in the '' @
     (case ns of VAL_NS \<Rightarrow> js ''value'' | FUN_NS \<Rightarrow> js ''function'') @ js '' namespace.''"
| "exnMessage TooFewArguments = js ''Too few arguments.''"
| "exnMessage TooManyArguments = js ''Too many arguments.''"
| "exnMessage MalformedSpreadableSequenceOfObjects = js ''Malformed spreadable sequence of objects.''"
| "exnMessage (JSError m) = m"
| "exnMessage (JSTypeError m) = js m"
| "exnMessage (JSRangeError m) = m"

definition foundNoForm :: response where
  "foundNoForm = \<lparr>status = FOUND_NO_FORM, output' = None\<rparr>"

definition success :: "outputValue \<Rightarrow> response" where
  "success out = \<lparr>status = SUCCESS, output' = Some out\<rparr>"

definition abortedOrError :: "exn \<Rightarrow> response" where
  "abortedOrError exception =
     (if exception = Aborted then \<lparr>status = ABORTED, output' = None\<rparr>
      else \<lparr>status = ERROR, output' = Some (Text (exnMessage exception))\<rparr>)"

definition initializeFeatureList :: "jsstring list \<Rightarrow> state \<Rightarrow> state" where
  "initializeFeatureList features s =
     GlobalEnv_set s VAL_NS (internVariable (js ''*features*''))
       (evlList (map (\<lambda>feature. EVLVariable (internVariable feature)) features))"

text \<open>
  The callback that \<open>initialize\<close> and \<open>evaluateAllForms\<close> give to the tokenizer:
  \<open>object => lastResult = genericEval(object)\<close>.
\<close>

definition evalCallback :: "host \<Rightarrow> core \<Rightarrow> nat \<Rightarrow> evl \<Rightarrow> state \<Rightarrow> unit outcome \<times> state" where
  "evalCallback h c n object s =
     thenDo (genericEval (host_jsFunction h) (abortSignalArray c) (selectedEvaluator c) n object s)
       (\<lambda>r s. (Return (), s\<lparr>lastResult := r\<rparr>))"

text \<open>
  The loop that reads and evaluates the forms of a text, in \<open>initialize\<close> and in
  \<open>evaluateAllForms\<close>: it ends with the response of a \<open>return\<close> statement
  (\<open>Some\<close>) or with \<open>break\<close> (\<open>None\<close>).  The fuel bounds the number of its turns, the
  depth of the reader and the evaluation of each form.
\<close>

fun evaluateForms_loop ::
  "host \<Rightarrow> core \<Rightarrow> nat \<Rightarrow> nat \<Rightarrow> tokenizer \<Rightarrow> state \<Rightarrow> response option outcome \<times> state" where
  "evaluateForms_loop h c n 0 tk s = (Timeout, s)"
| "evaluateForms_loop h c n (Suc m) tk s =
     (case read n (host_parseFloat h) (Some (evalCallback h c n)) tk s of
        (Throw exception, s1) \<Rightarrow> (Return (Some (abortedOrError exception)), s1)
      | (Timeout, s1) \<Rightarrow> (Timeout, s1)
      | (Return (None, tk1), s1) \<Rightarrow> (Return None, s1)
      | (Return (Some object, tk1), s1) \<Rightarrow>
          (case genericEval (host_jsFunction h) (abortSignalArray c) (selectedEvaluator c) n object s1 of
             (Throw exception, s2) \<Rightarrow> (Return (Some (abortedOrError exception)), s2)
           | (Timeout, s2) \<Rightarrow> (Timeout, s2)
           | (Return r, s2) \<Rightarrow> evaluateForms_loop h c n m tk1 (s2\<lparr>lastResult := r\<rparr>)))"

text \<open>The loop of \<open>initialize\<close> on the files.\<close>

fun initialize_loop ::
  "host \<Rightarrow> core \<Rightarrow> nat \<Rightarrow> jsstring list \<Rightarrow> state \<Rightarrow> response option outcome \<times> state" where
  "initialize_loop h c n [] s = (Return None, s)"
| "initialize_loop h c n (evlFile # evlFiles) s =
     (case evaluateForms_loop h c n n (Tokenizer evlFile False) s of
        (Return None, s1) \<Rightarrow> initialize_loop h c n evlFiles s1
      | r \<Rightarrow> r)"

text \<open>
  The functions of the interface return the response and the global variables; without
  enough fuel they return no response.
\<close>

definition printValues :: "host \<Rightarrow> result \<Rightarrow> outputValue" where
  "printValues h r = Values (map (toString (host_numberToString h)) (allValues r))"

record initializeInput =
  abortSignalBuffer :: "8 word list"
  inputSelectedEvaluator :: jsstring
  evlFiles :: "jsstring list"

definition initialize :: "host \<Rightarrow> nat \<Rightarrow> initializeInput \<Rightarrow> core \<Rightarrow> response option \<times> core" where
  "initialize h n input c =
     (let c1 = c\<lparr>abortSignalArray := Some (abortSignalBuffer input),
                 selectedEvaluator := Some (inputSelectedEvaluator input)\<rparr>;
          s1 = initializeFeatureList [inputSelectedEvaluator input] (coreState c1);
          s2 = s1\<lparr>lastResult := EVLObject EVLVoid\<rparr>
      in case initialize_loop h c1 n (evlFiles input) s2 of
           (Return (Some r), s3) \<Rightarrow> (Some r, c1\<lparr>coreState := s3\<rparr>)
         | (Return None, s3) \<Rightarrow>
             (Some (success (printValues h (lastResult s3))), c1\<lparr>coreState := s3\<rparr>)
         | (Throw e, s3) \<Rightarrow> (None, c1\<lparr>coreState := s3\<rparr>)
         | (Timeout, s3) \<Rightarrow> (None, c1\<lparr>coreState := s3\<rparr>))"

text \<open>\<open>if (abortSignalArray !== null) abortSignalArray[0] = 0\<close>.\<close>

definition clearAbortSignal :: "core \<Rightarrow> core" where
  "clearAbortSignal c =
     (case abortSignalArray c of
        None \<Rightarrow> c
      | Some bytes \<Rightarrow> c\<lparr>abortSignalArray := Some (bytes[0 := 0])\<rparr>)"

definition evaluateFirstForm :: "host \<Rightarrow> nat \<Rightarrow> jsstring \<Rightarrow> core \<Rightarrow> response option \<times> core" where
  "evaluateFirstForm h n source c =
     (let c1 = clearAbortSignal c;
          tk = Tokenizer source False
      in case read n (host_parseFloat h) None tk (coreState c1) of
           (Throw exception, s1) \<Rightarrow>
             if (case exception of TruncatedToken m \<Rightarrow> True | _ \<Rightarrow> False) \<or>
                exception = UnexpectedEndOfInput
             then (Some foundNoForm, c1\<lparr>coreState := s1\<rparr>)
             else (Some (abortedOrError exception), c1\<lparr>coreState := s1\<rparr>)
         | (Timeout, s1) \<Rightarrow> (None, c1\<lparr>coreState := s1\<rparr>)
         | (Return (None, tk1), s1) \<Rightarrow> (Some foundNoForm, c1\<lparr>coreState := s1\<rparr>)
         | (Return (Some object, tk1), s1) \<Rightarrow>
             (case genericEval (host_jsFunction h) (abortSignalArray c1) (selectedEvaluator c1) n object s1 of
                (Throw exception, s2) \<Rightarrow> (Some (abortedOrError exception), c1\<lparr>coreState := s2\<rparr>)
              | (Timeout, s2) \<Rightarrow> (None, c1\<lparr>coreState := s2\<rparr>)
              | (Return r, s2) \<Rightarrow> (Some (success (printValues h r)), c1\<lparr>coreState := s2\<rparr>)))"

definition evaluateAllForms :: "host \<Rightarrow> nat \<Rightarrow> jsstring \<Rightarrow> core \<Rightarrow> response option \<times> core" where
  "evaluateAllForms h n source c =
     (let c1 = clearAbortSignal c;
          s1 = (coreState c1)\<lparr>lastResult := EVLObject EVLVoid\<rparr>
      in case evaluateForms_loop h c1 n n (Tokenizer source False) s1 of
           (Return (Some r), s2) \<Rightarrow> (Some r, c1\<lparr>coreState := s2\<rparr>)
         | (Return None, s2) \<Rightarrow>
             (Some (success (printValues h (lastResult s2))), c1\<lparr>coreState := s2\<rparr>)
         | (Throw e, s2) \<Rightarrow> (None, c1\<lparr>coreState := s2\<rparr>)
         | (Timeout, s2) \<Rightarrow> (None, c1\<lparr>coreState := s2\<rparr>))"

text \<open>
  The function \<open>convertEVLToXML\<close> of the interface (the tokenizer has a property of the
  same name).
\<close>

definition interface_convertEVLToXML :: "host \<Rightarrow> nat \<Rightarrow> jsstring \<Rightarrow> core \<Rightarrow> response option \<times> core" where
  "interface_convertEVLToXML h n source c =
     (case doConvertEVLToXML (host_parseFloat h) n (Tokenizer source True) of
        Throw exception \<Rightarrow> (Some (abortedOrError exception), c)
      | Timeout \<Rightarrow> (None, c)
      | Return xml \<Rightarrow> (Some (success (Text xml)), c))"

section \<open>Properties of parameter pairing\<close>

lemma primFunApplyLeading_eq:
  "primFunApplyLeading arityMax acc xs =
     (if xs = [] \<or> arityMax = None \<or> length acc + length xs \<le> the arityMax
      then Inr (acc @ xs) else Inl TooManyArguments)"
  by (induction xs arbitrary: acc) auto

lemma primFunApplySpread_proper:
  "primFunApplySpread arityMax acc (evlList xs) =
     (if xs = [] \<or> arityMax = None \<or> length acc + length xs \<le> the arityMax
      then Inr (acc @ xs) else Inl TooManyArguments)"
  by (induction xs arbitrary: acc) auto

lemma isEVLList_evlList [simp]: "isEVLList (evlList xs)"
  by (cases xs) auto

lemma prim_apply_spreads:
  assumes "arityMax = None \<or> arityMin \<le> the arityMax"
  shows "pairPrimFunParametersApply (pre @ [evlList xs]) arityMin arityMax =
         pairPrimFunParametersNoApply (pre @ xs) arityMin arityMax"
  using assms
  by (auto simp: pairPrimFunParametersApply_def pairPrimFunParametersNoApply_def
      primFunApplyLeading_eq primFunApplySpread_proper Let_def)

lemma closureNoRestLeading_eq:
  "closureNoRestLeading n acc xs =
     (if xs = [] \<or> length acc + length xs \<le> n then Inr (acc @ xs) else Inl TooManyArguments)"
  by (induction xs arbitrary: acc) auto

lemma closureNoRestSpread_proper:
  "closureNoRestSpread n acc (evlList xs) =
     (if xs = [] \<or> length acc + length xs \<le> n then Inr (acc @ xs) else Inl TooManyArguments)"
  by (induction xs arbitrary: acc) auto

lemma closure_norest_apply_spreads:
  "pairClosureParametersApplyNoRest (pre @ [evlList xs]) ps =
   pairClosureParametersNoApplyNoRest (pre @ xs) ps"
  by (auto simp: pairClosureParametersApplyNoRest_def pairClosureParametersNoApplyNoRest_def
      closureNoRestLeading_eq closureNoRestSpread_proper Let_def)

lemma closureRestLeading_eq:
  "closureRestLeading n vals lst xs =
     (vals @ take (n - 1 - (length vals + length lst)) xs,
      lst @ drop (n - 1 - (length vals + length lst)) xs)"
proof (induction xs arbitrary: vals lst)
  case Nil
  then show ?case by simp
next
  case (Cons a xs)
  show ?case
  proof (cases "length vals + length lst < n - 1")
    case True
    then obtain k where k: "n - 1 - (length vals + length lst) = Suc k" 
      by (metis Suc_diff_Suc)
    then have "n - 1 - (length (vals @ [a]) + length lst) = k" by simp
    with True k show ?thesis by (simp add: Cons.IH)
  next
    case False
    then have "n - 1 - (length vals + length lst) = 0" by simp
    moreover have "n - 1 - (length vals + length (lst @ [a])) = 0" using False by simp
    ultimately show ?thesis using False by (simp add: Cons.IH)
  qed
qed

lemma evlAppend_evlList: "evlAppend xs (evlList ys) = evlList (xs @ ys)"
  by (induction xs) auto

lemma closureRestSpread_proper:
  "lst = [] \<or> n - 1 \<le> length vals + length lst \<Longrightarrow>
   closureRestSpread n vals lst (evlList xs) =
     Inr (vals @ take (n - 1 - (length vals + length lst)) xs,
          evlList (lst @ drop (n - 1 - (length vals + length lst)) xs))"
proof (induction xs arbitrary: vals)
  case Nil
  then show ?case by simp
next
  case (Cons a xs)
  show ?case
  proof (cases "length vals + length lst < n - 1")
    case True
    then obtain k where k: "n - 1 - (length vals + length lst) = Suc k" 
      by (metis Suc_diff_Suc)
    then have k': "n - 1 - (length (vals @ [a]) + length lst) = k" by simp
    from True Cons.prems have l: "lst = []" by auto
    have "closureRestSpread n (vals @ [a]) lst (evlList xs) =
       Inr ((vals @ [a]) @ take (n - 1 - (length (vals @ [a]) + length lst)) xs,
          evlList (lst @ drop (n - 1 - (length (vals @ [a]) + length lst)) xs))"
      by (rule Cons.IH) (simp add: l)
    with True k k' show ?thesis by simp
  next
    case False
    then have "n - 1 - (length vals + length lst) = 0" by simp
    then show ?thesis using False evlAppend_evlList[of lst "a # xs"] by simp
  qed
qed

lemma closureRestSpread_after_leading:
  "closureRestSpread n (take (n - 1) pre) (drop (n - 1) pre) (evlList xs) =
     Inr (take (n - 1) (pre @ xs), evlList (drop (n - 1) (pre @ xs)))"
proof -
  have inv: "drop (n - 1) pre = [] \<or> n - 1 \<le> length (take (n - 1) pre) + length (drop (n - 1) pre)"
    by (cases "n - 1 \<le> length pre") auto
  have len: "length (take (n - 1) pre) + length (drop (n - 1) pre) = length pre"
    by simp
  show ?thesis
    unfolding closureRestSpread_proper[OF inv, of xs] len
    by simp
qed

lemma closure_rest_apply_spreads:
  "pairClosureParametersApplyRest (pre @ [evlList xs]) ps =
   pairClosureParametersNoApplyRest (pre @ xs) ps"
proof -
  define n where "n = length ps"
  define k where "k = n - 1"
  have L1: "closureRestLeading n [] [] pre = (take k pre, drop k pre)"
    by (simp add: closureRestLeading_eq k_def)
  have L2: "closureRestLeading n [] [] (pre @ xs) = (take k (pre @ xs), drop k (pre @ xs))"
    by (simp add: closureRestLeading_eq k_def)
  have S: "closureRestSpread n (take k pre) (drop k pre) (evlList xs) =
     Inr (take k (pre @ xs), evlList (drop k (pre @ xs)))"
    unfolding k_def by (rule closureRestSpread_after_leading)
  have a: "(length (take k (pre @ xs)) + length (drop k pre) < k)
     = (length (take k (pre @ xs)) + length (drop k (pre @ xs)) < k)"
    by (simp add: min_def) arith
  have "pairClosureParametersApplyRest (pre @ [evlList xs]) ps =
     (if length (take k (pre @ xs)) + length (drop k pre) < k then Inl TooFewArguments
      else Inr (setRestSlot n (take k (pre @ xs)) (evlList (drop k (pre @ xs)))))"
    unfolding pairClosureParametersApplyRest_def Let_def n_def[symmetric] k_def[symmetric]
    by (simp only: butlast_snoc last_snoc L1 S prod.case sum.case isEVLList_evlList) simp
  moreover have "pairClosureParametersNoApplyRest (pre @ xs) ps =
     (if length (take k (pre @ xs)) + length (drop k (pre @ xs)) < k then Inl TooFewArguments
      else Inr (setRestSlot n (take k (pre @ xs)) (evlList (drop k (pre @ xs)))))"
    unfolding pairClosureParametersNoApplyRest_def Let_def n_def[symmetric] k_def[symmetric]
    by (simp only: L2 prod.case)
  ultimately show ?thesis using a by simp
qed


lemma primFunApplySpread_nonlist:
  "\<not> isEVLList t \<Longrightarrow> primFunApplySpread arityMax acc t = Inl MalformedSpreadableSequenceOfObjects"
  by (cases t) auto

lemma closureNoRestSpread_nonlist:
  "\<not> isEVLList t \<Longrightarrow> closureNoRestSpread n acc t = Inl MalformedSpreadableSequenceOfObjects"
  by (cases t) auto

lemma closureRestSpread_nonlist:
  "\<not> isEVLList t \<Longrightarrow> closureRestSpread n vals lst t = Inl MalformedSpreadableSequenceOfObjects"
  by (cases t) auto

lemma primFunApplySpread_improper:
  "\<not> isEVLList t \<Longrightarrow>
   primFunApplySpread arityMax acc (evlAppend ys t) =
     (if ys = [] \<or> arityMax = None \<or> length acc + length ys \<le> the arityMax
      then Inl MalformedSpreadableSequenceOfObjects else Inl TooManyArguments)"
  by (induction ys arbitrary: acc) (auto simp: primFunApplySpread_nonlist)

lemma closureNoRestSpread_improper:
  "\<not> isEVLList t \<Longrightarrow>
   closureNoRestSpread n acc (evlAppend ys t) =
     (if ys = [] \<or> length acc + length ys \<le> n
      then Inl MalformedSpreadableSequenceOfObjects else Inl TooManyArguments)"
  by (induction ys arbitrary: acc) (auto simp: closureNoRestSpread_nonlist)

lemma isEVLList_evlAppend: "isEVLList (evlAppend ys t) = (ys \<noteq> [] \<or> isEVLList t)"
  by (cases ys) auto

lemma prim_apply_malformed:
  assumes "args = [] \<or> \<not> isEVLList (last args)"
  shows "pairPrimFunParametersApply args arityMin arityMax =
     (if arityMax \<noteq> None \<and> length args - 1 > the arityMax then Inl TooManyArguments
      else Inl MalformedSpreadableSequenceOfObjects)"
  using assms length_butlast[of args]
  by (auto simp: pairPrimFunParametersApply_def primFunApplyLeading_eq simp del: length_butlast)

lemma closure_norest_apply_malformed:
  assumes "args = [] \<or> \<not> isEVLList (last args)"
  shows "pairClosureParametersApplyNoRest args ps =
     (if length args - 1 > length ps then Inl TooManyArguments
      else Inl MalformedSpreadableSequenceOfObjects)"
  using assms length_butlast[of args]
  by (auto simp: pairClosureParametersApplyNoRest_def closureNoRestLeading_eq Let_def simp del: length_butlast)

lemma closure_rest_apply_malformed:
  assumes "args = [] \<or> \<not> isEVLList (last args)"
  shows "pairClosureParametersApplyRest args ps = Inl MalformedSpreadableSequenceOfObjects"
  using assms
  by (auto simp: pairClosureParametersApplyRest_def Let_def split: prod.splits)

lemma prim_apply_improper:
  assumes "\<not> isEVLList t" "ys \<noteq> []"
  shows "pairPrimFunParametersApply (pre @ [evlAppend ys t]) arityMin arityMax =
     (if arityMax \<noteq> None \<and> length pre + length ys > the arityMax then Inl TooManyArguments
      else Inl MalformedSpreadableSequenceOfObjects)"
  using assms
  by (auto simp: pairPrimFunParametersApply_def primFunApplyLeading_eq
      primFunApplySpread_improper isEVLList_evlAppend)

lemma closure_norest_apply_improper:
  assumes "\<not> isEVLList t" "ys \<noteq> []"
  shows "pairClosureParametersApplyNoRest (pre @ [evlAppend ys t]) ps =
     (if length pre + length ys > length ps then Inl TooManyArguments
      else Inl MalformedSpreadableSequenceOfObjects)"
  using assms
  by (auto simp: pairClosureParametersApplyNoRest_def closureNoRestLeading_eq
      closureNoRestSpread_improper isEVLList_evlAppend Let_def)

lemma evlAppend_append: "evlAppend (xs @ ys) t = evlAppend xs (evlAppend ys t)"
  by (induction xs) auto

lemma closureRestSpread_improper:
  "\<not> isEVLList t \<Longrightarrow> lst = [] \<or> n - 1 \<le> length vals + length lst \<Longrightarrow>
   closureRestSpread n vals lst (evlAppend ys t) =
     (if length vals + length lst + length ys \<le> n - 1 \<or> ys = []
      then Inl MalformedSpreadableSequenceOfObjects
      else Inr (vals @ take (n - 1 - (length vals + length lst)) ys,
                evlAppend (lst @ drop (n - 1 - (length vals + length lst)) ys) t))"
proof (induction ys arbitrary: vals)
  case Nil
  then show ?case by (simp add: closureRestSpread_nonlist)
next
  case (Cons a ys)
  show ?case
  proof (cases "length vals + length lst < n - 1")
    case True
    then obtain k where k: "n - 1 - (length vals + length lst) = Suc k" 
      by (metis Suc_diff_Suc)
    then have k': "n - 1 - (length (vals @ [a]) + length lst) = k" by simp
    from True Cons.prems have l: "lst = []" by auto
    have "closureRestSpread n (vals @ [a]) lst (evlAppend ys t) =
     (if length (vals @ [a]) + length lst + length ys \<le> n - 1 \<or> ys = []
      then Inl MalformedSpreadableSequenceOfObjects
      else Inr ((vals @ [a]) @ take (n - 1 - (length (vals @ [a]) + length lst)) ys,
                evlAppend (lst @ drop (n - 1 - (length (vals @ [a]) + length lst)) ys) t))"
      by (rule Cons.IH) (simp_all add: l Cons.prems)
    with True k k' l show ?thesis by auto
  next
    case False
    then have "n - 1 - (length vals + length lst) = 0" by simp
    then show ?thesis using False evlAppend_append[of lst "a # ys" t] by simp
  qed
qed

lemma closure_rest_apply_improper:
  assumes t: "\<not> isEVLList t" and ys: "ys \<noteq> []"
  shows "pairClosureParametersApplyRest (pre @ [evlAppend ys t]) ps =
     (if length pre + length ys \<le> length ps - 1 then Inl MalformedSpreadableSequenceOfObjects
      else Inr (setRestSlot (length ps) (take (length ps - 1) (pre @ ys))
                  (evlAppend (drop (length ps - 1) (pre @ ys)) t)))"
proof -
  define n where "n = length ps"
  define k where "k = n - 1"
  have L1: "closureRestLeading n [] [] pre = (take k pre, drop k pre)"
    by (simp add: closureRestLeading_eq k_def)
  have inv: "drop k pre = [] \<or> n - 1 \<le> length (take k pre) + length (drop k pre)"
    unfolding k_def by (cases "n - 1 \<le> length pre") auto
  have len: "length (take k pre) + length (drop k pre) = length pre"
    by simp
  have S: "closureRestSpread n (take k pre) (drop k pre) (evlAppend ys t) =
     (if length pre + length ys \<le> k
      then Inl MalformedSpreadableSequenceOfObjects
      else Inr (take k (pre @ ys), evlAppend (drop k (pre @ ys)) t))"
    unfolding closureRestSpread_improper[OF t inv, of ys] len
    using ys by (simp add: k_def)
  have a: "\<not> length pre + length ys \<le> k \<Longrightarrow>
      \<not> (length (take k (pre @ ys)) + length (drop k pre) < k)"
    by (simp add: min_def) arith
  have "pairClosureParametersApplyRest (pre @ [evlAppend ys t]) ps =
     (if length pre + length ys \<le> k then Inl MalformedSpreadableSequenceOfObjects
      else if length (take k (pre @ ys)) + length (drop k pre) < k then Inl TooFewArguments
      else Inr (setRestSlot n (take k (pre @ ys)) (evlAppend (drop k (pre @ ys)) t)))"
    unfolding pairClosureParametersApplyRest_def Let_def n_def[symmetric] k_def[symmetric]
    using ys
    by (simp only: butlast_snoc last_snoc L1 S prod.case isEVLList_evlAppend) simp
  then show ?thesis using a unfolding k_def n_def by auto
qed


lemma pairPrimFunParameters_spreads:
  assumes "arityMax = None \<or> arityMin \<le> the arityMax"
  shows "pairPrimFunParameters True (pre @ [evlList xs]) arityMin arityMax =
         pairPrimFunParameters False (pre @ xs) arityMin arityMax"
  unfolding pairPrimFunParameters_def using prim_apply_spreads[OF assms] by simp

lemma pairClosureParameters_spreads:
  "pairClosureParameters True (pre @ [evlList xs]) ps rest =
   pairClosureParameters False (pre @ xs) ps rest"
  unfolding pairClosureParameters_def
  by (simp add: closure_norest_apply_spreads closure_rest_apply_spreads)

lemma analyzeCall_apply:
  "analyzeCall False True (EVLCons a (EVLCons operator operands)) =
   analyzeCall False False (EVLCons operator operands)"
  by (simp add: analyzeCall_def checkCons_def)

lemma plainrecInvokeFun_spreads:
  assumes "\<forall>arityMin arityMax name. fn = EVLPrimitiveFunction arityMin arityMax name \<longrightarrow>
             arityMax = None \<or> arityMin \<le> the arityMax"
  shows "plainrecInvokeFun jsf ev True macro fn (pre @ [evlList xs]) lenv denv s =
         plainrecInvokeFun jsf ev False macro fn (pre @ xs) lenv denv s"
  using assms
  by (cases fn)
     (simp_all add: plainrecInvokeFun_def pairPrimFunParameters_spreads pairClosureParameters_spreads)

lemma cpsInvokeFun_spreads:
  assumes "\<forall>arityMin arityMax name. fn = EVLPrimitiveFunction arityMin arityMax name \<longrightarrow>
             arityMax = None \<or> arityMin \<le> the arityMax"
  shows "cpsInvokeFun jsf ev True macro fn (pre @ [evlList xs]) lenv denv k s =
         cpsInvokeFun jsf ev False macro fn (pre @ xs) lenv denv k s"
  using assms
  by (cases fn)
     (simp_all add: cpsInvokeFun_def pairPrimFunParameters_spreads pairClosureParameters_spreads)

lemma oocpsInvokeFun_spreads:
  assumes "\<forall>arityMin arityMax name. fn = EVLPrimitiveFunction arityMin arityMax name \<longrightarrow>
             arityMax = None \<or> arityMin \<le> the arityMax"
  shows "oocpsInvokeFun jsf ev invk True macro fn (pre @ [evlList xs]) lenv denv k s =
         oocpsInvokeFun jsf ev invk False macro fn (pre @ xs) lenv denv k s"
  using assms
  by (cases fn)
     (simp_all add: oocpsInvokeFun_def pairPrimFunParameters_spreads pairClosureParameters_spreads)

lemma sboocpsInvokeFun_spreads:
  assumes "\<forall>arityMin arityMax name. fn = EVLPrimitiveFunction arityMin arityMax name \<longrightarrow>
             arityMax = None \<or> arityMin \<le> the arityMax"
  shows "sboocpsInvokeFun jsf ev invk True macro fn (pre @ [evlList xs]) lenv kStack s =
         sboocpsInvokeFun jsf ev invk False macro fn (pre @ xs) lenv kStack s"
  using assms
  by (cases fn)
     (simp_all add: sboocpsInvokeFun_def pairPrimFunParameters_spreads pairClosureParameters_spreads)

lemma trampolineInvokeFun_spreads:
  assumes "\<forall>arityMin arityMax name. fn = EVLPrimitiveFunction arityMin arityMax name \<longrightarrow>
             arityMax = None \<or> arityMin \<le> the arityMax"
  shows "trampolineInvokeFun jsf True macro fn (pre @ [evlList xs]) lenv kStack s =
         trampolineInvokeFun jsf False macro fn (pre @ xs) lenv kStack s"
  using assms
  by (cases fn)
     (simp_all add: trampolineInvokeFun_def pairPrimFunParameters_spreads pairClosureParameters_spreads)

lemma trampolineppInvokeFun_spreads:
  assumes "\<forall>arityMin arityMax name. fn = EVLPrimitiveFunction arityMin arityMax name \<longrightarrow>
             arityMax = None \<or> arityMin \<le> the arityMax"
  shows "trampolineppInvokeFun jsf True fn (pre @ [evlList xs]) lenv kStack s =
         trampolineppInvokeFun jsf False fn (pre @ xs) lenv kStack s"
  using assms
  by (cases fn)
     (simp_all add: trampolineppInvokeFun_def pairPrimFunParameters_spreads pairClosureParameters_spreads)


section \<open>Read-time conditionals\<close>

text \<open>
  The feature expressions as the specification describes them: a symbol holds when it is in
  the feature list, \<open>(not e)\<close> when \<open>e\<close> does not hold, \<open>(and e ...)\<close> when every
  operand holds, \<open>(or e ...)\<close> when some operand holds.
\<close>

fun featureHolds :: "evl list \<Rightarrow> evl \<Rightarrow> bool"
  and allHold :: "evl list \<Rightarrow> evl \<Rightarrow> bool"
  and anyHold :: "evl list \<Rightarrow> evl \<Rightarrow> bool" where
  "featureHolds features (EVLCons a operands) =
     (if a = notVariable then (case operands of EVLCons e d \<Rightarrow> \<not> featureHolds features e | _ \<Rightarrow> False)
      else if a = andVariable then allHold features operands
      else anyHold features operands)"
| "featureHolds features symbol = (symbol \<in> set features)"
| "allHold features (EVLCons e d) = (featureHolds features e \<and> allHold features d)"
| "allHold features x = True"
| "anyHold features (EVLCons e d) = (featureHolds features e \<or> anyHold features d)"
| "anyHold features x = False"

inductive wellFormedFeature :: "evl \<Rightarrow> bool" where
  symbolF: "isEVLSymbol x \<Longrightarrow> wellFormedFeature x"
| notF: "wellFormedFeature e \<Longrightarrow> wellFormedFeature (EVLCons notVariable (EVLCons e EVLEmptyList))"
| andF: "\<forall>e \<in> set es. wellFormedFeature e \<Longrightarrow> wellFormedFeature (EVLCons andVariable (evlList es))"
| orF: "\<forall>e \<in> set es. wellFormedFeature e \<Longrightarrow> wellFormedFeature (EVLCons orVariable (evlList es))"


lemma featureListScan_proper:
  "featureListScan x (evlList features) = Inr (x \<in> set features)"
  by (induction features) auto

lemma listToArray_evlList [simp]: "listToArray (evlList xs) = xs"
  by (induction xs) auto

lemma variables_distinct [simp]:
  "notVariable \<noteq> andVariable" "notVariable \<noteq> orVariable" "andVariable \<noteq> orVariable"
  "andVariable \<noteq> notVariable" "orVariable \<noteq> notVariable" "orVariable \<noteq> andVariable"
  by (simp_all add: notVariable_def andVariable_def orVariable_def internVariable_def js_def)

lemma evaluateAndOperands_all:
  "\<forall>e \<in> set es. evaluateFeatureExpression s e = Inr (featureHolds features e) \<Longrightarrow>
   evaluateAndOperands s (evlList es) = Inr (allHold features (evlList es))"
  by (induction es) auto

lemma evaluateOrOperands_ex:
  "\<forall>e \<in> set es. evaluateFeatureExpression s e = Inr (featureHolds features e) \<Longrightarrow>
   evaluateOrOperands s (evlList es) = Inr (anyHold features (evlList es))"
  by (induction es) auto

lemma evaluateFeatureExpression_featureHolds:
  assumes fl: "GlobalEnv_ref s VAL_NS (internVariable (js ''*features*'')) = Inr (evlList features)"
    and wf: "wellFormedFeature fe"
  shows "evaluateFeatureExpression s fe = Inr (featureHolds features fe)"
  using wf
proof (induction fe rule: wellFormedFeature.induct)
  case (symbolF x)
  then show ?case using fl
    by (cases x) (simp_all add: evaluateSymbolFeatureExpression_def featureListScan_proper)
next
  case (notF e)
  then show ?case by simp
next
  case (andF es)
  then show ?case by (simp add: evaluateAndOperands_all)
next
  case (orF es)
  then show ?case by (simp add: evaluateOrOperands_ex)
qed

text \<open>The definitions that evaluate the tokenizer and the reader on a text, for \<open>simp\<close>.\<close>

lemmas tokenizer_eval = js_def Tokenizer_def nextToken_def nextToken_loop.simps skipWhitespace.simps
  peekCharacter_def validCharacter_def readToken_def consumeCharacter_def
  isLeadingSurrogate_def isTrailingSurrogate_def isControlCharacter_def isNoncharacter_def
  isWhitespaceCharacter_def isSyntaxCharacter_def readTokenDefault_def readProtoToken_def
  readProtoToken_loop.simps startsXMLMarkup_def numberRegExp_def keywordRegExp_def variableRegExp_def
  isDigit_def Let_def readTokenUnquote_def readString_def readString_loop.simps readStringEscape_def
  readHashConstruct_def readHashConstruct_loop.simps readHashString_def isDecimalDigit_def
  readXMLMarkup_def readXMLMarkup_loop.simps readXMLMarkup_step_def isXMLNameCharacter_def slice_def
  readProtoTokenEscape_def readUnicodeEscape_def readEscapeSequence_def readEscapeSequence_loop.simps
  internVariable_def internKeyword_def parseIntDecimal_def

lemma thenDo_weak_cong: "m = m' \<Longrightarrow> thenDo m f = thenDo m' f"
  by simp

lemmas fuel_numeral =
  readObject.simps(2)[of "pred_numeral k" for k, folded numeral_eq_Suc]
  readList_loop.simps(2)[of "pred_numeral k" for k, folded numeral_eq_Suc]
  readVector_loop.simps(2)[of "pred_numeral k" for k, folded numeral_eq_Suc]
  readXMLElement_loop.simps(2)[of "pred_numeral k" for k, folded numeral_eq_Suc]

lemmas reader_eval = fuel_numeral read_def requireObject_def readAbbreviation_def readFeatureExpression_def
  readConditionalizedObject_def readReadTimeConditional_def readDottedList_def readList_def
  readVector_def readXMLElement_def tokenValueObject_def
  quoteVariable_def quasiquoteVariable_def unquoteVariable_def unquoteSplicingVariable_def
  notVariable_def andVariable_def orVariable_def evaluateSymbolFeatureExpression_def
  GlobalEnv_ref_def

lemma nextToken_hash_plus:
  "\<exists>tk. nextToken parseFloat (Tokenizer (js ''#+'' @ rest) False) = Inr tk \<and>
        category tk = Some HASH_PLUS \<and> position tk = 2 \<and> text' tk = js ''#+'' @ rest"
  by (simp add: tokenizer_eval)

lemma nextToken_hash_minus:
  "\<exists>tk. nextToken parseFloat (Tokenizer (js ''#-'' @ rest) False) = Inr tk \<and>
        category tk = Some HASH_MINUS \<and> position tk = 2 \<and> text' tk = js ''#-'' @ rest"
  by (simp add: tokenizer_eval)

lemma readObject_hash_plus:
  assumes "nextToken parseFloat tk0 = Inr tk" and "category tk = Some HASH_PLUS"
  shows "readObject (Suc n) parseFloat callback tk0 s =
           thenDo (readReadTimeConditional (readObject n parseFloat callback) True tk s)
             (\<lambda>(object, tk2) s2.
                case object of
                  Some obj \<Rightarrow> (Return (RObject obj, tk2), s2)
                | None \<Rightarrow> readObject n parseFloat callback tk2 s2)"
  using assms by simp

lemma readObject_hash_minus:
  assumes "nextToken parseFloat tk0 = Inr tk" and "category tk = Some HASH_MINUS"
  shows "readObject (Suc n) parseFloat callback tk0 s =
           thenDo (readReadTimeConditional (readObject n parseFloat callback) False tk s)
             (\<lambda>(object, tk2) s2.
                case object of
                  Some obj \<Rightarrow> (Return (RObject obj, tk2), s2)
                | None \<Rightarrow> readObject n parseFloat callback tk2 s2)"
  using assms by simp

text \<open>
  Claim C7.  The characters \<open>#+\<close> and \<open>#-\<close> at the beginning of a text are the
  tokens of the categories \<open>HASH_PLUS\<close> and \<open>HASH_MINUS\<close>.  At the token
  \<open>#+\<close> the reader reads a read-time conditional with the polarity true, at the token
  \<open>#-\<close> with the polarity false.  A read-time conditional
  reads the feature expression and then the object, and the tokenizer it hands back stands
  behind both, whether the object is kept or discarded.  With a well-formed feature
  expression and a proper feature list in \<open>*features*\<close>, the object is kept if and only
  if the feature expression, read as \<open>not\<close>, \<open>and\<close>, \<open>or\<close> over membership in
  that list, has the value of the polarity: \<open>readObject\<close> returns the object after
  \<open>#+\<close> when the expression holds and after \<open>#-\<close> when it does not, and otherwise
  goes on reading behind the object.
\<close>

theorem C7_read_time_conditional:
  assumes fe: "readFeatureExpression ro tk s = (Return (fe, tk1), s1)"
    and ob: "readConditionalizedObject ro tk1 s1 = (Return (obj, tk2), s2)"
    and fl: "GlobalEnv_ref s2 VAL_NS (internVariable (js ''*features*'')) = Inr (evlList features)"
    and wf: "wellFormedFeature fe"
  shows "readReadTimeConditional ro polarity tk s =
           (Return (if featureHolds features fe = polarity then Some obj else None, tk2), s2)
    \<and> (ro = readObject n parseFloat callback \<and> nextToken parseFloat tk0 = Inr tk \<and>
        category tk = Some HASH_PLUS \<longrightarrow>
          readObject (Suc n) parseFloat callback tk0 s =
            (if featureHolds features fe then (Return (RObject obj, tk2), s2)
             else readObject n parseFloat callback tk2 s2))
    \<and> (ro = readObject n parseFloat callback \<and> nextToken parseFloat tk0 = Inr tk \<and>
        category tk = Some HASH_MINUS \<longrightarrow>
          readObject (Suc n) parseFloat callback tk0 s =
            (if featureHolds features fe then readObject n parseFloat callback tk2 s2
             else (Return (RObject obj, tk2), s2)))
    \<and> (\<exists>tkp. nextToken parseFloat (Tokenizer (js ''#+'' @ rest) False) = Inr tkp \<and>
          category tkp = Some HASH_PLUS \<and> position tkp = 2 \<and> text' tkp = js ''#+'' @ rest)
    \<and> (\<exists>tkm. nextToken parseFloat (Tokenizer (js ''#-'' @ rest) False) = Inr tkm \<and>
          category tkm = Some HASH_MINUS \<and> position tkm = 2 \<and> text' tkm = js ''#-'' @ rest)"
proof -
  have r: "readReadTimeConditional ro polarity tk s =
           (Return (if featureHolds features fe = polarity then Some obj else None, tk2), s2)"
    for polarity
    using fe ob evaluateFeatureExpression_featureHolds[OF fl wf]
    by (simp add: readReadTimeConditional_def)
  show ?thesis
  proof (intro conjI impI)
    show "readReadTimeConditional ro polarity tk s =
           (Return (if featureHolds features fe = polarity then Some obj else None, tk2), s2)"
      by (rule r)
  next
    assume a: "ro = readObject n parseFloat callback \<and> nextToken parseFloat tk0 = Inr tk \<and>
        category tk = Some HASH_PLUS"
    then have "readObject (Suc n) parseFloat callback tk0 s =
           thenDo (readReadTimeConditional ro True tk s)
             (\<lambda>(object, tk2) s2.
                case object of
                  Some obj \<Rightarrow> (Return (RObject obj, tk2), s2)
                | None \<Rightarrow> readObject n parseFloat callback tk2 s2)"
      using readObject_hash_plus[of parseFloat tk0 tk n callback s] by simp
    then show "readObject (Suc n) parseFloat callback tk0 s =
            (if featureHolds features fe then (Return (RObject obj, tk2), s2)
             else readObject n parseFloat callback tk2 s2)"
      by (simp add: r)
  next
    assume a: "ro = readObject n parseFloat callback \<and> nextToken parseFloat tk0 = Inr tk \<and>
        category tk = Some HASH_MINUS"
    then have "readObject (Suc n) parseFloat callback tk0 s =
           thenDo (readReadTimeConditional ro False tk s)
             (\<lambda>(object, tk2) s2.
                case object of
                  Some obj \<Rightarrow> (Return (RObject obj, tk2), s2)
                | None \<Rightarrow> readObject n parseFloat callback tk2 s2)"
      using readObject_hash_minus[of parseFloat tk0 tk n callback s] by simp
    then show "readObject (Suc n) parseFloat callback tk0 s =
            (if featureHolds features fe then readObject n parseFloat callback tk2 s2
             else (Return (RObject obj, tk2), s2))"
      by (simp add: r)
  next
    show "\<exists>tkp. nextToken parseFloat (Tokenizer (js ''#+'' @ rest) False) = Inr tkp \<and>
          category tkp = Some HASH_PLUS \<and> position tkp = 2 \<and> text' tkp = js ''#+'' @ rest"
      by (rule nextToken_hash_plus)
  next
    show "\<exists>tkm. nextToken parseFloat (Tokenizer (js ''#-'' @ rest) False) = Inr tkm \<and>
          category tkm = Some HASH_MINUS \<and> position tkm = 2 \<and> text' tkm = js ''#-'' @ rest"
      by (rule nextToken_hash_minus)
  qed
qed


definition featuresState :: "evl list \<Rightarrow> state" where
  "featuresState features =
     \<lparr>valueCell = (\<lambda>v. None)(internVariable (js ''*features*'') := Some (evlList features)),
      functionCell = (\<lambda>v. None), frameValues = [], uninterned = 0,
      lastResult = EVLObject EVLVoid\<rparr>"

text \<open>
  With \<open>b\<close> in the feature list: the text \<open>#+(or a b) x y\<close> reads as \<open>x\<close>, the
  text \<open>#-(or a b) x y\<close> as \<open>y\<close>, and in both the tokenizer has gone past \<open>x\<close>.
\<close>

theorem C7_read_time_conditional_witness:
  "(\<exists>tk2. readReadTimeConditional (readObject 8 (\<lambda>x. 0) None) True
        (Tokenizer (js ''(or a b) x'') False) (featuresState [EVLVariable (Interned (js ''b''))]) =
      (Return (Some (EVLVariable (Interned (js ''x''))), tk2),
       featuresState [EVLVariable (Interned (js ''b''))]) \<and> position tk2 = 10)
   \<and> (\<exists>tk2. readReadTimeConditional (readObject 8 (\<lambda>x. 0) None) False
        (Tokenizer (js ''(or a b) x'') False) (featuresState [EVLVariable (Interned (js ''b''))]) =
      (Return (None, tk2), featuresState [EVLVariable (Interned (js ''b''))]) \<and> position tk2 = 10)
   \<and> (\<exists>tk2. read 9 (\<lambda>x. 0) None (Tokenizer (js ''#+(or a b) x y'') False)
               (featuresState [EVLVariable (Interned (js ''b''))]) =
      (Return (Some (EVLVariable (Interned (js ''x''))), tk2),
       featuresState [EVLVariable (Interned (js ''b''))]) \<and> position tk2 = 12)
   \<and> (\<exists>tk3. read 9 (\<lambda>x. 0) None (Tokenizer (js ''#-(or a b) x y'') False)
               (featuresState [EVLVariable (Interned (js ''b''))]) =
      (Return (Some (EVLVariable (Interned (js ''y''))), tk3),
       featuresState [EVLVariable (Interned (js ''b''))]) \<and> position tk3 = 14)"
proof -
  define pf :: "jsstring \<Rightarrow> 64 word" where "pf = (\<lambda>x. 0)"
  define ro where "ro = readObject 8 pf None"
  define s where "s = featuresState [EVLVariable (Interned (js ''b''))]"
  define tk where "tk = Tokenizer (js ''(or a b) x'') False"
  define fe where "fe = EVLCons orVariable
     (evlList [EVLVariable (Interned (js ''a'')), EVLVariable (Interned (js ''b''))])"
  have fl: "GlobalEnv_ref s VAL_NS (internVariable (js ''*features*'')) =
      Inr (evlList [EVLVariable (Interned (js ''b''))])"
    by (simp add: s_def featuresState_def GlobalEnv_ref_def)
  have wf: "wellFormedFeature fe"
    unfolding fe_def by (rule wellFormedFeature.orF) (simp add: wellFormedFeature.symbolF)
  have h: "featureHolds [EVLVariable (Interned (js ''b''))] fe"
    by (simp add: fe_def orVariable_def notVariable_def andVariable_def internVariable_def js_def)
  have "\<exists>tk1. readFeatureExpression ro tk s = (Return (fe, tk1), s) \<and>
      (\<exists>tk2. readConditionalizedObject ro tk1 s =
         (Return (EVLVariable (Interned (js ''x'')), tk2), s) \<and> position tk2 = 10)"
    by (simp add: ro_def pf_def s_def tk_def fe_def tokenizer_eval reader_eval cong: thenDo_weak_cong)
  then obtain tk1 tk2 where fe: "readFeatureExpression ro tk s = (Return (fe, tk1), s)"
    and ob: "readConditionalizedObject ro tk1 s =
       (Return (EVLVariable (Interned (js ''x'')), tk2), s)" and p2: "position tk2 = 10"
    by blast
  note A = C7_read_time_conditional[OF fe ob fl wf, of True] C7_read_time_conditional[OF fe ob fl wf, of False]
  define tp where "tp = Tokenizer (js ''#+(or a b) x y'') False"
  have "\<exists>tkp. nextToken pf tp = Inr tkp \<and> category tkp = Some HASH_PLUS \<and>
      (\<exists>tk1. readFeatureExpression ro tkp s = (Return (fe, tk1), s) \<and>
      (\<exists>tk2. readConditionalizedObject ro tk1 s =
         (Return (EVLVariable (Interned (js ''x'')), tk2), s) \<and> position tk2 = 12))"
    by (simp add: ro_def pf_def s_def tp_def fe_def tokenizer_eval reader_eval cong: thenDo_weak_cong)
  then obtain tkp tkp1 tkp2 where np: "nextToken pf tp = Inr tkp"
    and cp: "category tkp = Some HASH_PLUS"
    and fep: "readFeatureExpression ro tkp s = (Return (fe, tkp1), s)"
    and obp: "readConditionalizedObject ro tkp1 s =
       (Return (EVLVariable (Interned (js ''x'')), tkp2), s)" and pp2: "position tkp2 = 12"
    by blast
  from C7_read_time_conditional[OF fep obp fl wf, of True 8 pf None tp] np cp h
  have B: "readObject 9 pf None tp s = (Return (RObject (EVLVariable (Interned (js ''x''))), tkp2), s)"
    by (simp add: ro_def)
  define tm where "tm = Tokenizer (js ''#-(or a b) x y'') False"
  have "\<exists>tkm. nextToken pf tm = Inr tkm \<and> category tkm = Some HASH_MINUS \<and>
      (\<exists>tk1. readFeatureExpression ro tkm s = (Return (fe, tk1), s) \<and>
      (\<exists>tk2. readConditionalizedObject ro tk1 s =
         (Return (EVLVariable (Interned (js ''x'')), tk2), s) \<and>
      (\<exists>tk3. readObject 8 pf None tk2 s =
         (Return (RObject (EVLVariable (Interned (js ''y''))), tk3), s) \<and> position tk3 = 14)))"
    by (simp add: ro_def pf_def s_def tm_def fe_def tokenizer_eval reader_eval cong: thenDo_weak_cong)
  then obtain tkm tkm1 tkm2 tkm3 where nm: "nextToken pf tm = Inr tkm"
    and cm: "category tkm = Some HASH_MINUS"
    and fem: "readFeatureExpression ro tkm s = (Return (fe, tkm1), s)"
    and obm: "readConditionalizedObject ro tkm1 s =
       (Return (EVLVariable (Interned (js ''x'')), tkm2), s)"
    and nxt: "readObject 8 pf None tkm2 s =
         (Return (RObject (EVLVariable (Interned (js ''y''))), tkm3), s)"
    and pm3: "position tkm3 = 14"
    by blast
  from C7_read_time_conditional[OF fem obm fl wf, of True 8 pf None tm] nm cm h nxt
  have C: "readObject 9 pf None tm s = (Return (RObject (EVLVariable (Interned (js ''y''))), tkm3), s)"
    by (simp add: ro_def)
  from A h p2 B pp2 C pm3
  show ?thesis unfolding ro_def s_def tk_def tp_def tm_def pf_def read_def by auto
qed

section \<open>Evaluation of the evaluators by rewriting\<close>

lemmas variables_eval = js_def internVariable_def quoteVariable_def prognVariable_def ifVariable_def
  u_vlambdaVariable_def u_mlambdaVariable_def mlambdaVariable_def u_flambdaVariable_def
  u_dlambdaVariable_def vrefVariable_def vsetVariable_def frefVariable_def fsetVariable_def
  drefVariable_def dsetVariable_def u_forEachVariable_def u_catchErrorsVariable_def applyVariable_def
  multipleValueCallVariable_def multipleValueApplyVariable_def

lemmas analyzer_eval = formAnalyzerError_def checkVariable_def checkEmptyList_def checkCons_def
  checkProperList_def checkParameterList_def analyzeQuote_def analyzeProgn_def analyzeIf_def
  analyzeLambda_def analyzeRef_def analyzeSet_def analyzeForEach_def analyzeCatchErrors_def
  analyzeCall_def

lemmas env_eval = newFrame_def frameSlot_def setFrameSlot_def GlobalEnv_ref_def GlobalEnv_set_def
  GlobalEnv_preprocessorRef_def objectResult_def setResult_def isMacroCall_def closureEVLForms_def
  closurePreprocessedForms_def emptyListError_def ifTestFormError_def forEachNotImplemented_def
  forEachFunctionFormError_def forEachListFormError_def callOperatorFormError_def
  pairPrimFunParameters_def pairPrimFunParametersNoApply_def pairClosureParameters_def
  pairClosureParametersNoApplyNoRest_def Let_def invokedResult_def invokedArgs_def resultBounce_def

lemmas plainrec_eval =
  plainrecEvalForm.simps(2)[of _ "pred_numeral k" for k, folded numeral_eq_Suc]
  plainrecEval_def plainrecEvalQuote_def plainrecEvalProgn_def plainrecEvalIf_def
  plainrecEvalLambda_def plainrecEvalRef_def plainrecEvalSet_def plainrecEvalCatchErrors_def
  plainrecEvalOperator_def plainrecInvokeFun_def plainrecEvalCall_def

lemmas cps_eval =
  cpsEvalForm.simps(2)[of _ "pred_numeral k" for k, folded numeral_eq_Suc]
  cpsEval_def cpsEndCont_def cpsEvalQuote_def cpsEvalProgn_def cpsEvalIf_def
  cpsEvalLambda_def cpsEvalRef_def cpsEvalSet_def cpsEvalCatchErrors_def
  cpsEvalOperator_def cpsInvokeFun_def cpsEvalCall_def cpsEvalForEach_def

lemmas oocps_eval =
  oocpsEvalForm.simps(2)[of _ "pred_numeral k" for k, folded numeral_eq_Suc]
  oocpsCont_invoke.simps(2)[of _ "pred_numeral k" for k, folded numeral_eq_Suc]
  oocpsEval_def oocpsEvalQuote_def oocpsEvalForms_def oocpsEvalProgn_def oocpsEvalIf_def
  oocpsEvalLambda_def oocpsEvalRef_def oocpsEvalSet_def oocpsEvalForEach_def
  oocpsEvalCatchErrors_def oocpsEvalOperator_def oocpsEvalCall_def oocpsInvokeFun_def

lemmas sboocps_eval =
  sboocpsEvalForm.simps(2)[of _ "pred_numeral k" for k, folded numeral_eq_Suc]
  sboocpsCont_invoke.simps(2)[of _ "pred_numeral k" for k, folded numeral_eq_Suc]
  sboocpsEval_def sboocpsEvalQuote_def sboocpsEvalForms_def sboocpsEvalProgn_def sboocpsEvalIf_def
  sboocpsEvalLambda_def sboocpsEvalRef_def sboocpsEvalSet_def sboocpsEvalForEach_def
  sboocpsEvalCatchErrors_def sboocpsEvalOperator_def sboocpsEvalCall_def sboocpsInvokeFun_def
  SBOOCPSControlStack_trim_def

lemmas trampoline_eval =
  trampolineEval_loop.simps(2)[of _ _ "pred_numeral k" for k, folded numeral_eq_Suc]
  trampolineEval_def trampolineEvalForm_def trampolineCont_invoke_def trampolineEvalQuote_def
  trampolineEvalForms_def trampolineEvalProgn_def trampolineEvalIf_def trampolineEvalLambda_def
  trampolineEvalRef_def trampolineEvalSet_def trampolineEvalCatchErrors_def
  trampolineEvalOperator_def trampolineEvalCall_def trampolineInvokeFun_def abortRequested_def

lemmas trampolinepp_eval =
  trampolineppEval_loop.simps(2)[of _ _ "pred_numeral k" for k, folded numeral_eq_Suc]
  trampolineppPreprocessForm.simps(2)[of _ _ "pred_numeral k" for k, folded numeral_eq_Suc]
  trampolineppEval_def trampolineppEval_lenv_def TrampolineppForm_eval_def
  trampolineppCont_invoke_def trampolineppEvalForms_def trampolineppEvalOperands_def
  trampolineppInvokeFun_def frameValue_def setFrameValue_def abortRequested_def
  trampolineppPreprocessQuote_def trampolineppPreprocessProgn_def trampolineppPreprocessIf_def
  trampolineppPreprocessLambda_def optimizeLexicalVariables_def trampolineppPreprocessRef2_def
  trampolineppPreprocessRef_def trampolineppPreprocessSet_def trampolineppPreprocessForEach_def
  trampolineppPreprocessCatchErrors_def isMacroLet_def TrampolineppForm_eval_null_def
  trampolineppPreprocessCall_def

lemmas interface_eval =
  evaluateForms_loop.simps(2)[of _ _ _ "pred_numeral k" for k, folded numeral_eq_Suc]
  initialize_def evaluateFirstForm_def evaluateAllForms_def interface_convertEVLToXML_def
  initializeFeatureList_def evalCallback_def printValues_def success_def foundNoForm_def
  abortedOrError_def clearAbortSignal_def genericEval_def

lemmas call_eval = js_def internVariable_def quoteVariable_def prognVariable_def ifVariable_def
  u_vlambdaVariable_def u_mlambdaVariable_def mlambdaVariable_def u_flambdaVariable_def
  u_dlambdaVariable_def vrefVariable_def vsetVariable_def frefVariable_def fsetVariable_def
  drefVariable_def dsetVariable_def u_forEachVariable_def u_catchErrorsVariable_def applyVariable_def
  multipleValueCallVariable_def multipleValueApplyVariable_def
  analyzeCall_def checkCons_def checkProperList_def analyzeQuote_def checkEmptyList_def
  objectResult_def Let_def invokedResult_def invokedArgs_def resultBounce_def

lemmas pairing_eval = pairPrimFunParametersApply_def pairClosureParametersApplyNoRest_def
  pairClosureParametersApplyRest_def pairClosureParametersNoApplyRest_def setRestSlot_def

section \<open>The abort byte and the functions of the interface\<close>

lemma clearAbortSignal_simps [simp]:
  "coreState (clearAbortSignal c) = coreState c"
  "selectedEvaluator (clearAbortSignal c) = selectedEvaluator c"
  "abortSignalArray (clearAbortSignal c) = map_option (\<lambda>bytes. bytes[0 := 0]) (abortSignalArray c)"
  by (simp_all add: clearAbortSignal_def split: option.splits)

lemma evaluateFirstForm_core:
  "abortSignalArray (snd (evaluateFirstForm h n source c)) =
     map_option (\<lambda>bytes. bytes[0 := 0]) (abortSignalArray c) \<and>
   selectedEvaluator (snd (evaluateFirstForm h n source c)) = selectedEvaluator c"
  by (simp add: evaluateFirstForm_def Let_def split: prod.splits outcome.splits option.splits)

lemma evaluateAllForms_core:
  "abortSignalArray (snd (evaluateAllForms h n source c)) =
     map_option (\<lambda>bytes. bytes[0 := 0]) (abortSignalArray c) \<and>
   selectedEvaluator (snd (evaluateAllForms h n source c)) = selectedEvaluator c"
  by (simp add: evaluateAllForms_def Let_def split: prod.splits outcome.splits option.splits)

lemma initialize_core:
  "abortSignalArray (snd (initialize h n input c)) = Some (abortSignalBuffer input) \<and>
   selectedEvaluator (snd (initialize h n input c)) = Some (inputSelectedEvaluator input)"
  by (simp add: initialize_def Let_def split: prod.splits outcome.splits option.splits)

lemma convertEVLToXML_core:
  "snd (interface_convertEVLToXML h n source c) = c"
  by (simp add: interface_convertEVLToXML_def split: outcome.splits)

lemma clearAbortSignal_idem:
  "clearAbortSignal (clearAbortSignal c) = clearAbortSignal c"
  by (simp add: clearAbortSignal_def split: option.splits)

lemma clearAbortSignal_byte:
  "clearAbortSignal (c\<lparr>abortSignalArray := Some (b # bytes)\<rparr>) =
   c\<lparr>abortSignalArray := Some (0 # bytes)\<rparr>"
  by (simp add: clearAbortSignal_def)

lemma evaluateFirstForm_entry:
  "evaluateFirstForm h n source (clearAbortSignal c) = evaluateFirstForm h n source c"
  unfolding evaluateFirstForm_def clearAbortSignal_idem ..

lemma evaluateAllForms_entry:
  "evaluateAllForms h n source (clearAbortSignal c) = evaluateAllForms h n source c"
  unfolding evaluateAllForms_def clearAbortSignal_idem ..

lemma evaluateFirstForm_stale:
  "evaluateFirstForm h n source (c\<lparr>abortSignalArray := Some (b # bytes)\<rparr>) =
   evaluateFirstForm h n source (c\<lparr>abortSignalArray := Some (0 # bytes)\<rparr>)"
  unfolding evaluateFirstForm_def clearAbortSignal_byte ..

lemma evaluateAllForms_stale:
  "evaluateAllForms h n source (c\<lparr>abortSignalArray := Some (b # bytes)\<rparr>) =
   evaluateAllForms h n source (c\<lparr>abortSignalArray := Some (0 # bytes)\<rparr>)"
  unfolding evaluateAllForms_def clearAbortSignal_byte ..

lemma convertEVLToXML_flag:
  "fst (interface_convertEVLToXML h n source (c\<lparr>abortSignalArray := a\<rparr>)) =
   fst (interface_convertEVLToXML h n source c)"
  by (simp add: interface_convertEVLToXML_def split: outcome.splits)

lemma evaluateFirstForm_set_flag:
  "fst (evaluateFirstForm h 4 (js ''#t'')
          \<lparr>abortSignalArray = Some [1], selectedEvaluator = Some (js ''trampoline''),
           coreState = s\<rparr>) =
     Some \<lparr>status = SUCCESS, output' = Some (Values [js ''#t''])\<rparr>"
  by (simp add: interface_eval tokenizer_eval reader_eval trampoline_eval
      variables_eval env_eval cong: thenDo_weak_cong)

lemma evaluateFirstForm_set_flag_pp:
  "fst (evaluateFirstForm h 4 (js ''#t'')
          \<lparr>abortSignalArray = Some [1], selectedEvaluator = Some (js ''trampolinepp''),
           coreState = s\<rparr>) =
     Some \<lparr>status = SUCCESS, output' = Some (Values [js ''#t''])\<rparr>"
  by (simp add: interface_eval tokenizer_eval reader_eval trampolinepp_eval
      variables_eval env_eval cong: thenDo_weak_cong)

lemma evaluateAllForms_set_flag:
  "fst (evaluateAllForms h 4 (js ''#t'')
          \<lparr>abortSignalArray = Some [1], selectedEvaluator = Some (js ''trampoline''),
           coreState = s\<rparr>) =
     Some \<lparr>status = SUCCESS, output' = Some (Values [js ''#t''])\<rparr>"
  by (simp add: interface_eval tokenizer_eval reader_eval trampoline_eval
      variables_eval env_eval cong: thenDo_weak_cong)

lemma evaluateAllForms_set_flag_pp:
  "fst (evaluateAllForms h 4 (js ''#t'')
          \<lparr>abortSignalArray = Some [1], selectedEvaluator = Some (js ''trampolinepp''),
           coreState = s\<rparr>) =
     Some \<lparr>status = SUCCESS, output' = Some (Values [js ''#t''])\<rparr>"
  by (simp add: interface_eval tokenizer_eval reader_eval trampolinepp_eval
      variables_eval env_eval cong: thenDo_weak_cong)

lemma initialize_set_flag:
  "fst (initialize h 4 \<lparr>abortSignalBuffer = [1], inputSelectedEvaluator = js ''trampoline'',
                         evlFiles = [js ''#t'']\<rparr> c) =
     Some \<lparr>status = ABORTED, output' = None\<rparr>"
  by (simp add: interface_eval tokenizer_eval reader_eval trampoline_eval
      variables_eval env_eval cong: thenDo_weak_cong)

text \<open>
  Claim C10.  \<open>evaluateFirstForm\<close> and \<open>evaluateAllForms\<close> store 0 in the first byte of
  the abort buffer, when a buffer is installed, before they read and evaluate: what they do
  is what they do on the core in which the byte is cleared already, so that the outcome for
  a flag that is set on entry is the outcome for the byte 0, and with the flag set on entry
  and one of the trampoline evaluators selected the text \<open>#t\<close> is evaluated with the
  status \<open>SUCCESS\<close>.  The byte is 0 afterwards (and \<open>abortSignalArray\<close> is \<open>null\<close>
  as before when no buffer is installed), whatever the text and whatever comes of its
  evaluation; the clearing changes no other byte and no other variable of the core, and the
  two functions leave \<open>selectedEvaluator\<close> as it is.  \<open>initialize\<close> installs the buffer
  of its input with the bytes that it holds: it does not write to it, and with the flag set
  in that buffer and the trampoline evaluator selected the evaluation of the first form of a
  file is aborted.  \<open>convertEVLToXML\<close> changes no global variable of the core, and its
  response does not depend on the buffer.
\<close>

theorem C10_abort_byte:
  "evaluateFirstForm h n source (clearAbortSignal c) = evaluateFirstForm h n source c \<and>
   evaluateAllForms h n source (clearAbortSignal c) = evaluateAllForms h n source c \<and>
   evaluateFirstForm h n source (c\<lparr>abortSignalArray := Some (b # bytes)\<rparr>) =
     evaluateFirstForm h n source (c\<lparr>abortSignalArray := Some (0 # bytes)\<rparr>) \<and>
   evaluateAllForms h n source (c\<lparr>abortSignalArray := Some (b # bytes)\<rparr>) =
     evaluateAllForms h n source (c\<lparr>abortSignalArray := Some (0 # bytes)\<rparr>) \<and>
   abortSignalArray (clearAbortSignal c) =
     map_option (\<lambda>bytes. bytes[0 := 0]) (abortSignalArray c) \<and>
   selectedEvaluator (clearAbortSignal c) = selectedEvaluator c \<and>
   coreState (clearAbortSignal c) = coreState c \<and>
   abortSignalArray (snd (evaluateFirstForm h n source c)) =
     map_option (\<lambda>bytes. bytes[0 := 0]) (abortSignalArray c) \<and>
   abortSignalArray (snd (evaluateAllForms h n source c)) =
     map_option (\<lambda>bytes. bytes[0 := 0]) (abortSignalArray c) \<and>
   selectedEvaluator (snd (evaluateFirstForm h n source c)) = selectedEvaluator c \<and>
   selectedEvaluator (snd (evaluateAllForms h n source c)) = selectedEvaluator c \<and>
   abortSignalArray (snd (initialize h n input c)) = Some (abortSignalBuffer input) \<and>
   snd (interface_convertEVLToXML h n source c) = c \<and>
   fst (interface_convertEVLToXML h n source (c\<lparr>abortSignalArray := a\<rparr>)) =
     fst (interface_convertEVLToXML h n source c) \<and>
   fst (evaluateFirstForm h 4 (js ''#t'')
          \<lparr>abortSignalArray = Some [1], selectedEvaluator = Some (js ''trampoline''),
           coreState = s\<rparr>) =
     Some \<lparr>status = SUCCESS, output' = Some (Values [js ''#t''])\<rparr> \<and>
   fst (evaluateFirstForm h 4 (js ''#t'')
          \<lparr>abortSignalArray = Some [1], selectedEvaluator = Some (js ''trampolinepp''),
           coreState = s\<rparr>) =
     Some \<lparr>status = SUCCESS, output' = Some (Values [js ''#t''])\<rparr> \<and>
   fst (evaluateAllForms h 4 (js ''#t'')
          \<lparr>abortSignalArray = Some [1], selectedEvaluator = Some (js ''trampoline''),
           coreState = s\<rparr>) =
     Some \<lparr>status = SUCCESS, output' = Some (Values [js ''#t''])\<rparr> \<and>
   fst (evaluateAllForms h 4 (js ''#t'')
          \<lparr>abortSignalArray = Some [1], selectedEvaluator = Some (js ''trampolinepp''),
           coreState = s\<rparr>) =
     Some \<lparr>status = SUCCESS, output' = Some (Values [js ''#t''])\<rparr> \<and>
   fst (initialize h 4 \<lparr>abortSignalBuffer = [1], inputSelectedEvaluator = js ''trampoline'',
                         evlFiles = [js ''#t'']\<rparr> c) =
     Some \<lparr>status = ABORTED, output' = None\<rparr>"
  using evaluateFirstForm_entry[of h n source c] evaluateAllForms_entry[of h n source c]
    evaluateFirstForm_stale[where h = h and n = n and source = source and c = c and b = b and bytes = bytes]
    evaluateAllForms_stale[where h = h and n = n and source = source and c = c and b = b and bytes = bytes]
    evaluateFirstForm_core[of h n source c] evaluateAllForms_core[of h n source c]
    initialize_core[of h n input c] convertEVLToXML_core[of h n source c]
    convertEVLToXML_flag[where h = h and n = n and source = source and c = c and a = a]
    evaluateFirstForm_set_flag[where h = h and s = s] evaluateFirstForm_set_flag_pp[where h = h and s = s]
    evaluateAllForms_set_flag[where h = h and s = s] evaluateAllForms_set_flag_pp[where h = h and s = s]
    initialize_set_flag[where h = h and c = c]
  by simp

section \<open>Partial input\<close>

text \<open>
  Claim C8.  When the reading of the first form of a text throws \<open>TruncatedToken\<close> or
  \<open>UnexpectedEndOfInput\<close>, and when it finds the end of the input in the place of a form,
  \<open>evaluateFirstForm\<close> responds with the status \<open>FOUND_NO_FORM\<close>; when it throws another
  exception (that is not \<open>Aborted\<close>, which the reader does not throw), the response has the
  status \<open>ERROR\<close> and the message of the exception.  The empty text has no form.
\<close>

theorem C8_found_no_form:
  assumes "read n (host_parseFloat h) None (Tokenizer source False) (coreState c) = (r, s1)"
  shows "(((\<exists>m. r = Throw (TruncatedToken m)) \<or> r = Throw UnexpectedEndOfInput \<or>
           (\<exists>tk. r = Return (None, tk))) \<longrightarrow>
          fst (evaluateFirstForm h n source c) = Some \<lparr>status = FOUND_NO_FORM, output' = None\<rparr>) \<and>
         (\<forall>e. r = Throw e \<and> (\<forall>m. e \<noteq> TruncatedToken m) \<and> e \<noteq> UnexpectedEndOfInput \<and>
              e \<noteq> Aborted \<longrightarrow>
              fst (evaluateFirstForm h n source c) =
                Some \<lparr>status = ERROR, output' = Some (Text (exnMessage e))\<rparr>) \<and>
         fst (evaluateFirstForm h (Suc k) [] c) = Some \<lparr>status = FOUND_NO_FORM, output' = None\<rparr>"
proof (intro conjI impI allI)
  assume "(\<exists>m. r = Throw (TruncatedToken m)) \<or> r = Throw UnexpectedEndOfInput \<or>
          (\<exists>tk. r = Return (None, tk))"
  with assms show "fst (evaluateFirstForm h n source c) = Some \<lparr>status = FOUND_NO_FORM, output' = None\<rparr>"
    by (auto simp: evaluateFirstForm_def Let_def foundNoForm_def)
next
  fix e
  assume "r = Throw e \<and> (\<forall>m. e \<noteq> TruncatedToken m) \<and> e \<noteq> UnexpectedEndOfInput \<and> e \<noteq> Aborted"
  with assms show "fst (evaluateFirstForm h n source c) =
      Some \<lparr>status = ERROR, output' = Some (Text (exnMessage e))\<rparr>"
    by (cases e) (auto simp: evaluateFirstForm_def Let_def abortedOrError_def)
next
  have "read (Suc k) (host_parseFloat h) None (Tokenizer [] False) (coreState c) =
          (Return (None, (Tokenizer [] False)\<lparr>category := Some EOI\<rparr>), coreState c)"
    by (simp add: read_def Tokenizer_def nextToken_def nextToken_loop.simps skipWhitespace.simps
        Let_def)
  then show "fst (evaluateFirstForm h (Suc k) [] c) = Some \<lparr>status = FOUND_NO_FORM, output' = None\<rparr>"
    by (simp add: evaluateFirstForm_def Let_def foundNoForm_def)
qed

theorem C8_found_no_form_witness:
  "\<forall>h c. fst (evaluateFirstForm h 8 (js ''( 1 2'') c) = Some \<lparr>status = FOUND_NO_FORM, output' = None\<rparr> \<and>
         fst (evaluateFirstForm h 8 (34 # js ''abc'') c) = Some \<lparr>status = FOUND_NO_FORM, output' = None\<rparr> \<and>
         fst (evaluateFirstForm h 8 (js '')'') c) =
           Some \<lparr>status = ERROR, output' = Some (Text (js ''Unexpected closing parenthesis.''))\<rparr>"
proof (intro allI conjI)
  fix h :: host and c :: core
  have r1: "read 8 (host_parseFloat h) None (Tokenizer (js ''( 1 2'') False) (coreState c) =
              (Throw UnexpectedEndOfInput, coreState c)"
    by (simp add: tokenizer_eval reader_eval cong: thenDo_weak_cong)
  from C8_found_no_form[OF r1]
  show "fst (evaluateFirstForm h 8 (js ''( 1 2'') c) = Some \<lparr>status = FOUND_NO_FORM, output' = None\<rparr>"
    by simp
  have r2: "read 8 (host_parseFloat h) None (Tokenizer (34 # js ''abc'') False) (coreState c) =
              (Throw (TruncatedToken ''Truncated string.''), coreState c)"
    by (simp add: tokenizer_eval reader_eval cong: thenDo_weak_cong)
  from C8_found_no_form[OF r2]
  show "fst (evaluateFirstForm h 8 (34 # js ''abc'') c) = Some \<lparr>status = FOUND_NO_FORM, output' = None\<rparr>"
    by simp
  have r3: "read 8 (host_parseFloat h) None (Tokenizer (js '')'') False) (coreState c) =
              (Throw UnexpectedClosingParenthesis, coreState c)"
    by (simp add: tokenizer_eval reader_eval cong: thenDo_weak_cong)
  from C8_found_no_form[OF r3]
  show "fst (evaluateFirstForm h 8 (js '')'') c) =
           Some \<lparr>status = ERROR, output' = Some (Text (js ''Unexpected closing parenthesis.''))\<rparr>"
    by simp
qed

section \<open>The abort check\<close>

lemma trampolineEval_loop_aborted:
  "abortRequested a \<Longrightarrow> trampolineEval_loop jsf a (Suc n) bounce kStack s = (Throw Aborted, s)"
  by simp

lemma trampolineppEval_loop_aborted:
  "abortRequested a \<Longrightarrow> trampolineppEval_loop jsf a (Suc n) bounce kStack s = (Throw Aborted, s)"
  by simp

lemma genericEval_recursive:
  "genericEval jsf a (Some (js ''plainrec'')) n form s = plainrecEval jsf n form s"
  "genericEval jsf a (Some (js ''cps'')) n form s = cpsEval jsf n form s"
  "genericEval jsf a (Some (js ''oocps'')) n form s = oocpsEval jsf n form s"
  "genericEval jsf a (Some (js ''sboocps'')) n form s = sboocpsEval jsf n form s"
  by (simp_all add: genericEval_def js_def)

text \<open>
  Claim C2.  The trampoline and the trampoline++ evaluators test the abort flag at each
  turn of their loop: when the first byte of the buffer is 1, a turn throws \<open>Aborted\<close>
  whatever the bounce and whatever the control stack holds (error handlers too, the test
  being outside the \<open>try\<close> statements), and \<open>abortedOrError\<close> makes the status
  \<open>ABORTED\<close> of it.  The evaluations of the plain recursive, CPS, OOCPS and SBOOCPS
  evaluators do not depend on the buffer: \<open>genericEval\<close> calls them without it, and they
  do not read it.
\<close>

theorem C2_abort_check:
  assumes "abortRequested a"
  shows "trampolineEval_loop jsf a (Suc n) bounce kStack s = (Throw Aborted, s) \<and>
         trampolineppEval_loop jsf a (Suc n) bounce' kStack' s = (Throw Aborted, s) \<and>
         abortedOrError Aborted = \<lparr>status = ABORTED, output' = None\<rparr> \<and>
         genericEval jsf a (Some (js ''plainrec'')) n form s = plainrecEval jsf n form s \<and>
         genericEval jsf a (Some (js ''cps'')) n form s = cpsEval jsf n form s \<and>
         genericEval jsf a (Some (js ''oocps'')) n form s = oocpsEval jsf n form s \<and>
         genericEval jsf a (Some (js ''sboocps'')) n form s = sboocpsEval jsf n form s"
  using assms trampolineEval_loop_aborted[of a jsf n bounce kStack s]
    trampolineppEval_loop_aborted[of a jsf n bounce' kStack' s]
    genericEval_recursive[of jsf a n form s]
  by (simp add: abortedOrError_def)

text \<open>
  The flag is set and an error handler is on the control stack: the turn of the loop
  throws \<open>Aborted\<close>; so does the evaluation of a \<open>_catch-errors\<close> form from its beginning,
  and \<open>initialize\<close> responds with \<open>ABORTED\<close>.
\<close>

theorem C2_abort_check_witness:
  "\<forall>jsf s. trampolineEval_loop jsf (Some [1]) (Suc 0) (Bounced (Result (EVLObject EVLVoid)))
             [TrampolineCatchErrorsTryFormCont NullDefiniteEnv, TrampolineErrorHandler,
              TrampolineEndCont] s = (Throw Aborted, s) \<and>
           trampolineppEval_loop jsf (Some [1]) (Suc 0) (Bounced (Result (EVLObject EVLVoid)))
             [TrampolineppCatchErrorsTryFormCont NullDefiniteEnv, TrampolineppErrorHandler,
              TrampolineppEndCont] s = (Throw Aborted, s)"
proof (intro allI)
  fix jsf :: jsFunctions and s :: state
  have a: "abortRequested (Some [1])"
    by (simp add: abortRequested_def)
  from C2_abort_check[OF a, of jsf 0 "Bounced (Result (EVLObject EVLVoid))"
      "[TrampolineCatchErrorsTryFormCont NullDefiniteEnv, TrampolineErrorHandler, TrampolineEndCont]"
      s "Bounced (Result (EVLObject EVLVoid))"
      "[TrampolineppCatchErrorsTryFormCont NullDefiniteEnv, TrampolineppErrorHandler,
        TrampolineppEndCont]"]
  show "trampolineEval_loop jsf (Some [1]) (Suc 0) (Bounced (Result (EVLObject EVLVoid)))
             [TrampolineCatchErrorsTryFormCont NullDefiniteEnv, TrampolineErrorHandler,
              TrampolineEndCont] s = (Throw Aborted, s) \<and>
           trampolineppEval_loop jsf (Some [1]) (Suc 0) (Bounced (Result (EVLObject EVLVoid)))
             [TrampolineppCatchErrorsTryFormCont NullDefiniteEnv, TrampolineppErrorHandler,
              TrampolineppEndCont] s = (Throw Aborted, s)"
    by simp
qed

text \<open>
  The flag is set when \<open>initialize\<close> is called with the plain recursive evaluator and a
  file that holds the form \<open>#t\<close>: the form is evaluated and the status is \<open>SUCCESS\<close>.
  With the trampoline evaluator the status is \<open>ABORTED\<close>.
\<close>

theorem C2_counterexample:
  "\<forall>h c. fst (initialize h 4 \<lparr>abortSignalBuffer = [1], inputSelectedEvaluator = js ''plainrec'',
                             evlFiles = [js ''#t'']\<rparr> c) =
           Some \<lparr>status = SUCCESS, output' = Some (Values [js ''#t''])\<rparr> \<and>
         fst (initialize h 4 \<lparr>abortSignalBuffer = [1], inputSelectedEvaluator = js ''trampoline'',
                             evlFiles = [js ''#t'']\<rparr> c) =
           Some \<lparr>status = ABORTED, output' = None\<rparr>"
  by (simp add: interface_eval tokenizer_eval reader_eval plainrec_eval trampoline_eval
      variables_eval env_eval cong: thenDo_weak_cong)

section \<open>Apply spreading\<close>

lemma plainrec_apply_call:
  assumes bound: "GlobalEnv_ref s FUN_NS (internVariable (js ''f'')) = Inr fn"
    and notmacro: "\<not> isMacroCall (EVLVariable (internVariable (js ''f''))) fn"
    and fnarity: "\<forall>arityMin arityMax name. fn = EVLPrimitiveFunction arityMin arityMax name \<longrightarrow>
             arityMax = None \<or> arityMin \<le> the arityMax"
  shows "plainrecEval jsf (Suc (Suc n))
           (evlList [applyVariable, EVLVariable (internVariable (js ''f'')),
              evlList [quoteVariable, evlList [EVLNumber x, EVLNumber y, EVLNumber z]]]) s =
         plainrecEval jsf (Suc (Suc n))
           (evlList [EVLVariable (internVariable (js ''f'')), EVLNumber x, EVLNumber y, EVLNumber z]) s"
  using bound notmacro
    plainrecInvokeFun_spreads[OF fnarity, of jsf "plainrecEvalForm jsf (Suc n)" False "[]"
      "[EVLNumber x, EVLNumber y, EVLNumber z]" NullDefiniteEnv NullDefiniteEnv s]
  by (simp add: plainrecEval_def plainrecEvalCall_def plainrecEvalOperator_def plainrecEvalQuote_def
      call_eval cong: thenDo_weak_cong)

lemma cps_apply_call:
  assumes bound: "GlobalEnv_ref s FUN_NS (internVariable (js ''f'')) = Inr fn"
    and notmacro: "\<not> isMacroCall (EVLVariable (internVariable (js ''f''))) fn"
    and fnarity: "\<forall>arityMin arityMax name. fn = EVLPrimitiveFunction arityMin arityMax name \<longrightarrow>
             arityMax = None \<or> arityMin \<le> the arityMax"
  shows "cpsEval jsf (Suc (Suc n))
           (evlList [applyVariable, EVLVariable (internVariable (js ''f'')),
              evlList [quoteVariable, evlList [EVLNumber x, EVLNumber y, EVLNumber z]]]) s =
         cpsEval jsf (Suc (Suc n))
           (evlList [EVLVariable (internVariable (js ''f'')), EVLNumber x, EVLNumber y, EVLNumber z]) s"
  using bound notmacro
    cpsInvokeFun_spreads[OF fnarity, of jsf "cpsEvalForm jsf (Suc n)" False "[]"
      "[EVLNumber x, EVLNumber y, EVLNumber z]" NullDefiniteEnv NullDefiniteEnv cpsEndCont s]
  by (simp add: cpsEval_def cpsEvalCall_def cpsEvalOperator_def cpsEvalQuote_def
      call_eval cong: thenDo_weak_cong)

lemma oocps_apply_call:
  assumes bound: "GlobalEnv_ref s FUN_NS (internVariable (js ''f'')) = Inr fn"
    and notmacro: "\<not> isMacroCall (EVLVariable (internVariable (js ''f''))) fn"
    and fnarity: "\<forall>arityMin arityMax name. fn = EVLPrimitiveFunction arityMin arityMax name \<longrightarrow>
             arityMax = None \<or> arityMin \<le> the arityMax"
  shows "oocpsEval jsf (Suc (Suc (Suc (Suc (Suc n)))))
           (evlList [applyVariable, EVLVariable (internVariable (js ''f'')),
              evlList [quoteVariable, evlList [EVLNumber x, EVLNumber y, EVLNumber z]]]) s =
         oocpsEval jsf (Suc (Suc (Suc (Suc (Suc (Suc (Suc (Suc (Suc n)))))))))
           (evlList [EVLVariable (internVariable (js ''f'')), EVLNumber x, EVLNumber y, EVLNumber z]) s"
  using bound notmacro
    oocpsInvokeFun_spreads[OF fnarity, of jsf "oocpsEvalForm jsf n" "oocpsCont_invoke jsf n" False "[]"
      "[EVLNumber x, EVLNumber y, EVLNumber z]" NullDefiniteEnv NullDefiniteEnv OOCPSEndCont s]
  by (simp add: oocpsEval_def oocpsEvalCall_def oocpsEvalOperator_def oocpsEvalQuote_def
      call_eval cong: thenDo_weak_cong)

lemma sboocps_apply_call:
  assumes bound: "GlobalEnv_ref s FUN_NS (internVariable (js ''f'')) = Inr fn"
    and notmacro: "\<not> isMacroCall (EVLVariable (internVariable (js ''f''))) fn"
    and fnarity: "\<forall>arityMin arityMax name. fn = EVLPrimitiveFunction arityMin arityMax name \<longrightarrow>
             arityMax = None \<or> arityMin \<le> the arityMax"
  shows "sboocpsEval jsf (Suc (Suc (Suc (Suc (Suc n)))))
           (evlList [applyVariable, EVLVariable (internVariable (js ''f'')),
              evlList [quoteVariable, evlList [EVLNumber x, EVLNumber y, EVLNumber z]]]) s =
         sboocpsEval jsf (Suc (Suc (Suc (Suc (Suc (Suc (Suc (Suc (Suc n)))))))))
           (evlList [EVLVariable (internVariable (js ''f'')), EVLNumber x, EVLNumber y, EVLNumber z]) s"
  using bound notmacro
    sboocpsInvokeFun_spreads[OF fnarity, of jsf "sboocpsEvalForm jsf n" "sboocpsCont_invoke jsf n" False "[]"
      "[EVLNumber x, EVLNumber y, EVLNumber z]" NullDefiniteEnv "[SBOOCPSEndCont]" s]
  by (simp add: sboocpsEval_def sboocpsEvalCall_def sboocpsEvalOperator_def sboocpsEvalQuote_def
      call_eval cong: thenDo_weak_cong)

lemma trampoline_apply_call:
  assumes bound: "GlobalEnv_ref s FUN_NS (internVariable (js ''f'')) = Inr fn"
    and notmacro: "\<not> isMacroCall (EVLVariable (internVariable (js ''f''))) fn"
    and fnarity: "\<forall>arityMin arityMax name. fn = EVLPrimitiveFunction arityMin arityMax name \<longrightarrow>
             arityMax = None \<or> arityMin \<le> the arityMax"
  shows "trampolineEval jsf a (Suc (Suc (Suc (Suc (Suc n)))))
           (evlList [applyVariable, EVLVariable (internVariable (js ''f'')),
              evlList [quoteVariable, evlList [EVLNumber x, EVLNumber y, EVLNumber z]]]) s =
         trampolineEval jsf a (Suc (Suc (Suc (Suc (Suc (Suc (Suc (Suc (Suc n)))))))))
           (evlList [EVLVariable (internVariable (js ''f'')), EVLNumber x, EVLNumber y, EVLNumber z]) s"
  using bound notmacro
    trampolineInvokeFun_spreads[OF fnarity, of jsf False "[]"
      "[EVLNumber x, EVLNumber y, EVLNumber z]" NullDefiniteEnv "[TrampolineEndCont]" s]
  by (simp add: trampolineEval_def trampolineEvalForm_def trampolineCont_invoke_def
      trampolineEvalCall_def trampolineEvalOperator_def trampolineEvalQuote_def
      call_eval cong: thenDo_weak_cong)

lemma trampolinepp_apply_call:
  assumes bound: "GlobalEnv_ref s FUN_NS (internVariable (js ''f'')) = Inr fn"
    and notmacro: "\<not> isMacroCall (EVLVariable (internVariable (js ''f''))) fn"
    and fnarity: "\<forall>arityMin arityMax name. fn = EVLPrimitiveFunction arityMin arityMax name \<longrightarrow>
             arityMax = None \<or> arityMin \<le> the arityMax"
  shows "trampolineppEval jsf a (Suc (Suc (Suc (Suc (Suc (Suc n))))))
           (evlList [applyVariable, EVLVariable (internVariable (js ''f'')),
              evlList [quoteVariable, evlList [EVLNumber x, EVLNumber y, EVLNumber z]]]) s =
         trampolineppEval jsf a (Suc (Suc (Suc (Suc (Suc (Suc (Suc (Suc (Suc (Suc n))))))))))
           (evlList [EVLVariable (internVariable (js ''f'')), EVLNumber x, EVLNumber y, EVLNumber z]) s"
proof -
  have fc: "functionCell s (Interned [102]) = Some fn"
    using bound by (simp add: GlobalEnv_ref_def js_def internVariable_def split: option.splits)
  have nm: "\<And>sc ns m ps r fs le. fn = EVLClosure sc ns m ps r fs le \<Longrightarrow> \<not> m"
    using notmacro by (auto simp: isMacroCall_def js_def internVariable_def)
  note sp = trampolineppInvokeFun_spreads[OF fnarity, of jsf "[]"
        "[EVLNumber x, EVLNumber y, EVLNumber z]" NullDefiniteEnv "[TrampolineppEndCont]" s]
  note defs = trampolineppEval_def trampolineppEval_lenv_def TrampolineppForm_eval_def
      trampolineppCont_invoke_def trampolineppEvalOperands_def
      trampolineppPreprocessCall_def trampolineppPreprocessQuote_def trampolineppPreprocessRef2_def
      optimizeLexicalVariables_def GlobalEnv_preprocessorRef_def call_eval
  show ?thesis
  proof (cases fn)
    case (EVLClosure sc ns m ps r fs le)
    with nm have "\<not> m" by simp
    with EVLClosure fc bound sp show ?thesis
      by (simp add: defs cong: thenDo_weak_cong)
  qed (use fc bound sp in \<open>simp_all add: defs cong: thenDo_weak_cong\<close>)
qed

text \<open>
  The forms \<open>(apply f (quote (x\<^sub>1 ... x\<^sub>n)))\<close>, \<open>(apply f (list x\<^sub>1 ... x\<^sub>n))\<close> and
  \<open>(f x\<^sub>1 ... x\<^sub>n)\<close>.
\<close>

definition applyQuotedForm :: "evl list \<Rightarrow> evl" where
  "applyQuotedForm xs =
     evlList [applyVariable, EVLVariable (internVariable (js ''f'')),
              evlList [quoteVariable, evlList xs]]"

definition applyListForm :: "evl list \<Rightarrow> evl" where
  "applyListForm operands =
     evlList [applyVariable, EVLVariable (internVariable (js ''f'')),
              EVLCons (EVLVariable (internVariable (js ''list''))) (evlList operands)]"

definition callForm :: "evl list \<Rightarrow> evl" where
  "callForm operands = EVLCons (EVLVariable (internVariable (js ''f''))) (evlList operands)"

text \<open>
  For the examples: a state in which nothing is bound but the function cell of one
  variable; the numbers 1, 2 and 3 (the doubles \<open>0x3FF0000000000000\<close>,
  \<open>0x4000000000000000\<close> and \<open>0x4008000000000000\<close>); the closures of
  \<open>(_vlambda (a b c) b)\<close> and of \<open>(_vlambda args args)\<close>, with the forms that the
  evaluator that makes them gives them (preprocessed forms under the trampoline++
  evaluator), and the closure of the macro \<open>(_mlambda (a . r) a)\<close>, all made in the null
  environment.
\<close>

definition functionState :: "symref \<Rightarrow> evl \<Rightarrow> state" where
  "functionState v fn =
     \<lparr>valueCell = (\<lambda>v. None), functionCell = (\<lambda>v. None)(v := Some fn), frameValues = [],
      uninterned = 0, lastResult = EVLObject EVLVoid\<rparr>"

definition evlOne :: evl where "evlOne = EVLNumber 0x3FF0000000000000"
definition evlTwo :: evl where "evlTwo = EVLNumber 0x4000000000000000"
definition evlThree :: evl where "evlThree = EVLNumber 0x4008000000000000"

definition secondOfThree :: "closureForms \<Rightarrow> evl" where
  "secondOfThree forms =
     EVLClosure LEX_SCOPE VAL_NS False
       [internVariable (js ''a''), internVariable (js ''b''), internVariable (js ''c'')] False
       forms NullDefiniteEnv"

definition listOfArguments :: "closureForms \<Rightarrow> evl" where
  "listOfArguments forms =
     EVLClosure LEX_SCOPE VAL_NS False [internVariable (js ''args'')] True forms NullDefiniteEnv"

definition firstOperandMacro :: evl where
  "firstOperandMacro =
     EVLClosure LEX_SCOPE VAL_NS True [internVariable (js ''a''), internVariable (js ''r'')] True
       (Forms (evlList [EVLVariable (internVariable (js ''a''))])) NullDefiniteEnv"

lemmas examples_eval = applyQuotedForm_def applyListForm_def callForm_def functionState_def
  evlOne_def evlTwo_def evlThree_def secondOfThree_def listOfArguments_def firstOperandMacro_def

text \<open>
  Claim C6, as the code has it.  When the last argument of an apply-style call is a proper
  list, pairing gives what the plain call on the spread arguments gives, values and errors
  alike (for a primitive whose minimum does not exceed its maximum).  A plain call signals
  \<open>TooFewArguments\<close> or \<open>TooManyArguments\<close> exactly when the number of arguments is
  outside the accepted range.  When the last argument is missing or is no list, the call
  signals \<open>MalformedSpreadableSequenceOfObjects\<close>, unless the arguments before it already
  exceed the maximum (then \<open>TooManyArguments\<close>).  When the last argument is an improper
  list, \<open>MalformedSpreadableSequenceOfObjects\<close> is signalled only if the scan reaches its
  end: without a rest parameter \<open>TooManyArguments\<close> comes first when the elements exceed
  the maximum, and with a rest parameter the tail behind the fixed parameters is taken over
  unscanned, by reference, and nothing is signalled.

  In the evaluators: the analysis of an \<open>apply\<close> form gives the operator and the operands
  of the call that follows the word \<open>apply\<close>; the function \<open>invokeFun\<close> of each of the
  six evaluators, applied apply-style to arguments whose last is a proper list, does what it
  does applied plainly to the spread arguments; and with a function \<open>fn\<close> in the function
  cell of the variable \<open>f\<close> that is not called as a macro, the form
  \<open>(apply f (quote (x y z)))\<close> evaluates to what \<open>(f x y z)\<close> evaluates to, result and
  state, under each of the six evaluators, for all numbers \<open>x\<close>, \<open>y\<close>, \<open>z\<close>.  The plain
  recursive and the CPS evaluators take the same fuel for both forms; under the four others
  the plain call takes four more units than the \<open>apply\<close> form, for the two more operands
  that it evaluates (one unit for the operand and one for its continuation).
\<close>

theorem C6_pairing:
  assumes arity: "arityMax = None \<or> arityMin \<le> the arityMax"
    and bad: "bad = [] \<or> \<not> isEVLList (last bad)"
    and t: "\<not> isEVLList t" and ys: "ys \<noteq> []"
    and bound: "GlobalEnv_ref s FUN_NS (internVariable (js ''f'')) = Inr fn"
    and notmacro: "\<not> isMacroCall (EVLVariable (internVariable (js ''f''))) fn"
    and fnarity: "\<forall>arityMin arityMax name. fn = EVLPrimitiveFunction arityMin arityMax name \<longrightarrow>
                    arityMax = None \<or> arityMin \<le> the arityMax"
  shows "pairPrimFunParameters True (pre @ [evlList xs]) arityMin arityMax =
           pairPrimFunParameters False (pre @ xs) arityMin arityMax
    \<and> pairClosureParameters True (pre @ [evlList xs]) ps rest =
           pairClosureParameters False (pre @ xs) ps rest
    \<and> pairPrimFunParameters False args arityMin arityMax =
           (if length args < arityMin then Inl TooFewArguments
            else if arityMax \<noteq> None \<and> the arityMax < length args then Inl TooManyArguments
            else Inr args)
    \<and> pairClosureParameters False args ps False =
           (if length args < length ps then Inl TooFewArguments
            else if length ps < length args then Inl TooManyArguments
            else Inr args)
    \<and> pairClosureParameters False args ps True =
           (if length args < length ps - 1 then Inl TooFewArguments
            else Inr (setRestSlot (length ps) (take (length ps - 1) args)
                        (evlList (drop (length ps - 1) args))))
    \<and> pairPrimFunParameters True bad arityMin arityMax =
           (if arityMax \<noteq> None \<and> the arityMax < length bad - 1 then Inl TooManyArguments
            else Inl MalformedSpreadableSequenceOfObjects)
    \<and> pairClosureParameters True bad ps False =
           (if length ps < length bad - 1 then Inl TooManyArguments
            else Inl MalformedSpreadableSequenceOfObjects)
    \<and> pairClosureParameters True bad ps True = Inl MalformedSpreadableSequenceOfObjects
    \<and> pairPrimFunParameters True (pre @ [evlAppend ys t]) arityMin arityMax =
           (if arityMax \<noteq> None \<and> the arityMax < length pre + length ys then Inl TooManyArguments
            else Inl MalformedSpreadableSequenceOfObjects)
    \<and> pairClosureParameters True (pre @ [evlAppend ys t]) ps False =
           (if length ps < length pre + length ys then Inl TooManyArguments
            else Inl MalformedSpreadableSequenceOfObjects)
    \<and> pairClosureParameters True (pre @ [evlAppend ys t]) ps True =
           (if length pre + length ys \<le> length ps - 1
            then Inl MalformedSpreadableSequenceOfObjects
            else Inr (setRestSlot (length ps) (take (length ps - 1) (pre @ ys))
                        (evlAppend (drop (length ps - 1) (pre @ ys)) t)))
    \<and> analyzeCall False True (EVLCons applyVariable (EVLCons operator operands)) =
           analyzeCall False False (EVLCons operator operands)
    \<and> plainrecInvokeFun jsf ev1 True macro fn (pre @ [evlList xs]) lenv denv s1 =
           plainrecInvokeFun jsf ev1 False macro fn (pre @ xs) lenv denv s1
    \<and> cpsInvokeFun jsf ev2 True macro fn (pre @ [evlList xs]) lenv denv k2 s1 =
           cpsInvokeFun jsf ev2 False macro fn (pre @ xs) lenv denv k2 s1
    \<and> oocpsInvokeFun jsf ev3 invk3 True macro fn (pre @ [evlList xs]) lenv denv k3 s1 =
           oocpsInvokeFun jsf ev3 invk3 False macro fn (pre @ xs) lenv denv k3 s1
    \<and> sboocpsInvokeFun jsf ev4 invk4 True macro fn (pre @ [evlList xs]) lenv kStack4 s1 =
           sboocpsInvokeFun jsf ev4 invk4 False macro fn (pre @ xs) lenv kStack4 s1
    \<and> trampolineInvokeFun jsf True macro fn (pre @ [evlList xs]) lenv kStack5 s1 =
           trampolineInvokeFun jsf False macro fn (pre @ xs) lenv kStack5 s1
    \<and> trampolineppInvokeFun jsf True fn (pre @ [evlList xs]) lenv kStack6 s1 =
           trampolineppInvokeFun jsf False fn (pre @ xs) lenv kStack6 s1
    \<and> plainrecEval jsf (n + 2) (applyQuotedForm [EVLNumber x, EVLNumber y, EVLNumber z]) s =
         plainrecEval jsf (n + 2) (callForm [EVLNumber x, EVLNumber y, EVLNumber z]) s
    \<and> cpsEval jsf (n + 2) (applyQuotedForm [EVLNumber x, EVLNumber y, EVLNumber z]) s =
         cpsEval jsf (n + 2) (callForm [EVLNumber x, EVLNumber y, EVLNumber z]) s
    \<and> oocpsEval jsf (n + 5) (applyQuotedForm [EVLNumber x, EVLNumber y, EVLNumber z]) s =
         oocpsEval jsf (n + 9) (callForm [EVLNumber x, EVLNumber y, EVLNumber z]) s
    \<and> sboocpsEval jsf (n + 5) (applyQuotedForm [EVLNumber x, EVLNumber y, EVLNumber z]) s =
         sboocpsEval jsf (n + 9) (callForm [EVLNumber x, EVLNumber y, EVLNumber z]) s
    \<and> trampolineEval jsf a (n + 5) (applyQuotedForm [EVLNumber x, EVLNumber y, EVLNumber z]) s =
         trampolineEval jsf a (n + 9) (callForm [EVLNumber x, EVLNumber y, EVLNumber z]) s
    \<and> trampolineppEval jsf a (n + 6) (applyQuotedForm [EVLNumber x, EVLNumber y, EVLNumber z]) s =
         trampolineppEval jsf a (n + 10) (callForm [EVLNumber x, EVLNumber y, EVLNumber z]) s"
proof (intro conjI)
  show "pairPrimFunParameters True (pre @ [evlList xs]) arityMin arityMax =
           pairPrimFunParameters False (pre @ xs) arityMin arityMax"
    by (rule pairPrimFunParameters_spreads[OF arity])
  show "pairClosureParameters True (pre @ [evlList xs]) ps rest =
           pairClosureParameters False (pre @ xs) ps rest"
    by (rule pairClosureParameters_spreads)
  show "pairPrimFunParameters False args arityMin arityMax =
           (if length args < arityMin then Inl TooFewArguments
            else if arityMax \<noteq> None \<and> the arityMax < length args then Inl TooManyArguments
            else Inr args)"
    by (simp add: pairPrimFunParameters_def pairPrimFunParametersNoApply_def)
  show "pairClosureParameters False args ps False =
           (if length args < length ps then Inl TooFewArguments
            else if length ps < length args then Inl TooManyArguments
            else Inr args)"
    by (simp add: pairClosureParameters_def pairClosureParametersNoApplyNoRest_def)
  show "pairClosureParameters False args ps True =
           (if length args < length ps - 1 then Inl TooFewArguments
            else Inr (setRestSlot (length ps) (take (length ps - 1) args)
                        (evlList (drop (length ps - 1) args))))"
    by (simp add: pairClosureParameters_def pairClosureParametersNoApplyRest_def
        closureRestLeading_eq Let_def)
  show "pairPrimFunParameters True bad arityMin arityMax =
           (if arityMax \<noteq> None \<and> the arityMax < length bad - 1 then Inl TooManyArguments
            else Inl MalformedSpreadableSequenceOfObjects)"
    unfolding pairPrimFunParameters_def using prim_apply_malformed[OF bad] by simp
  show "pairClosureParameters True bad ps False =
           (if length ps < length bad - 1 then Inl TooManyArguments
            else Inl MalformedSpreadableSequenceOfObjects)"
    unfolding pairClosureParameters_def using closure_norest_apply_malformed[OF bad] by simp
  show "pairClosureParameters True bad ps True = Inl MalformedSpreadableSequenceOfObjects"
    unfolding pairClosureParameters_def using closure_rest_apply_malformed[OF bad] by simp
  show "pairPrimFunParameters True (pre @ [evlAppend ys t]) arityMin arityMax =
           (if arityMax \<noteq> None \<and> the arityMax < length pre + length ys then Inl TooManyArguments
            else Inl MalformedSpreadableSequenceOfObjects)"
    unfolding pairPrimFunParameters_def using prim_apply_improper[OF t ys] by simp
  show "pairClosureParameters True (pre @ [evlAppend ys t]) ps False =
           (if length ps < length pre + length ys then Inl TooManyArguments
            else Inl MalformedSpreadableSequenceOfObjects)"
    unfolding pairClosureParameters_def using closure_norest_apply_improper[OF t ys] by simp
  show "pairClosureParameters True (pre @ [evlAppend ys t]) ps True =
           (if length pre + length ys \<le> length ps - 1
            then Inl MalformedSpreadableSequenceOfObjects
            else Inr (setRestSlot (length ps) (take (length ps - 1) (pre @ ys))
                        (evlAppend (drop (length ps - 1) (pre @ ys)) t)))"
    unfolding pairClosureParameters_def using closure_rest_apply_improper[OF t ys] by simp
  show "analyzeCall False True (EVLCons applyVariable (EVLCons operator operands)) =
           analyzeCall False False (EVLCons operator operands)"
    by (rule analyzeCall_apply)
  show "plainrecInvokeFun jsf ev1 True macro fn (pre @ [evlList xs]) lenv denv s1 =
           plainrecInvokeFun jsf ev1 False macro fn (pre @ xs) lenv denv s1"
    by (rule plainrecInvokeFun_spreads[OF fnarity])
  show "cpsInvokeFun jsf ev2 True macro fn (pre @ [evlList xs]) lenv denv k2 s1 =
           cpsInvokeFun jsf ev2 False macro fn (pre @ xs) lenv denv k2 s1"
    by (rule cpsInvokeFun_spreads[OF fnarity])
  show "oocpsInvokeFun jsf ev3 invk3 True macro fn (pre @ [evlList xs]) lenv denv k3 s1 =
           oocpsInvokeFun jsf ev3 invk3 False macro fn (pre @ xs) lenv denv k3 s1"
    by (rule oocpsInvokeFun_spreads[OF fnarity])
  show "sboocpsInvokeFun jsf ev4 invk4 True macro fn (pre @ [evlList xs]) lenv kStack4 s1 =
           sboocpsInvokeFun jsf ev4 invk4 False macro fn (pre @ xs) lenv kStack4 s1"
    by (rule sboocpsInvokeFun_spreads[OF fnarity])
  show "trampolineInvokeFun jsf True macro fn (pre @ [evlList xs]) lenv kStack5 s1 =
           trampolineInvokeFun jsf False macro fn (pre @ xs) lenv kStack5 s1"
    by (rule trampolineInvokeFun_spreads[OF fnarity])
  show "trampolineppInvokeFun jsf True fn (pre @ [evlList xs]) lenv kStack6 s1 =
           trampolineppInvokeFun jsf False fn (pre @ xs) lenv kStack6 s1"
    by (rule trampolineppInvokeFun_spreads[OF fnarity])
  have n2: "n + 2 = Suc (Suc n)"
    and n5: "n + 5 = Suc (Suc (Suc (Suc (Suc n))))"
    and n6: "n + 6 = Suc (Suc (Suc (Suc (Suc (Suc n)))))"
    and n9: "n + 9 = Suc (Suc (Suc (Suc (Suc (Suc (Suc (Suc (Suc n))))))))"
    and n10: "n + 10 = Suc (Suc (Suc (Suc (Suc (Suc (Suc (Suc (Suc (Suc n)))))))))"
    by simp_all
  show "plainrecEval jsf (n + 2) (applyQuotedForm [EVLNumber x, EVLNumber y, EVLNumber z]) s =
         plainrecEval jsf (n + 2) (callForm [EVLNumber x, EVLNumber y, EVLNumber z]) s"
    unfolding n2 applyQuotedForm_def callForm_def evlList.simps
    by (rule plainrec_apply_call[OF bound notmacro fnarity, unfolded evlList.simps])
  show "cpsEval jsf (n + 2) (applyQuotedForm [EVLNumber x, EVLNumber y, EVLNumber z]) s =
         cpsEval jsf (n + 2) (callForm [EVLNumber x, EVLNumber y, EVLNumber z]) s"
    unfolding n2 applyQuotedForm_def callForm_def evlList.simps
    by (rule cps_apply_call[OF bound notmacro fnarity, unfolded evlList.simps])
  show "oocpsEval jsf (n + 5) (applyQuotedForm [EVLNumber x, EVLNumber y, EVLNumber z]) s =
         oocpsEval jsf (n + 9) (callForm [EVLNumber x, EVLNumber y, EVLNumber z]) s"
    unfolding n5 n9 applyQuotedForm_def callForm_def evlList.simps
    by (rule oocps_apply_call[OF bound notmacro fnarity, unfolded evlList.simps])
  show "sboocpsEval jsf (n + 5) (applyQuotedForm [EVLNumber x, EVLNumber y, EVLNumber z]) s =
         sboocpsEval jsf (n + 9) (callForm [EVLNumber x, EVLNumber y, EVLNumber z]) s"
    unfolding n5 n9 applyQuotedForm_def callForm_def evlList.simps
    by (rule sboocps_apply_call[OF bound notmacro fnarity, unfolded evlList.simps])
  show "trampolineEval jsf a (n + 5) (applyQuotedForm [EVLNumber x, EVLNumber y, EVLNumber z]) s =
         trampolineEval jsf a (n + 9) (callForm [EVLNumber x, EVLNumber y, EVLNumber z]) s"
    unfolding n5 n9 applyQuotedForm_def callForm_def evlList.simps
    by (rule trampoline_apply_call[OF bound notmacro fnarity, unfolded evlList.simps])
  show "trampolineppEval jsf a (n + 6) (applyQuotedForm [EVLNumber x, EVLNumber y, EVLNumber z]) s =
         trampolineppEval jsf a (n + 10) (callForm [EVLNumber x, EVLNumber y, EVLNumber z]) s"
    unfolding n6 n10 applyQuotedForm_def callForm_def evlList.simps
    by (rule trampolinepp_apply_call[OF bound notmacro fnarity, unfolded evlList.simps])
qed

text \<open>
  The hypotheses hold of a primitive of arities 1 and 3, of the argument \<open>#v\<close> that is no
  list, and of the closure of \<open>(_vlambda (a b c) b)\<close> in the function cell of \<open>f\<close>:
  \<open>(apply f (quote (1 2 3)))\<close> and \<open>(f 1 2 3)\<close> evaluate to 2 under the six evaluators,
  and leave the frame of the call in the state.  So does \<open>(apply f (list 1 2 3))\<close> when
  \<open>list\<close> is the closure of \<open>(_vlambda args args)\<close> (the state then has the frame of the
  call of \<open>list\<close> too).
\<close>

theorem C6_pairing_witness:
  "(Some (3::nat) = None \<or> (1::nat) \<le> the (Some 3))
   \<and> ([EVLVoid] = [] \<or> \<not> isEVLList (last [EVLVoid]))
   \<and> \<not> isEVLList EVLVoid \<and> [EVLBoolean True] \<noteq> []
   \<and> pairPrimFunParameters True [EVLVoid, evlList [EVLBoolean True, EVLBoolean False]] 1 (Some 3) =
       Inr [EVLVoid, EVLBoolean True, EVLBoolean False]
   \<and> pairClosureParameters True [EVLVoid, evlList [EVLBoolean True, EVLBoolean False]]
       [Interned [97], Interned [98]] True =
       Inr [EVLVoid, evlList [EVLBoolean True, EVLBoolean False]]
   \<and> pairPrimFunParameters True [EVLVoid] 1 (Some 3) = Inl MalformedSpreadableSequenceOfObjects
   \<and> pairClosureParameters True [EVLVoid, EVLCons (EVLBoolean True) EVLVoid]
       [Interned [97], Interned [98]] True =
       Inr [EVLVoid, EVLCons (EVLBoolean True) EVLVoid]
   \<and> (\<forall>jsf forms.
        GlobalEnv_ref (functionState (internVariable (js ''f'')) (secondOfThree forms)) FUN_NS
          (internVariable (js ''f'')) = Inr (secondOfThree forms)
      \<and> \<not> isMacroCall (EVLVariable (internVariable (js ''f''))) (secondOfThree forms)
      \<and> plainrecEval jsf 5 (applyQuotedForm [evlOne, evlTwo, evlThree])
          (functionState (internVariable (js ''f''))
             (secondOfThree (Forms (evlList [EVLVariable (internVariable (js ''b''))])))) =
        (Return (EVLObject evlTwo),
         (functionState (internVariable (js ''f''))
            (secondOfThree (Forms (evlList [EVLVariable (internVariable (js ''b''))]))))
         \<lparr>frameValues := [[Some evlOne, Some evlTwo, Some evlThree]]\<rparr>)
      \<and> plainrecEval jsf 5 (callForm [evlOne, evlTwo, evlThree])
          (functionState (internVariable (js ''f''))
             (secondOfThree (Forms (evlList [EVLVariable (internVariable (js ''b''))])))) =
        (Return (EVLObject evlTwo),
         (functionState (internVariable (js ''f''))
            (secondOfThree (Forms (evlList [EVLVariable (internVariable (js ''b''))]))))
         \<lparr>frameValues := [[Some evlOne, Some evlTwo, Some evlThree]]\<rparr>)
      \<and> cpsEval jsf 5 (applyQuotedForm [evlOne, evlTwo, evlThree])
          (functionState (internVariable (js ''f''))
             (secondOfThree (Forms (evlList [EVLVariable (internVariable (js ''b''))])))) =
        (Return (EVLObject evlTwo),
         (functionState (internVariable (js ''f''))
            (secondOfThree (Forms (evlList [EVLVariable (internVariable (js ''b''))]))))
         \<lparr>frameValues := [[Some evlOne, Some evlTwo, Some evlThree]]\<rparr>)
      \<and> cpsEval jsf 5 (callForm [evlOne, evlTwo, evlThree])
          (functionState (internVariable (js ''f''))
             (secondOfThree (Forms (evlList [EVLVariable (internVariable (js ''b''))])))) =
        (Return (EVLObject evlTwo),
         (functionState (internVariable (js ''f''))
            (secondOfThree (Forms (evlList [EVLVariable (internVariable (js ''b''))]))))
         \<lparr>frameValues := [[Some evlOne, Some evlTwo, Some evlThree]]\<rparr>)
      \<and> oocpsEval jsf 8 (applyQuotedForm [evlOne, evlTwo, evlThree])
          (functionState (internVariable (js ''f''))
             (secondOfThree (Forms (evlList [EVLVariable (internVariable (js ''b''))])))) =
        (Return (EVLObject evlTwo),
         (functionState (internVariable (js ''f''))
            (secondOfThree (Forms (evlList [EVLVariable (internVariable (js ''b''))]))))
         \<lparr>frameValues := [[Some evlOne, Some evlTwo, Some evlThree]]\<rparr>)
      \<and> oocpsEval jsf 12 (callForm [evlOne, evlTwo, evlThree])
          (functionState (internVariable (js ''f''))
             (secondOfThree (Forms (evlList [EVLVariable (internVariable (js ''b''))])))) =
        (Return (EVLObject evlTwo),
         (functionState (internVariable (js ''f''))
            (secondOfThree (Forms (evlList [EVLVariable (internVariable (js ''b''))]))))
         \<lparr>frameValues := [[Some evlOne, Some evlTwo, Some evlThree]]\<rparr>)
      \<and> sboocpsEval jsf 8 (applyQuotedForm [evlOne, evlTwo, evlThree])
          (functionState (internVariable (js ''f''))
             (secondOfThree (Forms (evlList [EVLVariable (internVariable (js ''b''))])))) =
        (Return (EVLObject evlTwo),
         (functionState (internVariable (js ''f''))
            (secondOfThree (Forms (evlList [EVLVariable (internVariable (js ''b''))]))))
         \<lparr>frameValues := [[Some evlOne, Some evlTwo, Some evlThree]]\<rparr>)
      \<and> sboocpsEval jsf 12 (callForm [evlOne, evlTwo, evlThree])
          (functionState (internVariable (js ''f''))
             (secondOfThree (Forms (evlList [EVLVariable (internVariable (js ''b''))])))) =
        (Return (EVLObject evlTwo),
         (functionState (internVariable (js ''f''))
            (secondOfThree (Forms (evlList [EVLVariable (internVariable (js ''b''))]))))
         \<lparr>frameValues := [[Some evlOne, Some evlTwo, Some evlThree]]\<rparr>)
      \<and> trampolineEval jsf None 8 (applyQuotedForm [evlOne, evlTwo, evlThree])
          (functionState (internVariable (js ''f''))
             (secondOfThree (Forms (evlList [EVLVariable (internVariable (js ''b''))])))) =
        (Return (EVLObject evlTwo),
         (functionState (internVariable (js ''f''))
            (secondOfThree (Forms (evlList [EVLVariable (internVariable (js ''b''))]))))
         \<lparr>frameValues := [[Some evlOne, Some evlTwo, Some evlThree]]\<rparr>)
      \<and> trampolineEval jsf None 12 (callForm [evlOne, evlTwo, evlThree])
          (functionState (internVariable (js ''f''))
             (secondOfThree (Forms (evlList [EVLVariable (internVariable (js ''b''))])))) =
        (Return (EVLObject evlTwo),
         (functionState (internVariable (js ''f''))
            (secondOfThree (Forms (evlList [EVLVariable (internVariable (js ''b''))]))))
         \<lparr>frameValues := [[Some evlOne, Some evlTwo, Some evlThree]]\<rparr>)
      \<and> trampolineppEval jsf None 9 (applyQuotedForm [evlOne, evlTwo, evlThree])
          (functionState (internVariable (js ''f''))
             (secondOfThree (PreprocessedForms [TrampolineppLRef 0 1]))) =
        (Return (EVLObject evlTwo),
         (functionState (internVariable (js ''f''))
            (secondOfThree (PreprocessedForms [TrampolineppLRef 0 1])))
         \<lparr>frameValues := [[Some evlOne, Some evlTwo, Some evlThree]]\<rparr>)
      \<and> trampolineppEval jsf None 13 (callForm [evlOne, evlTwo, evlThree])
          (functionState (internVariable (js ''f''))
             (secondOfThree (PreprocessedForms [TrampolineppLRef 0 1]))) =
        (Return (EVLObject evlTwo),
         (functionState (internVariable (js ''f''))
            (secondOfThree (PreprocessedForms [TrampolineppLRef 0 1])))
         \<lparr>frameValues := [[Some evlOne, Some evlTwo, Some evlThree]]\<rparr>)
      \<and> fst (plainrecEval jsf 5 (applyListForm [evlOne, evlTwo, evlThree])
          (GlobalEnv_set
             (functionState (internVariable (js ''f''))
                (secondOfThree (Forms (evlList [EVLVariable (internVariable (js ''b''))]))))
             FUN_NS (internVariable (js ''list''))
             (listOfArguments (Forms (evlList [EVLVariable (internVariable (js ''args''))]))))) =
        Return (EVLObject evlTwo)
      \<and> fst (cpsEval jsf 5 (applyListForm [evlOne, evlTwo, evlThree])
          (GlobalEnv_set
             (functionState (internVariable (js ''f''))
                (secondOfThree (Forms (evlList [EVLVariable (internVariable (js ''b''))]))))
             FUN_NS (internVariable (js ''list''))
             (listOfArguments (Forms (evlList [EVLVariable (internVariable (js ''args''))]))))) =
        Return (EVLObject evlTwo)
      \<and> fst (oocpsEval jsf 20 (applyListForm [evlOne, evlTwo, evlThree])
          (GlobalEnv_set
             (functionState (internVariable (js ''f''))
                (secondOfThree (Forms (evlList [EVLVariable (internVariable (js ''b''))]))))
             FUN_NS (internVariable (js ''list''))
             (listOfArguments (Forms (evlList [EVLVariable (internVariable (js ''args''))]))))) =
        Return (EVLObject evlTwo)
      \<and> fst (sboocpsEval jsf 20 (applyListForm [evlOne, evlTwo, evlThree])
          (GlobalEnv_set
             (functionState (internVariable (js ''f''))
                (secondOfThree (Forms (evlList [EVLVariable (internVariable (js ''b''))]))))
             FUN_NS (internVariable (js ''list''))
             (listOfArguments (Forms (evlList [EVLVariable (internVariable (js ''args''))]))))) =
        Return (EVLObject evlTwo)
      \<and> fst (trampolineEval jsf None 20 (applyListForm [evlOne, evlTwo, evlThree])
          (GlobalEnv_set
             (functionState (internVariable (js ''f''))
                (secondOfThree (Forms (evlList [EVLVariable (internVariable (js ''b''))]))))
             FUN_NS (internVariable (js ''list''))
             (listOfArguments (Forms (evlList [EVLVariable (internVariable (js ''args''))]))))) =
        Return (EVLObject evlTwo)
      \<and> fst (trampolineppEval jsf None 20 (applyListForm [evlOne, evlTwo, evlThree])
          (GlobalEnv_set
             (functionState (internVariable (js ''f''))
                (secondOfThree (PreprocessedForms [TrampolineppLRef 0 1])))
             FUN_NS (internVariable (js ''list''))
             (listOfArguments (PreprocessedForms [TrampolineppLRef 0 0])))) =
        Return (EVLObject evlTwo))"
proof -
  have arity: "Some (3::nat) = None \<or> (1::nat) \<le> the (Some 3)" by simp
  have bad: "[EVLVoid] = [] \<or> \<not> isEVLList (last [EVLVoid])" by simp
  have t: "\<not> isEVLList EVLVoid" by simp
  have ys: "[EVLBoolean True] \<noteq> []" by simp
  define F where "F = secondOfThree (Forms (evlList [EVLVariable (internVariable (js ''b''))]))"
  define P where "P = secondOfThree (PreprocessedForms [TrampolineppLRef 0 1])"
  define N where "N = [evlOne, evlTwo, evlThree]"
  have bound: "GlobalEnv_ref (functionState (internVariable (js ''f'')) (secondOfThree forms)) FUN_NS
          (internVariable (js ''f'')) = Inr (secondOfThree forms)" for forms
    by (simp add: functionState_def GlobalEnv_ref_def)
  have notmacro: "\<not> isMacroCall (EVLVariable (internVariable (js ''f''))) (secondOfThree forms)"
    for forms
    by (simp add: isMacroCall_def secondOfThree_def)
  have fnarity: "\<forall>arityMin arityMax name.
      secondOfThree forms = EVLPrimitiveFunction arityMin arityMax name \<longrightarrow>
      arityMax = None \<or> arityMin \<le> the arityMax" for forms
    by (simp add: secondOfThree_def)
  note TF = C6_pairing[OF arity bad t ys
        bound[of "Forms (evlList [EVLVariable (internVariable (js ''b''))])"]
        notmacro[of "Forms (evlList [EVLVariable (internVariable (js ''b''))])"]
        fnarity[of "Forms (evlList [EVLVariable (internVariable (js ''b''))])"],
        where pre = "[EVLVoid]"
        and xs = "[EVLBoolean True, EVLBoolean False]"
        and args = "[EVLVoid, EVLBoolean True, EVLBoolean False]"
        and ps = "[Interned [97], Interned [98]]" and rest = True and n = 3
        and x = "0x3FF0000000000000" and y = "0x4000000000000000" and z = "0x4008000000000000"
        and a = None, folded evlOne_def evlTwo_def evlThree_def]
  note TP = C6_pairing[OF arity bad t ys
        bound[of "PreprocessedForms [TrampolineppLRef 0 1]"]
        notmacro[of "PreprocessedForms [TrampolineppLRef 0 1]"]
        fnarity[of "PreprocessedForms [TrampolineppLRef 0 1]"],
        where pre = "[EVLVoid]"
        and xs = "[EVLBoolean True, EVLBoolean False]"
        and args = "[EVLVoid, EVLBoolean True, EVLBoolean False]"
        and ps = "[Interned [97], Interned [98]]" and rest = True and n = 3
        and x = "0x3FF0000000000000" and y = "0x4000000000000000" and z = "0x4008000000000000"
        and a = None, folded evlOne_def evlTwo_def evlThree_def]
  have pairing: "pairPrimFunParameters True [EVLVoid, evlList [EVLBoolean True, EVLBoolean False]] 1 (Some 3) =
       Inr [EVLVoid, EVLBoolean True, EVLBoolean False]
   \<and> pairClosureParameters True [EVLVoid, evlList [EVLBoolean True, EVLBoolean False]]
       [Interned [97], Interned [98]] True =
       Inr [EVLVoid, evlList [EVLBoolean True, EVLBoolean False]]
   \<and> pairPrimFunParameters True [EVLVoid] 1 (Some 3) = Inl MalformedSpreadableSequenceOfObjects
   \<and> pairClosureParameters True [EVLVoid, EVLCons (EVLBoolean True) EVLVoid]
       [Interned [97], Interned [98]] True =
       Inr [EVLVoid, EVLCons (EVLBoolean True) EVLVoid]"
    using TF by (simp add: setRestSlot_def)
  note ev = examples_eval variables_eval analyzer_eval env_eval pairing_eval
  have evals: "plainrecEval jsf 5 (applyQuotedForm N) (functionState (internVariable (js ''f'')) F) =
        (Return (EVLObject evlTwo),
         (functionState (internVariable (js ''f'')) F)
         \<lparr>frameValues := [[Some evlOne, Some evlTwo, Some evlThree]]\<rparr>)
      \<and> plainrecEval jsf 5 (callForm N) (functionState (internVariable (js ''f'')) F) =
        (Return (EVLObject evlTwo),
         (functionState (internVariable (js ''f'')) F)
         \<lparr>frameValues := [[Some evlOne, Some evlTwo, Some evlThree]]\<rparr>)
      \<and> cpsEval jsf 5 (applyQuotedForm N) (functionState (internVariable (js ''f'')) F) =
        (Return (EVLObject evlTwo),
         (functionState (internVariable (js ''f'')) F)
         \<lparr>frameValues := [[Some evlOne, Some evlTwo, Some evlThree]]\<rparr>)
      \<and> cpsEval jsf 5 (callForm N) (functionState (internVariable (js ''f'')) F) =
        (Return (EVLObject evlTwo),
         (functionState (internVariable (js ''f'')) F)
         \<lparr>frameValues := [[Some evlOne, Some evlTwo, Some evlThree]]\<rparr>)
      \<and> oocpsEval jsf 8 (applyQuotedForm N) (functionState (internVariable (js ''f'')) F) =
        (Return (EVLObject evlTwo),
         (functionState (internVariable (js ''f'')) F)
         \<lparr>frameValues := [[Some evlOne, Some evlTwo, Some evlThree]]\<rparr>)
      \<and> oocpsEval jsf 12 (callForm N) (functionState (internVariable (js ''f'')) F) =
        (Return (EVLObject evlTwo),
         (functionState (internVariable (js ''f'')) F)
         \<lparr>frameValues := [[Some evlOne, Some evlTwo, Some evlThree]]\<rparr>)
      \<and> sboocpsEval jsf 8 (applyQuotedForm N) (functionState (internVariable (js ''f'')) F) =
        (Return (EVLObject evlTwo),
         (functionState (internVariable (js ''f'')) F)
         \<lparr>frameValues := [[Some evlOne, Some evlTwo, Some evlThree]]\<rparr>)
      \<and> sboocpsEval jsf 12 (callForm N) (functionState (internVariable (js ''f'')) F) =
        (Return (EVLObject evlTwo),
         (functionState (internVariable (js ''f'')) F)
         \<lparr>frameValues := [[Some evlOne, Some evlTwo, Some evlThree]]\<rparr>)
      \<and> trampolineEval jsf None 8 (applyQuotedForm N) (functionState (internVariable (js ''f'')) F) =
        (Return (EVLObject evlTwo),
         (functionState (internVariable (js ''f'')) F)
         \<lparr>frameValues := [[Some evlOne, Some evlTwo, Some evlThree]]\<rparr>)
      \<and> trampolineEval jsf None 12 (callForm N) (functionState (internVariable (js ''f'')) F) =
        (Return (EVLObject evlTwo),
         (functionState (internVariable (js ''f'')) F)
         \<lparr>frameValues := [[Some evlOne, Some evlTwo, Some evlThree]]\<rparr>)
      \<and> trampolineppEval jsf None 9 (applyQuotedForm N) (functionState (internVariable (js ''f'')) P) =
        (Return (EVLObject evlTwo),
         (functionState (internVariable (js ''f'')) P)
         \<lparr>frameValues := [[Some evlOne, Some evlTwo, Some evlThree]]\<rparr>)
      \<and> trampolineppEval jsf None 13 (callForm N) (functionState (internVariable (js ''f'')) P) =
        (Return (EVLObject evlTwo),
         (functionState (internVariable (js ''f'')) P)
         \<lparr>frameValues := [[Some evlOne, Some evlTwo, Some evlThree]]\<rparr>)" for jsf
  proof -
    have a1: "plainrecEval jsf 5 (applyQuotedForm N) (functionState (internVariable (js ''f'')) F) =
        (Return (EVLObject evlTwo),
         (functionState (internVariable (js ''f'')) F)
         \<lparr>frameValues := [[Some evlOne, Some evlTwo, Some evlThree]]\<rparr>)"
      by (simp add: N_def F_def ev plainrec_eval cong: thenDo_weak_cong)
    have a2: "cpsEval jsf 5 (applyQuotedForm N) (functionState (internVariable (js ''f'')) F) =
        (Return (EVLObject evlTwo),
         (functionState (internVariable (js ''f'')) F)
         \<lparr>frameValues := [[Some evlOne, Some evlTwo, Some evlThree]]\<rparr>)"
      by (simp add: N_def F_def ev cps_eval cong: thenDo_weak_cong)
    have a3: "oocpsEval jsf 8 (applyQuotedForm N) (functionState (internVariable (js ''f'')) F) =
        (Return (EVLObject evlTwo),
         (functionState (internVariable (js ''f'')) F)
         \<lparr>frameValues := [[Some evlOne, Some evlTwo, Some evlThree]]\<rparr>)"
      by (simp add: N_def F_def ev oocps_eval cong: thenDo_weak_cong)
    have a4: "sboocpsEval jsf 8 (applyQuotedForm N) (functionState (internVariable (js ''f'')) F) =
        (Return (EVLObject evlTwo),
         (functionState (internVariable (js ''f'')) F)
         \<lparr>frameValues := [[Some evlOne, Some evlTwo, Some evlThree]]\<rparr>)"
      by (simp add: N_def F_def ev sboocps_eval cong: thenDo_weak_cong)
    have a5: "trampolineEval jsf None 8 (applyQuotedForm N) (functionState (internVariable (js ''f'')) F) =
        (Return (EVLObject evlTwo),
         (functionState (internVariable (js ''f'')) F)
         \<lparr>frameValues := [[Some evlOne, Some evlTwo, Some evlThree]]\<rparr>)"
      by (simp add: N_def F_def ev trampoline_eval cong: thenDo_weak_cong)
    have a6: "trampolineppEval jsf None 9 (applyQuotedForm N) (functionState (internVariable (js ''f'')) P) =
        (Return (EVLObject evlTwo),
         (functionState (internVariable (js ''f'')) P)
         \<lparr>frameValues := [[Some evlOne, Some evlTwo, Some evlThree]]\<rparr>)"
      by (simp add: N_def P_def ev trampolinepp_eval cong: thenDo_weak_cong)
    from TF[where jsf = jsf]
    have e: "plainrecEval jsf (3 + 2) (applyQuotedForm N) (functionState (internVariable (js ''f'')) F) =
             plainrecEval jsf (3 + 2) (callForm N) (functionState (internVariable (js ''f'')) F)"
      "cpsEval jsf (3 + 2) (applyQuotedForm N) (functionState (internVariable (js ''f'')) F) =
             cpsEval jsf (3 + 2) (callForm N) (functionState (internVariable (js ''f'')) F)"
      "oocpsEval jsf (3 + 5) (applyQuotedForm N) (functionState (internVariable (js ''f'')) F) =
             oocpsEval jsf (3 + 9) (callForm N) (functionState (internVariable (js ''f'')) F)"
      "sboocpsEval jsf (3 + 5) (applyQuotedForm N) (functionState (internVariable (js ''f'')) F) =
             sboocpsEval jsf (3 + 9) (callForm N) (functionState (internVariable (js ''f'')) F)"
      "trampolineEval jsf None (3 + 5) (applyQuotedForm N) (functionState (internVariable (js ''f'')) F) =
             trampolineEval jsf None (3 + 9) (callForm N) (functionState (internVariable (js ''f'')) F)"
      unfolding N_def F_def by blast+
    from TP[where jsf = jsf]
    have e6: "trampolineppEval jsf None (3 + 6) (applyQuotedForm N) (functionState (internVariable (js ''f'')) P) =
             trampolineppEval jsf None (3 + 10) (callForm N) (functionState (internVariable (js ''f'')) P)"
      unfolding N_def P_def by blast
    from a1 a2 a3 a4 a5 a6 e e6 show ?thesis by simp
  qed
  have lists: "fst (plainrecEval jsf 5 (applyListForm N)
          (GlobalEnv_set (functionState (internVariable (js ''f'')) F)
             FUN_NS (internVariable (js ''list''))
             (listOfArguments (Forms (evlList [EVLVariable (internVariable (js ''args''))]))))) =
        Return (EVLObject evlTwo)
      \<and> fst (cpsEval jsf 5 (applyListForm N)
          (GlobalEnv_set (functionState (internVariable (js ''f'')) F)
             FUN_NS (internVariable (js ''list''))
             (listOfArguments (Forms (evlList [EVLVariable (internVariable (js ''args''))]))))) =
        Return (EVLObject evlTwo)
      \<and> fst (oocpsEval jsf 20 (applyListForm N)
          (GlobalEnv_set (functionState (internVariable (js ''f'')) F)
             FUN_NS (internVariable (js ''list''))
             (listOfArguments (Forms (evlList [EVLVariable (internVariable (js ''args''))]))))) =
        Return (EVLObject evlTwo)
      \<and> fst (sboocpsEval jsf 20 (applyListForm N)
          (GlobalEnv_set (functionState (internVariable (js ''f'')) F)
             FUN_NS (internVariable (js ''list''))
             (listOfArguments (Forms (evlList [EVLVariable (internVariable (js ''args''))]))))) =
        Return (EVLObject evlTwo)
      \<and> fst (trampolineEval jsf None 20 (applyListForm N)
          (GlobalEnv_set (functionState (internVariable (js ''f'')) F)
             FUN_NS (internVariable (js ''list''))
             (listOfArguments (Forms (evlList [EVLVariable (internVariable (js ''args''))]))))) =
        Return (EVLObject evlTwo)
      \<and> fst (trampolineppEval jsf None 20 (applyListForm N)
          (GlobalEnv_set (functionState (internVariable (js ''f'')) P)
             FUN_NS (internVariable (js ''list''))
             (listOfArguments (PreprocessedForms [TrampolineppLRef 0 0])))) =
        Return (EVLObject evlTwo)" for jsf
  proof (intro conjI)
    show "fst (plainrecEval jsf 5 (applyListForm N)
          (GlobalEnv_set (functionState (internVariable (js ''f'')) F)
             FUN_NS (internVariable (js ''list''))
             (listOfArguments (Forms (evlList [EVLVariable (internVariable (js ''args''))]))))) =
        Return (EVLObject evlTwo)"
      by (simp add: N_def F_def ev plainrec_eval cong: thenDo_weak_cong)
    show "fst (cpsEval jsf 5 (applyListForm N)
          (GlobalEnv_set (functionState (internVariable (js ''f'')) F)
             FUN_NS (internVariable (js ''list''))
             (listOfArguments (Forms (evlList [EVLVariable (internVariable (js ''args''))]))))) =
        Return (EVLObject evlTwo)"
      by (simp add: N_def F_def ev cps_eval cong: thenDo_weak_cong)
    show "fst (oocpsEval jsf 20 (applyListForm N)
          (GlobalEnv_set (functionState (internVariable (js ''f'')) F)
             FUN_NS (internVariable (js ''list''))
             (listOfArguments (Forms (evlList [EVLVariable (internVariable (js ''args''))]))))) =
        Return (EVLObject evlTwo)"
      by (simp add: N_def F_def ev oocps_eval cong: thenDo_weak_cong)
    show "fst (sboocpsEval jsf 20 (applyListForm N)
          (GlobalEnv_set (functionState (internVariable (js ''f'')) F)
             FUN_NS (internVariable (js ''list''))
             (listOfArguments (Forms (evlList [EVLVariable (internVariable (js ''args''))]))))) =
        Return (EVLObject evlTwo)"
      by (simp add: N_def F_def ev sboocps_eval cong: thenDo_weak_cong)
    show "fst (trampolineEval jsf None 20 (applyListForm N)
          (GlobalEnv_set (functionState (internVariable (js ''f'')) F)
             FUN_NS (internVariable (js ''list''))
             (listOfArguments (Forms (evlList [EVLVariable (internVariable (js ''args''))]))))) =
        Return (EVLObject evlTwo)"
      by (simp add: N_def F_def ev trampoline_eval cong: thenDo_weak_cong)
    show "fst (trampolineppEval jsf None 20 (applyListForm N)
          (GlobalEnv_set (functionState (internVariable (js ''f'')) P)
             FUN_NS (internVariable (js ''list''))
             (listOfArguments (PreprocessedForms [TrampolineppLRef 0 0])))) =
        Return (EVLObject evlTwo)"
      by (simp add: N_def P_def ev trampolinepp_eval cong: thenDo_weak_cong)
  qed
  show ?thesis
    using arity bad t ys pairing bound notmacro evals lists
    unfolding N_def F_def P_def by blast
qed

text \<open>
  Claim C6 as stated fails.  An apply-style call whose last argument is an improper list, or
  no list at all, need not signal \<open>MalformedSpreadableSequenceOfObjects\<close>: the pairing for
  a closure with a rest parameter only takes the improper list over, the pairing for a
  primitive of arities 1 and 1 signals \<open>TooManyArguments\<close> before it looks at the last
  argument, and \<open>(apply (_vlambda r r) (quote (1 . 2)))\<close> evaluates to \<open>(1 . 2)\<close> under
  the six evaluators.  And with the macro \<open>(_mlambda (a . r) a)\<close> in the function cell of
  \<open>f\<close>, \<open>(f 1 2 3)\<close> evaluates to 1 while \<open>(apply f (quote (1 2 3)))\<close> spreads its
  unevaluated operand, whose first element is the variable \<open>quote\<close>, and throws
  \<open>UnboundVariable\<close>.
\<close>

theorem C6_counterexample:
  "\<not> isProperList (EVLCons EVLVoid EVLVoid)
   \<and> pairClosureParameters True [EVLCons EVLVoid EVLVoid] [Interned [114]] True =
       Inr [EVLCons EVLVoid EVLVoid]
   \<and> \<not> isProperList EVLVoid
   \<and> pairPrimFunParameters True [EVLVoid, EVLVoid, EVLVoid] 1 (Some 1) = Inl TooManyArguments
   \<and> \<not> isProperList (EVLCons evlOne evlTwo)
   \<and> (\<forall>jsf s.
        fst (plainrecEval jsf 5
          (evlList [applyVariable,
             evlList [u_vlambdaVariable, EVLVariable (internVariable (js ''r'')),
                      EVLVariable (internVariable (js ''r''))],
             evlList [quoteVariable, EVLCons evlOne evlTwo]]) s) =
          Return (EVLObject (EVLCons evlOne evlTwo))
      \<and> fst (cpsEval jsf 5
          (evlList [applyVariable,
             evlList [u_vlambdaVariable, EVLVariable (internVariable (js ''r'')),
                      EVLVariable (internVariable (js ''r''))],
             evlList [quoteVariable, EVLCons evlOne evlTwo]]) s) =
          Return (EVLObject (EVLCons evlOne evlTwo))
      \<and> fst (oocpsEval jsf 12
          (evlList [applyVariable,
             evlList [u_vlambdaVariable, EVLVariable (internVariable (js ''r'')),
                      EVLVariable (internVariable (js ''r''))],
             evlList [quoteVariable, EVLCons evlOne evlTwo]]) s) =
          Return (EVLObject (EVLCons evlOne evlTwo))
      \<and> fst (sboocpsEval jsf 12
          (evlList [applyVariable,
             evlList [u_vlambdaVariable, EVLVariable (internVariable (js ''r'')),
                      EVLVariable (internVariable (js ''r''))],
             evlList [quoteVariable, EVLCons evlOne evlTwo]]) s) =
          Return (EVLObject (EVLCons evlOne evlTwo))
      \<and> fst (trampolineEval jsf None 12
          (evlList [applyVariable,
             evlList [u_vlambdaVariable, EVLVariable (internVariable (js ''r'')),
                      EVLVariable (internVariable (js ''r''))],
             evlList [quoteVariable, EVLCons evlOne evlTwo]]) s) =
          Return (EVLObject (EVLCons evlOne evlTwo))
      \<and> fst (trampolineppEval jsf None 12
          (evlList [applyVariable,
             evlList [u_vlambdaVariable, EVLVariable (internVariable (js ''r'')),
                      EVLVariable (internVariable (js ''r''))],
             evlList [quoteVariable, EVLCons evlOne evlTwo]]) s) =
          Return (EVLObject (EVLCons evlOne evlTwo))
      \<and> fst (plainrecEval jsf 5 (callForm [evlOne, evlTwo, evlThree])
               (functionState (internVariable (js ''f'')) firstOperandMacro)) =
          Return (EVLObject evlOne)
      \<and> fst (plainrecEval jsf 5 (applyQuotedForm [evlOne, evlTwo, evlThree])
               (functionState (internVariable (js ''f'')) firstOperandMacro)) =
          Throw (UnboundVariable (internVariable (js ''quote'')) VAL_NS))"
proof (intro conjI allI)
  show "\<not> isProperList (EVLCons EVLVoid EVLVoid)" by simp
  show "pairClosureParameters True [EVLCons EVLVoid EVLVoid] [Interned [114]] True =
       Inr [EVLCons EVLVoid EVLVoid]"
    by (simp add: pairClosureParameters_def pairClosureParametersApplyRest_def setRestSlot_def)
  show "\<not> isProperList EVLVoid" by simp
  show "pairPrimFunParameters True [EVLVoid, EVLVoid, EVLVoid] 1 (Some 1) = Inl TooManyArguments"
    by (simp add: pairPrimFunParameters_def pairPrimFunParametersApply_def)
  show "\<not> isProperList (EVLCons evlOne evlTwo)" by (simp add: evlTwo_def)
next
  fix jsf :: jsFunctions and s :: state
  note ev = examples_eval variables_eval analyzer_eval env_eval pairing_eval
  show "fst (plainrecEval jsf 5
          (evlList [applyVariable,
             evlList [u_vlambdaVariable, EVLVariable (internVariable (js ''r'')),
                      EVLVariable (internVariable (js ''r''))],
             evlList [quoteVariable, EVLCons evlOne evlTwo]]) s) =
          Return (EVLObject (EVLCons evlOne evlTwo))"
    by (simp add: ev plainrec_eval cong: thenDo_weak_cong)
  show "fst (cpsEval jsf 5
          (evlList [applyVariable,
             evlList [u_vlambdaVariable, EVLVariable (internVariable (js ''r'')),
                      EVLVariable (internVariable (js ''r''))],
             evlList [quoteVariable, EVLCons evlOne evlTwo]]) s) =
          Return (EVLObject (EVLCons evlOne evlTwo))"
    by (simp add: ev cps_eval cong: thenDo_weak_cong)
  show "fst (oocpsEval jsf 12
          (evlList [applyVariable,
             evlList [u_vlambdaVariable, EVLVariable (internVariable (js ''r'')),
                      EVLVariable (internVariable (js ''r''))],
             evlList [quoteVariable, EVLCons evlOne evlTwo]]) s) =
          Return (EVLObject (EVLCons evlOne evlTwo))"
    by (simp add: ev oocps_eval cong: thenDo_weak_cong)
  show "fst (sboocpsEval jsf 12
          (evlList [applyVariable,
             evlList [u_vlambdaVariable, EVLVariable (internVariable (js ''r'')),
                      EVLVariable (internVariable (js ''r''))],
             evlList [quoteVariable, EVLCons evlOne evlTwo]]) s) =
          Return (EVLObject (EVLCons evlOne evlTwo))"
    by (simp add: ev sboocps_eval cong: thenDo_weak_cong)
  show "fst (trampolineEval jsf None 12
          (evlList [applyVariable,
             evlList [u_vlambdaVariable, EVLVariable (internVariable (js ''r'')),
                      EVLVariable (internVariable (js ''r''))],
             evlList [quoteVariable, EVLCons evlOne evlTwo]]) s) =
          Return (EVLObject (EVLCons evlOne evlTwo))"
    by (simp add: ev trampoline_eval cong: thenDo_weak_cong)
  show "fst (trampolineppEval jsf None 12
          (evlList [applyVariable,
             evlList [u_vlambdaVariable, EVLVariable (internVariable (js ''r'')),
                      EVLVariable (internVariable (js ''r''))],
             evlList [quoteVariable, EVLCons evlOne evlTwo]]) s) =
          Return (EVLObject (EVLCons evlOne evlTwo))"
    by (simp add: ev trampolinepp_eval nth_append cong: thenDo_weak_cong)
  show "fst (plainrecEval jsf 5 (callForm [evlOne, evlTwo, evlThree])
               (functionState (internVariable (js ''f'')) firstOperandMacro)) =
          Return (EVLObject evlOne)"
    by (simp add: ev plainrec_eval cong: thenDo_weak_cong)
  show "fst (plainrecEval jsf 5 (applyQuotedForm [evlOne, evlTwo, evlThree])
               (functionState (internVariable (js ''f'')) firstOperandMacro)) =
          Throw (UnboundVariable (internVariable (js ''quote'')) VAL_NS)"
    by (simp add: ev plainrec_eval cong: thenDo_weak_cong)
qed

section \<open>Error handlers\<close>

text \<open>The form \<open>(_catch-errors try-form)\<close>.\<close>


definition catchErrorsForm :: "evl \<Rightarrow> evl" where
  "catchErrorsForm tryForm = evlList [u_catchErrorsVariable, tryForm]"

lemma analyzeCatchErrors_form [simp]:
  "analyzeCatchErrors (catchErrorsForm tryForm) = Inr tryForm"
  by (simp add: catchErrorsForm_def analyzeCatchErrors_def checkCons_def checkEmptyList_def)

lemmas catch_form_eval = catchErrorsForm_def variables_eval

lemma plainrec_catch_errors:
  "plainrecEvalForm jsf (Suc n) (catchErrorsForm tryForm) lenv denv s =
     (case plainrecEvalForm jsf n tryForm lenv denv s of
        (Return r, s1) \<Rightarrow> (Return (EVLObject EVLVoid), s1)
      | (Throw e, s1) \<Rightarrow> (Return (EVLObject (EVLString (js (exnName e)))), s1)
      | (Timeout, s1) \<Rightarrow> (Timeout, s1))"
  using analyzeCatchErrors_form[of tryForm]
  by (simp add: plainrecEvalCatchErrors_def catch_form_eval)

lemma cps_catch_errors:
  "cpsEvalForm jsf (Suc n) (catchErrorsForm tryForm) lenv denv k s =
     (case cpsEvalForm jsf n tryForm lenv denv cpsEndCont s of
        (Return r, s1) \<Rightarrow> k (EVLObject EVLVoid) s1
      | (Throw e, s1) \<Rightarrow> k (EVLObject (EVLString (js (exnName e)))) s1
      | (Timeout, s1) \<Rightarrow> (Timeout, s1))"
  using analyzeCatchErrors_form[of tryForm]
  by (simp add: cpsEvalCatchErrors_def catch_form_eval)

lemma oocps_catch_errors:
  "oocpsEvalForm jsf (Suc n) (catchErrorsForm tryForm) lenv denv k s =
     (case oocpsEvalForm jsf n tryForm lenv denv OOCPSEndCont s of
        (Return r, s1) \<Rightarrow> oocpsCont_invoke jsf n k (Result (EVLObject EVLVoid)) s1
      | (Throw e, s1) \<Rightarrow>
          oocpsCont_invoke jsf n k (Result (EVLObject (EVLString (js (exnName e))))) s1
      | (Timeout, s1) \<Rightarrow> (Timeout, s1))"
  using analyzeCatchErrors_form[of tryForm]
  by (simp add: oocpsEvalCatchErrors_def catch_form_eval)

lemma sboocps_catch_errors:
  "sboocpsEvalForm jsf (Suc n) (catchErrorsForm tryForm) lenv kStack s =
     (case sboocpsEvalForm jsf n tryForm lenv (SBOOCPSEndCont # kStack) s of
        (Return r, (kStack1, s1)) \<Rightarrow>
          SBOOCPSControlStack_invokeCont (sboocpsCont_invoke jsf n) (Result (EVLObject EVLVoid))
            kStack1 s1
      | (Throw e, (kStack1, s1)) \<Rightarrow>
          (case SBOOCPSControlStack_trim (length kStack) kStack1 of
             None \<Rightarrow> (Timeout, ([], s1))
           | Some kStack2 \<Rightarrow>
               SBOOCPSControlStack_invokeCont (sboocpsCont_invoke jsf n)
                 (Result (EVLObject (EVLString (js (exnName e))))) kStack2 s1)
      | (Timeout, ks1) \<Rightarrow> (Timeout, ks1))"
  using analyzeCatchErrors_form[of tryForm]
  by (simp add: sboocpsEvalCatchErrors_def catch_form_eval)

lemma trampoline_catch_errors_enter:
  "\<not> abortRequested a \<Longrightarrow>
   trampolineEval_loop jsf a (Suc n) (EvalReq (catchErrorsForm tryForm) lenv) kStack s =
   trampolineEval_loop jsf a n (EvalReq tryForm lenv)
     (TrampolineCatchErrorsTryFormCont lenv # TrampolineErrorHandler # kStack) s"
  using analyzeCatchErrors_form[of tryForm]
  by (simp add: trampolineEvalForm_def trampolineEvalCatchErrors_def catch_form_eval)

lemma trampoline_catch_errors_return:
  "\<not> abortRequested a \<Longrightarrow>
   trampolineEval_loop jsf a (Suc n) (Bounced (Result r))
     (TrampolineCatchErrorsTryFormCont lenv # TrampolineErrorHandler # kStack) s =
   trampolineEval_loop jsf a n (Bounced (Result (EVLObject EVLVoid))) kStack s"
  by (cases n) (simp_all add: trampolineCont_invoke_def)

text \<open>
  The elements that \<open>handleError\<close> pops on its way to an error handler: neither error
  handlers nor the end continuation.
\<close>

fun plainElements :: "trampolineElement list \<Rightarrow> bool" where
  "plainElements [] = True"
| "plainElements (TrampolineErrorHandler # ks) = False"
| "plainElements (TrampolineEndCont # ks) = False"
| "plainElements (k # ks) = plainElements ks"

lemma trampoline_handleError:
  "plainElements ks \<Longrightarrow>
   TrampolineControlStack_handleError e (ks @ TrampolineErrorHandler # kStack) =
     (Return (Bounced (Result (EVLObject (EVLString (js (exnName e)))))), kStack)"
  by (induction ks rule: plainElements.induct) simp_all


lemma trampolinepp_catch_errors_preprocess:
  "trampolineppPreprocessForm jsf a (Suc n) (catchErrorsForm tryForm) lenv s =
     (case trampolineppPreprocessForm jsf a n tryForm lenv s of
        (Return p, s1) \<Rightarrow> (Return (TrampolineppCatchErrors p), s1)
      | (Throw e, s1) \<Rightarrow> (Throw e, s1)
      | (Timeout, s1) \<Rightarrow> (Timeout, s1))"
  using analyzeCatchErrors_form[of tryForm]
  by (simp add: trampolineppPreprocessCatchErrors_def catch_form_eval thenDo_def
      split: prod.splits outcome.splits)

lemma trampolinepp_catch_errors_enter:
  "\<not> abortRequested a \<Longrightarrow>
   trampolineppEval_loop jsf a (Suc n) (EvalReq (TrampolineppCatchErrors p) lenv) kStack s =
   trampolineppEval_loop jsf a n (EvalReq p lenv)
     (TrampolineppCatchErrorsTryFormCont lenv # TrampolineppErrorHandler # kStack) s"
  by (simp add: TrampolineppForm_eval_def)

lemma trampolinepp_catch_errors_return:
  "\<not> abortRequested a \<Longrightarrow>
   trampolineppEval_loop jsf a (Suc n) (Bounced (Result r))
     (TrampolineppCatchErrorsTryFormCont lenv # TrampolineppErrorHandler # kStack) s =
   trampolineppEval_loop jsf a n (Bounced (Result (EVLObject EVLVoid))) kStack s"
  by (cases n) (simp_all add: trampolineppCont_invoke_def)

fun plainppElements :: "trampolineppElement list \<Rightarrow> bool" where
  "plainppElements [] = True"
| "plainppElements (TrampolineppErrorHandler # ks) = False"
| "plainppElements (TrampolineppEndCont # ks) = False"
| "plainppElements (k # ks) = plainppElements ks"

lemma trampolinepp_handleError:
  "plainppElements ks \<Longrightarrow>
   TrampolineppControlStack_handleError e (ks @ TrampolineppErrorHandler # kStack) =
     (Return (Bounced (Result (EVLObject (EVLString (js (exnName e)))))), kStack)"
  by (induction ks rule: plainppElements.induct) simp_all



lemma trampoline_catch_errors_throw:
  "\<not> abortRequested a \<Longrightarrow> plainElements ks \<Longrightarrow>
   trampolineEvalForm form lenv kStack0 s = (Throw e, (ks @ TrampolineErrorHandler # kStack, s1)) \<Longrightarrow>
   trampolineEval_loop jsf a (Suc n) (EvalReq form lenv) kStack0 s =
   trampolineEval_loop jsf a n (Bounced (Result (EVLObject (EVLString (js (exnName e)))))) kStack s1"
  by (simp add: trampoline_handleError)

lemma trampoline_catch_errors_throw_cont:
  "\<not> abortRequested a \<Longrightarrow> plainElements ks \<Longrightarrow>
   TrampolineControlStack_popCont kStack0 = Some (k, kStack1) \<Longrightarrow> k \<noteq> TrampolineEndCont \<Longrightarrow>
   trampolineCont_invoke jsf k x kStack1 s = (Throw e, (ks @ TrampolineErrorHandler # kStack, s1)) \<Longrightarrow>
   trampolineEval_loop jsf a (Suc n) (Bounced x) kStack0 s =
   trampolineEval_loop jsf a n (Bounced (Result (EVLObject (EVLString (js (exnName e)))))) kStack s1"
  by (simp add: trampoline_handleError)

lemma trampolinepp_catch_errors_throw:
  "\<not> abortRequested a \<Longrightarrow> plainppElements ks \<Longrightarrow>
   TrampolineppForm_eval form lenv kStack0 s = (Throw e, (ks @ TrampolineppErrorHandler # kStack, s1)) \<Longrightarrow>
   trampolineppEval_loop jsf a (Suc n) (EvalReq form lenv) kStack0 s =
   trampolineppEval_loop jsf a n (Bounced (Result (EVLObject (EVLString (js (exnName e)))))) kStack s1"
  by (simp add: trampolinepp_handleError)

lemma trampolinepp_catch_errors_throw_cont:
  "\<not> abortRequested a \<Longrightarrow> plainppElements ks \<Longrightarrow>
   TrampolineppControlStack_popCont kStack0 = Some (k, kStack1) \<Longrightarrow> k \<noteq> TrampolineppEndCont \<Longrightarrow>
   trampolineppCont_invoke jsf k x kStack1 s = (Throw e, (ks @ TrampolineppErrorHandler # kStack, s1)) \<Longrightarrow>
   trampolineppEval_loop jsf a (Suc n) (Bounced x) kStack0 s =
   trampolineppEval_loop jsf a n (Bounced (Result (EVLObject (EVLString (js (exnName e)))))) kStack s1"
  by (simp add: trampolinepp_handleError)


definition ifNumberForm :: evl where
  "ifNumberForm = evlList [ifVariable, EVLNumber 0, EVLNumber 0, EVLNumber 0]"

definition quoteNumberForm :: evl where
  "quoteNumberForm = evlList [quoteVariable, EVLNumber 0]"

definition quoteForm :: evl where
  "quoteForm = evlList [quoteVariable]"

lemmas catch_eval = catchErrorsForm_def ifNumberForm_def quoteNumberForm_def quoteForm_def

text \<open>
  C5.  The form \<open>(_catch-errors try)\<close>.  Under the plain recursive, CPS, OOCPS and SBOOCPS
  evaluators its evaluation is the evaluation of the try form in the same environments,
  followed by \<open>#v\<close> when the try form returns (whatever it returns) and by the string of the
  name of the exception when it throws (whatever it throws); the result goes to the
  continuation of the form.  Under the trampoline evaluator, when the abort flag is not set,
  the form pushes its continuation and an error handler and requests the evaluation of the
  try form; a result that reaches this continuation is replaced by \<open>#v\<close>, and the handler is
  dropped; an exception thrown in a turn of the loop, by the evaluation of a form or by a
  continuation, on a stack that holds an error handler under elements that are neither error
  handlers nor the end continuation, becomes the string of its name, given to the
  continuation under the handler.  The same holds for the trampoline++ evaluator and the
  preprocessed form; what the preprocessing of the try form throws is thrown by the
  preprocessing of the \<open>_catch-errors\<close> form.  When the abort flag is set the turn of the
  loop throws \<open>Aborted\<close>, whatever the stack holds.
\<close>

theorem C5_catch_errors:
  assumes na: "\<not> abortRequested a"
    and ab: "abortRequested a'"
    and pk: "plainElements ks"
    and ppk: "plainppElements pks"
    and thrown: "trampolineEvalForm form flenv kStack0 s =
                   (Throw e, (ks @ TrampolineErrorHandler # kStack, s1))"
    and popped: "TrampolineControlStack_popCont kStack1 = Some (tk, kStack2)"
                "tk \<noteq> TrampolineEndCont"
    and invoked: "trampolineCont_invoke jsf tk x kStack2 s =
                    (Throw ei, (ks @ TrampolineErrorHandler # kStack, si))"
    and ppthrown: "TrampolineppForm_eval pform flenv pkStack0 s =
                     (Throw pe, (pks @ TrampolineppErrorHandler # pkStack, ps1))"
    and pppopped: "TrampolineppControlStack_popCont pkStack1 = Some (ptk, pkStack2)"
                  "ptk \<noteq> TrampolineppEndCont"
    and ppinvoked: "trampolineppCont_invoke jsf ptk px pkStack2 s =
                      (Throw pei, (pks @ TrampolineppErrorHandler # pkStack, psi))"
  shows "plainrecEvalForm jsf (Suc n) (catchErrorsForm tryForm) lenv denv s =
           (case plainrecEvalForm jsf n tryForm lenv denv s of
              (Return r, s1) \<Rightarrow> (Return (EVLObject EVLVoid), s1)
            | (Throw e, s1) \<Rightarrow> (Return (EVLObject (EVLString (js (exnName e)))), s1)
            | (Timeout, s1) \<Rightarrow> (Timeout, s1))
       \<and> cpsEvalForm jsf (Suc n) (catchErrorsForm tryForm) lenv denv k s =
           (case cpsEvalForm jsf n tryForm lenv denv cpsEndCont s of
              (Return r, s1) \<Rightarrow> k (EVLObject EVLVoid) s1
            | (Throw e, s1) \<Rightarrow> k (EVLObject (EVLString (js (exnName e)))) s1
            | (Timeout, s1) \<Rightarrow> (Timeout, s1))
       \<and> oocpsEvalForm jsf (Suc n) (catchErrorsForm tryForm) lenv denv ok s =
           (case oocpsEvalForm jsf n tryForm lenv denv OOCPSEndCont s of
              (Return r, s1) \<Rightarrow> oocpsCont_invoke jsf n ok (Result (EVLObject EVLVoid)) s1
            | (Throw e, s1) \<Rightarrow>
                oocpsCont_invoke jsf n ok (Result (EVLObject (EVLString (js (exnName e))))) s1
            | (Timeout, s1) \<Rightarrow> (Timeout, s1))
       \<and> sboocpsEvalForm jsf (Suc n) (catchErrorsForm tryForm) lenv sks s =
           (case sboocpsEvalForm jsf n tryForm lenv (SBOOCPSEndCont # sks) s of
              (Return r, (sks1, s1)) \<Rightarrow>
                SBOOCPSControlStack_invokeCont (sboocpsCont_invoke jsf n)
                  (Result (EVLObject EVLVoid)) sks1 s1
            | (Throw e, (sks1, s1)) \<Rightarrow>
                (case SBOOCPSControlStack_trim (length sks) sks1 of
                   None \<Rightarrow> (Timeout, ([], s1))
                 | Some sks2 \<Rightarrow>
                     SBOOCPSControlStack_invokeCont (sboocpsCont_invoke jsf n)
                       (Result (EVLObject (EVLString (js (exnName e))))) sks2 s1)
            | (Timeout, sks1) \<Rightarrow> (Timeout, sks1))
       \<and> trampolineEval_loop jsf a (Suc n) (EvalReq (catchErrorsForm tryForm) lenv) kStack s =
           trampolineEval_loop jsf a n (EvalReq tryForm lenv)
             (TrampolineCatchErrorsTryFormCont lenv # TrampolineErrorHandler # kStack) s
       \<and> trampolineEval_loop jsf a (Suc n) (Bounced (Result r))
             (TrampolineCatchErrorsTryFormCont lenv # TrampolineErrorHandler # kStack) s =
           trampolineEval_loop jsf a n (Bounced (Result (EVLObject EVLVoid))) kStack s
       \<and> TrampolineControlStack_handleError e' (ks @ TrampolineErrorHandler # kStack) =
           (Return (Bounced (Result (EVLObject (EVLString (js (exnName e')))))), kStack)
       \<and> trampolineEval_loop jsf a (Suc n) (EvalReq form flenv) kStack0 s =
           trampolineEval_loop jsf a n
             (Bounced (Result (EVLObject (EVLString (js (exnName e)))))) kStack s1
       \<and> trampolineEval_loop jsf a (Suc n) (Bounced x) kStack1 s =
           trampolineEval_loop jsf a n
             (Bounced (Result (EVLObject (EVLString (js (exnName ei)))))) kStack si
       \<and> trampolineEval_loop jsf a' (Suc n) bounce kStack s = (Throw Aborted, s)
       \<and> trampolineppPreprocessForm jsf a'' (Suc n) (catchErrorsForm tryForm) lenv s =
           (case trampolineppPreprocessForm jsf a'' n tryForm lenv s of
              (Return p, s1) \<Rightarrow> (Return (TrampolineppCatchErrors p), s1)
            | (Throw e, s1) \<Rightarrow> (Throw e, s1)
            | (Timeout, s1) \<Rightarrow> (Timeout, s1))
       \<and> trampolineppEval_loop jsf a (Suc n) (EvalReq (TrampolineppCatchErrors p) lenv) pkStack s =
           trampolineppEval_loop jsf a n (EvalReq p lenv)
             (TrampolineppCatchErrorsTryFormCont lenv # TrampolineppErrorHandler # pkStack) s
       \<and> trampolineppEval_loop jsf a (Suc n) (Bounced (Result r))
             (TrampolineppCatchErrorsTryFormCont lenv # TrampolineppErrorHandler # pkStack) s =
           trampolineppEval_loop jsf a n (Bounced (Result (EVLObject EVLVoid))) pkStack s
       \<and> TrampolineppControlStack_handleError e' (pks @ TrampolineppErrorHandler # pkStack) =
           (Return (Bounced (Result (EVLObject (EVLString (js (exnName e')))))), pkStack)
       \<and> trampolineppEval_loop jsf a (Suc n) (EvalReq pform flenv) pkStack0 s =
           trampolineppEval_loop jsf a n
             (Bounced (Result (EVLObject (EVLString (js (exnName pe)))))) pkStack ps1
       \<and> trampolineppEval_loop jsf a (Suc n) (Bounced px) pkStack1 s =
           trampolineppEval_loop jsf a n
             (Bounced (Result (EVLObject (EVLString (js (exnName pei)))))) pkStack psi
       \<and> trampolineppEval_loop jsf a' (Suc n) pbounce pkStack s = (Throw Aborted, s)"
  using plainrec_catch_errors[where jsf = jsf and n = n and tryForm = tryForm and lenv = lenv
      and denv = denv and s = s]
    cps_catch_errors[where jsf = jsf and n = n and tryForm = tryForm and lenv = lenv
      and denv = denv and k = k and s = s]
    oocps_catch_errors[where jsf = jsf and n = n and tryForm = tryForm and lenv = lenv
      and denv = denv and k = ok and s = s]
    sboocps_catch_errors[where jsf = jsf and n = n and tryForm = tryForm and lenv = lenv
      and kStack = sks and s = s]
    trampoline_catch_errors_enter[OF na, where jsf = jsf and n = n and tryForm = tryForm
      and lenv = lenv and kStack = kStack and s = s]
    trampoline_catch_errors_return[OF na, where jsf = jsf and n = n and r = r
      and lenv = lenv and kStack = kStack and s = s]
    trampoline_handleError[OF pk, where e = e' and kStack = kStack]
    trampoline_catch_errors_throw[OF na pk thrown, where jsf = jsf and n = n]
    trampoline_catch_errors_throw_cont[OF na pk popped invoked, where n = n]
    trampolineEval_loop_aborted[OF ab, where jsf = jsf and n = n and bounce = bounce
      and kStack = kStack and s = s]
    trampolinepp_catch_errors_preprocess[where jsf = jsf and a = a'' and n = n
      and tryForm = tryForm and lenv = lenv and s = s]
    trampolinepp_catch_errors_enter[OF na, where jsf = jsf and n = n and p = p
      and lenv = lenv and kStack = pkStack and s = s]
    trampolinepp_catch_errors_return[OF na, where jsf = jsf and n = n and r = r
      and lenv = lenv and kStack = pkStack and s = s]
    trampolinepp_handleError[OF ppk, where e = e' and kStack = pkStack]
    trampolinepp_catch_errors_throw[OF na ppk ppthrown, where jsf = jsf and n = n]
    trampolinepp_catch_errors_throw_cont[OF na ppk pppopped ppinvoked, where n = n]
    trampolineppEval_loop_aborted[OF ab, where jsf = jsf and n = n and bounce = pbounce
      and kStack = pkStack and s = s]
  by (intro conjI) assumption+


text \<open>
  The form \<open>(_catch-errors (if 0 0 0))\<close>, whose try form throws an \<open>EvaluatorError\<close> (the
  test is no boolean), evaluates to the string \<open>EvaluatorError\<close> under the six evaluators,
  and \<open>(_catch-errors (quote 0))\<close> to \<open>#v\<close>, in every state.
\<close>

theorem C5_catch_errors_witness:
  "\<forall>jsf s.
     \<not> abortRequested None \<and> abortRequested (Some [1])
     \<and> plainElements [TrampolineCatchErrorsTryFormCont NullDefiniteEnv]
     \<and> plainppElements [TrampolineppCatchErrorsTryFormCont NullDefiniteEnv]
     \<and> plainrecEval jsf 3 (catchErrorsForm ifNumberForm) s =
         (Return (EVLObject (EVLString (js ''EvaluatorError''))), s)
     \<and> cpsEval jsf 3 (catchErrorsForm ifNumberForm) s =
         (Return (EVLObject (EVLString (js ''EvaluatorError''))), s)
     \<and> oocpsEval jsf 5 (catchErrorsForm ifNumberForm) s =
         (Return (EVLObject (EVLString (js ''EvaluatorError''))), s)
     \<and> sboocpsEval jsf 5 (catchErrorsForm ifNumberForm) s =
         (Return (EVLObject (EVLString (js ''EvaluatorError''))), s)
     \<and> trampolineEval jsf None 5 (catchErrorsForm ifNumberForm) s =
         (Return (EVLObject (EVLString (js ''EvaluatorError''))), s)
     \<and> trampolineppEval jsf None 5 (catchErrorsForm ifNumberForm) s =
         (Return (EVLObject (EVLString (js ''EvaluatorError''))), s)
     \<and> plainrecEval jsf 2 (catchErrorsForm quoteNumberForm) s = (Return (EVLObject EVLVoid), s)
     \<and> cpsEval jsf 2 (catchErrorsForm quoteNumberForm) s = (Return (EVLObject EVLVoid), s)
     \<and> oocpsEval jsf 3 (catchErrorsForm quoteNumberForm) s = (Return (EVLObject EVLVoid), s)
     \<and> sboocpsEval jsf 3 (catchErrorsForm quoteNumberForm) s = (Return (EVLObject EVLVoid), s)
     \<and> trampolineEval jsf None 4 (catchErrorsForm quoteNumberForm) s =
         (Return (EVLObject EVLVoid), s)
     \<and> trampolineppEval jsf None 4 (catchErrorsForm quoteNumberForm) s =
         (Return (EVLObject EVLVoid), s)
     \<and> trampolineEval jsf (Some [1]) 5 (catchErrorsForm ifNumberForm) s = (Throw Aborted, s)
     \<and> trampolineppEval jsf (Some [1]) 5 (catchErrorsForm ifNumberForm) s = (Throw Aborted, s)"
  (is "\<forall>jsf s. ?P jsf s")
proof (intro allI)
  fix jsf :: jsFunctions and s :: state
  let ?N = NullDefiniteEnv
  let ?zero = "EVLNumber 0"
  have na: "\<not> abortRequested None" and ab: "abortRequested (Some [1])"
    by (simp_all add: abortRequested_def)
  have pk: "plainElements [TrampolineCatchErrorsTryFormCont ?N]"
    and ppk: "plainppElements [TrampolineppCatchErrorsTryFormCont ?N]"
    by simp_all
  have thrown: "trampolineEvalForm EVLEmptyList ?N
                  [TrampolineCatchErrorsTryFormCont ?N, TrampolineErrorHandler, TrampolineEndCont] s =
                (Throw emptyListError,
                 ([TrampolineCatchErrorsTryFormCont ?N] @ TrampolineErrorHandler # [TrampolineEndCont], s))"
    by (simp add: trampolineEvalForm_def)
  have popped: "TrampolineControlStack_popCont
                  [TrampolineIfTestFormCont ?zero ?zero ?N, TrampolineCatchErrorsTryFormCont ?N,
                   TrampolineErrorHandler, TrampolineEndCont] =
                Some (TrampolineIfTestFormCont ?zero ?zero ?N,
                      [TrampolineCatchErrorsTryFormCont ?N, TrampolineErrorHandler, TrampolineEndCont])"
    and notend: "TrampolineIfTestFormCont ?zero ?zero ?N \<noteq> TrampolineEndCont"
    by simp_all
  have invoked: "trampolineCont_invoke jsf (TrampolineIfTestFormCont ?zero ?zero ?N)
                   (Result (EVLObject ?zero))
                   [TrampolineCatchErrorsTryFormCont ?N, TrampolineErrorHandler, TrampolineEndCont] s =
                 (Throw ifTestFormError,
                  ([TrampolineCatchErrorsTryFormCont ?N] @ TrampolineErrorHandler # [TrampolineEndCont], s))"
    by (simp add: trampolineCont_invoke_def invokedResult_def ifTestFormError_def)
  have ppthrown: "TrampolineppForm_eval
                    (TrampolineppForEach (TrampolineppQuote EVLVoid) (TrampolineppQuote EVLVoid)) ?N
                    [TrampolineppCatchErrorsTryFormCont ?N, TrampolineppErrorHandler,
                     TrampolineppEndCont] s =
                  (Throw forEachNotImplemented,
                   ([TrampolineppCatchErrorsTryFormCont ?N] @ TrampolineppErrorHandler #
                    [TrampolineppEndCont], s))"
    by (simp add: TrampolineppForm_eval_def)
  have pppopped: "TrampolineppControlStack_popCont
                    [TrampolineppIfTestFormCont (TrampolineppQuote ?zero) (TrampolineppQuote ?zero) ?N,
                     TrampolineppCatchErrorsTryFormCont ?N, TrampolineppErrorHandler,
                     TrampolineppEndCont] =
                  Some (TrampolineppIfTestFormCont (TrampolineppQuote ?zero) (TrampolineppQuote ?zero) ?N,
                        [TrampolineppCatchErrorsTryFormCont ?N, TrampolineppErrorHandler,
                         TrampolineppEndCont])"
    and ppnotend: "TrampolineppIfTestFormCont (TrampolineppQuote ?zero) (TrampolineppQuote ?zero) ?N
                   \<noteq> TrampolineppEndCont"
    by simp_all
  have ppinvoked: "trampolineppCont_invoke jsf
                     (TrampolineppIfTestFormCont (TrampolineppQuote ?zero) (TrampolineppQuote ?zero) ?N)
                     (Result (EVLObject ?zero))
                     [TrampolineppCatchErrorsTryFormCont ?N, TrampolineppErrorHandler,
                      TrampolineppEndCont] s =
                   (Throw ifTestFormError,
                    ([TrampolineppCatchErrorsTryFormCont ?N] @ TrampolineppErrorHandler #
                     [TrampolineppEndCont], s))"
    by (simp add: trampolineppCont_invoke_def invokedResult_def ifTestFormError_def)
  note T = C5_catch_errors[OF na ab pk ppk thrown popped notend invoked ppthrown pppopped
      ppnotend ppinvoked]
  note TI = T[where tryForm = ifNumberForm and lenv = ?N and denv = ?N and n = 2]
  note TQ = T[where tryForm = quoteNumberForm and lenv = ?N and denv = ?N and n = 1]
  show "?P jsf s"
    using TI TQ na ab
    by (simp add: catch_eval variables_eval analyzer_eval env_eval plainrec_eval cps_eval
        oocps_eval sboocps_eval trampoline_eval trampolinepp_eval cong: thenDo_weak_cong)
qed

text \<open>
  The try form \<open>(quote)\<close> is malformed.  The trampoline++ evaluator analyzes it when it
  preprocesses the \<open>_catch-errors\<close> form, before its loop begins and before any handler is
  pushed: the \<open>FormAnalyzerError\<close> is thrown by \<open>trampolineppEval\<close>, whatever the fuel and
  the abort flag.  The five other evaluators analyze the try form when they evaluate it, and
  the form evaluates to the string \<open>FormAnalyzerError\<close>.
\<close>

theorem C5_counterexample:
  "\<forall>jsf a s n.
     trampolineppEval jsf a (Suc (Suc n)) (catchErrorsForm quoteForm) s =
       (Throw (FormAnalyzerError ''Malformed quote form.''), s)
     \<and> plainrecEval jsf 2 (catchErrorsForm quoteForm) s =
         (Return (EVLObject (EVLString (js ''FormAnalyzerError''))), s)
     \<and> cpsEval jsf 2 (catchErrorsForm quoteForm) s =
         (Return (EVLObject (EVLString (js ''FormAnalyzerError''))), s)
     \<and> oocpsEval jsf 3 (catchErrorsForm quoteForm) s =
         (Return (EVLObject (EVLString (js ''FormAnalyzerError''))), s)
     \<and> sboocpsEval jsf 3 (catchErrorsForm quoteForm) s =
         (Return (EVLObject (EVLString (js ''FormAnalyzerError''))), s)
     \<and> trampolineEval jsf None 3 (catchErrorsForm quoteForm) s =
         (Return (EVLObject (EVLString (js ''FormAnalyzerError''))), s)"
  by (simp add: catch_eval variables_eval analyzer_eval env_eval plainrec_eval cps_eval
      oocps_eval sboocps_eval trampoline_eval trampolinepp_eval cong: thenDo_weak_cong)

section \<open>Macro-let\<close>

text \<open>The recognition and the preprocessing of a macro-let.\<close>


lemma isProperList_evlList [simp]: "isProperList (evlList xs)"
  by (induction xs) auto

lemma isProperList_listToArray: "isProperList x \<Longrightarrow> evlList (listToArray x) = x"
  by (induction x rule: isProperList.induct) auto

lemma isMacroLet_loop_iff:
  "isMacroLet_loop operands \<longleftrightarrow>
     isProperList operands \<and> (\<forall>operand \<in> set (listToArray operands).
        isEVLCons operand \<and> car operand = mlambdaVariable)"
  by (induction operands rule: isMacroLet_loop.induct) auto

lemma isMacroLet_iff:
  "isMacroLet operator operands \<longleftrightarrow>
     isEVLCons operator \<and> car operator = u_flambdaVariable \<and> isProperList operands \<and>
     (\<forall>operand \<in> set (listToArray operands). isEVLCons operand \<and> car operand = mlambdaVariable)"
  by (simp add: isMacroLet_def isMacroLet_loop_iff)

lemma macro_let_preprocess:
  assumes ml: "isMacroLet operator operands"
  shows "trampolineppPreprocessForm jsf a (Suc n) (EVLCons operator operands) lenv s =
     thenDo (trampolineppPreprocessForms (trampolineppPreprocessForm jsf a n) operands lenv s)
       (\<lambda>preprocessedOperands s.
          thenDo (lift (analyzeLambda operator) s) (\<lambda>(parameters, rest, forms) s.
            thenDo (lift (evalOperands_null s preprocessedOperands) s) (\<lambda>vals s.
              case newFrame FUN_NS parameters vals lenv s of
                (elenv, s) \<Rightarrow>
                  thenDo (trampolineppPreprocessForms (trampolineppPreprocessForm jsf a n) forms
                            elenv s)
                    (\<lambda>preprocessedForms s.
                       (Return (TrampolineppCall False False
                                  (TrampolineppLambda LEX_SCOPE FUN_NS False parameters rest
                                     preprocessedForms)
                                  preprocessedOperands), s)))))"
proof -
  from ml obtain x d where op: "operator = EVLCons x d"
    by (cases operator) (auto simp add: isMacroLet_def)
  from ml have pl: "isProperList operands"
    by (simp add: isMacroLet_iff)
  have ac: "analyzeCall False False (EVLCons operator operands) = Inr (operator, operands)"
    using pl by (simp add: analyzeCall_def checkProperList_def)
  show ?thesis
    using ml ac by (simp add: op trampolineppPreprocessCall_def variables_eval)
qed

lemma not_macro_let_preprocess:
  assumes nml: "\<not> isMacroLet operator operands"
    and op: "isEVLCons operator" and pl: "isProperList operands"
  shows "trampolineppPreprocessForm jsf a (Suc n) (EVLCons operator operands) lenv s =
     thenDo (trampolineppPreprocessForm jsf a n operator lenv s) (\<lambda>preprocessedOperator s.
       thenDo (trampolineppPreprocessForms (trampolineppPreprocessForm jsf a n) operands lenv s)
         (\<lambda>preprocessedOperands s.
            (Return (TrampolineppCall False False preprocessedOperator preprocessedOperands), s)))"
proof -
  from op obtain x d where ope: "operator = EVLCons x d"
    by (cases operator) auto
  have ac: "analyzeCall False False (EVLCons operator operands) = Inr (operator, operands)"
    using pl by (simp add: analyzeCall_def checkProperList_def)
  show ?thesis
    using nml ac by (simp add: ope trampolineppPreprocessCall_def variables_eval)
qed

text \<open>
  The forms of the examples; the function cell of \<open>mlambda\<close> holds a macro whose
  expansion is \<open>(_mlambda () (quote (quote 5)))\<close>, whatever its operands.
\<close>


definition evlFive :: evl where "evlFive = EVLNumber 0x4014000000000000"

definition quoteFive :: evl where "quoteFive = evlList [quoteVariable, evlFive]"

definition mlambdaMacro :: evl where
  "mlambdaMacro =
     EVLClosure LEX_SCOPE VAL_NS True [internVariable (js ''args'')] True
       (PreprocessedForms
          [TrampolineppQuote (evlList [u_mlambdaVariable, EVLEmptyList,
                                        evlList [quoteVariable, quoteFive]])])
       NullDefiniteEnv"

definition macroLetState :: state where
  "macroLetState = functionState (internVariable (js ''mlambda'')) mlambdaMacro"

definition flambdaForm :: evl where
  "flambdaForm =
     evlList [u_flambdaVariable, evlList [EVLVariable (internVariable (js ''m''))],
              evlList [EVLVariable (internVariable (js ''m''))]]"

definition macroLetForm :: evl where
  "macroLetForm = evlList [flambdaForm, evlList [mlambdaVariable]]"

definition underscoreForm :: evl where
  "underscoreForm =
     evlList [flambdaForm, evlList [u_mlambdaVariable, EVLEmptyList,
                                     evlList [quoteVariable, quoteFive]]]"

lemmas macro_let_eval = evlFive_def quoteFive_def mlambdaMacro_def macroLetState_def
  flambdaForm_def macroLetForm_def underscoreForm_def functionState_def


definition shadowedForm :: evl where
  "shadowedForm =
     evlList [evlList [u_flambdaVariable, evlList [mlambdaVariable], macroLetForm],
              evlList [u_vlambdaVariable, EVLEmptyList, evlFive]]"

lemma macro_let_call:
  assumes ml: "isMacroLet operator operands"
    and call: "analyzeCall mv apply form = Inr (operator, operands)"
  shows "trampolineppPreprocessCall evalIn pp mv apply form lenv s =
     thenDo (trampolineppPreprocessForms pp operands lenv s) (\<lambda>preprocessedOperands s.
       thenDo (lift (analyzeLambda operator) s) (\<lambda>(parameters, rest, forms) s.
         thenDo (lift (evalOperands_null s preprocessedOperands) s) (\<lambda>vals s.
           case newFrame FUN_NS parameters vals lenv s of
             (elenv, s) \<Rightarrow>
               thenDo (trampolineppPreprocessForms pp forms elenv s) (\<lambda>preprocessedForms s.
                 (Return (TrampolineppCall mv apply
                            (TrampolineppLambda LEX_SCOPE FUN_NS False parameters rest
                               preprocessedForms)
                            preprocessedOperands), s)))))"
proof -
  from ml obtain x d where op: "operator = EVLCons x d"
    by (cases operator) (auto simp add: isMacroLet_def)
  show ?thesis
    using ml call by (simp add: op trampolineppPreprocessCall_def)
qed

text \<open>
  C4.  The recognition of a macro-let by the preprocessor of the trampoline++ evaluator.
  \<open>isMacroLet\<close> holds exactly when the operator is a cons whose car is the variable
  \<open>_flambda\<close> and the operands are a proper list of conses whose car is the variable
  \<open>mlambda\<close>.  The call is then preprocessed as follows: the operands are preprocessed in
  the environment \<open>lenv\<close> of the call; the preprocessed operands are evaluated by their
  method \<open>eval\<close> applied to the null environment and no control stack; the values are the
  values of a frame of the function namespace for the parameters of the operator, whose next
  environment is \<open>lenv\<close>; the forms of the operator are preprocessed in this frame; the
  result is the call whose operator is the lambda of these preprocessed forms (lexical
  scope, function namespace, no macro) and whose operands are the preprocessed operands.
  This holds for the plain call and, by \<open>trampolineppPreprocessCall\<close>, for the calls of
  \<open>apply\<close>, \<open>multiple-value-call\<close> and \<open>multiple-value-apply\<close>.  A call whose operator
  is a cons and that is no macro-let is preprocessed as the call of its preprocessed operator
  on its preprocessed operands.
\<close>

theorem C4_macro_let:
  assumes operator: "isEVLCons operator" "car operator = u_flambdaVariable"
    and operands: "isProperList operands"
      "\<forall>operand \<in> set (listToArray operands). isEVLCons operand \<and> car operand = mlambdaVariable"
    and call: "analyzeCall mv apply form = Inr (operator, operands)"
    and other: "isEVLCons operator'" "isProperList operands'" "\<not> isMacroLet operator' operands'"
  shows "isMacroLet operator operands
    \<and> (isMacroLet operator'' operands'' \<longleftrightarrow>
         isEVLCons operator'' \<and> car operator'' = u_flambdaVariable \<and> isProperList operands'' \<and>
         (\<forall>operand \<in> set (listToArray operands'').
            isEVLCons operand \<and> car operand = mlambdaVariable))
    \<and> trampolineppPreprocessForm jsf a (Suc n) (EVLCons operator operands) lenv s =
        thenDo (trampolineppPreprocessForms (trampolineppPreprocessForm jsf a n) operands lenv s)
          (\<lambda>preprocessedOperands s.
             thenDo (lift (analyzeLambda operator) s) (\<lambda>(parameters, rest, forms) s.
               thenDo (lift (evalOperands_null s preprocessedOperands) s) (\<lambda>vals s.
                 case newFrame FUN_NS parameters vals lenv s of
                   (elenv, s) \<Rightarrow>
                     thenDo (trampolineppPreprocessForms (trampolineppPreprocessForm jsf a n)
                               forms elenv s)
                       (\<lambda>preprocessedForms s.
                          (Return (TrampolineppCall False False
                                     (TrampolineppLambda LEX_SCOPE FUN_NS False parameters rest
                                        preprocessedForms)
                                     preprocessedOperands), s)))))
    \<and> trampolineppPreprocessCall evalIn pp mv apply form lenv s =
        thenDo (trampolineppPreprocessForms pp operands lenv s) (\<lambda>preprocessedOperands s.
          thenDo (lift (analyzeLambda operator) s) (\<lambda>(parameters, rest, forms) s.
            thenDo (lift (evalOperands_null s preprocessedOperands) s) (\<lambda>vals s.
              case newFrame FUN_NS parameters vals lenv s of
                (elenv, s) \<Rightarrow>
                  thenDo (trampolineppPreprocessForms pp forms elenv s) (\<lambda>preprocessedForms s.
                    (Return (TrampolineppCall mv apply
                               (TrampolineppLambda LEX_SCOPE FUN_NS False parameters rest
                                  preprocessedForms)
                               preprocessedOperands), s)))))
    \<and> trampolineppPreprocessForm jsf a (Suc n) (EVLCons operator' operands') lenv s =
        thenDo (trampolineppPreprocessForm jsf a n operator' lenv s) (\<lambda>preprocessedOperator s.
          thenDo (trampolineppPreprocessForms (trampolineppPreprocessForm jsf a n) operands' lenv s)
            (\<lambda>preprocessedOperands s.
               (Return (TrampolineppCall False False preprocessedOperator preprocessedOperands),
                s)))"
proof -
  have ml: "isMacroLet operator operands"
    using operator operands by (simp add: isMacroLet_iff)
  show ?thesis
    using ml isMacroLet_iff[of operator'' operands'']
      macro_let_preprocess[OF ml, where jsf = jsf and a = a and n = n and lenv = lenv and s = s]
      macro_let_call[OF ml call, where evalIn = evalIn and pp = pp and lenv = lenv and s = s]
      not_macro_let_preprocess[OF other(3) other(1) other(2), where jsf = jsf and a = a
        and n = n and lenv = lenv and s = s]
    by (intro conjI) assumption+
qed


text \<open>
  In the state where the function cell of \<open>mlambda\<close> holds a macro whose expansion is
  \<open>(_mlambda () (quote (quote 5)))\<close>: the form \<open>((_flambda (m) (m)) (mlambda))\<close> is a
  macro-let; the call \<open>(m)\<close> of its body is expanded when the form is preprocessed, and
  the form evaluates to 5.  The form \<open>(apply (_flambda (m) (m)) (mlambda))\<close> is preprocessed
  in the same way.  With the operand \<open>(_mlambda () (quote (quote 5)))\<close> the form is no
  macro-let: the call \<open>(m)\<close> of its body remains.
\<close>

theorem C4_macro_let_witness:
  "\<forall>jsf.
     isEVLCons flambdaForm \<and> car flambdaForm = u_flambdaVariable
     \<and> isProperList (evlList [evlList [mlambdaVariable]])
     \<and> analyzeCall False True
           (EVLCons applyVariable (EVLCons flambdaForm (evlList [evlList [mlambdaVariable]]))) =
         Inr (flambdaForm, evlList [evlList [mlambdaVariable]])
     \<and> \<not> isMacroLet flambdaForm
           (evlList [evlList [u_mlambdaVariable, EVLEmptyList, evlList [quoteVariable, quoteFive]]])
     \<and> fst (trampolineppPreprocessForm jsf None 9 macroLetForm NullDefiniteEnv macroLetState) =
         Return (TrampolineppCall False False
                   (TrampolineppLambda LEX_SCOPE FUN_NS False [internVariable (js ''m'')] False
                      [TrampolineppQuote evlFive])
                   [TrampolineppLambda LEX_SCOPE VAL_NS True [] False [TrampolineppQuote quoteFive]])
     \<and> fst (trampolineppPreprocessCall (trampolineppEval_lenv jsf None 8)
                (trampolineppPreprocessForm jsf None 8) False True
                (EVLCons applyVariable (EVLCons flambdaForm (evlList [evlList [mlambdaVariable]])))
                NullDefiniteEnv macroLetState) =
         Return (TrampolineppCall False True
                   (TrampolineppLambda LEX_SCOPE FUN_NS False [internVariable (js ''m'')] False
                      [TrampolineppQuote evlFive])
                   [TrampolineppLambda LEX_SCOPE VAL_NS True [] False [TrampolineppQuote quoteFive]])
     \<and> fst (trampolineppEval jsf None 12 macroLetForm macroLetState) = Return (EVLObject evlFive)
     \<and> fst (trampolineppPreprocessForm jsf None 9 underscoreForm NullDefiniteEnv macroLetState) =
         Return (TrampolineppCall False False
                   (TrampolineppLambda LEX_SCOPE FUN_NS False [internVariable (js ''m'')] False
                      [TrampolineppCall False False (TrampolineppLRef 0 0) []])
                   [TrampolineppLambda LEX_SCOPE VAL_NS True [] False [TrampolineppQuote quoteFive]])"
  (is "\<forall>jsf. ?P jsf")
proof (intro allI)
  fix jsf :: jsFunctions
  let ?operands = "evlList [evlList [mlambdaVariable]]"
  let ?operands' = "evlList [evlList [u_mlambdaVariable, EVLEmptyList, evlList [quoteVariable, quoteFive]]]"
  have operator: "isEVLCons flambdaForm" "car flambdaForm = u_flambdaVariable"
    by (simp_all add: flambdaForm_def)
  have operands: "isProperList ?operands"
    "\<forall>operand \<in> set (listToArray ?operands). isEVLCons operand \<and> car operand = mlambdaVariable"
    by simp_all
  have call: "analyzeCall False True (EVLCons applyVariable (EVLCons flambdaForm ?operands)) =
              Inr (flambdaForm, ?operands)"
    by (simp add: analyzeCall_def checkCons_def checkProperList_def)
  have other: "isEVLCons flambdaForm" "isProperList ?operands'" "\<not> isMacroLet flambdaForm ?operands'"
    by (simp_all add: flambdaForm_def isMacroLet_def variables_eval)
  note T = C4_macro_let[OF operator operands call other, where jsf = jsf and a = None
      and lenv = NullDefiniteEnv and s = macroLetState
      and evalIn = "trampolineppEval_lenv jsf None 8" and pp = "trampolineppPreprocessForm jsf None 8"]
  show "?P jsf"
    using T[where n = 8] operator operands(1) call other(3)
    by (simp add: macro_let_eval variables_eval analyzer_eval env_eval pairing_eval
        trampolinepp_eval nth_append cong: thenDo_weak_cong)
qed

text \<open>
  The operator of the form \<open>((_flambda (m) (m)) (_mlambda () (quote (quote 5))))\<close> is a
  \<open>_flambda\<close> form and its operand a \<open>_mlambda\<close> form, and the form is no macro-let: in
  every state the trampoline++ evaluator calls the macro as a function and the form
  evaluates to the list \<open>(quote 5)\<close>, whereas the trampoline and the plain recursive
  evaluators, which expand the call \<open>(m)\<close>, evaluate the form to 5.  In the form
  \<open>((_flambda (mlambda) ((_flambda (m) (m)) (mlambda))) (_vlambda () 5))\<close> the operand
  \<open>(mlambda)\<close> of the macro-let is preprocessed in the environment of the call, where
  \<open>mlambda\<close> is a local function and no macro: the evaluation of the preprocessed operand
  throws the \<open>TypeError\<close> of a call without a control stack.
\<close>

theorem C4_counterexample:
  "\<forall>jsf s.
     isEVLCons flambdaForm \<and> car flambdaForm = u_flambdaVariable
     \<and> car (evlList [u_mlambdaVariable, EVLEmptyList, evlList [quoteVariable, quoteFive]]) =
         u_mlambdaVariable
     \<and> \<not> isMacroLet flambdaForm
           (evlList [evlList [u_mlambdaVariable, EVLEmptyList, evlList [quoteVariable, quoteFive]]])
     \<and> fst (trampolineppPreprocessForm jsf None 9 underscoreForm NullDefiniteEnv s) =
         Return (TrampolineppCall False False
                   (TrampolineppLambda LEX_SCOPE FUN_NS False [internVariable (js ''m'')] False
                      [TrampolineppCall False False (TrampolineppLRef 0 0) []])
                   [TrampolineppLambda LEX_SCOPE VAL_NS True [] False [TrampolineppQuote quoteFive]])
     \<and> fst (trampolineppEval jsf None 12 underscoreForm s) = Return (EVLObject quoteFive)
     \<and> fst (trampolineEval jsf None 20 underscoreForm s) = Return (EVLObject evlFive)
     \<and> fst (plainrecEval jsf 20 underscoreForm s) = Return (EVLObject evlFive)
     \<and> fst (trampolineppPreprocessForm jsf None 9 shadowedForm NullDefiniteEnv macroLetState) =
         Throw (JSTypeError ''Cannot read properties of null'')"
  by (simp add: shadowedForm_def macro_let_eval variables_eval analyzer_eval env_eval
      pairing_eval plainrec_eval trampoline_eval trampolinepp_eval nth_append
      cong: thenDo_weak_cong)

end
